(* ===== verification/Prelude.thy ===== *)
theory Prelude
  imports Main "HOL-Library.Finite_Map" "HOL-Library.Multiset" "HOL-Library.Sublist"
begin

text \<open>
  The shared vocabulary of the development.

  \<^item> Go's \<open>error\<close> values as the datatype \<open>go_error\<close>; a nilable \<open>error\<close> is
    \<open>go_error option\<close> and a \<open>(T, error)\<close> result is \<open>go_error + 'a\<close>.
  \<^item> The effect type \<open>('w, 'a) m\<close>: a program that talks to the API server is either a
    finished value (\<open>Ret\<close>) or one atomic request (\<open>Act\<close>) and the program that goes on
    with the answer. The world type \<open>'w\<close> is a type parameter: everything behind the
    client is unknown to the code. \<open>run_m\<close> runs one program alone; the interleaving
    of several programs, one request at a time, is the step relation of theory
    \<open>Concurrency\<close>.
  \<^item> Pieces of the Go standard library the sources use: \<open>cmp.Or\<close>, \<open>ptr.Deref\<close>,
    \<open>fmt.Sprintf("%d")\<close>, \<open>strings.Join\<close>, \<open>slices.IndexFunc\<close>.
  \<^item> Strings are byte strings, slices are lists, Go maps are finite maps. A nil slice or map
    is the empty one except where the code tests for nil; there the field is an \<open>option\<close>.
\<close>

section \<open>Collections of rewrite rules\<close>

named_theorems go_defs \<open>small library functions of Go and of the utils package\<close>
named_theorems obj_defs \<open>accessors of the object records\<close>

declare Let_def [simp]

section \<open>Errors\<close>

datatype go_error =
    NotFound                        \<comment> \<open>an API error for which \<open>IsNotFound\<close> holds\<close>
  | Invalid                         \<comment> \<open>an API error for which \<open>IsInvalid\<close> holds\<close>
  | AlreadyExists
  | Conflict                        \<comment> \<open>the resource version sent is not the stored one\<close>
  | ApiError string                 \<comment> \<open>any other failure of a request\<close>
  | ErrorString string              \<comment> \<open>\<open>fmt.Errorf\<close> and errors of helper packages\<close>
  | SyntaxError string              \<comment> \<open>\<open>encoding/json\<close>, \<open>strconv\<close>\<close>
  | Panic string                    \<comment> \<open>a run-time panic of the goroutine\<close>
  | JoinError "go_error list"       \<comment> \<open>\<open>errors.Join\<close>\<close>

type_synonym error = "go_error option"
type_synonym 'a result = "go_error + 'a"

definition IsNotFound :: "go_error \<Rightarrow> bool" where
  "IsNotFound e = (e = NotFound)"

definition IsInvalid :: "go_error \<Rightarrow> bool" where
  "IsInvalid e = (e = Invalid)"

definition IgnoreNotFound :: "error \<Rightarrow> error" where
  "IgnoreNotFound err = (case err of None \<Rightarrow> None | Some e \<Rightarrow> if IsNotFound e then None else Some e)"

text \<open>\<open>errors.Join\<close> drops the nil values and is nil when nothing is left.\<close>

definition errors_Join :: "error list \<Rightarrow> error" where
  "errors_Join errs =
     (let es = List.map_filter (\<lambda>e. e) errs in if es = [] then None else Some (JoinError es))"

lemma errors_Join_None_iff: "errors_Join errs = None \<longleftrightarrow> set errs \<subseteq> {None}"
proof -
  have "List.map_filter (\<lambda>e. e) errs = [] \<longleftrightarrow> set errs \<subseteq> {None}" for errs :: "error list"
    by (induction errs) (auto split: option.splits)
  then show ?thesis by (simp add: errors_Join_def Let_def)
qed

lemma errors_Join_Nil [simp]: "errors_Join [] = None"
  by (simp add: errors_Join_None_iff)

lemma IgnoreNotFound_simps [simp]:
  "IgnoreNotFound None = None"
  "IgnoreNotFound (Some NotFound) = None"
  "e \<noteq> NotFound \<Longrightarrow> IgnoreNotFound (Some e) = Some e"
  by (simp_all add: IgnoreNotFound_def IsNotFound_def)

section \<open>Programs that issue API requests\<close>

datatype (dead 'w, 'a) m =
    Ret 'a
  | Act "'w \<Rightarrow> ('w, 'a) m \<times> 'w"

primrec bind_m :: "('w, 'a) m \<Rightarrow> ('a \<Rightarrow> ('w, 'b) m) \<Rightarrow> ('w, 'b) m" where
  "bind_m (Ret a) k = k a"
| "bind_m (Act f) k = Act (\<lambda>w. map_prod (\<lambda>p. bind_m p k) id (f w))"

primrec run_m :: "('w, 'a) m \<Rightarrow> 'w \<Rightarrow> 'a \<times> 'w" where
  "run_m (Ret a) = (\<lambda>w. (a, w))"
| "run_m (Act f) = (\<lambda>w. (\<lambda>p. fst p (snd p)) (map_prod run_m id (f w)))"

definition call :: "('w \<Rightarrow> 'a \<times> 'w) \<Rightarrow> ('w, 'a) m" where
  "call f = Act (\<lambda>w. map_prod Ret id (f w))"

lemma run_Ret [simp]: "run_m (Ret a) w = (a, w)"
  by simp

lemma run_call [simp]: "run_m (call f) w = f w"
  by (simp add: call_def map_prod_def split: prod.splits)

lemma m_induct [case_names Ret Act, induct type: m]:
  fixes P :: "('w, 'a) m \<Rightarrow> bool"
  assumes ret: "\<And>a. P (Ret a)" and act: "\<And>f. (\<And>w. P (fst (f w))) \<Longrightarrow> P (Act f)"
  shows "P p"
proof (rule m.induct)
  show "P (Ret a)" for a by (rule ret)
next
  fix f :: "'w \<Rightarrow> ('w, 'a) m \<times> 'w"
  assume IH: "\<And>q r. q \<in> range f \<Longrightarrow> r \<in> Basic_BNFs.fsts q \<Longrightarrow> P r"
  show "P (Act f)"
  proof (rule act)
    fix w
    show "P (fst (f w))"
      by (rule IH [of "f w"]) (auto simp: prod_set_defs)
  qed
qed

lemma run_bind [simp]: "run_m (bind_m p k) w = (case run_m p w of (a, w') \<Rightarrow> run_m (k a) w')"
proof (induction p arbitrary: w)
  case (Act f)
  show ?case
    using Act [of w "snd (f w)"] by (simp add: case_prod_beta)
qed simp

lemma bind_call [simp]:
  "bind_m (call f) k = Act (\<lambda>w. case f w of (a, w') \<Rightarrow> (k a, w'))"
  by (simp add: call_def fun_eq_iff split: prod.splits)

lemma bind_assoc: "bind_m (bind_m p f) g = bind_m p (\<lambda>a. bind_m (f a) g)"
proof (induction p)
  case (Act h)
  have "map_prod (\<lambda>p. bind_m p g) id (map_prod (\<lambda>p. bind_m p f) id (h w)) =
      map_prod (\<lambda>p. bind_m p (\<lambda>a. bind_m (f a) g)) id (h w)" for w
    using Act [of w] by (cases "h w") simp
  then show ?case by simp
qed simp

lemma bind_Ret_right: "bind_m p Ret = p"
proof (induction p)
  case (Act f)
  have "map_prod (\<lambda>p. bind_m p Ret) id (f w) = f w" for w
    using Act [of w] by (cases "f w") simp
  then show ?case by simp
qed simp

declare run_m.simps(2) [simp del]

lemma run_Act: "run_m (Act f) w = (case f w of (p, w') \<Rightarrow> run_m p w')"
  by (simp add: run_m.simps(2) split: prod.splits)

declare run_Act [simp]

text \<open>
  \<open>keeps P p\<close>: every single request of the program preserves \<open>P\<close>, so \<open>P\<close> survives the program
  also when other programs that keep it run in between.
\<close>

primrec keeps :: "('w \<Rightarrow> bool) \<Rightarrow> ('w, 'a) m \<Rightarrow> bool" where
  "keeps P (Ret a) = True"
| "keeps P (Act f) = (\<forall>w. (\<lambda>p. fst p \<and> (P w \<longrightarrow> P (snd p))) (map_prod (keeps P) id (f w)))"

lemma keeps_run: "keeps P p \<Longrightarrow> P w \<Longrightarrow> P (snd (run_m p w))"
proof (induction p arbitrary: w)
  case (Act f)
  then have "keeps P (fst (f w))" "P (snd (f w))" by (simp_all add: split_beta)
  with Act.IH [of w "snd (f w)"] show ?case by (simp add: split_beta)
qed simp

lemma keeps_call [simp]: "keeps P (call f) \<longleftrightarrow> (\<forall>w. P w \<longrightarrow> P (snd (f w)))"
  by (simp add: call_def)

lemma keeps_bind: "keeps P p \<Longrightarrow> (\<And>a. keeps P (k a)) \<Longrightarrow> keeps P (bind_m p k)"
proof (induction p)
  case (Act f)
  have "keeps P (bind_m (fst (f w)) k)" for w
    using Act.IH [of w] Act.prems by (simp add: split_beta)
  with Act.prems show ?case by (simp add: split_beta)
qed simp

section \<open>Pieces of the Go standard library\<close>

text \<open>
  \<open>cmp.Or\<close> returns its first argument that is not the zero value. It is used on pointers
  (zero value nil) and on strings and integers.
\<close>

definition cmp_Or_ptr :: "'a option \<Rightarrow> 'a \<Rightarrow> 'a" where
  "cmp_Or_ptr p d = (case p of None \<Rightarrow> d | Some v \<Rightarrow> v)"

definition cmp_Or_str :: "string \<Rightarrow> string \<Rightarrow> string" where
  "cmp_Or_str s d = (if s = [] then d else s)"

definition cmp_Or_int :: "int \<Rightarrow> int \<Rightarrow> int" where
  "cmp_Or_int i d = (if i = 0 then d else i)"

text \<open>\<open>ptr.Deref\<close>\<close>

definition Deref :: "'a option \<Rightarrow> 'a \<Rightarrow> 'a" where
  "Deref p d = (case p of None \<Rightarrow> d | Some v \<Rightarrow> v)"

lemma Deref_simps [simp]: "Deref None d = d" "Deref (Some v) d = v"
  by (simp_all add: Deref_def)

lemma cmp_Or_simps [simp]:
  "cmp_Or_ptr None d = d" "cmp_Or_ptr (Some v) d = v"
  "cmp_Or_str [] t = t" "cmp_Or_str (c # s) t = c # s"
  "cmp_Or_int 0 j = j"
  by (simp_all add: cmp_Or_ptr_def cmp_Or_str_def cmp_Or_int_def)

text \<open>\<open>strings.Join\<close>\<close>

fun strings_Join :: "string list \<Rightarrow> string \<Rightarrow> string" where
  "strings_Join [] sep = []"
| "strings_Join [s] sep = s"
| "strings_Join (s # t # ss) sep = s @ sep @ strings_Join (t # ss) sep"

text \<open>\<open>slices.IndexFunc\<close>; \<open>None\<close> is the index \<open>-1\<close>.\<close>

fun IndexFunc :: "'a list \<Rightarrow> ('a \<Rightarrow> bool) \<Rightarrow> nat option" where
  "IndexFunc [] p = None"
| "IndexFunc (x # xs) p = (if p x then Some 0 else map_option Suc (IndexFunc xs p))"

lemma IndexFunc_None_iff: "IndexFunc xs p = None \<longleftrightarrow> (\<forall>x \<in> set xs. \<not> p x)"
  by (induction xs) auto

lemma IndexFunc_append:
  "IndexFunc (xs @ ys) p =
     (case IndexFunc xs p of
        Some i \<Rightarrow> Some i
      | None \<Rightarrow> map_option (\<lambda>j. length xs + j) (IndexFunc ys p))"
  by (induction xs; cases "IndexFunc ys p") (auto split: option.splits)

lemma IndexFunc_SomeD:
  "IndexFunc xs p = Some i \<Longrightarrow> i < length xs \<and> p (xs ! i) \<and> (\<forall>j < i. \<not> p (xs ! j))"
proof (induction xs arbitrary: i)
  case (Cons x xs)
  show ?case
  proof (cases "p x")
    case True
    with Cons.prems show ?thesis by simp
  next
    case False
    with Cons.prems obtain k where k: "IndexFunc xs p = Some k" "i = Suc k" by auto
    with Cons.IH [OF k(1)] False show ?thesis
      by (auto simp: less_Suc_eq_0_disj)
  qed
qed simp

lemma IndexFunc_split:
  assumes "IndexFunc xs p = Some i"
  shows "\<exists>us x vs. xs = us @ x # vs \<and> length us = i \<and> p x \<and> (\<forall>u \<in> set us. \<not> p u)"
proof -
  from IndexFunc_SomeD [OF assms] have i: "i < length xs" "p (xs ! i)" "\<forall>j < i. \<not> p (xs ! j)"
    by auto
  have "xs = take i xs @ xs ! i # drop (Suc i) xs" using i(1) by (rule id_take_nth_drop)
  moreover have "\<forall>u \<in> set (take i xs). \<not> p u" using i by (auto simp: in_set_conv_nth)
  ultimately show ?thesis using i by (metis length_take min.absorb4)
qed

text \<open>Decimal output of \<open>%d\<close> and its inverse.\<close>

definition digit :: "nat \<Rightarrow> char" where
  "digit d = ''0123456789'' ! d"

fun nat_to_string :: "nat \<Rightarrow> string" where
  "nat_to_string n = (if n < 10 then [digit n] else nat_to_string (n div 10) @ [digit (n mod 10)])"

declare nat_to_string.simps [simp del]

definition int_to_string :: "int \<Rightarrow> string" where
  "int_to_string i =
     (if i < 0 then ''-'' @ nat_to_string (nat (- i)) else nat_to_string (nat i))"

definition is_digit :: "char \<Rightarrow> bool" where
  "is_digit c = (c \<in> set ''0123456789'')"

definition digit_val :: "char \<Rightarrow> nat" where
  "digit_val c = (case IndexFunc ''0123456789'' (\<lambda>d. d = c) of None \<Rightarrow> 0 | Some i \<Rightarrow> i)"

fun string_to_nat :: "nat \<Rightarrow> string \<Rightarrow> nat" where
  "string_to_nat acc [] = acc"
| "string_to_nat acc (c # cs) = string_to_nat (10 * acc + digit_val c) cs"

lemma digit_cases: "d < 10 \<Longrightarrow> is_digit (digit d) \<and> digit_val (digit d) = d"
proof -
  assume "d < 10"
  then have "d \<in> {0, 1, 2, 3, 4, 5, 6, 7, 8, 9}" by auto
  then show ?thesis by (auto simp: digit_def is_digit_def digit_val_def)
qed

lemma string_to_nat_append:
  "string_to_nat acc (xs @ ys) = string_to_nat (string_to_nat acc xs) ys"
  by (induction xs arbitrary: acc) auto

lemma string_to_nat_to_string [simp]: "string_to_nat 0 (nat_to_string n) = n"
proof (induction n rule: nat_to_string.induct)
  case (1 n)
  show ?case
    using 1 digit_cases [of n] digit_cases [of "n mod 10"]
    by (subst nat_to_string.simps) (auto simp: string_to_nat_append)
qed

lemma nat_to_string_digits: "\<forall>c \<in> set (nat_to_string n). is_digit c"
proof (induction n rule: nat_to_string.induct)
  case (1 n)
  show ?case
    using 1 digit_cases [of n] digit_cases [of "n mod 10"]
    by (subst nat_to_string.simps) auto
qed

lemma nat_to_string_nonempty [simp]: "nat_to_string n \<noteq> []"
  by (subst nat_to_string.simps) simp

lemma nat_to_string_inject [simp]: "nat_to_string a = nat_to_string b \<longleftrightarrow> a = b"
  by (metis string_to_nat_to_string)

section \<open>Lists with keys\<close>

text \<open>Replacing the first element that has a key, the step several update loops share.\<close>

lemma list_update_split: "length us = i \<Longrightarrow> (us @ x # vs)[i := y] = us @ y # vs"
  by (simp add: list_update_append)

end
