(* ===== verification/Json.thy ===== *)
theory Json
  imports Prelude "HOL-Library.List_Lexorder" "HOL-Library.Char_ord"
begin

text \<open>
  The part of \<open>encoding/json\<close> the operator uses: \<open>Marshal\<close>'s text of a value tree,
  \<open>Unmarshal\<close>'s parser, and combinators for struct fields.

  Strings are byte strings holding UTF-8, which is what the API server stores; Go's replacement
  of invalid UTF-8 is left out, as is the nesting limit of 10000. A number is kept as its
  literal. The main fact is the round trip: parsing the text of a well-formed tree gives the
  tree back.
\<close>

section \<open>Values and their text\<close>

datatype json =
    JNull
  | JBool bool
  | JNum string
  | JStr string
  | JArr "json list"
  | JObj "(string \<times> json) list"

definition hex_digit :: "nat \<Rightarrow> char" where
  "hex_digit n = ''0123456789abcdef'' ! n"

definition escape_char :: "char \<Rightarrow> string" where
  "escape_char c =
     (if c = CHR 0x22 then [CHR 0x5C, CHR 0x22]
      else if c = CHR 0x5C then [CHR 0x5C, CHR 0x5C]
      else if c = CHR 0x08 then [CHR 0x5C, CHR ''b'']
      else if c = CHR 0x0C then [CHR 0x5C, CHR ''f'']
      else if c = CHR 0x0A then [CHR 0x5C, CHR ''n'']
      else if c = CHR 0x0D then [CHR 0x5C, CHR ''r'']
      else if c = CHR 0x09 then [CHR 0x5C, CHR ''t'']
      else let n = of_char c :: nat
           in if n < 32 \<or> c = CHR ''<'' \<or> c = CHR ''>'' \<or> c = CHR ''&''
              then [CHR 0x5C, CHR ''u'', CHR ''0'', CHR ''0'', hex_digit (n div 16), hex_digit (n mod 16)]
              else [c])"

text \<open>The separators U+2028 and U+2029 (bytes E2 80 A8 and E2 80 A9) are escaped as well.\<close>

fun escape :: "string \<Rightarrow> string" where
  "escape (a # b # c # cs) =
     (if a = CHR 0xE2 \<and> b = CHR 0x80 \<and> (c = CHR 0xA8 \<or> c = CHR 0xA9)
      then [CHR 0x5C] @ (if c = CHR 0xA8 then ''u2028'' else ''u2029'') @ escape cs
      else escape_char a @ escape (b # c # cs))"
| "escape (a # cs) = escape_char a @ escape cs"
| "escape [] = []"

definition quote :: "string \<Rightarrow> string" where
  "quote s = [CHR 0x22] @ escape s @ [CHR 0x22]"

fun print_json :: "json \<Rightarrow> string"
  and print_elems :: "json list \<Rightarrow> string"
  and print_members :: "(string \<times> json) list \<Rightarrow> string" where
  "print_json JNull = ''null''"
| "print_json (JBool b) = (if b then ''true'' else ''false'')"
| "print_json (JNum s) = s"
| "print_json (JStr s) = quote s"
| "print_json (JArr vs) = ''['' @ print_elems vs @ '']''"
| "print_json (JObj kvs) = ''{'' @ print_members kvs @ ''}''"
| "print_elems [] = []"
| "print_elems [v] = print_json v"
| "print_elems (v # u # vs) = print_json v @ '','' @ print_elems (u # vs)"
| "print_members [] = []"
| "print_members [(k, v)] = quote k @ '':'' @ print_json v"
| "print_members ((k, v) # kv # kvs) = quote k @ '':'' @ print_json v @ '','' @ print_members (kv # kvs)"

section \<open>The parser\<close>

definition is_space :: "char \<Rightarrow> bool" where
  "is_space c = (c = CHR '' '' \<or> c = CHR 0x09 \<or> c = CHR 0x0A \<or> c = CHR 0x0D)"

definition skip_space :: "string \<Rightarrow> string" where
  "skip_space s = dropWhile is_space s"

definition hex_val :: "char \<Rightarrow> nat option" where
  "hex_val c =
     (let n = of_char c :: nat
      in if 48 \<le> n \<and> n \<le> 57 then Some (n - 48)
         else if 97 \<le> n \<and> n \<le> 102 then Some (n - 87)
         else if 65 \<le> n \<and> n \<le> 70 then Some (n - 55)
         else None)"

definition hex4 :: "char \<Rightarrow> char \<Rightarrow> char \<Rightarrow> char \<Rightarrow> nat option" where
  "hex4 a b c d =
     (case (hex_val a, hex_val b, hex_val c, hex_val d) of
        (Some w, Some x, Some y, Some z) \<Rightarrow> Some (((w * 16 + x) * 16 + y) * 16 + z)
      | _ \<Rightarrow> None)"

text \<open>\<open>utf8.EncodeRune\<close>\<close>

definition encode_rune :: "nat \<Rightarrow> string" where
  "encode_rune r =
     (if r < 128 then [char_of r]
      else if r < 2048 then [char_of (192 + r div 64), char_of (128 + r mod 64)]
      else if r < 65536
        then [char_of (224 + r div 4096), char_of (128 + r div 64 mod 64), char_of (128 + r mod 64)]
      else [char_of (240 + r div 262144), char_of (128 + r div 4096 mod 64),
            char_of (128 + r div 64 mod 64), char_of (128 + r mod 64)])"

definition is_surrogate :: "nat \<Rightarrow> bool" where
  "is_surrogate r = (55296 \<le> r \<and> r < 57344)"

definition decode_pair :: "nat \<Rightarrow> nat \<Rightarrow> nat option" where
  "decode_pair r1 r2 =
     (if 55296 \<le> r1 \<and> r1 < 56320 \<and> 56320 \<le> r2 \<and> r2 < 57344
      then Some ((r1 - 55296) * 1024 + (r2 - 56320) + 65536) else None)"

definition simple_escape :: "char \<Rightarrow> char option" where
  "simple_escape e =
     (if e = CHR 0x22 then Some (CHR 0x22) else if e = CHR 0x5C then Some (CHR 0x5C)
      else if e = CHR ''/'' then Some (CHR ''/'') else if e = CHR ''b'' then Some (CHR 0x08)
      else if e = CHR ''f'' then Some (CHR 0x0C) else if e = CHR ''n'' then Some (CHR 0x0A)
      else if e = CHR ''r'' then Some (CHR 0x0D) else if e = CHR ''t'' then Some (CHR 0x09)
      else None)"

definition prepend :: "string \<Rightarrow> (string \<times> string) option \<Rightarrow> (string \<times> string) option" where
  "prepend p r = (case r of None \<Rightarrow> None | Some (s, rest) \<Rightarrow> Some (p @ s, rest))"

text \<open>The text of a string after its opening quote, up to and including the closing one.\<close>

fun parse_chars :: "string \<Rightarrow> (string \<times> string) option" where
  "parse_chars [] = None"
| "parse_chars (c # s) =
     (if c = CHR 0x22 then Some ([], s)
      else if c = CHR 0x5C then
        (case s of
           [] \<Rightarrow> None
         | e # s1 \<Rightarrow>
             if e = CHR ''u'' then
               (case s1 of
                  a # b # d # f # s2 \<Rightarrow>
                    (case hex4 a b d f of
                       None \<Rightarrow> None
                     | Some r \<Rightarrow>
                         if is_surrogate r then
                           (case s2 of
                              c1 # c2 # a' # b' # d' # f' # s3 \<Rightarrow>
                                if c1 = CHR 0x5C \<and> c2 = CHR ''u'' then
                                  (case hex4 a' b' d' f' of
                                     None \<Rightarrow> prepend (encode_rune 65533) (parse_chars s2)
                                   | Some r' \<Rightarrow>
                                       (case decode_pair r r' of
                                          None \<Rightarrow> prepend (encode_rune 65533) (parse_chars s2)
                                        | Some rr \<Rightarrow> prepend (encode_rune rr) (parse_chars s3)))
                                else prepend (encode_rune 65533) (parse_chars s2)
                            | _ \<Rightarrow> prepend (encode_rune 65533) (parse_chars s2))
                         else prepend (encode_rune r) (parse_chars s2))
                | _ \<Rightarrow> None)
             else (case simple_escape e of
                     None \<Rightarrow> None
                   | Some c' \<Rightarrow> prepend [c'] (parse_chars s1)))
      else if (of_char c :: nat) < 32 then None
      else prepend [c] (parse_chars s))"

definition number_char :: "char \<Rightarrow> bool" where
  "number_char c = (is_digit c \<or> c \<in> set ''+-.eE'')"

definition digits1 :: "string \<Rightarrow> bool" where
  "digits1 s = (s \<noteq> [] \<and> list_all is_digit s)"

definition int_part_ok :: "string \<Rightarrow> bool" where
  "int_part_ok s = (s = ''0'' \<or> (digits1 s \<and> hd s \<noteq> CHR ''0''))"

definition exp_ok :: "string \<Rightarrow> bool" where
  "exp_ok s =
     (case s of
        [] \<Rightarrow> True
      | e # r \<Rightarrow> (e = CHR ''e'' \<or> e = CHR ''E'') \<and>
          digits1 (case r of [] \<Rightarrow> [] | c # r' \<Rightarrow> if c = CHR ''+'' \<or> c = CHR ''-'' then r' else r))"

definition frac_ok :: "string \<Rightarrow> bool" where
  "frac_ok s =
     (case s of
        [] \<Rightarrow> True
      | c # r \<Rightarrow> if c = CHR ''.'' then digits1 (takeWhile is_digit r) \<and> exp_ok (dropWhile is_digit r)
                else exp_ok s)"

text \<open>The JSON grammar of numbers.\<close>

definition number_ok :: "string \<Rightarrow> bool" where
  "number_ok s =
     (let u = (case s of [] \<Rightarrow> [] | c # r \<Rightarrow> if c = CHR ''-'' then r else s)
      in int_part_ok (takeWhile is_digit u) \<and> frac_ok (dropWhile is_digit u))"

definition strip :: "string \<Rightarrow> string \<Rightarrow> string option" where
  "strip p s = (if take (length p) s = p then Some (drop (length p) s) else None)"

text \<open>
  Recursive descent. The tests \<open>length rest < length s\<close> make the recursion visibly
  terminating; they never fail on a text that \<open>print_json\<close> made.
\<close>

function (sequential) parse_value :: "string \<Rightarrow> (json \<times> string) option"
  and parse_elems :: "string \<Rightarrow> (json list \<times> string) option"
  and parse_members :: "string \<Rightarrow> ((string \<times> json) list \<times> string) option" where
  "parse_value s0 =
     (case skip_space s0 of
        [] \<Rightarrow> None
      | c # s \<Rightarrow>
          if c = CHR 0x22 then map_option (map_prod JStr id) (parse_chars s)
          else if c = CHR ''['' then
            (case skip_space s of
               [] \<Rightarrow> None
             | d # r \<Rightarrow> if d = CHR '']'' then Some (JArr [], r)
                       else map_option (map_prod JArr id) (parse_elems s))
          else if c = CHR ''{'' then
            (case skip_space s of
               [] \<Rightarrow> None
             | d # r \<Rightarrow> if d = CHR ''}'' then Some (JObj [], r)
                       else map_option (map_prod JObj id) (parse_members s))
          else if c = CHR ''n'' then map_option (Pair JNull) (strip ''ull'' s)
          else if c = CHR ''t'' then map_option (Pair (JBool True)) (strip ''rue'' s)
          else if c = CHR ''f'' then map_option (Pair (JBool False)) (strip ''alse'' s)
          else let lit = takeWhile number_char (c # s)
               in if number_ok lit then Some (JNum lit, dropWhile number_char (c # s)) else None)"
| "parse_elems s =
     (case parse_value s of
        None \<Rightarrow> None
      | Some (v, r) \<Rightarrow>
          (case skip_space r of
             [] \<Rightarrow> None
           | c # r1 \<Rightarrow>
               if c = CHR '']'' then Some ([v], r1)
               else if c = CHR '','' \<and> length r1 < length s
                    then map_option (map_prod (Cons v) id) (parse_elems r1)
                    else None))"
| "parse_members s =
     (case skip_space s of
        [] \<Rightarrow> None
      | q # s1 \<Rightarrow>
          if q \<noteq> CHR 0x22 then None
          else case parse_chars s1 of
                 None \<Rightarrow> None
               | Some (k, s2) \<Rightarrow>
                   (case skip_space s2 of
                      [] \<Rightarrow> None
                    | c # s3 \<Rightarrow>
                        if c \<noteq> CHR '':'' \<or> \<not> length s3 < length s then None
                        else case parse_value s3 of
                               None \<Rightarrow> None
                             | Some (v, r) \<Rightarrow>
                                 (case skip_space r of
                                    [] \<Rightarrow> None
                                  | d # r1 \<Rightarrow>
                                      if d = CHR ''}'' then Some ([(k, v)], r1)
                                      else if d = CHR '','' \<and> length r1 < length s
                                           then map_option (map_prod (Cons (k, v)) id) (parse_members r1)
                                           else None)))"
  by pat_completeness auto
termination
proof (relation "measure (\<lambda>x. case x of Inl s \<Rightarrow> 2 * length s
    | Inr (Inl s) \<Rightarrow> 2 * length s + 1 | Inr (Inr s) \<Rightarrow> 2 * length s + 1)", goal_cases)
  case (2 s0 c s)
  have "length (c # s) \<le> length s0"
    unfolding 2(1) [symmetric] skip_space_def by (rule length_dropWhile_le)
  then show ?case by simp
next
  case (3 s0 c s)
  have "length (c # s) \<le> length s0"
    unfolding 3(1) [symmetric] skip_space_def by (rule length_dropWhile_le)
  then show ?case by simp
qed auto

declare parse_value.simps [simp del] parse_elems.simps [simp del] parse_members.simps [simp del]

definition Parse :: "string \<Rightarrow> json result" where
  "Parse s =
     (case parse_value s of
        Some (v, rest) \<Rightarrow> if skip_space rest = [] then Inr v else Inl (SyntaxError ''invalid character after top-level value'')
      | None \<Rightarrow> Inl (SyntaxError ''invalid JSON''))"

section \<open>Round trip of strings\<close>

lemma hex_val_digit: "d < 16 \<Longrightarrow> hex_val (hex_digit d) = Some d"
proof -
  assume "d < 16"
  then have "d = 0 \<or> d = 1 \<or> d = 2 \<or> d = 3 \<or> d = 4 \<or> d = 5 \<or> d = 6 \<or> d = 7 \<or> d = 8 \<or>
      d = 9 \<or> d = 10 \<or> d = 11 \<or> d = 12 \<or> d = 13 \<or> d = 14 \<or> d = 15"
    by presburger
  then show ?thesis by (elim disjE) (simp_all add: hex_digit_def hex_val_def)
qed

lemma hex4_byte: "n < 256 \<Longrightarrow> hex4 (CHR ''0'') (CHR ''0'') (hex_digit (n div 16)) (hex_digit (n mod 16)) = Some n"
  using hex_val_digit [of "n div 16"] hex_val_digit [of "n mod 16"]
  by (simp add: hex4_def) (simp add: hex_val_def)

declare parse_chars.simps(2) [simp del]

lemma parse_quote [simp]: "parse_chars (CHR 0x22 # rest) = Some ([], rest)"
  by (simp add: parse_chars.simps)

lemma parse_chars_plain:
  "c \<noteq> CHR 0x22 \<Longrightarrow> c \<noteq> CHR 0x5C \<Longrightarrow> \<not> (of_char c :: nat) < 32 \<Longrightarrow>
     parse_chars (c # s) = prepend [c] (parse_chars s)"
  by (subst parse_chars.simps) simp

lemma parse_chars_simple:
  "e \<noteq> CHR ''u'' \<Longrightarrow> simple_escape e = Some c \<Longrightarrow>
     parse_chars (CHR 0x5C # e # s) = prepend [c] (parse_chars s)"
  by (subst parse_chars.simps) simp

lemma parse_chars_u:
  "hex4 a b d f = Some r \<Longrightarrow> \<not> is_surrogate r \<Longrightarrow>
     parse_chars (CHR 0x5C # CHR ''u'' # a # b # d # f # s) = prepend (encode_rune r) (parse_chars s)"
  by (subst parse_chars.simps) simp

lemma parse_escape_char: "parse_chars (escape_char c @ t) = prepend [c] (parse_chars t)"
proof -
  let ?n = "of_char c :: nat"
  let ?S = "{CHR 0x22, CHR 0x5C, CHR 0x08, CHR 0x0C, CHR 0x0A, CHR 0x0D, CHR 0x09}"
  let ?h = "?n < 32 \<or> c = CHR ''<'' \<or> c = CHR ''>'' \<or> c = CHR ''&''"
  show ?thesis
  proof (cases "c \<in> ?S")
    case True
    then show ?thesis
      by (elim insertE emptyE) (simp_all add: escape_char_def parse_chars_simple simple_escape_def)
  next
    case S: False
    then have S': "c \<noteq> CHR 0x22" "c \<noteq> CHR 0x5C" by simp_all
    show ?thesis
    proof (cases ?h)
      case True
      then have n: "?n < 128" by (elim disjE) simp_all
      have "escape_char c = [CHR 0x5C, CHR ''u'', CHR ''0'', CHR ''0'',
          hex_digit (?n div 16), hex_digit (?n mod 16)]"
        using True S by (simp add: escape_char_def)
      moreover have "encode_rune ?n = [c]" using n by (simp add: encode_rune_def)
      ultimately show ?thesis
        using n parse_chars_u [OF hex4_byte [of ?n], of t] by (simp add: is_surrogate_def)
    next
      case False
      then have "escape_char c = [c]" using S by (simp add: escape_char_def)
      with False S' show ?thesis by (simp add: parse_chars_plain)
    qed
  qed
qed

lemma parse_escape_separator:
  "parse_chars ([CHR 0x5C] @ ''u2028'' @ t) = prepend [CHR 0xE2, CHR 0x80, CHR 0xA8] (parse_chars t)"
  "parse_chars ([CHR 0x5C] @ ''u2029'' @ t) = prepend [CHR 0xE2, CHR 0x80, CHR 0xA9] (parse_chars t)"
proof -
  have h: "hex4 (CHR ''2'') (CHR ''0'') (CHR ''2'') (CHR ''8'') = Some 8232"
    "hex4 (CHR ''2'') (CHR ''0'') (CHR ''2'') (CHR ''9'') = Some 8233" by (simp_all add: hex4_def hex_val_def)
  have e: "encode_rune 8232 = [CHR 0xE2, CHR 0x80, CHR 0xA8]"
    "encode_rune 8233 = [CHR 0xE2, CHR 0x80, CHR 0xA9]"
    using char_of_char [of "CHR 0xE2"] char_of_char [of "CHR 0x80"]
      char_of_char [of "CHR 0xA8"] char_of_char [of "CHR 0xA9"]
    by (simp_all add: encode_rune_def)
  show "parse_chars ([CHR 0x5C] @ ''u2028'' @ t) = prepend [CHR 0xE2, CHR 0x80, CHR 0xA8] (parse_chars t)"
    using parse_chars_u [OF h(1), of t] e by (simp add: is_surrogate_def)
  show "parse_chars ([CHR 0x5C] @ ''u2029'' @ t) = prepend [CHR 0xE2, CHR 0x80, CHR 0xA9] (parse_chars t)"
    using parse_chars_u [OF h(2), of t] e by (simp add: is_surrogate_def)
qed

lemma prepend_Some [simp]: "prepend p (Some (s, r)) = Some (p @ s, r)"
  by (simp add: prepend_def)

lemma parse_chars_escape: "parse_chars (escape s @ CHR 0x22 # rest) = Some (s, rest)"
proof (induction s rule: escape.induct)
  case (1 a b c cs)
  then show ?case
    using parse_escape_separator [of "escape cs @ CHR 0x22 # rest"]
      parse_escape_char [of a "escape (b # c # cs) @ CHR 0x22 # rest"] by auto
qed (use parse_escape_char in auto)

section \<open>Round trip of values\<close>

text \<open>A number literal is one the scanner accepts whole.\<close>

definition wf_lit :: "string \<Rightarrow> bool" where
  "wf_lit s = (number_ok s \<and> list_all number_char s)"

fun wf_json :: "json \<Rightarrow> bool" where
  "wf_json (JNum s) = wf_lit s"
| "wf_json (JArr vs) = (\<forall>v \<in> set vs. wf_json v)"
| "wf_json (JObj kvs) = (\<forall>kv \<in> set kvs. wf_json (snd kv))"
| "wf_json _ = True"

definition delimited :: "string \<Rightarrow> bool" where
  "delimited rest = (case rest of [] \<Rightarrow> True | c # _ \<Rightarrow> \<not> number_char c)"

lemma delimited_simps [simp]:
  "delimited []" "delimited (CHR '']'' # r)" "delimited (CHR ''}'' # r)" "delimited (CHR '','' # r)"
  by (simp_all add: delimited_def number_char_def is_digit_def)

lemma skip_space_Cons: "\<not> is_space c \<Longrightarrow> skip_space (c # s) = c # s"
  by (simp add: skip_space_def)

lemma skip_space_punct [simp]:
  "skip_space (CHR '']'' # r) = CHR '']'' # r" "skip_space (CHR ''}'' # r) = CHR ''}'' # r"
  "skip_space (CHR '','' # r) = CHR '','' # r" "skip_space (CHR '':'' # r) = CHR '':'' # r"
  "skip_space (CHR 0x22 # r) = CHR 0x22 # r" "skip_space (CHR ''['' # r) = CHR ''['' # r"
  "skip_space (CHR ''{'' # r) = CHR ''{'' # r" "skip_space (CHR ''n'' # r) = CHR ''n'' # r"
  "skip_space (CHR ''t'' # r) = CHR ''t'' # r" "skip_space (CHR ''f'' # r) = CHR ''f'' # r"
  "skip_space [] = []"
  by (simp_all add: skip_space_def is_space_def)

definition num_head :: "char \<Rightarrow> bool" where
  "num_head c = (is_digit c \<or> c = CHR ''-'')"

lemma number_ok_head: "number_ok s \<Longrightarrow> \<exists>c r. s = c # r \<and> num_head c"
proof (cases s)
  case (Cons c r)
  assume "number_ok s"
  with Cons have "c = CHR ''-'' \<or> int_part_ok (takeWhile is_digit s)"
    by (auto simp: number_ok_def split: if_splits)
  then have "num_head c"
    unfolding num_head_def using Cons
    by (cases "is_digit c") (auto simp: int_part_ok_def digits1_def)
  with Cons show ?thesis by blast
qed (simp add: number_ok_def int_part_ok_def digits1_def)

lemma num_head_char:
  assumes "num_head c"
  shows "\<not> is_space c" "c \<noteq> CHR 0x22" "c \<noteq> CHR ''[''" "c \<noteq> CHR ''{''" "c \<noteq> CHR ''n''"
    "c \<noteq> CHR ''t''" "c \<noteq> CHR ''f''" "c \<noteq> CHR '']''" "c \<noteq> CHR ''}''"
  using assms by (auto simp: num_head_def is_digit_def is_space_def)

lemma span_delimited:
  "list_all number_char s \<Longrightarrow> delimited rest \<Longrightarrow>
     takeWhile number_char (s @ rest) = s \<and> dropWhile number_char (s @ rest) = rest"
  by (induction s) (auto simp: delimited_def split: list.splits)

lemma parse_number:
  assumes "wf_lit s" "delimited rest"
  shows "parse_value (s @ rest) = Some (JNum s, rest)"
proof -
  from assms have ok: "number_ok s" "list_all number_char s" by (simp_all add: wf_lit_def)
  from number_ok_head [OF ok(1)] obtain c r where s: "s = c # r" "num_head c" by blast
  from span_delimited [OF ok(2) assms(2)] ok(1) s show ?thesis
    by (subst parse_value.simps) (simp add: skip_space_Cons num_head_char)
qed

text \<open>The text of a value starts with neither a space nor a closing bracket.\<close>

lemma print_head:
  "wf_json j \<Longrightarrow> \<exists>c r. print_json j = c # r \<and> \<not> is_space c \<and> c \<noteq> CHR '']'' \<and> c \<noteq> CHR ''}''"
proof (cases j)
  case (JNum s)
  assume "wf_json j"
  with JNum number_ok_head [of s] num_head_char show ?thesis by (auto simp: wf_lit_def)
qed (auto simp: quote_def is_space_def)

lemma print_elems_head:
  assumes "vs \<noteq> []" "\<forall>v \<in> set vs. wf_json v"
  shows "\<exists>c r. print_elems vs = c # r \<and> \<not> is_space c \<and> c \<noteq> CHR '']''"
proof -
  from assms obtain v us where vs: "vs = v # us" by (cases vs) auto
  with assms print_head [of v] show ?thesis by (cases us) auto
qed

lemma print_members_head: "kvs \<noteq> [] \<Longrightarrow> \<exists>r. print_members kvs = CHR 0x22 # r"
  by (cases kvs rule: print_members.cases) (auto simp: quote_def)

lemma parse_literals:
  "parse_value (''null'' @ rest) = Some (JNull, rest)"
  "parse_value (''true'' @ rest) = Some (JBool True, rest)"
  "parse_value (''false'' @ rest) = Some (JBool False, rest)"
  "parse_value (quote s @ rest) = Some (JStr s, rest)"
  by (subst parse_value.simps, simp add: strip_def quote_def parse_chars_escape)+

lemma parse_print:
  "wf_json j \<Longrightarrow> delimited rest \<Longrightarrow> parse_value (print_json j @ rest) = Some (j, rest)"
  "\<forall>v \<in> set vs. wf_json v \<Longrightarrow> vs \<noteq> [] \<Longrightarrow>
     parse_elems (print_elems vs @ CHR '']'' # rest) = Some (vs, rest)"
  "\<forall>kv \<in> set kvs. wf_json (snd kv) \<Longrightarrow> kvs \<noteq> [] \<Longrightarrow>
     parse_members (print_members kvs @ CHR ''}'' # rest) = Some (kvs, rest)"
proof (induction j and vs and kvs arbitrary: rest and rest and rest
    rule: print_json_print_elems_print_members.induct)
  case (3 s)
  then show ?case by (simp add: parse_number)
next
  case (5 vs)
  show ?case
  proof (cases "vs = []")
    case True
    then show ?thesis by (subst parse_value.simps) simp
  next
    case False
    with 5 print_elems_head [of vs] obtain c r where c: "print_elems vs = c # r" "\<not> is_space c" "c \<noteq> CHR '']''"
      by auto
    from 5 False have "parse_elems (print_elems vs @ CHR '']'' # rest) = Some (vs, rest)" by simp
    with c show ?thesis by (subst parse_value.simps) (simp add: skip_space_Cons)
  qed
next
  case (6 kvs)
  show ?case
  proof (cases "kvs = []")
    case True
    then show ?thesis by (subst parse_value.simps) simp
  next
    case False
    with print_members_head [of kvs] obtain r where c: "print_members kvs = CHR 0x22 # r" by auto
    from 6 False have "parse_members (print_members kvs @ CHR ''}'' # rest) = Some (kvs, rest)" by simp
    with c show ?thesis by (subst parse_value.simps) simp
  qed
next
  case (8 v)
  then show ?case by (subst parse_elems.simps) simp
next
  case (9 v u vs)
  then show ?case by (subst parse_elems.simps) simp
next
  case (11 k v)
  then show ?case by (subst parse_members.simps) (simp add: quote_def parse_chars_escape)
next
  case (12 k v kv kvs)
  then show ?case by (subst parse_members.simps) (simp add: quote_def parse_chars_escape)
qed (use parse_literals in auto)

lemma Parse_print: "wf_json j \<Longrightarrow> Parse (print_json j) = Inr j"
  using parse_print(1) [of j "[]"] by (simp add: Parse_def)

section \<open>Structs\<close>

text \<open>
  A struct type is the list of its fields: a JSON name and what decoding a value into the
  field does. A member is matched by exact name first, then without regard to case; a member
  that matches no field is ignored; \<open>null\<close> leaves a field as it is. Decoding stops at the first
  error (Go goes on filling the value and returns the same error).
\<close>

type_synonym 'r decoder = "json \<Rightarrow> 'r \<Rightarrow> 'r result"
type_synonym 'r fields = "(string \<times> 'r decoder) list"

definition lower :: "char \<Rightarrow> char" where
  "lower c = (let n = of_char c :: nat in if 65 \<le> n \<and> n \<le> 90 then char_of (n + 32) else c)"

definition find_field :: "'r fields \<Rightarrow> string \<Rightarrow> 'r decoder option" where
  "find_field fs k =
     (case find (\<lambda>f. fst f = k) fs of
        Some f \<Rightarrow> Some (snd f)
      | None \<Rightarrow> map_option snd (find (\<lambda>f. map lower (fst f) = map lower k) fs))"

fun dec_members :: "'r fields \<Rightarrow> (string \<times> json) list \<Rightarrow> 'r \<Rightarrow> 'r result" where
  "dec_members fs [] r = Inr r"
| "dec_members fs ((k, v) # kvs) r =
     (case find_field fs k of
        None \<Rightarrow> dec_members fs kvs r
      | Some d \<Rightarrow> (case d v r of Inl e \<Rightarrow> Inl e | Inr r' \<Rightarrow> dec_members fs kvs r'))"

definition type_error :: "'a result" where
  "type_error = Inl (SyntaxError ''cannot unmarshal into Go value'')"

definition dec_struct :: "'r fields \<Rightarrow> 'r decoder" where
  "dec_struct fs j r =
     (case j of JNull \<Rightarrow> Inr r | JObj kvs \<Rightarrow> dec_members fs kvs r | _ \<Rightarrow> type_error)"

definition dec_string :: "string decoder" where
  "dec_string j r = (case j of JNull \<Rightarrow> Inr r | JStr s \<Rightarrow> Inr s | _ \<Rightarrow> type_error)"

definition dec_bool :: "bool decoder" where
  "dec_bool j r = (case j of JNull \<Rightarrow> Inr r | JBool b \<Rightarrow> Inr b | _ \<Rightarrow> type_error)"

text \<open>\<open>strconv.ParseInt\<close> with base 10 and 64 bits, on a literal of the JSON grammar.\<close>

definition ParseInt :: "string \<Rightarrow> int result" where
  "ParseInt s =
     (let neg = (s \<noteq> [] \<and> hd s = CHR ''-''); u = (if neg then tl s else s)
      in if \<not> digits1 u then Inl (SyntaxError ''invalid syntax'')
         else let n = int (string_to_nat 0 u); i = (if neg then - n else n)
              in if - (2 ^ 63) \<le> i \<and> i < 2 ^ 63 then Inr i else Inl (SyntaxError ''value out of range''))"

definition dec_int :: "int decoder" where
  "dec_int j r = (case j of JNull \<Rightarrow> Inr r | JNum s \<Rightarrow> ParseInt s | _ \<Rightarrow> type_error)"

fun dec_list :: "'a \<Rightarrow> 'a decoder \<Rightarrow> json list \<Rightarrow> 'a list result" where
  "dec_list z d [] = Inr []"
| "dec_list z d (v # vs) =
     (case d v z of
        Inl e \<Rightarrow> Inl e
      | Inr x \<Rightarrow> (case dec_list z d vs of Inl e \<Rightarrow> Inl e | Inr xs \<Rightarrow> Inr (x # xs)))"

definition dec_slice :: "'a \<Rightarrow> 'a decoder \<Rightarrow> 'a list decoder" where
  "dec_slice z d j r = (case j of JNull \<Rightarrow> Inr [] | JArr vs \<Rightarrow> dec_list z d vs | _ \<Rightarrow> type_error)"

definition dec_ptr :: "'a \<Rightarrow> 'a decoder \<Rightarrow> 'a option decoder" where
  "dec_ptr z d j r =
     (case j of JNull \<Rightarrow> Inr None | _ \<Rightarrow> map_sum id Some (d j (case r of None \<Rightarrow> z | Some x \<Rightarrow> x)))"

fun dec_entries :: "'a \<Rightarrow> 'a decoder \<Rightarrow> (string \<times> json) list \<Rightarrow> (string, 'a) fmap \<Rightarrow> (string, 'a) fmap result" where
  "dec_entries z d [] mp = Inr mp"
| "dec_entries z d ((k, v) # kvs) mp =
     (case d v z of Inl e \<Rightarrow> Inl e | Inr x \<Rightarrow> dec_entries z d kvs (fmupd k x mp))"

definition dec_map :: "'a \<Rightarrow> 'a decoder \<Rightarrow> (string, 'a) fmap decoder" where
  "dec_map z d j r =
     (case j of JNull \<Rightarrow> Inr fmempty | JObj kvs \<Rightarrow> dec_entries z d kvs r | _ \<Rightarrow> type_error)"

text \<open>A decoder of a field's type, applied to the field of a struct.\<close>

definition on_field :: "('r \<Rightarrow> 'a) \<Rightarrow> ('a \<Rightarrow> 'r \<Rightarrow> 'r) \<Rightarrow> 'a decoder \<Rightarrow> 'r decoder" where
  "on_field get put d j r = map_sum id (\<lambda>x. put x r) (d j (get r))"

text \<open>
  Encoding. With \<open>omitempty\<close> a field is left out when it is empty, which a struct never is.
  The entries of a map are written in the order of their keys.
\<close>

type_synonym 'a encoder = "'a \<Rightarrow> json"

definition omitempty :: "bool \<Rightarrow> string \<Rightarrow> json \<Rightarrow> (string \<times> json) list" where
  "omitempty zero k v = (if zero then [] else [(k, v)])"

definition enc_int :: "int encoder" where
  "enc_int i = JNum (int_to_string i)"

definition enc_slice :: "'a encoder \<Rightarrow> 'a list encoder" where
  "enc_slice e xs = JArr (map e xs)"

definition enc_ptr :: "'a encoder \<Rightarrow> 'a option encoder" where
  "enc_ptr e p = (case p of None \<Rightarrow> JNull | Some x \<Rightarrow> e x)"

definition enc_map :: "'a encoder \<Rightarrow> (string, 'a) fmap encoder" where
  "enc_map e mp = JObj (map (\<lambda>(k, x). (k, e x)) (sorted_list_of_fmap mp))"

definition Marshal :: "'a encoder \<Rightarrow> 'a \<Rightarrow> string" where
  "Marshal e x = print_json (e x)"

definition Unmarshal :: "'a decoder \<Rightarrow> string \<Rightarrow> 'a \<Rightarrow> 'a result" where
  "Unmarshal d s x = (case Parse s of Inl e \<Rightarrow> Inl e | Inr j \<Rightarrow> d j x)"

lemma entries_sorted_list: "(k, x) \<in> set (sorted_list_of_fmap mp) \<longleftrightarrow> fmlookup mp k = Some x"
  by (auto simp: sorted_list_of_fmap_def fmlookup_dom_iff intro!: image_eqI)

lemma lookup_fold_upd:
  "distinct (map fst kvs) \<Longrightarrow>
     fmlookup (fold (\<lambda>(k, x). fmupd k x) kvs mp) k =
       (case map_of kvs k of None \<Rightarrow> fmlookup mp k | Some x \<Rightarrow> Some x)"
proof (induction kvs arbitrary: mp)
  case (Cons kv kvs)
  obtain k0 x0 where kv: "kv = (k0, x0)" by fastforce
  from Cons.prems kv have "map_of kvs k0 = None" by (auto simp: map_of_eq_None_iff)
  with Cons kv show ?case by (auto split: option.splits)
qed simp

lemma fold_sorted_list: "fold (\<lambda>(k, x). fmupd k x) (sorted_list_of_fmap mp) fmempty = mp"
proof (rule fmap_ext)
  fix k
  have "distinct (map fst (sorted_list_of_fmap mp))"
    by (simp add: sorted_list_of_fmap_def comp_def sorted_list_of_fset.rep_eq)
  from lookup_fold_upd [OF this, of fmempty k]
  show "fmlookup (fold (\<lambda>(k, x). fmupd k x) (sorted_list_of_fmap mp) fmempty) k = fmlookup mp k"
    by (simp split: option.splits)
qed

text \<open>
  The contract of an encoder and a decoder that belong together, and what it gives: what was
  marshalled unmarshals to itself.
\<close>

locale codec =
  fixes enc :: "'a encoder" and dec :: "'a decoder" and zero :: 'a and ok :: "'a \<Rightarrow> bool"
  assumes enc_wf: "ok x \<Longrightarrow> wf_json (enc x)"
    and dec_enc: "ok x \<Longrightarrow> dec (enc x) zero = Inr x"
begin

lemma round_trip: "ok x \<Longrightarrow> Unmarshal dec (Marshal enc x) zero = Inr x"
  by (simp add: Unmarshal_def Marshal_def Parse_print enc_wf dec_enc)

lemma Marshal_inj: "ok x \<Longrightarrow> ok y \<Longrightarrow> Marshal enc x = Marshal enc y \<Longrightarrow> x = y"
  by (metis round_trip sum.inject(2))

lemma dec_list_enc: "\<forall>x \<in> set xs. ok x \<Longrightarrow> dec_list zero dec (map enc xs) = Inr xs"
  by (induction xs) (simp_all add: dec_enc)

lemma wf_slice: "\<forall>x \<in> set xs. ok x \<Longrightarrow> wf_json (enc_slice enc xs)"
  by (simp add: enc_slice_def enc_wf)

lemma dec_slice_enc: "\<forall>x \<in> set xs. ok x \<Longrightarrow> dec_slice zero dec (enc_slice enc xs) r = Inr xs"
  by (simp add: enc_slice_def dec_slice_def dec_list_enc)

lemma dec_entries_enc:
  "\<forall>(k, x) \<in> set kvs. ok x \<Longrightarrow>
     dec_entries zero dec (map (\<lambda>(k, x). (k, enc x)) kvs) mp = Inr (fold (\<lambda>(k, x). fmupd k x) kvs mp)"
  by (induction kvs arbitrary: mp) (auto simp: dec_enc)

lemma wf_map:
  assumes "\<forall>k x. fmlookup mp k = Some x \<longrightarrow> ok x"
  shows "wf_json (enc_map enc mp)"
proof -
  have "ok x" if "(k, x) \<in> set (sorted_list_of_fmap mp)" for k x
    using that assms by (auto simp: entries_sorted_list)
  then show ?thesis by (auto simp: enc_map_def enc_wf)
qed

lemma dec_map_enc:
  assumes "\<forall>k x. fmlookup mp k = Some x \<longrightarrow> ok x"
  shows "dec_map zero dec (enc_map enc mp) fmempty = Inr mp"
proof -
  have "\<forall>(k, x) \<in> set (sorted_list_of_fmap mp). ok x"
    using assms by (auto simp: entries_sorted_list)
  from dec_entries_enc [OF this, of fmempty] show ?thesis
    by (simp add: dec_map_def enc_map_def fold_sorted_list)
qed

end

section \<open>Codecs of the basic types\<close>

lemma digits_no_frac: "list_all is_digit u \<Longrightarrow> takeWhile is_digit u = u \<and> dropWhile is_digit u = []"
  by (induction u) auto

lemma nat_to_string_head: "0 < n \<Longrightarrow> hd (nat_to_string n) \<noteq> CHR ''0''"
proof (induction n rule: nat_to_string.induct)
  case (1 n)
  show ?case
  proof (cases "n < 10")
    case True
    with 1 have "n = 1 \<or> n = 2 \<or> n = 3 \<or> n = 4 \<or> n = 5 \<or> n = 6 \<or> n = 7 \<or> n = 8 \<or> n = 9" by auto
    then show ?thesis by (elim disjE) (simp_all add: nat_to_string.simps digit_def)
  next
    case False
    with 1 show ?thesis by (subst nat_to_string.simps) simp
  qed
qed

lemma digits1_nat: "digits1 (nat_to_string n)"
  using nat_to_string_digits [of n] by (simp add: digits1_def list_all_iff)

lemma int_part_nat: "int_part_ok (nat_to_string n)"
proof (cases "n = 0")
  case True
  then show ?thesis by (simp add: int_part_ok_def nat_to_string.simps digit_def)
next
  case False
  then show ?thesis using digits1_nat nat_to_string_head [of n] by (simp add: int_part_ok_def)
qed

lemma number_ok_int: "number_ok (int_to_string i)"
proof -
  have digits: "takeWhile is_digit (nat_to_string n) = nat_to_string n"
    "dropWhile is_digit (nat_to_string n) = []" for n
    using digits_no_frac [of "nat_to_string n"] nat_to_string_digits [of n]
    by (simp_all add: list_all_iff)
  have minus: "(case nat_to_string n of [] \<Rightarrow> [] | c # r \<Rightarrow> if c = CHR ''-'' then r else nat_to_string n) =
      nat_to_string n" for n
    using nat_to_string_digits [of n] by (cases "nat_to_string n") (auto simp: is_digit_def)
  show ?thesis
    by (cases "i < 0") (simp_all add: number_ok_def int_to_string_def frac_ok_def digits minus int_part_nat)
qed

lemma wf_lit_int: "wf_lit (int_to_string i)"
  using number_ok_int nat_to_string_digits
  by (auto simp: wf_lit_def int_to_string_def list_all_iff number_char_def)

lemma ParseInt_int:
  assumes "- (2 ^ 63) \<le> i" "i < 2 ^ 63"
  shows "ParseInt (int_to_string i) = Inr i"
proof -
  have "hd (nat_to_string n) \<noteq> CHR ''-''" for n
  proof -
    have "is_digit (hd (nat_to_string n))" using nat_to_string_digits [of n] by simp
    then show ?thesis by (auto simp: is_digit_def)
  qed
  with assms show ?thesis
    by (cases "i < 0") (simp_all add: ParseInt_def int_to_string_def digits1_nat)
qed

definition int64 :: "int \<Rightarrow> bool" where
  "int64 i = (- (2 ^ 63) \<le> i \<and> i < 2 ^ 63)"

interpretation string_codec: codec JStr dec_string "[]" "\<lambda>_. True"
  by unfold_locales (simp_all add: dec_string_def)

interpretation bool_codec: codec JBool dec_bool False "\<lambda>_. True"
  by unfold_locales (simp_all add: dec_bool_def)

interpretation int_codec: codec enc_int dec_int 0 int64
  by unfold_locales (simp_all add: enc_int_def dec_int_def wf_lit_int ParseInt_int int64_def)

lemma struct_simps:
  "dec_struct fs (JObj kvs) r = dec_members fs kvs r"
  "on_field get put d j r = map_sum id (\<lambda>x. put x r) (d j (get r))"
  by (simp_all add: dec_struct_def on_field_def)

lemmas codec_simps = struct_simps omitempty_def find_field_def

lemma string_codec_simps [simp]:
  "dec_string (JStr s) r = Inr s" "dec_bool (JBool b) q = Inr b"
  "dec_slice [] dec_string (enc_slice JStr xs) rs = Inr xs"
  "wf_json (enc_slice JStr xs)"
  using string_codec.dec_slice_enc [of xs rs] string_codec.wf_slice [of xs]
  by (simp_all add: dec_string_def dec_bool_def)

lemma dec_members_append:
  "dec_members fs (kvs @ kvs') r =
     (case dec_members fs kvs r of Inl e \<Rightarrow> Inl e | Inr r' \<Rightarrow> dec_members fs kvs' r')"
  by (induction fs kvs r rule: dec_members.induct) (auto split: option.splits sum.splits)

end
