(* ===== verification/Utils_Core.thy ===== *)
theory Utils_Core
  imports Prelude
begin

text \<open>
  \<open>internal/utils/core.go\<close>: the generic helpers of the operator. \<open>RunConcurrently\<close> and
  \<open>ChannelToSlice\<close> are in theory \<open>Concurrency\<close>.

  The main facts: \<open>MapMergeByKey\<close>, which keeps an index from keys to positions, computes the
  plain keyed replacement \<open>upsert_all\<close>, keeps keys distinct, keeps the built-in items in
  place and lets the last user item with a key win; \<open>MapToString\<close> prints the entries in
  the order in which the Go runtime happens to range over the map.
\<close>

section \<open>The functions\<close>

definition utils_If :: "bool \<Rightarrow> 'a \<Rightarrow> 'a \<Rightarrow> 'a" where
  "utils_If cond trueVal falseVal = (if cond then trueVal else falseVal)"

definition Clamp :: "int \<Rightarrow> int \<Rightarrow> int \<Rightarrow> int" where
  "Clamp val low high = (if val < low then low else if val > high then high else val)"

definition MapSlice :: "'a list \<Rightarrow> ('a \<Rightarrow> 'b) \<Rightarrow> 'b list" where
  "MapSlice xs mapper = map (\<lambda>i. mapper (xs ! i)) [0..<length xs]"

text \<open>The first loop of \<open>MapMergeByKey\<close>: later items overwrite the index of earlier ones.\<close>

fun index_by_key :: "('d \<Rightarrow> string) \<Rightarrow> nat \<Rightarrow> 'd list \<Rightarrow> (string, nat) fmap \<Rightarrow> (string, nat) fmap" where
  "index_by_key getKey i [] indexMap = indexMap"
| "index_by_key getKey i (d # ds) indexMap =
     (let key = getKey d
      in index_by_key getKey (Suc i) ds (if key \<noteq> [] then fmupd key i indexMap else indexMap))"

text \<open>The second loop; \<open>transform\<close> returns the Go pair \<open>(D, bool)\<close>.\<close>

fun merge_loop ::
  "('s \<Rightarrow> 'd \<times> bool) \<Rightarrow> ('d \<Rightarrow> string) \<Rightarrow> 's list \<Rightarrow> 'd list \<Rightarrow> (string, nat) fmap \<Rightarrow> 'd list" where
  "merge_loop transform getKey [] dest indexMap = dest"
| "merge_loop transform getKey (s # src) dest indexMap =
     (let (d, ok) = transform s
      in if \<not> ok then merge_loop transform getKey src dest indexMap
         else let key = getKey d
              in if key = [] then merge_loop transform getKey src dest indexMap
                 else case fmlookup indexMap key of
                        Some idx \<Rightarrow> merge_loop transform getKey src (dest[idx := d]) indexMap
                      | None \<Rightarrow> merge_loop transform getKey src (dest @ [d])
                                  (fmupd key (length dest) indexMap))"

definition MapMergeByKey ::
  "'d list \<Rightarrow> 's list \<Rightarrow> ('s \<Rightarrow> 'd \<times> bool) \<Rightarrow> ('d \<Rightarrow> string) \<Rightarrow> 'd list" where
  "MapMergeByKey dest src transform getKey =
     merge_loop transform getKey src dest (index_by_key getKey 0 dest fmempty)"

text \<open>
  \<open>MapToString\<close> ranges over a Go map. The order of that iteration is not specified by the
  language, so the entries are given in the order of the iteration.
\<close>

fun map_to_string_loop :: "(string \<times> string) list \<Rightarrow> string \<Rightarrow> string \<Rightarrow> string \<Rightarrow> string \<Rightarrow> string" where
  "map_to_string_loop [] kvSep itemSeparator itemSep bldr = bldr"
| "map_to_string_loop ((key, value) # m) kvSep itemSeparator itemSep bldr =
     map_to_string_loop m kvSep itemSeparator itemSeparator
       (bldr @ itemSep @ key @ (if value \<noteq> [] then kvSep @ value else []))"

definition MapToString :: "(string \<times> string) list \<Rightarrow> string \<Rightarrow> string \<Rightarrow> string" where
  "MapToString m keyValueSeparator itemSeparator =
     (if m = [] then [] else map_to_string_loop m keyValueSeparator itemSeparator [] [])"

definition DeleteZeroValues :: "string list \<Rightarrow> string list" where
  "DeleteZeroValues slice = filter (\<lambda>value. value \<noteq> []) slice"

text \<open>\<open>os.Getenv\<close> is the empty string for a variable that is not set.\<close>

type_synonym environ = "(string, string) fmap"

definition Getenv :: "environ \<Rightarrow> string \<Rightarrow> string" where
  "Getenv env name = (case fmlookup env name of None \<Rightarrow> [] | Some v \<Rightarrow> v)"

definition GetOperatorNamespace :: "environ \<Rightarrow> string result" where
  "GetOperatorNamespace env =
     (let ns = Getenv env ''OPERATOR_NAMESPACE''
      in if ns = [] then Inl (ErrorString ''OPERATOR_NAMESPACE must be set'') else Inr ns)"

section \<open>Small facts\<close>

lemma utils_If_simps [simp]: "utils_If True a b = a" "utils_If False a b = b"
  by (simp_all add: utils_If_def)

lemma Clamp_bounds: "low \<le> high \<Longrightarrow> low \<le> Clamp v low high \<and> Clamp v low high \<le> high"
  by (simp add: Clamp_def)

lemma MapSlice_eq_map: "MapSlice xs f = map f xs"
  by (rule nth_equalityI) (simp_all add: MapSlice_def)

lemma DeleteZeroValues_simps [simp]:
  "DeleteZeroValues [] = []"
  "DeleteZeroValues ([] # xs) = DeleteZeroValues xs"
  "DeleteZeroValues ((c # s) # xs) = (c # s) # DeleteZeroValues xs"
  "DeleteZeroValues (xs @ ys) = DeleteZeroValues xs @ DeleteZeroValues ys"
  by (simp_all add: DeleteZeroValues_def)

lemma set_DeleteZeroValues: "set (DeleteZeroValues xs) = set xs - {[]}"
  by (auto simp: DeleteZeroValues_def)

section \<open>Keyed replacement: the reference for \<open>MapMergeByKey\<close>\<close>

fun upsert :: "('d \<Rightarrow> 'k) \<Rightarrow> 'd \<Rightarrow> 'd list \<Rightarrow> 'd list" where
  "upsert key d [] = [d]"
| "upsert key d (x # xs) = (if key x = key d then d # xs else x # upsert key d xs)"

definition upsert_all :: "('d \<Rightarrow> 'k) \<Rightarrow> 'd list \<Rightarrow> 'd list \<Rightarrow> 'd list" where
  "upsert_all key ds dest = fold (upsert key) ds dest"

text \<open>The items that the loop does not skip.\<close>

definition selected :: "('s \<Rightarrow> 'd \<times> bool) \<Rightarrow> ('d \<Rightarrow> string) \<Rightarrow> 's list \<Rightarrow> 'd list" where
  "selected transform key src =
     map fst (filter (\<lambda>(d, ok). ok \<and> key d \<noteq> []) (map transform src))"

lemma upsert_all_simps [simp]:
  "upsert_all key [] dest = dest"
  "upsert_all key (d # ds) dest = upsert_all key ds (upsert key d dest)"
  by (simp_all add: upsert_all_def)

lemma keys_upsert:
  "map key (upsert key d xs) = (if key d \<in> key ` set xs then map key xs else map key xs @ [key d])"
  by (induction xs) auto

lemma upsert_new: "key d \<notin> key ` set xs \<Longrightarrow> upsert key d xs = xs @ [d]"
  by (induction xs) auto

lemma upsert_split:
  "\<forall>u \<in> set us. key u \<noteq> key d \<Longrightarrow> key x = key d \<Longrightarrow> upsert key d (us @ x # vs) = us @ d # vs"
  by (induction us) auto

lemma upsert_at:
  "distinct (map key xs) \<Longrightarrow> i < length xs \<Longrightarrow> key (xs ! i) = key d \<Longrightarrow> upsert key d xs = xs[i := d]"
proof (induction xs arbitrary: i)
  case (Cons x xs)
  show ?case
  proof (cases i)
    case (Suc j)
    with Cons.prems have j: "j < length xs" "key (xs ! j) = key d" by auto
    then have "key d \<in> key ` set xs" by (metis imageI nth_mem)
    with Cons.prems have "key x \<noteq> key d" by auto
    with Cons Suc j show ?thesis by simp
  qed (use Cons.prems in simp)
qed simp

lemma distinct_keys_upsert: "distinct (map key xs) \<Longrightarrow> distinct (map key (upsert key d xs))"
  by (simp add: keys_upsert)

text \<open>The index invariant of the two loops.\<close>

definition index_ok :: "('d \<Rightarrow> string) \<Rightarrow> 'd list \<Rightarrow> (string, nat) fmap \<Rightarrow> bool" where
  "index_ok key dest im \<longleftrightarrow>
     (\<forall>k i. fmlookup im k = Some i \<longrightarrow> i < length dest \<and> key (dest ! i) = k) \<and>
     (\<forall>x \<in> set dest. key x \<noteq> [] \<longrightarrow> fmlookup im (key x) \<noteq> None)"

lemma index_ok_append:
  "index_ok key xs im \<Longrightarrow>
     index_ok key (xs @ [y]) (if key y \<noteq> [] then fmupd (key y) (length xs) im else im)"
  by (auto simp: index_ok_def nth_append less_SucI)

lemma index_by_key_ok:
  "index_ok key xs im \<Longrightarrow> index_ok key (xs @ ys) (index_by_key key (length xs) ys im)"
proof (induction ys arbitrary: xs im)
  case (Cons y ys)
  from Cons.IH [OF index_ok_append [OF Cons.prems]] show ?case by (simp add: Let_def)
qed simp

lemma index_ok_update:
  assumes ok: "index_ok key dest im" and i: "fmlookup im (key d) = Some i"
  shows "index_ok key (dest[i := d]) im"
proof -
  have inv: "j < length dest \<and> key (dest ! j) = k" if "fmlookup im k = Some j" for k j
    using ok that by (simp add: index_ok_def)
  have "\<forall>x \<in> set (dest[i := d]). key x \<noteq> [] \<longrightarrow> fmlookup im (key x) \<noteq> None"
    using ok i set_update_subset_insert [of dest i d] by (auto simp: index_ok_def)
  moreover have "j < length (dest[i := d]) \<and> key (dest[i := d] ! j) = k"
    if "fmlookup im k = Some j" for k j
    using inv [OF that] inv [OF i] by (cases "i = j") auto
  ultimately show ?thesis by (auto simp: index_ok_def)
qed

lemma merge_loop_upsert:
  assumes "index_ok key dest im" and "distinct (map key dest)"
  shows "merge_loop transform key src dest im = upsert_all key (selected transform key src) dest"
  using assms
proof (induction src arbitrary: dest im)
  case (Cons s src)
  obtain d ok where t: "transform s = (d, ok)" by fastforce
  show ?case
  proof (cases "ok \<and> key d \<noteq> []")
    case False
    with Cons t show ?thesis by (auto simp: selected_def)
  next
    case True
    show ?thesis
    proof (cases "fmlookup im (key d)")
      case None
      with Cons.prems True have new: "key d \<notin> key ` set dest" by (auto simp: index_ok_def)
      with Cons.prems True have "index_ok key (dest @ [d]) (fmupd (key d) (length dest) im)"
        using index_ok_append [of key dest im d] by simp
      with Cons.IH Cons.prems(2) new True None t show ?thesis
        by (simp add: selected_def upsert_new)
    next
      case (Some i)
      with Cons.prems(1) have i: "i < length dest" "key (dest ! i) = key d"
        by (auto simp: index_ok_def)
      with Cons.prems(2) have u: "upsert key d dest = dest[i := d]" by (rule upsert_at)
      have "index_ok key (dest[i := d]) im" by (rule index_ok_update [OF Cons.prems(1) Some])
      moreover have "distinct (map key (dest[i := d]))"
        using Cons.prems(2) distinct_keys_upsert [of key dest d] by (simp add: u)
      ultimately show ?thesis
        using Cons.IH u True Some t by (simp add: selected_def)
    qed
  qed
qed (simp add: selected_def)

lemma MapMergeByKey_upsert:
  assumes "distinct (map key dest)"
  shows "MapMergeByKey dest src transform key = upsert_all key (selected transform key src) dest"
proof -
  have "index_ok key dest (index_by_key key 0 dest fmempty)"
    using index_by_key_ok [of key "[]" fmempty dest] by (simp add: index_ok_def)
  from merge_loop_upsert [OF this assms] show ?thesis by (simp add: MapMergeByKey_def)
qed

section \<open>What keyed replacement guarantees\<close>

lemma keys_upsert_all:
  "key ` set (upsert_all key ds dest) = key ` set dest \<union> key ` set ds"
proof (induction ds arbitrary: dest)
  case (Cons d ds)
  have "set (map key (upsert key d dest)) = key ` set dest \<union> {key d}"
    by (auto simp: keys_upsert)
  with Cons show ?case by auto
qed simp

lemma distinct_keys_upsert_all:
  "distinct (map key dest) \<Longrightarrow> distinct (map key (upsert_all key ds dest))"
  by (induction ds arbitrary: dest) (auto simp: distinct_keys_upsert)

text \<open>The positions and keys of the items already there do not change.\<close>

lemma prefix_keys_upsert_all: "prefix (map key dest) (map key (upsert_all key ds dest))"
proof (induction ds arbitrary: dest)
  case (Cons d ds)
  have "prefix (map key dest) (map key (upsert key d dest))" by (auto simp: keys_upsert)
  with Cons [of "upsert key d dest"] show ?case by (auto intro: prefix_order.trans)
qed simp

lemma find_upsert:
  "find (\<lambda>x. key x = k) (upsert key d xs) = (if key d = k then Some d else find (\<lambda>x. key x = k) xs)"
  by (induction xs) auto

lemma find_filter_key:
  "find (\<lambda>x. key x = k) (filter (\<lambda>x. key x \<noteq> k') xs) =
     (if k = k' then None else find (\<lambda>x. key x = k) xs)"
  by (induction xs) auto

lemma find_append: "find P (xs @ ys) = (case find P xs of None \<Rightarrow> find P ys | Some x \<Rightarrow> Some x)"
  by (induction xs) auto

lemma find_upsert_all:
  "find (\<lambda>x. key x = k) (upsert_all key ds dest) =
     (case find (\<lambda>x. key x = k) (rev ds) of
        Some d \<Rightarrow> Some d
      | None \<Rightarrow> find (\<lambda>x. key x = k) dest)"
  by (induction ds arbitrary: dest) (auto simp: find_upsert find_append split: option.splits)

section \<open>\<open>MapToString\<close>\<close>

definition item_string :: "string \<Rightarrow> string \<times> string \<Rightarrow> string" where
  "item_string kvSep = (\<lambda>(key, value). key @ (if value \<noteq> [] then kvSep @ value else []))"

lemma map_to_string_loop_join:
  "map_to_string_loop m kv sep sep bldr = bldr @ concat (map (\<lambda>e. sep @ item_string kv e) m)"
  by (induction m arbitrary: bldr) (auto simp: item_string_def)

lemma strings_Join_concat:
  "strings_Join (s # ss) sep = s @ concat (map (\<lambda>t. sep @ t) ss)"
  by (induction ss arbitrary: s) auto

lemma MapToString_Join: "MapToString m kv sep = strings_Join (map (item_string kv) m) sep"
proof (cases m)
  case (Cons e es)
  obtain k v where e: "e = (k, v)" by fastforce
  have "MapToString m kv sep = item_string kv e @ concat (map (\<lambda>e. sep @ item_string kv e) es)"
    by (simp add: Cons e MapToString_def map_to_string_loop_join item_string_def)
  also have "\<dots> = strings_Join (map (item_string kv) m) sep"
    by (simp add: Cons strings_Join_concat comp_def)
  finally show ?thesis .
qed (simp add: MapToString_def)

end
