(* ===== verification/Utils_Meta.thy ===== *)
theory Utils_Meta
  imports Utils_Core
begin

text \<open>
  Object metadata: \<open>internal/utils/meta.go\<close>, the owner-reference and finalizer functions of
  controller-runtime's \<open>controllerutil\<close> that it calls, and the API group registration of
  \<open>api/v1/groupversion_info.go\<close>.

  The facts: an owner reference is added at most once and never displaces the reference of
  another object; a controller reference is refused when another object controls the target;
  toggling on and then off leaves the other references alone.
\<close>

section \<open>Data\<close>

type_synonym string_map = "(string, string) fmap"

text \<open>A key is \<open>(Namespace, Name)\<close>, the fields of \<open>types.NamespacedName\<close> in order.\<close>

type_synonym object_key = "string \<times> string"

record owner_reference =
  or_APIVersion :: string
  or_Kind :: string
  or_Name :: string
  or_UID :: string
  or_Controller :: "bool option"
  or_BlockOwnerDeletion :: "bool option"

record object_meta =
  om_Name :: string
  om_Namespace :: string
  om_UID :: string
  om_ResourceVersion :: string
  om_Generation :: int
  om_CreationTimestamp :: int
  om_DeletionTimestamp :: "int option"
  om_Labels :: string_map
  om_Annotations :: string_map
  om_OwnerReferences :: "owner_reference list"
  om_Finalizers :: "string list"

definition zero_meta :: object_meta where
  "zero_meta = \<lparr>om_Name = [], om_Namespace = [], om_UID = [], om_ResourceVersion = [],
     om_Generation = 0, om_CreationTimestamp = 0, om_DeletionTimestamp = None,
     om_Labels = fmempty, om_Annotations = fmempty, om_OwnerReferences = [], om_Finalizers = []\<rparr>"

definition named_meta :: "string \<Rightarrow> string \<Rightarrow> object_meta" where
  "named_meta ns name = zero_meta\<lparr>om_Name := name, om_Namespace := ns\<rparr>"

definition ObjectKeyFromObject :: "object_meta \<Rightarrow> object_key" where
  "ObjectKeyFromObject obj = (om_Namespace obj, om_Name obj)"

lemma named_meta_simps [simp]:
  "om_Name (named_meta ns n) = n" "om_Namespace (named_meta ns n) = ns"
  "om_UID (named_meta ns n) = []" "om_OwnerReferences (named_meta ns n) = []"
  "om_Annotations (named_meta ns n) = fmempty" "om_Finalizers (named_meta ns n) = []"
  "om_Labels (named_meta ns n) = fmempty" "om_DeletionTimestamp (named_meta ns n) = None"
  by (simp_all add: named_meta_def zero_meta_def)

section \<open>The scheme\<close>

datatype api_type =
    T_CephConnection | T_CephConnectionList
  | T_ClientProfile | T_ClientProfileList
  | T_ClientProfileMapping | T_ClientProfileMappingList
  | T_OperatorConfig | T_OperatorConfigList
  | T_Driver | T_DriverList
  | T_ClientProfileReplication | T_ClientProfileReplicationList

type_synonym scheme = "api_type list"

definition GroupVersion_Group :: string where "GroupVersion_Group = ''csi.ceph.io''"
definition GroupVersion_Version :: string where "GroupVersion_Version = ''v1''"

definition addKnownTypes :: "scheme \<Rightarrow> scheme" where
  "addKnownTypes scheme = scheme @
     [T_CephConnection, T_CephConnectionList, T_ClientProfile, T_ClientProfileList,
      T_ClientProfileMapping, T_ClientProfileMappingList, T_OperatorConfig, T_OperatorConfigList,
      T_Driver, T_DriverList, T_ClientProfileReplication, T_ClientProfileReplicationList]"

fun kind_name :: "api_type \<Rightarrow> string" where
  "kind_name T_CephConnection = ''CephConnection''"
| "kind_name T_CephConnectionList = ''CephConnectionList''"
| "kind_name T_ClientProfile = ''ClientProfile''"
| "kind_name T_ClientProfileList = ''ClientProfileList''"
| "kind_name T_ClientProfileMapping = ''ClientProfileMapping''"
| "kind_name T_ClientProfileMappingList = ''ClientProfileMappingList''"
| "kind_name T_OperatorConfig = ''OperatorConfig''"
| "kind_name T_OperatorConfigList = ''OperatorConfigList''"
| "kind_name T_Driver = ''Driver''"
| "kind_name T_DriverList = ''DriverList''"
| "kind_name T_ClientProfileReplication = ''ClientProfileReplication''"
| "kind_name T_ClientProfileReplicationList = ''ClientProfileReplicationList''"

text \<open>\<open>apiutil.GVKForObject\<close>: the registered kind of a Go type, an error if it has none.\<close>

definition GVKForObject :: "api_type \<Rightarrow> scheme \<Rightarrow> (string \<times> string) result" where
  "GVKForObject t scheme =
     (if t \<in> set scheme
      then Inr (GroupVersion_Group @ ''/'' @ GroupVersion_Version, kind_name t)
      else Inl (ErrorString ''no kind is registered for the type''))"

text \<open>\<open>schema.ParseGroupVersion\<close>\<close>

definition ParseGroupVersion :: "string \<Rightarrow> (string \<times> string) result" where
  "ParseGroupVersion gv =
     (if gv = [] \<or> gv = ''/'' then Inr ([], [])
      else let n = length (filter (\<lambda>c. c = CHR ''/'') gv)
           in if n = 0 then Inr ([], gv)
              else if n = 1
                   then Inr (takeWhile (\<lambda>c. c \<noteq> CHR ''/'') gv, tl (dropWhile (\<lambda>c. c \<noteq> CHR ''/'') gv))
                   else Inl (ErrorString (''unexpected GroupVersion string: '' @ gv)))"

section \<open>Owner references and finalizers\<close>

definition referSameObject :: "owner_reference \<Rightarrow> owner_reference \<Rightarrow> bool" where
  "referSameObject a b =
     (case ParseGroupVersion (or_APIVersion a) of
        Inl _ \<Rightarrow> False
      | Inr (aGroup, _) \<Rightarrow>
          (case ParseGroupVersion (or_APIVersion b) of
             Inl _ \<Rightarrow> False
           | Inr (bGroup, _) \<Rightarrow> aGroup = bGroup \<and> or_Kind a = or_Kind b \<and> or_Name a = or_Name b))"

definition validateOwner :: "object_meta \<Rightarrow> object_meta \<Rightarrow> error" where
  "validateOwner owner object =
     (let ownerNs = om_Namespace owner
      in if ownerNs \<noteq> []
         then let objNs = om_Namespace object
              in if objNs = []
                 then Some (ErrorString ''cluster-scoped resource must not have a namespace-scoped owner'')
                 else if ownerNs \<noteq> objNs
                      then Some (ErrorString ''cross-namespace owner references are disallowed'')
                      else None
         else None)"

definition indexOwnerRef :: "owner_reference list \<Rightarrow> owner_reference \<Rightarrow> nat option" where
  "indexOwnerRef ownerReferences ref = IndexFunc ownerReferences (\<lambda>r. referSameObject r ref)"

definition upsertOwnerRef :: "owner_reference \<Rightarrow> object_meta \<Rightarrow> object_meta" where
  "upsertOwnerRef ref object =
     (let owners = om_OwnerReferences object
      in case indexOwnerRef owners ref of
           None \<Rightarrow> object\<lparr>om_OwnerReferences := owners @ [ref]\<rparr>
         | Some idx \<Rightarrow> object\<lparr>om_OwnerReferences := owners[idx := ref]\<rparr>)"

definition GetControllerOf :: "object_meta \<Rightarrow> owner_reference option" where
  "GetControllerOf controllee =
     find (\<lambda>ref. or_Controller ref = Some True) (om_OwnerReferences controllee)"

definition SetControllerReference ::
  "api_type \<Rightarrow> object_meta \<Rightarrow> object_meta \<Rightarrow> scheme \<Rightarrow> object_meta result" where
  "SetControllerReference t owner controlled scheme =
     (case validateOwner owner controlled of
        Some err \<Rightarrow> Inl err
      | None \<Rightarrow>
          (case GVKForObject t scheme of
             Inl err \<Rightarrow> Inl err
           | Inr (gv, kind) \<Rightarrow>
               let ref = \<lparr>or_APIVersion = gv, or_Kind = kind, or_Name = om_Name owner,
                          or_UID = om_UID owner, or_Controller = Some True,
                          or_BlockOwnerDeletion = Some True\<rparr>
               in case GetControllerOf controlled of
                    Some existing \<Rightarrow>
                      if \<not> referSameObject existing ref
                      then Inl (ErrorString ''already owned by another controller'')
                      else Inr (upsertOwnerRef ref controlled)
                  | None \<Rightarrow> Inr (upsertOwnerRef ref controlled)))"

definition SetOwnerReference ::
  "api_type \<Rightarrow> object_meta \<Rightarrow> object_meta \<Rightarrow> scheme \<Rightarrow> object_meta result" where
  "SetOwnerReference t owner object scheme =
     (case validateOwner owner object of
        Some err \<Rightarrow> Inl err
      | None \<Rightarrow>
          (case GVKForObject t scheme of
             Inl err \<Rightarrow> Inl err
           | Inr (gv, kind) \<Rightarrow>
               Inr (upsertOwnerRef
                 \<lparr>or_APIVersion = gv, or_Kind = kind, or_Name = om_Name owner,
                  or_UID = om_UID owner, or_Controller = None, or_BlockOwnerDeletion = None\<rparr> object)))"

definition RemoveOwnerReference ::
  "api_type \<Rightarrow> object_meta \<Rightarrow> object_meta \<Rightarrow> scheme \<Rightarrow> object_meta result" where
  "RemoveOwnerReference t owner object scheme =
     (let owners = om_OwnerReferences object
      in if length owners < 1
         then Inl (ErrorString ''object does not have any owner references'')
         else case GVKForObject t scheme of
                Inl err \<Rightarrow> Inl err
              | Inr (gv, kind) \<Rightarrow>
                  (case indexOwnerRef owners
                          \<lparr>or_APIVersion = gv, or_Kind = kind, or_Name = om_Name owner, or_UID = [],
                           or_Controller = None, or_BlockOwnerDeletion = None\<rparr> of
                     None \<Rightarrow> Inl (ErrorString ''object does not have an owner reference for the owner'')
                   | Some index \<Rightarrow>
                       Inr (object\<lparr>om_OwnerReferences := take index owners @ drop (Suc index) owners\<rparr>)))"

definition AddFinalizer :: "object_meta \<Rightarrow> string \<Rightarrow> object_meta \<times> bool" where
  "AddFinalizer obj finalizer =
     (if finalizer \<in> set (om_Finalizers obj) then (obj, False)
      else (obj\<lparr>om_Finalizers := om_Finalizers obj @ [finalizer]\<rparr>, True))"

definition RemoveFinalizer :: "object_meta \<Rightarrow> string \<Rightarrow> object_meta \<times> bool" where
  "RemoveFinalizer obj finalizer =
     (let f = om_Finalizers obj; f' = filter (\<lambda>x. x \<noteq> finalizer) f
      in (obj\<lparr>om_Finalizers := f'\<rparr>, length f \<noteq> length f'))"

section \<open>\<open>internal/utils/meta.go\<close>\<close>

definition AddAnnotation :: "object_meta \<Rightarrow> string \<Rightarrow> string \<Rightarrow> object_meta \<times> bool" where
  "AddAnnotation obj key value =
     (case fmlookup (om_Annotations obj) key of
        Some oldValue \<Rightarrow>
          if oldValue \<noteq> value
          then (obj\<lparr>om_Annotations := fmupd key value (om_Annotations obj)\<rparr>, True)
          else (obj, False)
      | None \<Rightarrow> (obj\<lparr>om_Annotations := fmupd key value (om_Annotations obj)\<rparr>, True))"

definition IsOwnedBy :: "object_meta \<Rightarrow> object_meta \<Rightarrow> bool" where
  "IsOwnedBy obj owner = list_ex (\<lambda>ref. om_UID owner = or_UID ref) (om_OwnerReferences obj)"

text \<open>The Go result is \<open>(changed, err)\<close>; the metadata of \<open>obj\<close> is mutated in place.\<close>

definition ToggleOwnerReference ::
  "bool \<Rightarrow> object_meta \<Rightarrow> api_type \<Rightarrow> object_meta \<Rightarrow> scheme \<Rightarrow> (object_meta \<times> bool) result" where
  "ToggleOwnerReference on obj t owner scheme =
     (let ownerRefExists = IsOwnedBy obj owner
      in if on
         then if \<not> ownerRefExists
              then (case SetOwnerReference t owner obj scheme of
                      Inl err \<Rightarrow> Inl err
                    | Inr obj' \<Rightarrow> Inr (obj', True))
              else Inr (obj, False)
         else if ownerRefExists
              then (case RemoveOwnerReference t owner obj scheme of
                      Inl err \<Rightarrow> Inl err
                    | Inr obj' \<Rightarrow> Inr (obj', True))
              else Inr (obj, False))"

section \<open>Facts about owner references\<close>

text \<open>
  The identity under which two references denote the same object: group, kind and name. It is
  \<open>None\<close> for a reference whose API version does not parse, which matches nothing.
\<close>

definition owner_id :: "owner_reference \<Rightarrow> (string \<times> string \<times> string) option" where
  "owner_id r =
     (case ParseGroupVersion (or_APIVersion r) of
        Inl _ \<Rightarrow> None
      | Inr (grp, _) \<Rightarrow> Some (grp, or_Kind r, or_Name r))"

lemma referSameObject_owner_id:
  "referSameObject a b \<longleftrightarrow> owner_id a = owner_id b \<and> owner_id a \<noteq> None"
  by (auto simp: referSameObject_def owner_id_def split: sum.splits prod.splits)

lemma referSameObject_refl: "owner_id r \<noteq> None \<Longrightarrow> referSameObject r r"
  by (simp add: referSameObject_owner_id)

lemma ParseGroupVersion_csi:
  "ParseGroupVersion (GroupVersion_Group @ ''/'' @ GroupVersion_Version) = Inr (''csi.ceph.io'', ''v1'')"
  by (simp add: ParseGroupVersion_def GroupVersion_Group_def GroupVersion_Version_def)

text \<open>Whether a reference denotes the owner object of a registered type.\<close>

definition refers_to :: "owner_reference \<Rightarrow> api_type \<Rightarrow> object_meta \<Rightarrow> bool" where
  "refers_to r t owner \<longleftrightarrow> owner_id r = Some (GroupVersion_Group, kind_name t, om_Name owner)"

lemma owner_id_registered:
  assumes "GVKForObject t scheme = Inr (gv, kind)"
  shows "owner_id \<lparr>or_APIVersion = gv, or_Kind = kind, or_Name = om_Name owner, or_UID = u,
           or_Controller = c, or_BlockOwnerDeletion = d\<rparr>
         = Some (GroupVersion_Group, kind_name t, om_Name owner)"
  using assms ParseGroupVersion_csi
  by (auto simp: GVKForObject_def owner_id_def GroupVersion_Group_def split: if_splits)

text \<open>Inserting a reference keeps every reference to another object, in order.\<close>

lemma upsertOwnerRef_others:
  assumes "owner_id ref \<noteq> None"
  shows "filter (\<lambda>r. owner_id r \<noteq> owner_id ref) (om_OwnerReferences (upsertOwnerRef ref obj)) =
         filter (\<lambda>r. owner_id r \<noteq> owner_id ref) (om_OwnerReferences obj)"
proof (cases "indexOwnerRef (om_OwnerReferences obj) ref")
  case (Some i)
  then obtain us r vs where s: "om_OwnerReferences obj = us @ r # vs" "length us = i"
      "referSameObject r ref"
    unfolding indexOwnerRef_def by (blast dest: IndexFunc_split)
  with Some show ?thesis
    by (simp add: upsertOwnerRef_def list_update_append referSameObject_owner_id)
qed (simp add: upsertOwnerRef_def)

lemma upsertOwnerRef_in: "ref \<in> set (om_OwnerReferences (upsertOwnerRef ref obj))"
  by (auto simp: upsertOwnerRef_def Let_def indexOwnerRef_def set_update_memI
      dest!: IndexFunc_SomeD split: option.splits)

lemma upsertOwnerRef_idem:
  assumes "owner_id ref \<noteq> None"
  shows "upsertOwnerRef ref (upsertOwnerRef ref obj) = upsertOwnerRef ref obj"
proof (cases "indexOwnerRef (om_OwnerReferences obj) ref")
  case None
  with assms show ?thesis
    by (simp add: upsertOwnerRef_def indexOwnerRef_def IndexFunc_append referSameObject_owner_id)
next
  case (Some i)
  then obtain us r vs where s: "om_OwnerReferences obj = us @ r # vs" "length us = i"
      "\<forall>u \<in> set us. \<not> referSameObject u ref"
    unfolding indexOwnerRef_def by (blast dest: IndexFunc_split)
  have "IndexFunc (us @ ref # vs) (\<lambda>r. referSameObject r ref) = Some (length us)"
    using s(3) referSameObject_refl [OF assms]
      IndexFunc_None_iff [of us "\<lambda>r. referSameObject r ref"]
    by (simp add: IndexFunc_append)
  with Some s show ?thesis by (simp add: upsertOwnerRef_def indexOwnerRef_def list_update_append)
qed

lemma upsertOwnerRef_frame [simp]:
  "om_Name (upsertOwnerRef ref obj) = om_Name obj"
  "om_Namespace (upsertOwnerRef ref obj) = om_Namespace obj"
  "om_UID (upsertOwnerRef ref obj) = om_UID obj"
  "om_Annotations (upsertOwnerRef ref obj) = om_Annotations obj"
  "om_Labels (upsertOwnerRef ref obj) = om_Labels obj"
  "om_Finalizers (upsertOwnerRef ref obj) = om_Finalizers obj"
  "om_ResourceVersion (upsertOwnerRef ref obj) = om_ResourceVersion obj"
  "om_Generation (upsertOwnerRef ref obj) = om_Generation obj"
  "om_CreationTimestamp (upsertOwnerRef ref obj) = om_CreationTimestamp obj"
  "om_DeletionTimestamp (upsertOwnerRef ref obj) = om_DeletionTimestamp obj"
  by (simp_all add: upsertOwnerRef_def Let_def split: option.splits)

text \<open>The reference the two setters write for an owner of type \<open>t\<close>.\<close>

definition ref_for :: "api_type \<Rightarrow> object_meta \<Rightarrow> bool option \<Rightarrow> owner_reference" where
  "ref_for t owner b =
     \<lparr>or_APIVersion = GroupVersion_Group @ ''/'' @ GroupVersion_Version, or_Kind = kind_name t,
      or_Name = om_Name owner, or_UID = om_UID owner, or_Controller = b, or_BlockOwnerDeletion = b\<rparr>"

lemma owner_id_ref_for [simp]:
  "owner_id (ref_for t owner b) = Some (GroupVersion_Group, kind_name t, om_Name owner)"
  unfolding ref_for_def by (rule owner_id_registered [of t "[t]"]) (simp add: GVKForObject_def)

lemma or_UID_ref_for [simp]:
  "or_UID (ref_for t owner b) = om_UID owner" "or_Controller (ref_for t owner b) = b"
  by (simp_all add: ref_for_def)

lemma SetOwnerReference_eq:
  "SetOwnerReference t owner obj scheme =
     (case validateOwner owner obj of
        Some err \<Rightarrow> Inl err
      | None \<Rightarrow>
          if t \<in> set scheme then Inr (upsertOwnerRef (ref_for t owner None) obj)
          else Inl (ErrorString ''no kind is registered for the type''))"
  by (simp add: SetOwnerReference_def GVKForObject_def ref_for_def split: option.splits)

lemma SetControllerReference_eq:
  "SetControllerReference t owner obj scheme =
     (case validateOwner owner obj of
        Some err \<Rightarrow> Inl err
      | None \<Rightarrow>
          if t \<notin> set scheme then Inl (ErrorString ''no kind is registered for the type'')
          else case GetControllerOf obj of
                 Some existing \<Rightarrow>
                   if \<not> refers_to existing t owner
                   then Inl (ErrorString ''already owned by another controller'')
                   else Inr (upsertOwnerRef (ref_for t owner (Some True)) obj)
               | None \<Rightarrow> Inr (upsertOwnerRef (ref_for t owner (Some True)) obj))"
  using owner_id_ref_for [of t owner "Some True"]
  by (auto simp: SetControllerReference_def GVKForObject_def ref_for_def Let_def refers_to_def
      referSameObject_owner_id split: option.splits)

lemma SetControllerReference_InrD:
  assumes "SetControllerReference t owner obj scheme = Inr obj'"
  shows "obj' = upsertOwnerRef (ref_for t owner (Some True)) obj"
    and "validateOwner owner obj = None" and "t \<in> set scheme"
    and "GetControllerOf obj = Some existing \<Longrightarrow> refers_to existing t owner"
  using assms by (auto simp: SetControllerReference_eq split: option.splits if_splits)

lemma validateOwner_upsert [simp]:
  "validateOwner owner (upsertOwnerRef ref obj) = validateOwner owner obj"
  by (simp add: validateOwner_def)

lemma find_split:
  "find P xs = Some x \<Longrightarrow> \<exists>us vs. xs = us @ x # vs \<and> P x \<and> (\<forall>u \<in> set us. \<not> P u)"
proof (induction xs)
  case (Cons y ys)
  show ?case
  proof (cases "P y")
    case True
    with Cons.prems show ?thesis by (metis append_Nil empty_iff empty_set find.simps(2) option.inject)
  next
    case False
    with Cons obtain us vs where "ys = us @ x # vs" "P x" "\<forall>u \<in> set us. \<not> P u" by auto
    with False show ?thesis by (intro exI [of _ "y # us"] exI [of _ vs]) auto
  qed
qed simp

lemma find_Some_append_first:
  "P x \<Longrightarrow> \<forall>u \<in> set us. \<not> P u \<Longrightarrow> find P (us @ x # vs) = Some x"
  by (induction us) auto

text \<open>After a successful call the owner is the controller of the object.\<close>

lemma GetControllerOf_set:
  assumes ok: "SetControllerReference t owner obj scheme = Inr obj'"
  shows "GetControllerOf obj' = Some (ref_for t owner (Some True))"
proof -
  let ?ref = "ref_for t owner (Some True)" and ?refs = "om_OwnerReferences obj"
  let ?ctl = "\<lambda>r. or_Controller r = Some True" and ?same = "\<lambda>r. referSameObject r ?ref"
  note D = SetControllerReference_InrD [OF ok]
  have none: "find ?ctl us = None" if "?refs = us @ r # vs" "\<forall>u \<in> set us. \<not> ?same u" for us r vs
  proof (rule ccontr)
    assume "find ?ctl us \<noteq> None"
    then obtain e where e: "find ?ctl us = Some e" by auto
    with that(1) have "GetControllerOf obj = Some e" by (simp add: GetControllerOf_def find_append)
    then have "?same e" using D(4) by (simp add: refers_to_def referSameObject_owner_id)
    with that(2) e show False by (auto dest: find_split)
  qed
  show ?thesis
  proof (cases "indexOwnerRef ?refs ?ref")
    case None
    then have no: "\<forall>r \<in> set ?refs. \<not> ?same r" by (simp add: indexOwnerRef_def IndexFunc_None_iff)
    then have "GetControllerOf obj = None"
      using D(4) by (cases "GetControllerOf obj")
        (auto simp: GetControllerOf_def refers_to_def referSameObject_owner_id dest!: find_split)
    with None show ?thesis by (simp add: D(1) GetControllerOf_def upsertOwnerRef_def find_append)
  next
    case (Some i)
    then obtain us r vs where s: "?refs = us @ r # vs" "length us = i" "\<forall>u \<in> set us. \<not> ?same u"
      unfolding indexOwnerRef_def by (blast dest: IndexFunc_split)
    with none [OF s(1,3)] Some show ?thesis
      by (simp add: D(1) GetControllerOf_def upsertOwnerRef_def list_update_append find_append)
  qed
qed

lemma SetControllerReference_idem:
  assumes ok: "SetControllerReference t owner obj scheme = Inr obj'"
  shows "SetControllerReference t owner obj' scheme = Inr obj'"
  using SetControllerReference_InrD [OF ok] GetControllerOf_set [OF ok]
    upsertOwnerRef_idem [of "ref_for t owner (Some True)" obj]
  by (simp add: SetControllerReference_eq refers_to_def)

lemma SetControllerReference_frame:
  assumes "SetControllerReference t owner obj scheme = Inr obj'"
  shows "ObjectKeyFromObject obj' = ObjectKeyFromObject obj" "om_UID obj' = om_UID obj"
    "om_Annotations obj' = om_Annotations obj" "om_Labels obj' = om_Labels obj"
    "om_Finalizers obj' = om_Finalizers obj"
  using SetControllerReference_InrD(1) [OF assms] by (simp_all add: ObjectKeyFromObject_def)

section \<open>Facts about \<open>ToggleOwnerReference\<close>\<close>

text \<open>
  The function looks an owner up by UID but adds and removes references by group, kind and
  name. The two views agree when the stored references are coherent: a reference carries the
  owner's UID exactly when it names the owner, and no object is named twice.
\<close>

definition refs_coherent :: "api_type \<Rightarrow> object_meta \<Rightarrow> object_meta \<Rightarrow> bool" where
  "refs_coherent t owner obj \<longleftrightarrow>
     (\<forall>r \<in> set (om_OwnerReferences obj). or_UID r = om_UID owner \<longleftrightarrow> refers_to r t owner) \<and>
     length (filter (\<lambda>r. refers_to r t owner) (om_OwnerReferences obj)) \<le> 1"

lemma IsOwnedBy_iff: "IsOwnedBy obj owner \<longleftrightarrow> (\<exists>r \<in> set (om_OwnerReferences obj). or_UID r = om_UID owner)"
  by (simp add: IsOwnedBy_def list_ex_iff eq_commute [of "om_UID owner"])

lemma IsOwnedBy_coherent:
  "refs_coherent t owner obj \<Longrightarrow>
     IsOwnedBy obj owner \<longleftrightarrow> (\<exists>r \<in> set (om_OwnerReferences obj). refers_to r t owner)"
  by (auto simp: IsOwnedBy_iff refs_coherent_def)

lemma toggle_on_idem:
  assumes "ToggleOwnerReference True obj t owner scheme = Inr (obj', ch)"
  shows "IsOwnedBy obj' owner"
    and "ToggleOwnerReference True obj' t owner scheme = Inr (obj', False)"
proof -
  show owned: "IsOwnedBy obj' owner"
    using assms upsertOwnerRef_in [of "ref_for t owner None" obj] or_UID_ref_for(1) [of t owner None]
    by (auto simp: ToggleOwnerReference_def SetOwnerReference_eq IsOwnedBy_iff
        split: if_splits option.splits intro: bexI [of _ "ref_for t owner None"])
  then show "ToggleOwnerReference True obj' t owner scheme = Inr (obj', False)"
    by (simp add: ToggleOwnerReference_def)
qed

lemma toggle_frame:
  assumes "ToggleOwnerReference on obj t owner scheme = Inr (obj', ch)"
  shows "ObjectKeyFromObject obj' = ObjectKeyFromObject obj" "om_UID obj' = om_UID obj"
    "om_Annotations obj' = om_Annotations obj" "om_Labels obj' = om_Labels obj"
    "om_Finalizers obj' = om_Finalizers obj" "om_ResourceVersion obj' = om_ResourceVersion obj"
    "om_DeletionTimestamp obj' = om_DeletionTimestamp obj"
  using assms
  by (auto simp: ToggleOwnerReference_def SetOwnerReference_eq RemoveOwnerReference_def
      ObjectKeyFromObject_def split: if_splits option.splits sum.splits prod.splits)

lemma remove_single:
  assumes one: "length (filter P (us @ r # vs)) \<le> 1" and r: "P r"
  shows "filter P (us @ vs) = []" and "filter (\<lambda>x. \<not> P x) (us @ vs) = filter (\<lambda>x. \<not> P x) (us @ r # vs)"
  using assms by auto

lemma RemoveOwnerReference_coherent:
  assumes coh: "refs_coherent t owner obj" and own: "IsOwnedBy obj owner" and reg: "t \<in> set scheme"
  shows "\<exists>obj'. RemoveOwnerReference t owner obj scheme = Inr obj' \<and> \<not> IsOwnedBy obj' owner \<and>
           filter (\<lambda>r. \<not> refers_to r t owner) (om_OwnerReferences obj') =
           filter (\<lambda>r. \<not> refers_to r t owner) (om_OwnerReferences obj)"
proof -
  let ?refs = "om_OwnerReferences obj" and ?P = "\<lambda>r. refers_to r t owner"
  let ?ref = "(ref_for t owner None)\<lparr>or_UID := []\<rparr>"
  have id: "owner_id ?ref = Some (GroupVersion_Group, kind_name t, om_Name owner)"
    using owner_id_ref_for [of t owner None]
    by (auto simp: owner_id_def split: sum.splits prod.splits)
  have same: "(\<lambda>r. referSameObject r ?ref) = ?P"
    using id by (auto simp: referSameObject_owner_id refers_to_def)
  from own coh have "\<exists>r \<in> set ?refs. ?P r" by (simp add: IsOwnedBy_coherent)
  then obtain i where i: "IndexFunc ?refs ?P = Some i"
    using IndexFunc_None_iff [of ?refs ?P] by (cases "IndexFunc ?refs ?P") auto
  then obtain us r vs where s: "?refs = us @ r # vs" "length us = i" "?P r"
    by (blast dest: IndexFunc_split)
  let ?obj' = "obj\<lparr>om_OwnerReferences := us @ vs\<rparr>"
  have one: "length (filter ?P (us @ r # vs)) \<le> 1" using coh s(1) by (simp add: refs_coherent_def)
  have "?refs \<noteq> []" using s(1) by simp
  moreover have "indexOwnerRef ?refs ?ref = Some i" unfolding indexOwnerRef_def same by (rule i)
  ultimately have rm: "RemoveOwnerReference t owner obj scheme = Inr ?obj'"
    using reg s by (simp add: RemoveOwnerReference_def GVKForObject_def ref_for_def)
  have "\<not> IsOwnedBy ?obj' owner"
    using remove_single(1) [OF one s(3)] coh s(1)
    by (auto simp: IsOwnedBy_iff refs_coherent_def filter_empty_conv)
  with rm remove_single(2) [OF one s(3)] s(1) show ?thesis by simp
qed

lemma RemoveOwnerReference_InrD:
  "RemoveOwnerReference t owner obj scheme = Inr obj' \<Longrightarrow>
     \<exists>i. obj' = obj\<lparr>om_OwnerReferences := take i (om_OwnerReferences obj) @ drop (Suc i) (om_OwnerReferences obj)\<rparr>"
  by (auto simp: RemoveOwnerReference_def split: if_splits option.splits sum.splits)

lemma coherent_add:
  assumes coh: "refs_coherent t owner obj" and new: "\<not> IsOwnedBy obj owner"
  shows "refs_coherent t owner (upsertOwnerRef (ref_for t owner None) obj)"
proof -
  from assms have none: "\<forall>r \<in> set (om_OwnerReferences obj). \<not> refers_to r t owner"
    by (simp add: IsOwnedBy_coherent)
  then have "indexOwnerRef (om_OwnerReferences obj) (ref_for t owner None) = None"
    by (simp add: indexOwnerRef_def IndexFunc_None_iff referSameObject_owner_id refers_to_def)
  with coh none show ?thesis
    by (simp add: refs_coherent_def upsertOwnerRef_def refers_to_def filter_empty_conv)
qed

lemma coherent_drop:
  assumes coh: "refs_coherent t owner obj"
  shows "refs_coherent t owner
    (obj\<lparr>om_OwnerReferences := take i (om_OwnerReferences obj) @ drop (Suc i) (om_OwnerReferences obj)\<rparr>)"
proof -
  let ?P = "\<lambda>r. refers_to r t owner" and ?refs = "om_OwnerReferences obj"
  have "length (filter ?P (drop (Suc i) ?refs)) \<le> length (filter ?P (drop i ?refs))"
    by (cases "drop i ?refs") (simp_all add: drop_Suc drop_tl)
  moreover have "length (filter ?P (take i ?refs)) + length (filter ?P (drop i ?refs)) = length (filter ?P ?refs)"
    by (metis append_take_drop_id filter_append length_append)
  ultimately show ?thesis
    using coh by (auto simp: refs_coherent_def dest: in_set_takeD in_set_dropD)
qed

lemma toggle_coherent:
  assumes coh: "refs_coherent t owner obj" and tog: "ToggleOwnerReference on obj t owner scheme = Inr (obj', ch)"
  shows "refs_coherent t owner obj'"
proof (cases "IsOwnedBy obj owner = on")
  case True
  with tog coh show ?thesis by (simp add: ToggleOwnerReference_def split: if_splits)
next
  case False
  show ?thesis
  proof (cases on)
    case True
    with tog False have "SetOwnerReference t owner obj scheme = Inr obj'"
      by (simp add: ToggleOwnerReference_def split: sum.splits)
    with True False coherent_add [OF coh] show ?thesis
      by (simp add: SetOwnerReference_eq split: option.splits if_splits)
  next
    case off: False
    with tog False have "RemoveOwnerReference t owner obj scheme = Inr obj'"
      by (simp add: ToggleOwnerReference_def split: sum.splits)
    with coherent_drop [OF coh] show ?thesis by (blast dest: RemoveOwnerReference_InrD)
  qed
qed

lemma toggle_idem:
  assumes coh: "refs_coherent t owner obj" and tog: "ToggleOwnerReference on obj t owner scheme = Inr (obj', ch)"
  shows "IsOwnedBy obj' owner \<longleftrightarrow> on" and "ToggleOwnerReference on obj' t owner scheme = Inr (obj', False)"
proof -
  show owned: "IsOwnedBy obj' owner \<longleftrightarrow> on"
  proof (cases on)
    case True
    then show ?thesis using tog toggle_on_idem(1) [of obj t owner scheme obj' ch] by simp
  next
    case False
    show ?thesis
    proof (cases "IsOwnedBy obj owner")
      case True
      then have reg: "t \<in> set scheme"
        using tog False
        by (auto simp: ToggleOwnerReference_def RemoveOwnerReference_def GVKForObject_def split: if_splits)
      from RemoveOwnerReference_coherent [OF coh True reg] tog False True show ?thesis
        by (auto simp: ToggleOwnerReference_def)
    qed (use tog False in \<open>auto simp: ToggleOwnerReference_def\<close>)
  qed
  then show "ToggleOwnerReference on obj' t owner scheme = Inr (obj', False)"
    by (simp add: ToggleOwnerReference_def)
qed

text \<open>
  C36. Toggling an owner reference on coherent metadata always succeeds: afterwards the object is
  owned by the owner exactly when the toggle was on, the result says whether anything
  changed, and the references to all other objects are what they were, in order.
\<close>

theorem toggle_owner_reference_spec:
  assumes coh: "refs_coherent t owner obj" and reg: "t \<in> set scheme"
    and ns: "om_Namespace obj = om_Namespace owner"
  shows "\<exists>obj'. ToggleOwnerReference on obj t owner scheme = Inr (obj', IsOwnedBy obj owner \<noteq> on) \<and>
           (IsOwnedBy obj' owner \<longleftrightarrow> on) \<and>
           filter (\<lambda>r. \<not> refers_to r t owner) (om_OwnerReferences obj') =
           filter (\<lambda>r. \<not> refers_to r t owner) (om_OwnerReferences obj)"
proof (cases "IsOwnedBy obj owner = on")
  case True
  then show ?thesis by (auto simp: ToggleOwnerReference_def)
next
  case False
  show ?thesis
  proof (cases on)
    case True
    let ?obj' = "upsertOwnerRef (ref_for t owner None) obj"
    have "validateOwner owner obj = None" using ns by (simp add: validateOwner_def)
    then have t: "ToggleOwnerReference on obj t owner scheme = Inr (?obj', True)"
      using True False reg by (simp add: ToggleOwnerReference_def SetOwnerReference_eq)
    then have "IsOwnedBy ?obj' owner" using toggle_on_idem(1) [of obj t owner scheme] True by simp
    moreover have "filter (\<lambda>r. \<not> refers_to r t owner) (om_OwnerReferences ?obj') =
        filter (\<lambda>r. \<not> refers_to r t owner) (om_OwnerReferences obj)"
      using upsertOwnerRef_others [of "ref_for t owner None" obj] by (simp add: refers_to_def)
    ultimately show ?thesis using t True False by auto
  next
    case off: False
    with False RemoveOwnerReference_coherent [OF coh _ reg] show ?thesis
      by (auto simp: ToggleOwnerReference_def)
  qed
qed

theorem toggle_owner_reference_spec_witness:
  "\<exists>obj'. ToggleOwnerReference False
       ((named_meta ''ns'' ''cm'')\<lparr>om_OwnerReferences :=
          [ref_for T_Driver ((named_meta ''ns'' ''d'')\<lparr>om_UID := ''u1''\<rparr>) None,
           ref_for T_ClientProfile ((named_meta ''ns'' ''p'')\<lparr>om_UID := ''u2''\<rparr>) None]\<rparr>)
       T_ClientProfile ((named_meta ''ns'' ''p'')\<lparr>om_UID := ''u2''\<rparr>) (addKnownTypes []) = Inr (obj', True) \<and>
     filter (\<lambda>r. \<not> refers_to r T_ClientProfile (named_meta ''ns'' ''p'')) (om_OwnerReferences obj') =
       [ref_for T_Driver ((named_meta ''ns'' ''d'')\<lparr>om_UID := ''u1''\<rparr>) None]"
proof -
  let ?p = "(named_meta ''ns'' ''p'')\<lparr>om_UID := ''u2''\<rparr>"
  let ?o = "(named_meta ''ns'' ''cm'')\<lparr>om_OwnerReferences :=
          [ref_for T_Driver ((named_meta ''ns'' ''d'')\<lparr>om_UID := ''u1''\<rparr>) None,
           ref_for T_ClientProfile ?p None]\<rparr>"
  have coh: "refs_coherent T_ClientProfile ?p ?o" by (simp add: refs_coherent_def refers_to_def)
  have reg: "T_ClientProfile \<in> set (addKnownTypes [])" by (simp add: addKnownTypes_def)
  have own: "IsOwnedBy ?o ?p" by (simp add: IsOwnedBy_def)
  show ?thesis
    using toggle_owner_reference_spec [OF coh reg, of False] own by (auto simp: refers_to_def)
qed

end
