(* ===== verification/Kube_Client.thy ===== *)
theory Kube_Client
  imports Utils_Meta
begin

text \<open>
  The client through which the controllers reach the API server, and controller-runtime's
  \<open>CreateOrUpdate\<close> on top of it.

  The server is not part of the sources. A kind's client is a record of functions, a parameter
  of every definition that uses it; each request takes the world and returns an answer and the
  next world, so a request can fail at any point and other clients can act between two
  requests. What a property needs of the server is the locale \<open>kube_api\<close> (documented behaviour of
  successful and failed requests); \<open>mem_api\<close> is an in-memory store that satisfies it, in the
  role the fake client has in the repository's tests.

  The locale \<open>mutator\<close> is the contract of the functions passed to \<open>CreateOrUpdate\<close>: they
  do not rename the object and, on objects in a \<open>good\<close> state, applying them twice is applying
  them once. Its lemmas say that
  an object already in its desired state is not written again, and that a failing mutation
  writes nothing. Every reconciler interprets it.
\<close>

section \<open>The client of one kind of object\<close>

record list_options =
  lo_Namespace :: string                          \<comment> \<open>\<open>client.InNamespace\<close>; empty for all\<close>
  lo_MatchingField :: "(string \<times> string) option"  \<comment> \<open>\<open>client.MatchingFields\<close>\<close>

record ('w, 'o) api =
  api_Get :: "object_key \<Rightarrow> 'w \<Rightarrow> 'o result \<times> 'w"
  api_List :: "list_options \<Rightarrow> 'w \<Rightarrow> 'o list result \<times> 'w"
  api_Create :: "'o \<Rightarrow> 'w \<Rightarrow> 'o result \<times> 'w"
  api_Update :: "'o \<Rightarrow> 'w \<Rightarrow> 'o result \<times> 'w"
  api_StatusUpdate :: "'o \<Rightarrow> 'w \<Rightarrow> 'o result \<times> 'w"
  api_Delete :: "'o \<Rightarrow> 'w \<Rightarrow> error \<times> 'w"

section \<open>\<open>controllerutil.CreateOrUpdate\<close>\<close>

datatype OperationResult =
  OperationResultNone | OperationResultCreated | OperationResultUpdated

text \<open>
  A \<open>MutateFn\<close> changes the object in place and may itself issue requests. It is modelled as
  a program from the object before to the object after or an error.
\<close>

type_synonym ('w, 'o) mutate_fn = "'o \<Rightarrow> ('w, 'o result) m"

definition mutate ::
  "('o \<Rightarrow> object_meta) \<Rightarrow> ('w, 'o) mutate_fn \<Rightarrow> object_key \<Rightarrow> ('w, 'o) mutate_fn" where
  "mutate meta f key obj =
     bind_m (f obj) (\<lambda>r. Ret (case r of
         Inl err \<Rightarrow> Inl err
       | Inr obj' \<Rightarrow>
           let newKey = ObjectKeyFromObject (meta obj')
           in if key \<noteq> newKey
              then Inl (ErrorString ''MutateFn cannot mutate object name and/or object namespace'')
              else Inr obj'))"

text \<open>
  The result is the operation, the error and the object as the caller's pointer holds it
  afterwards. \<open>equality.Semantic.DeepEqual\<close> identifies nil with empty slices and maps; the
  object types here do too, so it is equality.
\<close>

definition CreateOrUpdate ::
  "('o \<Rightarrow> object_meta) \<Rightarrow> ('w, 'o) api \<Rightarrow> 'o \<Rightarrow> ('w, 'o) mutate_fn \<Rightarrow>
   ('w, OperationResult \<times> error \<times> 'o) m" where
  "CreateOrUpdate meta c obj f =
     (let key = ObjectKeyFromObject (meta obj)
      in bind_m (call (api_Get c key)) (\<lambda>r.
         case r of
           Inl err \<Rightarrow>
             if \<not> IsNotFound err then Ret (OperationResultNone, Some err, obj)
             else bind_m (mutate meta f key obj) (\<lambda>r.
                  case r of
                    Inl err \<Rightarrow> Ret (OperationResultNone, Some err, obj)
                  | Inr obj' \<Rightarrow>
                      bind_m (call (api_Create c obj')) (\<lambda>r.
                      case r of
                        Inl err \<Rightarrow> Ret (OperationResultNone, Some err, obj')
                      | Inr obj'' \<Rightarrow> Ret (OperationResultCreated, None, obj'')))
         | Inr existing \<Rightarrow>
             bind_m (mutate meta f key existing) (\<lambda>r.
             case r of
               Inl err \<Rightarrow> Ret (OperationResultNone, Some err, existing)
             | Inr obj' \<Rightarrow>
                 if existing = obj' then Ret (OperationResultNone, None, obj')
                 else bind_m (call (api_Update c obj')) (\<lambda>r.
                      case r of
                        Inl err \<Rightarrow> Ret (OperationResultNone, Some err, obj')
                      | Inr obj'' \<Rightarrow> Ret (OperationResultUpdated, None, obj'')))))"

text \<open>A mutation that issues no request.\<close>

definition pure_mut :: "('o \<Rightarrow> 'o result) \<Rightarrow> ('w, 'o) mutate_fn" where
  "pure_mut f = (\<lambda>obj. Ret (f obj))"

text \<open>
  The same three outcomes for a mutation that issues requests: nothing to do, a failure, and an
  object to send.
\<close>

lemma CreateOrUpdate_unchanged:
  assumes "api_Get c (ObjectKeyFromObject (meta obj)) w = (Inr existing, w1)"
    and "run_m (f existing) w1 = (Inr existing, w2)"
    and "ObjectKeyFromObject (meta existing) = ObjectKeyFromObject (meta obj)"
  shows "run_m (CreateOrUpdate meta c obj f) w = ((OperationResultNone, None, existing), w2)"
  using assms by (simp add: CreateOrUpdate_def mutate_def)

lemma CreateOrUpdate_failing:
  assumes "api_Get c (ObjectKeyFromObject (meta obj)) w = (Inr existing, w1)"
    and "run_m (f existing) w1 = (Inl err, w2)"
  shows "run_m (CreateOrUpdate meta c obj f) w = ((OperationResultNone, Some err, existing), w2)"
  using assms by (simp add: CreateOrUpdate_def mutate_def)

section \<open>The contract of mutations\<close>

locale mutator =
  fixes meta :: "'o \<Rightarrow> object_meta"
    and mut :: "'o \<Rightarrow> 'o result"
    and good :: "'o \<Rightarrow> bool"
  assumes mut_key: "mut obj = Inr obj' \<Longrightarrow> ObjectKeyFromObject (meta obj') = ObjectKeyFromObject (meta obj)"
    and mut_idem: "good obj \<Longrightarrow> mut obj = Inr obj' \<Longrightarrow> mut obj' = Inr obj'"
    and mut_good: "good obj \<Longrightarrow> mut obj = Inr obj' \<Longrightarrow> good obj'"
begin

lemma run_mutate:
  "run_m (mutate meta (pure_mut mut) (ObjectKeyFromObject (meta obj)) obj) w = (mut obj, w)"
  using mut_key by (cases "mut obj") (simp_all add: mutate_def pure_mut_def)

text \<open>An object that is already the result of the mutation is read and not written.\<close>

lemma unchanged:
  assumes "api_Get c (ObjectKeyFromObject (meta obj)) w = (Inr existing, w')"
    and "mut existing = Inr existing"
    and "ObjectKeyFromObject (meta existing) = ObjectKeyFromObject (meta obj)"
  shows "run_m (CreateOrUpdate meta c obj (pure_mut mut)) w = ((OperationResultNone, None, existing), w')"
  using assms run_mutate [of existing w'] by (simp add: CreateOrUpdate_def)

lemma settled:
  assumes "api_Get c (ObjectKeyFromObject (meta obj)) w = (Inr existing, w')"
    and "good earlier" and "mut earlier = Inr existing"
    and "ObjectKeyFromObject (meta existing) = ObjectKeyFromObject (meta obj)"
  shows "run_m (CreateOrUpdate meta c obj (pure_mut mut)) w = ((OperationResultNone, None, existing), w')"
  using unchanged [OF assms(1) _ assms(4)] mut_idem [OF assms(2,3)] by blast

text \<open>A mutation that fails leaves the world as the read left it.\<close>

lemma failing:
  assumes "api_Get c (ObjectKeyFromObject (meta obj)) w = (Inr existing, w')"
    and "mut existing = Inl err"
    and "ObjectKeyFromObject (meta existing) = ObjectKeyFromObject (meta obj)"
  shows "run_m (CreateOrUpdate meta c obj (pure_mut mut)) w =
           ((OperationResultNone, Some err, existing), w')"
  using assms run_mutate [of existing w'] by (simp add: CreateOrUpdate_def)

text \<open>Otherwise the object that is sent is the mutated one.\<close>

lemma creating:
  assumes "api_Get c (ObjectKeyFromObject (meta obj)) w = (Inl NotFound, w')"
    and "mut obj = Inr obj'"
  shows "run_m (CreateOrUpdate meta c obj (pure_mut mut)) w =
           (case api_Create c obj' w' of
              (Inl err, w'') \<Rightarrow> ((OperationResultNone, Some err, obj'), w'')
            | (Inr obj'', w'') \<Rightarrow> ((OperationResultCreated, None, obj''), w''))"
  using assms run_mutate [of obj w']
  by (simp add: CreateOrUpdate_def IsNotFound_def split: sum.splits prod.splits)

lemma updating:
  assumes "api_Get c (ObjectKeyFromObject (meta obj)) w = (Inr existing, w')"
    and "mut existing = Inr obj'" and "existing \<noteq> obj'"
    and "ObjectKeyFromObject (meta existing) = ObjectKeyFromObject (meta obj)"
  shows "run_m (CreateOrUpdate meta c obj (pure_mut mut)) w =
           (case api_Update c obj' w' of
              (Inl err, w'') \<Rightarrow> ((OperationResultNone, Some err, obj'), w'')
            | (Inr obj'', w'') \<Rightarrow> ((OperationResultUpdated, None, obj''), w''))"
  using assms run_mutate [of existing w']
  by (simp add: CreateOrUpdate_def split: sum.splits prod.splits)

end

section \<open>The contract of the API server\<close>

text \<open>
  \<open>view w k\<close> is the stored object; \<open>content\<close> is the part of an object that the server
  stores as it was sent (it fills in the UID, the resource version and similar fields itself).
  Reads are taken to be current. Any request may fail, and a failed request changes nothing.
\<close>

locale kube_api =
  fixes api :: "('w, 'o) api"
    and meta :: "'o \<Rightarrow> object_meta"
    and view :: "'w \<Rightarrow> object_key \<Rightarrow> 'o option"
    and content :: "'o \<Rightarrow> 'c"
  assumes get_frame: "api_Get api k w = (r, w') \<Longrightarrow> view w' = view w"
    and get_found:
      "api_Get api k w = (Inr obj, w') \<Longrightarrow> view w k = Some obj \<and> ObjectKeyFromObject (meta obj) = k"
    and get_missing: "api_Get api k w = (Inl NotFound, w') \<Longrightarrow> view w k = None"
    and create_ok:
      "api_Create api obj w = (Inr obj', w') \<Longrightarrow>
         view w' = (view w)(ObjectKeyFromObject (meta obj) \<mapsto> obj') \<and> content obj' = content obj \<and>
         om_UID (meta obj') \<noteq> []"
    and create_fail: "api_Create api obj w = (Inl e, w') \<Longrightarrow> view w' = view w"
    and update_ok:
      "api_Update api obj w = (Inr obj', w') \<Longrightarrow>
         content obj' = content obj \<and>
         (\<forall>k. k \<noteq> ObjectKeyFromObject (meta obj) \<longrightarrow> view w' k = view w k) \<and>
         (om_DeletionTimestamp (meta obj) = None \<longrightarrow>
            view w' (ObjectKeyFromObject (meta obj)) = Some obj')"
    and update_fail: "api_Update api obj w = (Inl e, w') \<Longrightarrow> view w' = view w"
    and delete_frame:
      "api_Delete api obj w = (d, w') \<Longrightarrow> k \<noteq> ObjectKeyFromObject (meta obj) \<Longrightarrow> view w' k = view w k"
    and delete_ok:
      "api_Delete api obj w = (None, w') \<Longrightarrow> view w (ObjectKeyFromObject (meta obj)) = Some stored \<Longrightarrow>
         om_Finalizers (meta stored) = [] \<Longrightarrow> view w' (ObjectKeyFromObject (meta obj)) = None"
    and delete_missing:
      "api_Delete api obj w = (Some NotFound, w') \<Longrightarrow> view w' (ObjectKeyFromObject (meta obj)) = None"
    and delete_absent:
      "api_Delete api obj w = (None, w') \<Longrightarrow> view w (ObjectKeyFromObject (meta obj)) = None \<Longrightarrow>
         view w' (ObjectKeyFromObject (meta obj)) = None"
    and delete_fail: "api_Delete api obj w = (Some e, w') \<Longrightarrow> view w' = view w"

text \<open>A mutation and a server together: what a successful \<open>CreateOrUpdate\<close> leaves behind.\<close>

locale mutator_on_api = kube_api api meta view content + mutator meta mut good
  for api :: "('w, 'o) api" and meta and view and content :: "'o \<Rightarrow> 'c" and mut and good +
  assumes mut_alive: "mut obj = Inr obj' \<Longrightarrow>
    om_DeletionTimestamp (meta obj') = om_DeletionTimestamp (meta obj)"
begin

text \<open>The state the mutation starts from: the stored object, or the blank one.\<close>

definition before :: "'w \<Rightarrow> 'o \<Rightarrow> 'o" where
  "before w obj = (case view w (ObjectKeyFromObject (meta obj)) of None \<Rightarrow> obj | Some stored \<Rightarrow> stored)"

lemma apply_error:
  assumes "run_m (CreateOrUpdate meta api obj (pure_mut mut)) w = ((res, Some err, obj'), w')"
  shows "view w' = view w"
proof -
  let ?k = "ObjectKeyFromObject (meta obj)"
  obtain r w1 where g: "api_Get api ?k w = (r, w1)" by fastforce
  note v1 = get_frame [OF g]
  show ?thesis
  proof (cases r)
    case (Inl e)
    show ?thesis
    proof (cases "e = NotFound")
      case True
      show ?thesis
      proof (cases "mut obj")
        case (Inl e')
        with g True \<open>r = Inl e\<close> assms run_mutate [of obj w1] v1 show ?thesis
          by (simp add: CreateOrUpdate_def IsNotFound_def)
      next
        case (Inr o1)
        with creating [of api obj w w1 o1] g True \<open>r = Inl e\<close> assms v1 show ?thesis
          by (auto split: prod.splits sum.splits dest: create_fail)
      qed
    next
      case False
      with g Inl assms v1 show ?thesis by (simp add: CreateOrUpdate_def IsNotFound_def)
    qed
  next
    case (Inr ex)
    with g get_found have k: "ObjectKeyFromObject (meta ex) = ?k" by blast
    show ?thesis
    proof (cases "mut ex")
      case (Inl e')
      with failing [OF g [unfolded Inr] Inl k] assms v1 show ?thesis by auto
    next
      case m: (Inr o1)
      show ?thesis
      proof (cases "ex = o1")
        case True
        with unchanged [OF g [unfolded Inr] _ k] m assms show ?thesis by auto
      next
        case False
        with updating [OF g [unfolded Inr] m False k] assms v1 show ?thesis
          by (auto split: prod.splits sum.splits dest: update_fail)
      qed
    qed
  qed
qed

lemma apply_ok:
  assumes run: "run_m (CreateOrUpdate meta api obj (pure_mut mut)) w = ((res, None, obj'), w')"
    and alive: "om_DeletionTimestamp (meta (before w obj)) = None"
  shows "\<exists>sent. mut (before w obj) = Inr sent \<and> content obj' = content sent \<and>
           view w' = (view w)(ObjectKeyFromObject (meta obj) \<mapsto> obj')"
proof -
  let ?k = "ObjectKeyFromObject (meta obj)"
  obtain r w1 where g: "api_Get api ?k w = (r, w1)" by fastforce
  note v1 = get_frame [OF g]
  show ?thesis
  proof (cases r)
    case (Inl e)
    with g run have e: "e = NotFound"
      by (cases "e = NotFound") (simp_all add: CreateOrUpdate_def IsNotFound_def)
    with g Inl get_missing have b: "before w obj = obj" by (simp add: before_def)
    obtain sent where m: "mut obj = Inr sent"
      using g Inl e run run_mutate [of obj w1]
      by (cases "mut obj") (simp_all add: CreateOrUpdate_def IsNotFound_def)
    with creating [of api obj w w1 sent] g Inl e run
    have "api_Create api sent w1 = (Inr obj', w')" by (auto split: prod.splits sum.splits)
    from create_ok [OF this] mut_key [OF m] m b v1 show ?thesis by auto
  next
    case (Inr ex)
    with g get_found have ex: "view w ?k = Some ex" "ObjectKeyFromObject (meta ex) = ?k" by blast+
    then have b: "before w obj = ex" by (simp add: before_def)
    obtain sent where m: "mut ex = Inr sent"
      using failing [OF g [unfolded Inr] _ ex(2)] run by (cases "mut ex") auto
    show ?thesis
    proof (cases "ex = sent")
      case True
      with unchanged [OF g [unfolded Inr] _ ex(2)] m run have "obj' = ex" "w' = w1" by auto
      with True m b ex v1 show ?thesis by (auto simp: fun_upd_idem)
    next
      case False
      with updating [OF g [unfolded Inr] m False ex(2)] run
      have u: "api_Update api sent w1 = (Inr obj', w')" by (auto split: prod.splits sum.splits)
      have k: "ObjectKeyFromObject (meta sent) = ?k" using mut_key [OF m] ex(2) by simp
      have "om_DeletionTimestamp (meta sent) = None" using mut_alive [OF m] alive b by simp
      with update_ok [OF u] k m b v1 show ?thesis by (auto simp: fun_eq_iff)
    qed
  qed
qed

end

section \<open>An in-memory server\<close>

text \<open>
  A store of one kind: the objects, a counter for UIDs and resource versions, and a script of
  requests that fail. \<open>gt\<close> and \<open>pt\<close> place the store inside a larger world; \<open>put_status\<close>
  copies the status from its first to its second argument; \<open>idx\<close> is the registered
  field indexer.
\<close>

record 'o mem =
  mem_objs :: "'o list"
  mem_next :: nat
  mem_faults :: "string option list"

definition empty_mem :: "'o mem" where
  "empty_mem = \<lparr>mem_objs = [], mem_next = 1, mem_faults = []\<rparr>"

definition mem_find :: "('o \<Rightarrow> object_meta) \<Rightarrow> object_key \<Rightarrow> 'o mem \<Rightarrow> 'o option" where
  "mem_find meta k s = find (\<lambda>obj. ObjectKeyFromObject (meta obj) = k) (mem_objs s)"

definition mem_put :: "('o \<Rightarrow> object_meta) \<Rightarrow> 'o \<Rightarrow> 'o mem \<Rightarrow> 'o mem" where
  "mem_put meta obj s =
     s\<lparr>mem_objs := upsert (\<lambda>x. ObjectKeyFromObject (meta x)) obj (mem_objs s), mem_next := Suc (mem_next s)\<rparr>"

definition mem_drop :: "('o \<Rightarrow> object_meta) \<Rightarrow> object_key \<Rightarrow> 'o mem \<Rightarrow> 'o mem" where
  "mem_drop meta k s = s\<lparr>mem_objs := filter (\<lambda>obj. ObjectKeyFromObject (meta obj) \<noteq> k) (mem_objs s)\<rparr>"

definition mem_request ::
  "('w \<Rightarrow> 'o mem) \<Rightarrow> ('o mem \<Rightarrow> 'w \<Rightarrow> 'w) \<Rightarrow> (go_error \<Rightarrow> 'a) \<Rightarrow> ('o mem \<Rightarrow> 'a \<times> 'o mem) \<Rightarrow> 'w \<Rightarrow> 'a \<times> 'w" where
  "mem_request gt pt fail f w =
     (case mem_faults (gt w) of
        [] \<Rightarrow> (case f (gt w) of (r, s) \<Rightarrow> (r, pt s w))
      | None # es \<Rightarrow> (case f ((gt w)\<lparr>mem_faults := es\<rparr>) of (r, s) \<Rightarrow> (r, pt s w))
      | Some e # es \<Rightarrow> (fail (ApiError e), pt ((gt w)\<lparr>mem_faults := es\<rparr>) w))"

definition mem_api ::
  "('w \<Rightarrow> 'o mem) \<Rightarrow> ('o mem \<Rightarrow> 'w \<Rightarrow> 'w) \<Rightarrow> ('o \<Rightarrow> object_meta) \<Rightarrow> (object_meta \<Rightarrow> 'o \<Rightarrow> 'o) \<Rightarrow>
   ('o \<Rightarrow> 'o \<Rightarrow> 'o) \<Rightarrow> (string \<Rightarrow> 'o \<Rightarrow> string list) \<Rightarrow> ('w, 'o) api" where
  "mem_api gt pt meta set_meta put_status idx =
     (let key = (\<lambda>obj. ObjectKeyFromObject (meta obj));
          version = (\<lambda>s. nat_to_string (mem_next s))
      in \<lparr>
      api_Get = (\<lambda>k. mem_request gt pt Inl (\<lambda>s.
        (case mem_find meta k s of None \<Rightarrow> Inl NotFound | Some obj \<Rightarrow> Inr obj, s))),
      api_List = (\<lambda>opts. mem_request gt pt Inl (\<lambda>s.
        (Inr (filter (\<lambda>obj.
            (lo_Namespace opts = [] \<or> om_Namespace (meta obj) = lo_Namespace opts) \<and>
            (case lo_MatchingField opts of None \<Rightarrow> True
             | Some (field, val) \<Rightarrow> val \<in> set (idx field obj))) (mem_objs s)), s))),
      api_Create = (\<lambda>obj. mem_request gt pt Inl (\<lambda>s.
        case mem_find meta (key obj) s of
          Some _ \<Rightarrow> (Inl AlreadyExists, s)
        | None \<Rightarrow>
            let obj' = set_meta ((meta obj)\<lparr>om_UID := ''uid-'' @ version s, om_ResourceVersion := version s\<rparr>) obj
            in (Inr obj', mem_put meta obj' s))),
      api_Update = (\<lambda>obj. mem_request gt pt Inl (\<lambda>s.
        case mem_find meta (key obj) s of
          None \<Rightarrow> (Inl NotFound, s)
        | Some old \<Rightarrow>
            if om_ResourceVersion (meta obj) \<noteq> om_ResourceVersion (meta old) then (Inl Conflict, s)
            else let obj' = put_status old (set_meta ((meta obj)\<lparr>om_ResourceVersion := version s\<rparr>) obj)
                 in if om_DeletionTimestamp (meta obj) \<noteq> None \<and> om_Finalizers (meta obj) = []
                    then (Inr obj', mem_drop meta (key obj) s)
                    else (Inr obj', mem_put meta obj' s))),
      api_StatusUpdate = (\<lambda>obj. mem_request gt pt Inl (\<lambda>s.
        case mem_find meta (key obj) s of
          None \<Rightarrow> (Inl NotFound, s)
        | Some old \<Rightarrow>
            if om_ResourceVersion (meta obj) \<noteq> om_ResourceVersion (meta old) then (Inl Conflict, s)
            else let obj' = put_status obj (set_meta ((meta old)\<lparr>om_ResourceVersion := version s\<rparr>) old)
                 in (Inr obj', mem_put meta obj' s))),
      api_Delete = (\<lambda>obj. mem_request gt pt Some (\<lambda>s.
        case mem_find meta (key obj) s of
          None \<Rightarrow> (Some NotFound, s)
        | Some old \<Rightarrow>
            if om_Finalizers (meta old) = [] then (None, mem_drop meta (key obj) s)
            else (None, mem_put meta
                    (set_meta ((meta old)\<lparr>om_DeletionTimestamp := Some (int (mem_next s)),
                       om_ResourceVersion := version s\<rparr>) old) s)))
     \<rparr>)"

text \<open>Where a store sits in the world, and how the accessors of the kind fit together.\<close>

locale mem_store =
  fixes gt :: "'w \<Rightarrow> 'o mem" and pt :: "'o mem \<Rightarrow> 'w \<Rightarrow> 'w"
    and meta :: "'o \<Rightarrow> object_meta" and set_meta :: "object_meta \<Rightarrow> 'o \<Rightarrow> 'o"
    and put_status :: "'o \<Rightarrow> 'o \<Rightarrow> 'o" and idx :: "string \<Rightarrow> 'o \<Rightarrow> string list"
    and content :: "'o \<Rightarrow> 'c"
  assumes gt_pt: "gt (pt s w) = s"
    and meta_set: "meta (set_meta md obj) = md"
    and meta_status: "meta (put_status src obj) = meta obj"
    and content_status: "content (put_status src obj) = content obj"
    and content_server:
      "content (set_meta ((meta obj)\<lparr>om_UID := u, om_ResourceVersion := v\<rparr>) obj) = content obj"
      "content (set_meta ((meta obj)\<lparr>om_ResourceVersion := v\<rparr>) obj) = content obj"
begin

lemmas store_simps = gt_pt meta_set meta_status content_status content_server

lemma find_put:
  "mem_find meta k (mem_put meta obj s) =
     (if k = ObjectKeyFromObject (meta obj) then Some obj else mem_find meta k s)"
  using find_upsert [where key = "\<lambda>x. ObjectKeyFromObject (meta x)" and k = k]
  by (simp add: mem_find_def mem_put_def eq_commute)

lemma find_drop:
  "mem_find meta k (mem_drop meta k' s) = (if k = k' then None else mem_find meta k s)"
  using find_filter_key [where key = "\<lambda>x. ObjectKeyFromObject (meta x)" and k = k and k' = k']
  by (simp add: mem_find_def mem_drop_def)

lemma find_faults: "mem_find meta k (s\<lparr>mem_faults := fs\<rparr>) = mem_find meta k s"
  by (simp add: mem_find_def)

lemma find_key: "mem_find meta k s = Some obj \<Longrightarrow> ObjectKeyFromObject (meta obj) = k"
  by (auto simp: mem_find_def dest!: find_split)

text \<open>The in-memory server keeps the contract.\<close>

sublocale kube_api "mem_api gt pt meta set_meta put_status idx" meta
  "\<lambda>w k. mem_find meta k (gt w)" content
proof (unfold_locales, goal_cases)
  case (1 k w r w')
  then show ?case by (auto simp: mem_api_def mem_request_def store_simps find_faults split: list.splits option.splits)
next
  case (2 k w obj w')
  then show ?case
    by (auto simp: mem_api_def mem_request_def store_simps find_faults find_key split: list.splits option.splits)
next
  case (3 k w w')
  then show ?case by (auto simp: mem_api_def mem_request_def store_simps find_faults split: list.splits option.splits)
next
  case (4 obj w obj' w')
  then show ?case
    by (auto simp: mem_api_def mem_request_def store_simps find_faults find_put fun_eq_iff ObjectKeyFromObject_def
        split: list.splits option.splits)
next
  case (5 obj w e w')
  then show ?case by (auto simp: mem_api_def mem_request_def store_simps find_faults split: list.splits option.splits)
next
  case (6 obj w obj' w')
  then show ?case
    by (auto simp: mem_api_def mem_request_def store_simps find_faults find_put find_drop ObjectKeyFromObject_def
        split: list.splits option.splits if_splits)
next
  case (7 obj w e w')
  then show ?case
    by (auto simp: mem_api_def mem_request_def store_simps find_faults split: list.splits option.splits if_splits)
next
  case (8 obj w d w' k)
  then show ?case
    by (auto simp: mem_api_def mem_request_def store_simps find_faults find_put find_drop ObjectKeyFromObject_def
        dest!: find_key split: list.splits option.splits if_splits)
next
  case (9 obj w w' stored)
  then show ?case
    by (auto simp: mem_api_def mem_request_def store_simps find_faults find_put find_drop split: list.splits option.splits if_splits)
next
  case (10 obj w w')
  then show ?case
    by (auto simp: mem_api_def mem_request_def store_simps find_faults split: list.splits option.splits if_splits)
next
  case (11 obj w w')
  then show ?case
    by (auto simp: mem_api_def mem_request_def store_simps find_faults split: list.splits option.splits if_splits)
next
  case (12 obj w e w')
  then show ?case
    by (auto simp: mem_api_def mem_request_def store_simps find_faults split: list.splits option.splits if_splits)
qed

end

end
