(* ===== verification/Core_Types.thy ===== *)
theory Core_Types
  imports Json Kube_Client "HOL-Library.Word"
begin

text \<open>
  The Kubernetes objects the operator reads and writes, with the fields its code sets or reads.
  Fields of these types that the code neither sets nor reads are kept together in one opaque
  field (\<open>_Rest\<close>, \<open>_More\<close>, \<open>_Status\<close>) of JSON values, so that overwriting a spec visibly
  clears them and updating a single field visibly keeps them. 32-bit integers are words.
\<close>

section \<open>Pods\<close>

datatype volume_source =
    EmptyDir string                                   \<comment> \<open>medium\<close>
  | HostPath string "string option"                   \<comment> \<open>path, type\<close>
  | ConfigMapSource string "(string \<times> string) list"  \<comment> \<open>name, key to path\<close>
  | ServiceAccountToken string int string             \<comment> \<open>projected: path, expiration, audience\<close>
  | OtherSource json

record volume =
  vol_Name :: string
  vol_Source :: volume_source

record volume_mount =
  vm_Name :: string
  vm_ReadOnly :: bool
  vm_MountPath :: string
  vm_MountPropagation :: "string option"
  vm_More :: json

definition mount_at :: "string \<Rightarrow> string \<Rightarrow> volume_mount" where
  "mount_at name path = \<lparr>vm_Name = name, vm_ReadOnly = False, vm_MountPath = path,
     vm_MountPropagation = None, vm_More = JNull\<rparr>"

record env_var =
  ev_Name :: string
  ev_FieldPath :: string   \<comment> \<open>\<open>ValueFrom.FieldRef.FieldPath\<close>\<close>

record container_port =
  cp_ContainerPort :: "32 word"

record resource_requirements =
  rr_Limits :: string_map
  rr_Requests :: string_map
  rr_Claims :: "(string \<times> string) list"

definition zero_resources :: resource_requirements where
  "zero_resources = \<lparr>rr_Limits = fmempty, rr_Requests = fmempty, rr_Claims = []\<rparr>"

record security_context =
  sc_Privileged :: "bool option"
  sc_Add :: "string list"
  sc_Drop :: "string list"
  sc_AllowPrivilegeEscalation :: "bool option"

record container =
  c_Name :: string
  c_Image :: string
  c_ImagePullPolicy :: string
  c_SecurityContext :: "security_context option"
  c_Command :: "string list"
  c_Args :: "string list"
  c_Ports :: "container_port list"
  c_Env :: "env_var list"
  c_VolumeMounts :: "volume_mount list"
  c_Resources :: resource_requirements

definition zero_container :: container where
  "zero_container = \<lparr>c_Name = [], c_Image = [], c_ImagePullPolicy = [], c_SecurityContext = None,
     c_Command = [], c_Args = [], c_Ports = [], c_Env = [], c_VolumeMounts = [],
     c_Resources = zero_resources\<rparr>"

record label_selector =
  ls_MatchLabels :: string_map
  ls_MatchExpressions :: "json list"

definition match_labels :: "string_map \<Rightarrow> label_selector" where
  "match_labels lbls = \<lparr>ls_MatchLabels = lbls, ls_MatchExpressions = []\<rparr>"

text \<open>A selector without expressions selects the objects that carry all its labels.\<close>

definition selects :: "label_selector \<Rightarrow> string_map \<Rightarrow> bool" where
  "selects sel lbls = (ls_MatchExpressions sel = [] \<and> ls_MatchLabels sel \<subseteq>\<^sub>f lbls)"

record pod_affinity_term =
  pat_LabelSelector :: "label_selector option"
  pat_TopologyKey :: string
  pat_More :: json

record pod_anti_affinity =
  paa_Required :: "pod_affinity_term list"
  paa_Preferred :: "json list"

record affinity =
  af_NodeAffinity :: "json option"
  af_PodAffinity :: "json option"
  af_PodAntiAffinity :: "pod_anti_affinity option"

definition zero_affinity :: affinity where
  "zero_affinity = \<lparr>af_NodeAffinity = None, af_PodAffinity = None, af_PodAntiAffinity = None\<rparr>"

record toleration =
  tol_Key :: string
  tol_Operator :: string
  tol_Value :: string
  tol_Effect :: string
  tol_Seconds :: "int option"

record pod_spec =
  ps_ServiceAccountName :: string
  ps_PriorityClassName :: string
  ps_HostNetwork :: bool
  ps_HostPID :: bool
  ps_DNSPolicy :: string
  ps_Affinity :: "affinity option"
  ps_Tolerations :: "toleration list"
  ps_Containers :: "container list"
  ps_Volumes :: "volume list"
  ps_Rest :: json

record pod_template =
  pt_Labels :: string_map
  pt_Annotations :: string_map
  pt_Spec :: pod_spec

section \<open>Workloads\<close>

datatype int_or_string = IntVal "32 word" | StrVal string

text \<open>\<open>intstr.FromInt\<close> converts to 32 bits (it logs a value that does not fit and goes on).\<close>

definition FromInt :: "int \<Rightarrow> int_or_string" where
  "FromInt i = IntVal (word_of_int i)"

record rolling_update =
  ru_MaxUnavailable :: "int_or_string option"
  ru_MaxSurge :: "int_or_string option"

text \<open>The strategies of deployments and of daemon sets have the same shape.\<close>

record update_strategy =
  us_Type :: string
  us_RollingUpdate :: "rolling_update option"

record deployment_spec =
  dps_Replicas :: "32 word option"
  dps_Selector :: "label_selector option"
  dps_Strategy :: update_strategy
  dps_Template :: pod_template
  dps_Rest :: json

record deployment =
  dp_Meta :: object_meta
  dp_Spec :: deployment_spec
  dp_Status :: json

record daemonset_spec =
  dss_Selector :: "label_selector option"
  dss_UpdateStrategy :: update_strategy
  dss_Template :: pod_template
  dss_Rest :: json

record daemonset =
  dset_Meta :: object_meta
  dset_Spec :: daemonset_spec
  dset_Status :: json

section \<open>Services, policies, configuration\<close>

record service_port =
  sp_Name :: string
  sp_Protocol :: string
  sp_Port :: "32 word"
  sp_TargetPort :: int_or_string

record service_spec =
  ss_Ports :: "service_port list"
  ss_Selector :: string_map
  ss_Rest :: json

record service =
  sv_Meta :: object_meta
  sv_Spec :: service_spec
  sv_Status :: json

record network_policy_peer =
  npp_PodSelector :: "label_selector option"
  npp_NamespaceSelector :: "label_selector option"

record network_policy_port =
  npo_Protocol :: "string option"
  npo_Port :: "int_or_string option"

record network_policy_ingress =
  npi_From :: "network_policy_peer list"
  npi_Ports :: "network_policy_port list"

record network_policy_egress =
  npe_To :: "network_policy_peer list"
  npe_Ports :: "network_policy_port list"

record network_policy_spec =
  nps_PodSelector :: label_selector
  nps_Ingress :: "network_policy_ingress list"
  nps_Egress :: "network_policy_egress list"
  nps_PolicyTypes :: "string list"

record network_policy =
  np_Meta :: object_meta
  np_Spec :: network_policy_spec

record config_map =
  cm_Meta :: object_meta
  cm_Data :: string_map
  cm_More :: json

record csi_driver_spec =
  cds_AttachRequired :: "bool option"
  cds_PodInfoOnMount :: "bool option"
  cds_FSGroupPolicy :: "string option"
  cds_SELinuxMount :: "bool option"
  cds_Rest :: json

record csi_driver =
  cd_Meta :: object_meta
  cd_Spec :: csi_driver_spec

text \<open>Of a node only its existence is read.\<close>

record node =
  nd_Meta :: object_meta

section \<open>Blank objects\<close>

definition zero_selector :: label_selector where
  "zero_selector = match_labels fmempty"

definition zero_pod_spec :: pod_spec where
  "zero_pod_spec = \<lparr>ps_ServiceAccountName = [], ps_PriorityClassName = [], ps_HostNetwork = False,
     ps_HostPID = False, ps_DNSPolicy = [], ps_Affinity = None, ps_Tolerations = [],
     ps_Containers = [], ps_Volumes = [], ps_Rest = JNull\<rparr>"

definition zero_template :: pod_template where
  "zero_template = \<lparr>pt_Labels = fmempty, pt_Annotations = fmempty, pt_Spec = zero_pod_spec\<rparr>"

definition zero_strategy :: update_strategy where
  "zero_strategy = \<lparr>us_Type = [], us_RollingUpdate = None\<rparr>"

definition new_deployment :: "string \<Rightarrow> string \<Rightarrow> deployment" where
  "new_deployment ns name = \<lparr>dp_Meta = named_meta ns name,
     dp_Spec = \<lparr>dps_Replicas = None, dps_Selector = None, dps_Strategy = zero_strategy,
                dps_Template = zero_template, dps_Rest = JNull\<rparr>,
     dp_Status = JNull\<rparr>"

definition new_daemonset :: "string \<Rightarrow> string \<Rightarrow> daemonset" where
  "new_daemonset ns name = \<lparr>dset_Meta = named_meta ns name,
     dset_Spec = \<lparr>dss_Selector = None, dss_UpdateStrategy = zero_strategy,
                  dss_Template = zero_template, dss_Rest = JNull\<rparr>,
     dset_Status = JNull\<rparr>"

definition new_service :: "string \<Rightarrow> string \<Rightarrow> service" where
  "new_service ns name = \<lparr>sv_Meta = named_meta ns name,
     sv_Spec = \<lparr>ss_Ports = [], ss_Selector = fmempty, ss_Rest = JNull\<rparr>, sv_Status = JNull\<rparr>"

definition new_network_policy :: "string \<Rightarrow> string \<Rightarrow> network_policy" where
  "new_network_policy ns name = \<lparr>np_Meta = named_meta ns name,
     np_Spec = \<lparr>nps_PodSelector = zero_selector, nps_Ingress = [], nps_Egress = [],
                nps_PolicyTypes = []\<rparr>\<rparr>"

definition new_config_map :: "string \<Rightarrow> string \<Rightarrow> config_map" where
  "new_config_map ns name = \<lparr>cm_Meta = named_meta ns name, cm_Data = fmempty, cm_More = JNull\<rparr>"

definition new_csi_driver :: "string \<Rightarrow> csi_driver" where
  "new_csi_driver name = \<lparr>cd_Meta = named_meta [] name,
     cd_Spec = \<lparr>cds_AttachRequired = None, cds_PodInfoOnMount = None, cds_FSGroupPolicy = None,
                cds_SELinuxMount = None, cds_Rest = JNull\<rparr>\<rparr>"

lemma new_meta [simp]:
  "dp_Meta (new_deployment ns n) = named_meta ns n" "dset_Meta (new_daemonset ns n) = named_meta ns n"
  "sv_Meta (new_service ns n) = named_meta ns n" "np_Meta (new_network_policy ns n) = named_meta ns n"
  "cm_Meta (new_config_map ns n) = named_meta ns n" "cd_Meta (new_csi_driver n) = named_meta [] n"
  by (simp_all add: new_deployment_def new_daemonset_def new_service_def new_network_policy_def
      new_config_map_def new_csi_driver_def)

lemma selects_match_labels [simp]: "selects (match_labels l) lbls \<longleftrightarrow> l \<subseteq>\<^sub>f lbls"
  by (simp add: selects_def match_labels_def)

end
