(* ===== verification/Utils_Csi.thy ===== *)
theory Utils_Csi
  imports Core_Types
begin

text \<open>
  \<open>internal/utils/csi.go\<close>: the volumes, mounts, environment variables, ports and command-line
  arguments the driver's pods are assembled from. \<open>fmt.Sprintf\<close> is concatenation, \<open>%d\<close> is
  \<open>int_to_string\<close>, \<open>%t\<close> is \<open>bool_to_string\<close>.

  A Go map has no order: functions that print one take the iteration order \<open>rng\<close>, the entries
  of the map in the order the loop visits them (\<open>iterates\<close> says what the language guarantees).
\<close>

section \<open>Library\<close>

definition bool_to_string :: "bool \<Rightarrow> string" where
  "bool_to_string b = (if b then ''true'' else ''false'')"

type_synonym iteration = "string_map \<Rightarrow> (string \<times> string) list"

definition iterates :: "iteration \<Rightarrow> bool" where
  "iterates rng = (\<forall>mp. distinct (map fst (rng mp)) \<and> map_of (rng mp) = fmlookup mp)"

text \<open>Iteration in the order of the keys is one possible order.\<close>

lemma iterates_sorted: "iterates sorted_list_of_fmap"
  by (simp add: iterates_def sorted_list_of_fmap_def comp_def sorted_list_of_fset.rep_eq)
     (simp add: sorted_list_of_fmap_def [symmetric] sorted_list_of_fset.rep_eq [symmetric])

section \<open>Constants\<close>

definition SocketDir :: "string" where
  "SocketDir = ''/csi''"

definition csiEndpoint :: "string" where
  "csiEndpoint = ''unix://'' @ SocketDir @ ''/csi.sock''"

definition csiAddonsEndpoint :: "string" where
  "csiAddonsEndpoint = ''unix://'' @ SocketDir @ ''/csi-addons.sock''"

definition kmsConfigVolumeName :: "string" where
  "kmsConfigVolumeName = ''ceph-csi-kms-config''"

definition csiMountInfoVolumeName :: "string" where
  "csiMountInfoVolumeName = ''ceph-csi-mountinfo''"

definition registrationVolumeName :: "string" where
  "registrationVolumeName = ''registration-dir''"

definition pluginDirVolumeName :: "string" where
  "pluginDirVolumeName = ''plugin-dir''"

definition podsMountDirVolumeName :: "string" where
  "podsMountDirVolumeName = ''pods-mount-dir''"

definition pluginMountDirVolumeName :: "string" where
  "pluginMountDirVolumeName = ''plugin-mount-dir''"

definition CsiConfigMapConfigKey :: "string" where
  "CsiConfigMapConfigKey = ''config.json''"

definition CsiConfigMapMappingKey :: "string" where
  "CsiConfigMapMappingKey = ''cluster-mapping.json''"

definition logsDirVolumeName :: "string" where
  "logsDirVolumeName = ''logs-dir''"

definition logRotateDirVolumeName :: "string" where
  "logRotateDirVolumeName = ''log-rotate-dir''"

text \<open>Constants of the Kubernetes API packages.\<close>

definition StorageMediumMemory :: "string" where
  "StorageMediumMemory = ''Memory''"

definition HostPathDirectory :: "string" where
  "HostPathDirectory = ''Directory''"

definition HostPathDirectoryOrCreate :: "string" where
  "HostPathDirectoryOrCreate = ''DirectoryOrCreate''"

definition MountPropagationBidirectional :: "string" where
  "MountPropagationBidirectional = ''Bidirectional''"

definition PullIfNotPresent :: "string" where
  "PullIfNotPresent = ''IfNotPresent''"

definition DNSClusterFirst :: "string" where
  "DNSClusterFirst = ''ClusterFirst''"

definition DNSClusterFirstWithHostNet :: "string" where
  "DNSClusterFirstWithHostNet = ''ClusterFirstWithHostNet''"

definition ProtocolTCP :: "string" where
  "ProtocolTCP = ''TCP''"

definition LabelHostname :: "string" where
  "LabelHostname = ''kubernetes.io/hostname''"

definition FileFSGroupPolicy :: "string" where
  "FileFSGroupPolicy = ''File''"

section \<open>Volumes\<close>

definition SocketDirVolume :: "volume" where
  "SocketDirVolume = \<lparr>vol_Name = ''socket-dir'', vol_Source = EmptyDir StorageMediumMemory\<rparr>"

definition HostDevVolume :: "volume" where
  "HostDevVolume = \<lparr>vol_Name = ''host-dev'', vol_Source = HostPath ''/dev'' None\<rparr>"

definition HostSysVolume :: "volume" where
  "HostSysVolume = \<lparr>vol_Name = ''host-sys'', vol_Source = HostPath ''/sys'' None\<rparr>"

definition HostRunMountVolume :: "volume" where
  "HostRunMountVolume = \<lparr>vol_Name = ''host-run-mount'', vol_Source = HostPath ''/run/mount'' None\<rparr>"

definition LibModulesVolume :: "volume" where
  "LibModulesVolume = \<lparr>vol_Name = ''lib-modules'', vol_Source = HostPath ''/lib/modules'' None\<rparr>"

definition KeysTmpDirVolume :: "volume" where
  "KeysTmpDirVolume = \<lparr>vol_Name = ''keys-tmp-dir'', vol_Source = EmptyDir StorageMediumMemory\<rparr>"

definition OidcTokenVolume :: "volume" where
  "OidcTokenVolume = \<lparr>vol_Name = ''oidc-token'', vol_Source = ServiceAccountToken ''oidc-token'' 3600 ''ceph-csi-kms''\<rparr>"

definition CsiConfigVolume :: "volume" where
  "CsiConfigVolume = \<lparr>vol_Name = ''ceph-csi-config'', vol_Source = ConfigMapSource ''ceph-csi-config'' []\<rparr>"

definition EtcSelinuxVolume :: "volume" where
  "EtcSelinuxVolume = \<lparr>vol_Name = ''etc-selinux'', vol_Source = HostPath ''/etc/selinux'' None\<rparr>"

definition CsiMountInfoVolume :: "string \<Rightarrow> string \<Rightarrow> volume" where
  "CsiMountInfoVolume kubeletDirPath driverName = \<lparr>vol_Name = csiMountInfoVolumeName, vol_Source = 
     HostPath (kubeletDirPath @ ''/plugins/'' @ driverName @ ''/mountinfo'') (Some HostPathDirectoryOrCreate)\<rparr>"

definition KmsConfigVolume :: "string \<Rightarrow> volume" where
  "KmsConfigVolume configRef = \<lparr>vol_Name = kmsConfigVolumeName, vol_Source = 
     ConfigMapSource configRef [(''config.json'', ''config.json'')]\<rparr>"

definition PluginMountDirVolume :: "string \<Rightarrow> volume" where
  "PluginMountDirVolume kubeletDirPath = \<lparr>vol_Name = pluginMountDirVolumeName, vol_Source = 
     HostPath (kubeletDirPath @ ''/plugins'') (Some HostPathDirectory)\<rparr>"

definition PluginDirVolume :: "string \<Rightarrow> string \<Rightarrow> volume" where
  "PluginDirVolume kubeletDirPath driverNamePrefix = \<lparr>vol_Name = pluginDirVolumeName, vol_Source = 
     HostPath (kubeletDirPath @ ''/plugins/'' @ driverNamePrefix) (Some HostPathDirectoryOrCreate)\<rparr>"

definition RegistrationDirVolume :: "string \<Rightarrow> volume" where
  "RegistrationDirVolume kubeletDirPath = \<lparr>vol_Name = registrationVolumeName, vol_Source = 
     HostPath (kubeletDirPath @ ''/plugins_registry'') (Some HostPathDirectory)\<rparr>"

definition PodsMountDirVolume :: "string \<Rightarrow> volume" where
  "PodsMountDirVolume kubeletDirPath = \<lparr>vol_Name = podsMountDirVolumeName, vol_Source = 
     HostPath (kubeletDirPath @ ''/pods'') (Some HostPathDirectory)\<rparr>"

definition LogsDirVolume :: "string \<Rightarrow> string \<Rightarrow> volume" where
  "LogsDirVolume logHostPath pluginName = \<lparr>vol_Name = logsDirVolumeName, vol_Source = 
     HostPath (logHostPath @ ''/'' @ pluginName) (Some HostPathDirectoryOrCreate)\<rparr>"

definition LogRotateConfigMapName :: "string \<Rightarrow> string" where
  "LogRotateConfigMapName driverName = driverName @ ''-logrotate-config''"

definition LogRotateDirVolumeName :: "string \<Rightarrow> volume" where
  "LogRotateDirVolumeName driverName = \<lparr>vol_Name = logRotateDirVolumeName, vol_Source = 
     ConfigMapSource (LogRotateConfigMapName driverName) []\<rparr>"

section \<open>Volume mounts\<close>

definition SocketDirVolumeMount :: "volume_mount" where
  "SocketDirVolumeMount = (mount_at (vol_Name SocketDirVolume) SocketDir)"

definition HostDevVolumeMount :: "volume_mount" where
  "HostDevVolumeMount = (mount_at (vol_Name HostDevVolume) ''/dev'')"

definition HostSysVolumeMount :: "volume_mount" where
  "HostSysVolumeMount = (mount_at (vol_Name HostSysVolume) ''/sys'')"

definition HostRunMountVolumeMount :: "volume_mount" where
  "HostRunMountVolumeMount = (mount_at (vol_Name HostRunMountVolume) ''/run/mount'')"

definition LibModulesVolumeMount :: "volume_mount" where
  "LibModulesVolumeMount = (mount_at (vol_Name LibModulesVolume) ''/lib/modules'')\<lparr>vm_ReadOnly := True\<rparr>"

definition KeysTmpDirVolumeMount :: "volume_mount" where
  "KeysTmpDirVolumeMount = (mount_at (vol_Name KeysTmpDirVolume) ''/tmp/csi/keys'')"

definition OidcTokenVolumeMount :: "volume_mount" where
  "OidcTokenVolumeMount = (mount_at (vol_Name OidcTokenVolume) ''/run/secrets/tokens'')\<lparr>vm_ReadOnly := True\<rparr>"

definition CsiConfigVolumeMount :: "volume_mount" where
  "CsiConfigVolumeMount = (mount_at (vol_Name CsiConfigVolume) ''/etc/ceph-csi-config'')"

definition CsiMountInfoVolumeMount :: "volume_mount" where
  "CsiMountInfoVolumeMount = (mount_at (csiMountInfoVolumeName) ''/csi/mountinfo'')"

definition KmsConfigVolumeMount :: "volume_mount" where
  "KmsConfigVolumeMount = (mount_at (kmsConfigVolumeName) ''/etc/ceph-csi-encryption-kms-config/'')\<lparr>vm_ReadOnly := True\<rparr>"

definition PluginDirVolumeMount :: "volume_mount" where
  "PluginDirVolumeMount = (mount_at (pluginDirVolumeName) ''/csi'')"

definition RegistrationDirVolumeMount :: "volume_mount" where
  "RegistrationDirVolumeMount = (mount_at (registrationVolumeName) ''/registration'')"

definition EtcSelinuxVolumeMount :: "volume_mount" where
  "EtcSelinuxVolumeMount = (mount_at (vol_Name EtcSelinuxVolume) ''/etc/selinux'')\<lparr>vm_ReadOnly := True\<rparr>"

definition LogsDirVolumeMount :: "volume_mount" where
  "LogsDirVolumeMount = (mount_at (logsDirVolumeName) ''/csi-logs'')"

definition LogRotateDirVolumeMount :: "volume_mount" where
  "LogRotateDirVolumeMount = (mount_at (logRotateDirVolumeName) ''/logrotate-config'')"

definition PodsMountDirVolumeMount :: "string \<Rightarrow> volume_mount" where
  "PodsMountDirVolumeMount kubletDirPath = (mount_at podsMountDirVolumeName (kubletDirPath @ ''/pods''))
     \<lparr>vm_MountPropagation := Some MountPropagationBidirectional\<rparr>"

definition PluginMountDirVolumeMount :: "string \<Rightarrow> volume_mount" where
  "PluginMountDirVolumeMount kubletDirPath = (mount_at pluginMountDirVolumeName (kubletDirPath @ ''/plugins''))
     \<lparr>vm_MountPropagation := Some MountPropagationBidirectional\<rparr>"

section \<open>Environment variables and ports\<close>

definition PodIpEnvVar :: "env_var" where
  "PodIpEnvVar = \<lparr>ev_Name = ''POD_IP'', ev_FieldPath = ''status.podIP''\<rparr>"

definition PodNameEnvVar :: "env_var" where
  "PodNameEnvVar = \<lparr>ev_Name = ''POD_NAME'', ev_FieldPath = ''metadata.name''\<rparr>"

definition PodNamespaceEnvVar :: "env_var" where
  "PodNamespaceEnvVar = \<lparr>ev_Name = ''POD_NAMESPACE'', ev_FieldPath = ''metadata.namespace''\<rparr>"

definition PodUidEnvVar :: "env_var" where
  "PodUidEnvVar = \<lparr>ev_Name = ''POD_UID'', ev_FieldPath = ''metadata.uid''\<rparr>"

definition NodeIdEnvVar :: "env_var" where
  "NodeIdEnvVar = \<lparr>ev_Name = ''NODE_ID'', ev_FieldPath = ''spec.nodeName''\<rparr>"

definition DriverNamespaceEnvVar :: "env_var" where
  "DriverNamespaceEnvVar = \<lparr>ev_Name = ''DRIVER_NAMESPACE'', ev_FieldPath = ''metadata.namespace''\<rparr>"

definition ControllerPluginCsiAddonsContainerRbdPort :: "container_port" where
  "ControllerPluginCsiAddonsContainerRbdPort = \<lparr>cp_ContainerPort = 9070\<rparr>"

definition ControllerPluginCsiAddonsContainerCephFsPort :: "container_port" where
  "ControllerPluginCsiAddonsContainerCephFsPort = \<lparr>cp_ContainerPort = 9080\<rparr>"

definition NodePluginCsiAddonsContainerPort :: "container_port" where
  "NodePluginCsiAddonsContainerPort = \<lparr>cp_ContainerPort = 9071\<rparr>"

definition SnapshotMetadataGrpcPort :: "container_port" where
  "SnapshotMetadataGrpcPort = \<lparr>cp_ContainerPort = 50051\<rparr>"

definition ContainerPortArg :: "container_port \<Rightarrow> string" where
  "ContainerPortArg port = ''--controller-port='' @ int_to_string (sint (cp_ContainerPort port))"

section \<open>Container arguments\<close>

definition CsiAddressContainerArg :: "string" where
  "CsiAddressContainerArg = ''--csi-address='' @ csiEndpoint"

definition EndpointContainerArg :: "string" where
  "EndpointContainerArg = ''--endpoint='' @ csiEndpoint"

definition CsiAddonsEndpointContainerArg :: "string" where
  "CsiAddonsEndpointContainerArg = ''--csi-addons-endpoint='' @ csiAddonsEndpoint"

definition CsiAddonsAddressContainerArg :: "string" where
  "CsiAddonsAddressContainerArg = ''--csi-addons-address='' @ csiAddonsEndpoint"

definition CsiAddonsNodeIdContainerArg :: "string" where
  "CsiAddonsNodeIdContainerArg = ''--node-id=$('' @ ev_Name NodeIdEnvVar @ '')''"

definition LeaderElectionContainerArg :: "string" where
  "LeaderElectionContainerArg = ''--leader-election=true''"

definition NodeIdContainerArg :: "string" where
  "NodeIdContainerArg = ''--nodeid=$('' @ ev_Name NodeIdEnvVar @ '')''"

definition PidlimitContainerArg :: "string" where
  "PidlimitContainerArg = ''--pidlimit=-1''"

definition ControllerServerContainerArg :: "string" where
  "ControllerServerContainerArg = ''--controllerserver=true''"

definition NodeServerContainerArg :: "string" where
  "NodeServerContainerArg = ''--nodeserver=true''"

definition RetryIntervalStartContainerArg :: "string" where
  "RetryIntervalStartContainerArg = ''--retry-interval-start=500ms''"

definition DefaultFsTypeContainerArg :: "string" where
  "DefaultFsTypeContainerArg = ''--default-fstype=ext4''"

definition HandleVolumeInuseErrorContainerArg :: "string" where
  "HandleVolumeInuseErrorContainerArg = ''--handle-volume-inuse-error=false''"

definition PodUidContainerArg :: "string" where
  "PodUidContainerArg = ''--pod-uid=$('' @ ev_Name PodUidEnvVar @ '')''"

definition PodContainerArg :: "string" where
  "PodContainerArg = ''--pod=$('' @ ev_Name PodNameEnvVar @ '')''"

definition NamespaceContainerArg :: "string" where
  "NamespaceContainerArg = ''--namespace=$('' @ ev_Name PodNamespaceEnvVar @ '')''"

definition DriverNamespaceContainerArg :: "string" where
  "DriverNamespaceContainerArg = ''--drivernamespace=$('' @ ev_Name DriverNamespaceEnvVar @ '')''"

definition MetricsPathContainerArg :: "string" where
  "MetricsPathContainerArg = ''--metricspath=/metrics''"

definition PoolTimeContainerArg :: "string" where
  "PoolTimeContainerArg = ''--polltime=60s''"

definition ExtraCreateMetadataContainerArg :: "string" where
  "ExtraCreateMetadataContainerArg = ''--extra-create-metadata=true''"

definition PreventVolumeModeConversionContainerArg :: "string" where
  "PreventVolumeModeConversionContainerArg = ''--prevent-volume-mode-conversion=true''"

definition RecoverVolumeExpansionFailureContainerArg :: "string" where
  "RecoverVolumeExpansionFailureContainerArg = ''--feature-gates=RecoverVolumeExpansionFailure=true''"

definition EnableVolumeGroupSnapshotsContainerArg :: "string" where
  "EnableVolumeGroupSnapshotsContainerArg = ''--feature-gates=CSIVolumeGroupSnapshot=true''"

definition ForceCephKernelClientContainerArg :: "string" where
  "ForceCephKernelClientContainerArg = ''--forcecephkernelclient=true''"

definition LogToStdErrContainerArg :: "string" where
  "LogToStdErrContainerArg = ''--logtostderr=false''"

definition AlsoLogToStdErrContainerArg :: "string" where
  "AlsoLogToStdErrContainerArg = ''--alsologtostderr=true''"

definition CsiAddonsVolumeConditionArg :: "string" where
  "CsiAddonsVolumeConditionArg = ''--enable-volume-condition=true''"

definition SnapshotMetadataGrpcServicePortArg :: "string" where
  "SnapshotMetadataGrpcServicePortArg = ''--port='' @ int_to_string (sint (cp_ContainerPort SnapshotMetadataGrpcPort))"

definition SnapshotMetadataTlsCertArg :: "string" where
  "SnapshotMetadataTlsCertArg = ''--tls-cert=/tmp/certificates/tls.crt''"

definition SnapshotMetadataTlsKeyArg :: "string" where
  "SnapshotMetadataTlsKeyArg = ''--tls-key=/tmp/certificates/tls.key''"

definition SnapshotMetadataAudienceArg :: "string \<Rightarrow> string" where
  "SnapshotMetadataAudienceArg driverName = ''--audience='' @ driverName"

definition LogVerbosityContainerArg :: "int \<Rightarrow> string" where
  "LogVerbosityContainerArg level = ''--v='' @ int_to_string (Clamp level 0 5)"

definition LogFileContainerArg :: "string \<Rightarrow> string" where
  "LogFileContainerArg containerName = ''--log_file=csi-logs/'' @ containerName @ ''.log''"

definition TypeContainerArg :: "string \<Rightarrow> string" where
  "TypeContainerArg t = 
     (if t \<in> {''rbd'', ''cephfs'', ''nfs'', ''nvmeof'', ''controller'', ''liveness''} then ''--type='' @ t else [])"

definition SetFencingContainerArg :: "bool \<Rightarrow> string" where
  "SetFencingContainerArg on = ''--enable-fencing='' @ bool_to_string on"

definition TimeoutContainerArg :: "int \<Rightarrow> string" where
  "TimeoutContainerArg timeout = ''--timeout='' @ int_to_string timeout @ ''s''"

definition LeaderElectionNamespaceContainerArg :: "string \<Rightarrow> string" where
  "LeaderElectionNamespaceContainerArg ns = utils_If (ns \<noteq> []) (''--leader-election-namespace='' @ ns) []"

definition LeaderElectionLeaseDurationContainerArg :: "int \<Rightarrow> string" where
  "LeaderElectionLeaseDurationContainerArg duration = ''--leader-election-lease-duration='' @ int_to_string duration @ ''s''"

definition LeaderElectionRenewDeadlineContainerArg :: "int \<Rightarrow> string" where
  "LeaderElectionRenewDeadlineContainerArg deadline = ''--leader-election-renew-deadline='' @ int_to_string deadline @ ''s''"

definition LeaderElectionRetryPeriodContainerArg :: "int \<Rightarrow> string" where
  "LeaderElectionRetryPeriodContainerArg period = ''--leader-election-retry-period='' @ int_to_string period @ ''s''"

definition DriverNameContainerArg :: "string \<Rightarrow> string" where
  "DriverNameContainerArg name = utils_If (name \<noteq> []) (''--drivername='' @ name) []"

definition ClusterNameContainerArg :: "string \<Rightarrow> string" where
  "ClusterNameContainerArg name = utils_If (name \<noteq> []) (''--clustername='' @ name) []"

definition MetricsPortContainerArg :: "int \<Rightarrow> string" where
  "MetricsPortContainerArg port = ''--metricsport='' @ int_to_string port"

definition KubeletRegistrationPathContainerArg :: "string \<Rightarrow> string \<Rightarrow> string" where
  "KubeletRegistrationPathContainerArg kubeletDirPath driverName = 
     ''--kubelet-registration-path='' @ kubeletDirPath @ ''/plugins/'' @ driverName @ ''/csi.sock''"

definition StagingPathContainerArg :: "string \<Rightarrow> string" where
  "StagingPathContainerArg kubeletDirPath = ''--stagingpath='' @ kubeletDirPath @ ''/plugins/kubernetes.io/csi/''"

definition KernelMountOptionsContainerArg :: "iteration \<Rightarrow> string_map \<Rightarrow> string" where
  "KernelMountOptionsContainerArg rng options = 
     utils_If (options \<noteq> fmempty) (''--kernelmountoptions='' @ MapToString (rng options) ''='' '','') []"

definition FuseMountOptionsContainerArg :: "iteration \<Rightarrow> string_map \<Rightarrow> string" where
  "FuseMountOptionsContainerArg rng options = 
     utils_If (options \<noteq> fmempty) (''--fusemountoptions='' @ MapToString (rng options) ''='' '','') []"

definition DomainLabelsContainerArg :: "string list \<Rightarrow> string" where
  "DomainLabelsContainerArg options = 
     utils_If (options \<noteq> []) (''--domainlabels='' @ strings_Join options '','') []"

definition TopologyContainerArg :: "bool \<Rightarrow> string" where
  "TopologyContainerArg topology = ''--feature-gates=Topology='' @ bool_to_string topology"

text \<open>A missing key of a Go map reads as the zero value.\<close>

definition GetExtraArgsForContainer :: "string \<Rightarrow> (string, string list) fmap \<Rightarrow> string list" where
  "GetExtraArgsForContainer containerName extraArgs = 
     (if extraArgs = fmempty then []
      else case fmlookup extraArgs containerName of None \<Rightarrow> [] | Some xs \<Rightarrow> xs)"

section \<open>Facts\<close>

lemmas const_defs = SocketDir_def kmsConfigVolumeName_def csiMountInfoVolumeName_def
  registrationVolumeName_def pluginDirVolumeName_def podsMountDirVolumeName_def
  pluginMountDirVolumeName_def logsDirVolumeName_def logRotateDirVolumeName_def

lemmas volume_defs = SocketDirVolume_def HostDevVolume_def HostSysVolume_def HostRunMountVolume_def
  LibModulesVolume_def KeysTmpDirVolume_def OidcTokenVolume_def CsiConfigVolume_def EtcSelinuxVolume_def
  CsiMountInfoVolume_def KmsConfigVolume_def PluginMountDirVolume_def PluginDirVolume_def
  RegistrationDirVolume_def PodsMountDirVolume_def LogsDirVolume_def LogRotateDirVolumeName_def

lemmas mount_defs = SocketDirVolumeMount_def HostDevVolumeMount_def HostSysVolumeMount_def
  HostRunMountVolumeMount_def LibModulesVolumeMount_def KeysTmpDirVolumeMount_def
  OidcTokenVolumeMount_def CsiConfigVolumeMount_def CsiMountInfoVolumeMount_def KmsConfigVolumeMount_def
  PluginDirVolumeMount_def RegistrationDirVolumeMount_def EtcSelinuxVolumeMount_def
  LogsDirVolumeMount_def LogRotateDirVolumeMount_def PodsMountDirVolumeMount_def
  PluginMountDirVolumeMount_def mount_at_def

text \<open>The names of the built-in volumes and of the volumes the built-in mounts refer to.\<close>

lemma volume_names [simp]:
  "vol_Name SocketDirVolume = ''socket-dir''" "vol_Name HostDevVolume = ''host-dev''"
  "vol_Name HostSysVolume = ''host-sys''" "vol_Name HostRunMountVolume = ''host-run-mount''"
  "vol_Name LibModulesVolume = ''lib-modules''" "vol_Name KeysTmpDirVolume = ''keys-tmp-dir''"
  "vol_Name OidcTokenVolume = ''oidc-token''" "vol_Name CsiConfigVolume = ''ceph-csi-config''"
  "vol_Name EtcSelinuxVolume = ''etc-selinux''" "vol_Name (CsiMountInfoVolume k d) = ''ceph-csi-mountinfo''"
  "vol_Name (KmsConfigVolume r) = ''ceph-csi-kms-config''" "vol_Name (PluginMountDirVolume k) = ''plugin-mount-dir''"
  "vol_Name (PluginDirVolume k d) = ''plugin-dir''" "vol_Name (RegistrationDirVolume k) = ''registration-dir''"
  "vol_Name (PodsMountDirVolume k) = ''pods-mount-dir''" "vol_Name (LogsDirVolume l p) = ''logs-dir''"
  "vol_Name (LogRotateDirVolumeName d) = ''log-rotate-dir''"
  by (simp_all add: volume_defs const_defs)

lemma mount_names [simp]:
  "vm_Name SocketDirVolumeMount = ''socket-dir''" "vm_Name HostDevVolumeMount = ''host-dev''"
  "vm_Name HostSysVolumeMount = ''host-sys''" "vm_Name HostRunMountVolumeMount = ''host-run-mount''"
  "vm_Name LibModulesVolumeMount = ''lib-modules''" "vm_Name KeysTmpDirVolumeMount = ''keys-tmp-dir''"
  "vm_Name OidcTokenVolumeMount = ''oidc-token''" "vm_Name CsiConfigVolumeMount = ''ceph-csi-config''"
  "vm_Name CsiMountInfoVolumeMount = ''ceph-csi-mountinfo''" "vm_Name KmsConfigVolumeMount = ''ceph-csi-kms-config''"
  "vm_Name PluginDirVolumeMount = ''plugin-dir''" "vm_Name RegistrationDirVolumeMount = ''registration-dir''"
  "vm_Name EtcSelinuxVolumeMount = ''etc-selinux''" "vm_Name LogsDirVolumeMount = ''logs-dir''"
  "vm_Name LogRotateDirVolumeMount = ''log-rotate-dir''" "vm_Name (PodsMountDirVolumeMount k) = ''pods-mount-dir''"
  "vm_Name (PluginMountDirVolumeMount k) = ''plugin-mount-dir''"
  by (simp_all add: mount_defs const_defs)

text \<open>The verbosity flag always names a level from 0 to 5.\<close>

lemma verbosity_level:
  "\<exists>l. LogVerbosityContainerArg v = ''--v='' @ int_to_string l \<and> 0 \<le> l \<and> l \<le> 5"
  by (auto simp: LogVerbosityContainerArg_def Clamp_def)

end
