(* ===== verification/Api_Types.thy ===== *)
theory Api_Types
  imports Utils_Csi
begin

text \<open>
  The custom resources of \<open>api/v1\<close>, one record per struct. Pointers, and the maps and slices
  that the code compares with nil, are options; the generated \<open>DeepCopy\<close> functions are the
  identity on these values. A \<open>corev1.LocalObjectReference\<close> is its name.

  The last section is the client: one \<open>api\<close> record per kind.
\<close>

section \<open>Connections and client profiles\<close>

record ReadAffinitySpec =
  ra_CrushLocationLabels :: "string list"

record CephConnectionSpec =
  cc_Monitors :: "string list"
  cc_ReadAffinity :: "ReadAffinitySpec option"
  cc_RbdMirrorDaemonCount :: "64 word"

record CephConnection =
  cc_Meta :: object_meta
  cc_Spec :: CephConnectionSpec

record secret_reference =
  sr_Name :: string
  sr_Namespace :: string

record CephCsiSecretsSpec =
  cs_ControllerPublishSecret :: secret_reference
  cs_NodePublishSecret :: secret_reference

record CephFsConfigSpec =
  fs_SubVolumeGroup :: string
  fs_KernelMountOptions :: "string_map option"
  fs_FuseMountOptions :: "string_map option"
  fs_RadosNamespace :: "string option"
  fs_CephCsiSecrets :: "CephCsiSecretsSpec option"

record RbdConfigSpec =
  rb_RadosNamespace :: string
  rb_CephCsiSecrets :: "CephCsiSecretsSpec option"

record NvmeofConfigSpec =
  nv_RadosNamespace :: string
  nv_CephCsiSecrets :: "CephCsiSecretsSpec option"

record ClientProfileSpec =
  cps_CephConnectionRef :: string
  cps_CephFs :: "CephFsConfigSpec option"
  cps_Rbd :: "RbdConfigSpec option"
  cps_Nfs :: "unit option"
  cps_Nvmeof :: "NvmeofConfigSpec option"

record ClientProfileStatus =
  cpt_Phase :: string
  cpt_Message :: string

record ClientProfile =
  cp_Meta :: object_meta
  cp_Spec :: ClientProfileSpec
  cp_Status :: ClientProfileStatus

definition ClientProfilePhaseReady :: string where "ClientProfilePhaseReady = ''Ready''"
definition ClientProfilePhaseFailed :: string where "ClientProfilePhaseFailed = ''Failed''"
definition ClientProfilePhasePending :: string where "ClientProfilePhasePending = ''Pending''"

section \<open>Mappings\<close>

type_synonym BlockPoolIdPair = "string list"

record MappingsSpec =
  ms_LocalClientProfile :: string
  ms_RemoteClientProfile :: string
  ms_BlockPoolIdMapping :: "BlockPoolIdPair list"

record ClientProfileMapping =
  cpm_Meta :: object_meta
  cpm_Mappings :: "MappingsSpec list"

section \<open>Replications\<close>

record PoolMappingSpec =
  pm_Name :: string
  pm_RemoteID :: string

record RBDReplicationSpec =
  rr_PoolMapping :: "PoolMappingSpec list"

record ClientProfileReplicationSpec =
  crs_LocalClientProfile :: string
  crs_RemoteClientProfile :: string
  crs_RBD :: "RBDReplicationSpec option"

record ClientProfileReplicationStatus =
  crt_Phase :: string
  crt_Message :: string

record ClientProfileReplication =
  cpr_Meta :: object_meta
  cpr_Spec :: ClientProfileReplicationSpec
  cpr_Status :: ClientProfileReplicationStatus

definition ClientProfileReplicationPhaseReady :: string where
  "ClientProfileReplicationPhaseReady = ''Ready''"
definition ClientProfileReplicationPhaseRejected :: string where
  "ClientProfileReplicationPhaseRejected = ''Rejected''"
definition ClientProfileReplicationPhasePending :: string where
  "ClientProfileReplicationPhasePending = ''Pending''"

section \<open>Drivers\<close>

text \<open>
  A \<open>resource.Quantity\<close> is what its two methods used here return: whether it is zero, and its
  canonical text.
\<close>

record quantity =
  q_IsZero :: bool
  q_String :: string

definition HourlyPeriod :: string where "HourlyPeriod = ''hourly''"
definition DailyPeriod :: string where "DailyPeriod = ''daily''"
definition WeeklyPeriod :: string where "WeeklyPeriod = ''weekly''"
definition MonthlyPeriod :: string where "MonthlyPeriod = ''monthly''"

record LogRotationSpec =
  lr_MaxFiles :: int
  lr_MaxLogSize :: quantity
  lr_Periodicity :: string
  lr_LogHostPath :: string

record LogSpec =
  lg_Verbosity :: int
  lg_Rotation :: "LogRotationSpec option"

definition zero_LogSpec :: LogSpec where
  "zero_LogSpec = \<lparr>lg_Verbosity = 0, lg_Rotation = None\<rparr>"

definition NoneSnapshotPolicy :: string where "NoneSnapshotPolicy = ''none''"
definition VolumeGroupSnapshotPolicy :: string where "VolumeGroupSnapshotPolicy = ''volumeGroupSnapshot''"
definition VolumeSnapshotSnapshotPolicy :: string where "VolumeSnapshotSnapshotPolicy = ''volumeSnapshot''"

record EncryptionSpec =
  en_ConfigMapRef :: string

record VolumeSpec =
  vs_Volume :: volume
  vs_Mount :: volume_mount

record PodCommonSpec =
  pc_ServiceAccountName :: "string option"
  pc_PrioritylClassName :: "string option"
  pc_Labels :: "string_map option"
  pc_Annotations :: "string_map option"
  pc_Affinity :: "affinity option"
  pc_Tolerations :: "toleration list option"
  pc_Volumes :: "VolumeSpec list option"
  pc_ImagePullPolicy :: string

definition zero_PodCommonSpec :: PodCommonSpec where
  "zero_PodCommonSpec = \<lparr>pc_ServiceAccountName = None, pc_PrioritylClassName = None, pc_Labels = None,
     pc_Annotations = None, pc_Affinity = None, pc_Tolerations = None, pc_Volumes = None,
     pc_ImagePullPolicy = []\<rparr>"

record NodePluginResourcesSpec =
  nr_Registrar :: "resource_requirements option"
  nr_Liveness :: "resource_requirements option"
  nr_Addons :: "resource_requirements option"
  nr_LogRotator :: "resource_requirements option"
  nr_Plugin :: "resource_requirements option"

record TopologySpec =
  ts_DomainLabels :: "string list"

record NodePluginSpec =
  np_Pod :: PodCommonSpec
  np_UpdateStrategy :: "update_strategy option"
  np_Resources :: NodePluginResourcesSpec
  np_KubeletDirPath :: string
  np_EnableSeLinuxHostMount :: "bool option"
  np_Topology :: "TopologySpec option"
  np_ContainerExtraArgs :: "(string, string list) fmap option"

definition zero_NodePluginSpec :: NodePluginSpec where
  "zero_NodePluginSpec = \<lparr>np_Pod = zero_PodCommonSpec, np_UpdateStrategy = None,
     np_Resources = \<lparr>nr_Registrar = None, nr_Liveness = None, nr_Addons = None, nr_LogRotator = None,
                     nr_Plugin = None\<rparr>,
     np_KubeletDirPath = [], np_EnableSeLinuxHostMount = None, np_Topology = None,
     np_ContainerExtraArgs = None\<rparr>"

record ControllerPluginResourcesSpec =
  cr_Attacher :: "resource_requirements option"
  cr_Snapshotter :: "resource_requirements option"
  cr_Resizer :: "resource_requirements option"
  cr_Provisioner :: "resource_requirements option"
  cr_OMapGenerator :: "resource_requirements option"
  cr_Liveness :: "resource_requirements option"
  cr_Addons :: "resource_requirements option"
  cr_LogRotator :: "resource_requirements option"
  cr_Plugin :: "resource_requirements option"

record ControllerPluginSpec =
  ct_HostNetwork :: "bool option"
  ct_Pod :: PodCommonSpec
  ct_DeploymentStrategy :: "update_strategy option"
  ct_Replicas :: "32 word option"
  ct_Resources :: ControllerPluginResourcesSpec
  ct_Privileged :: "bool option"
  ct_ContainerExtraArgs :: "(string, string list) fmap option"

definition zero_ControllerPluginSpec :: ControllerPluginSpec where
  "zero_ControllerPluginSpec = \<lparr>ct_HostNetwork = None, ct_Pod = zero_PodCommonSpec,
     ct_DeploymentStrategy = None, ct_Replicas = None,
     ct_Resources = \<lparr>cr_Attacher = None, cr_Snapshotter = None, cr_Resizer = None, cr_Provisioner = None,
                     cr_OMapGenerator = None, cr_Liveness = None, cr_Addons = None,
                     cr_LogRotator = None, cr_Plugin = None\<rparr>,
     ct_Privileged = None, ct_ContainerExtraArgs = None\<rparr>"

record LivenessSpec =
  lv_MetricsPort :: int

record LeaderElectionSpec =
  le_LeaseDuration :: int
  le_RenewDeadline :: int
  le_RetryPeriod :: int

definition AutoDetectCephFsClient :: string where "AutoDetectCephFsClient = ''autodetect''"
definition KernelCephFsClient :: string where "KernelCephFsClient = ''kernel''"

record DriverSpec =
  d_Log :: "LogSpec option"
  d_ImageSet :: "string option"
  d_ClusterName :: "string option"
  d_EnableMetadata :: "bool option"
  d_EnableFencing :: "bool option"
  d_GRpcTimeout :: int
  d_SnapshotPolicy :: string
  d_GenerateOMapInfo :: "bool option"
  d_FsGroupPolicy :: string
  d_Encryption :: "EncryptionSpec option"
  d_NodePlugin :: "NodePluginSpec option"
  d_ControllerPlugin :: "ControllerPluginSpec option"
  d_AttachRequired :: "bool option"
  d_Liveness :: "LivenessSpec option"
  d_LeaderElection :: "LeaderElectionSpec option"
  d_DeployCsiAddons :: "bool option"
  d_CephFsClientType :: string
  d_KernelMountOptions :: "string_map option"
  d_FuseMountOptions :: "string_map option"

definition zero_DriverSpec :: DriverSpec where
  "zero_DriverSpec = \<lparr>d_Log = None, d_ImageSet = None, d_ClusterName = None, d_EnableMetadata = None,
     d_EnableFencing = None, d_GRpcTimeout = 0, d_SnapshotPolicy = [], d_GenerateOMapInfo = None,
     d_FsGroupPolicy = [], d_Encryption = None, d_NodePlugin = None, d_ControllerPlugin = None,
     d_AttachRequired = None, d_Liveness = None, d_LeaderElection = None, d_DeployCsiAddons = None,
     d_CephFsClientType = [], d_KernelMountOptions = None, d_FuseMountOptions = None\<rparr>"

record Driver =
  dr_Meta :: object_meta
  dr_Spec :: DriverSpec

record OperatorLogSpec =
  ol_Verbosity :: int

record OperatorConfigSpec =
  oc_Log :: "OperatorLogSpec option"
  oc_DriverSpecDefaults :: "DriverSpec option"

record OperatorConfig =
  oc_Meta :: object_meta
  oc_Spec :: OperatorConfigSpec

section \<open>Validation rules of the custom resource definitions\<close>

text \<open>
  The bounds the kubebuilder markers state. The API server enforces them on what it stores;
  properties that need them say so.
\<close>

definition LivenessSpec_valid :: "LivenessSpec \<Rightarrow> bool" where
  "LivenessSpec_valid l = (1024 \<le> lv_MetricsPort l \<and> lv_MetricsPort l \<le> 65535)"

definition LogRotationSpec_valid :: "LogRotationSpec \<Rightarrow> bool" where
  "LogRotationSpec_valid l =
     ((\<not> q_IsZero (lr_MaxLogSize l) \<or> lr_Periodicity l \<noteq> []) \<and>
      lr_Periodicity l \<in> {[], HourlyPeriod, DailyPeriod, WeeklyPeriod, MonthlyPeriod})"

definition BlockPoolIdPair_valid :: "BlockPoolIdPair \<Rightarrow> bool" where
  "BlockPoolIdPair_valid p = (length p = 2)"

section \<open>The client\<close>

record 'w client =
  cl_Driver :: "('w, Driver) api"
  cl_OperatorConfig :: "('w, OperatorConfig) api"
  cl_ClientProfile :: "('w, ClientProfile) api"
  cl_CephConnection :: "('w, CephConnection) api"
  cl_ClientProfileMapping :: "('w, ClientProfileMapping) api"
  cl_ClientProfileReplication :: "('w, ClientProfileReplication) api"
  cl_ConfigMap :: "('w, config_map) api"
  cl_CSIDriver :: "('w, csi_driver) api"
  cl_Deployment :: "('w, deployment) api"
  cl_DaemonSet :: "('w, daemonset) api"
  cl_Service :: "('w, service) api"
  cl_NetworkPolicy :: "('w, network_policy) api"
  cl_Node :: "('w, node) api"

text \<open>
  The field index over replications that the replication controller registers
  (\<open>clientprofilereplication_controller.go\<close>).
\<close>

definition clientProfileIndexKey :: string where
  "clientProfileIndexKey = ''index:spec.localClientProfile''"

definition indexClientProfileReplication :: "ClientProfileReplication \<Rightarrow> string list" where
  "indexClientProfileReplication cpr =
     (if crs_LocalClientProfile (cpr_Spec cpr) \<noteq> [] then [crs_LocalClientProfile (cpr_Spec cpr)] else [])"

text \<open>The zero values the controllers start from.\<close>

definition zero_CephConnection :: CephConnection where
  "zero_CephConnection = \<lparr>cc_Meta = zero_meta,
     cc_Spec = \<lparr>cc_Monitors = [], cc_ReadAffinity = None, cc_RbdMirrorDaemonCount = 0\<rparr>\<rparr>"

definition zero_ClientProfile :: ClientProfile where
  "zero_ClientProfile = \<lparr>cp_Meta = zero_meta,
     cp_Spec = \<lparr>cps_CephConnectionRef = [], cps_CephFs = None, cps_Rbd = None, cps_Nfs = None,
                cps_Nvmeof = None\<rparr>,
     cp_Status = \<lparr>cpt_Phase = [], cpt_Message = []\<rparr>\<rparr>"

definition zero_ClientProfileReplication :: ClientProfileReplication where
  "zero_ClientProfileReplication = \<lparr>cpr_Meta = zero_meta,
     cpr_Spec = \<lparr>crs_LocalClientProfile = [], crs_RemoteClientProfile = [], crs_RBD = None\<rparr>,
     cpr_Status = \<lparr>crt_Phase = [], crt_Message = []\<rparr>\<rparr>"

definition zero_Driver :: Driver where
  "zero_Driver = \<lparr>dr_Meta = zero_meta, dr_Spec = zero_DriverSpec\<rparr>"

definition zero_OperatorConfig :: OperatorConfig where
  "zero_OperatorConfig = \<lparr>oc_Meta = zero_meta,
     oc_Spec = \<lparr>oc_Log = None, oc_DriverSpecDefaults = None\<rparr>\<rparr>"

end
