(* ===== verification/Driver_Spec.thy ===== *)
theory Driver_Spec
  imports Api_Types
begin

text \<open>
  What a driver is before anything is deployed: the defaults of \<open>internal/controller/defaults.go\<close>
  and, from \<open>driver_controller.go\<close>, the parsing of the driver's name and the merge of the operator's
  defaults into the driver's spec.

  The merge is a family of operations with the same shape (keep what is set, take the default
  otherwise); the locale \<open>overriding\<close> is their common contract. It is associative and idempotent, it
  never changes a field that is set, and the fields it does not look at are stated explicitly.
\<close>

section \<open>Defaults\<close>

definition imageDefaults :: string_map where
  "imageDefaults = fmap_of_list
     [(''provisioner'', ''registry.k8s.io/sig-storage/csi-provisioner:v6.2.0''),
      (''attacher'', ''registry.k8s.io/sig-storage/csi-attacher:v4.12.0''),
      (''resizer'', ''registry.k8s.io/sig-storage/csi-resizer:v2.1.0''),
      (''snapshotter'', ''registry.k8s.io/sig-storage/csi-snapshotter:v8.5.0''),
      (''registrar'', ''registry.k8s.io/sig-storage/csi-node-driver-registrar:v2.17.0''),
      (''snapshot-metadata'', ''registry.k8s.io/sig-storage/csi-snapshot-metadata:v1.0.0''),
      (''plugin'', ''quay.io/cephcsi/cephcsi:v3.17.0''),
      (''addons'', ''quay.io/csiaddons/k8s-sidecar:v0.14.0'')]"

definition defaultGRrpcTimeout :: int where "defaultGRrpcTimeout = 150"
definition defaultKubeletDirPath :: string where "defaultKubeletDirPath = ''/var/lib/kubelet''"
definition defaultLogHostPath :: string where "defaultLogHostPath = ''/var/lib/cephcsi''"
definition defaultLogRotateMaxFiles :: int where "defaultLogRotateMaxFiles = 7"
definition defaultControllerPluginReplicas :: "32 word" where "defaultControllerPluginReplicas = 2"

definition defaultLeaderElection :: LeaderElectionSpec where
  "defaultLeaderElection = \<lparr>le_LeaseDuration = 137, le_RenewDeadline = 107, le_RetryPeriod = 26\<rparr>"

definition defaultDaemonSetUpdateStrategy :: update_strategy where
  "defaultDaemonSetUpdateStrategy = \<lparr>us_Type = ''RollingUpdate'',
     us_RollingUpdate = Some \<lparr>ru_MaxUnavailable = Some (FromInt 1), ru_MaxSurge = None\<rparr>\<rparr>"

definition defaultDeploymentStrategy :: update_strategy where
  "defaultDeploymentStrategy = \<lparr>us_Type = ''Recreate'', us_RollingUpdate = None\<rparr>"

text \<open>The package variables read from the environment; their initialisation may panic.\<close>

definition operatorNamespace :: "environ \<Rightarrow> string result" where
  "operatorNamespace env =
     (case GetOperatorNamespace env of
        Inl _ \<Rightarrow> Inl (Panic ''Required OPERATOR_NAMESPACE environment variable is either missing or empty'')
      | Inr namespace \<Rightarrow> Inr namespace)"

definition operatorConfigName :: "environ \<Rightarrow> string result" where
  "operatorConfigName env =
     (case fmlookup env ''OPERATOR_CONFIG_NAME'' of
        Some name \<Rightarrow>
          if name = [] then Inl (Panic ''OPERATOR_CONFIG_NAME exists but empty'') else Inr name
      | None \<Rightarrow> Inr ''ceph-csi-operator-config'')"

definition serviceAccountPrefix :: "environ \<Rightarrow> string" where
  "serviceAccountPrefix env = Getenv env ''CSI_SERVICE_ACCOUNT_PREFIX''"

section \<open>The name of a driver\<close>

definition RbdDriverType :: string where "RbdDriverType = ''rbd''"
definition CephFsDriverType :: string where "CephFsDriverType = ''cephfs''"
definition NfsDriverType :: string where "NfsDriverType = ''nfs''"
definition NvmeofDriverType :: string where "NvmeofDriverType = ''nvmeof''"

definition driver_types :: "string list" where
  "driver_types = [RbdDriverType, CephFsDriverType, NfsDriverType, NvmeofDriverType]"

text \<open>
  \<open>nameRegExp.FindStringSubmatch\<close> for \<open>^(?:.+\.)?(rbd|cephfs|nfs|nvmeof)\.csi\.ceph\.com$\<close>: the whole
  match and the group, or nothing. The optional prefix is a non-empty text without line breaks
  followed by a dot.
\<close>

definition prefix_ok :: "string \<Rightarrow> bool" where
  "prefix_ok p = (p = [] \<or> (2 \<le> length p \<and> last p = CHR ''.'' \<and> CHR 0x0A \<notin> set p))"

definition type_match :: "string \<Rightarrow> string \<Rightarrow> bool" where
  "type_match name t =
     (let s = t @ ''.csi.ceph.com'' in suffix s name \<and> prefix_ok (take (length name - length s) name))"

definition FindStringSubmatch :: "string \<Rightarrow> string list" where
  "FindStringSubmatch name =
     (case find (type_match name) driver_types of None \<Rightarrow> [] | Some t \<Rightarrow> [name, t])"

definition ToLower :: "string \<Rightarrow> string" where
  "ToLower s = map lower s"

section \<open>Merging specs\<close>

definition fill_ptr :: "'a option \<Rightarrow> 'a option \<Rightarrow> 'a option" where
  "fill_ptr dest src = (if dest = None then src else dest)"

definition fill_str :: "string \<Rightarrow> string \<Rightarrow> string" where
  "fill_str dest src = (if dest = [] then src else dest)"

definition fill_int :: "int \<Rightarrow> int \<Rightarrow> int" where
  "fill_int dest src = (if dest = 0 then src else dest)"

text \<open>The embedded pod spec, which both plugin specs merge alike.\<close>

definition merge_pod :: "PodCommonSpec \<Rightarrow> PodCommonSpec \<Rightarrow> PodCommonSpec" where
  "merge_pod dest src = dest
     \<lparr>pc_ServiceAccountName := fill_ptr (pc_ServiceAccountName dest) (pc_ServiceAccountName src),
         pc_PrioritylClassName := fill_ptr (pc_PrioritylClassName dest) (pc_PrioritylClassName src),
         pc_Labels := fill_ptr (pc_Labels dest) (pc_Labels src),
         pc_Annotations := fill_ptr (pc_Annotations dest) (pc_Annotations src),
         pc_Affinity := fill_ptr (pc_Affinity dest) (pc_Affinity src),
         pc_Tolerations := fill_ptr (pc_Tolerations dest) (pc_Tolerations src),
         pc_Volumes := fill_ptr (pc_Volumes dest) (pc_Volumes src),
         pc_ImagePullPolicy := fill_str (pc_ImagePullPolicy dest) (pc_ImagePullPolicy src)\<rparr>"

definition merge_node_resources :: "NodePluginResourcesSpec \<Rightarrow> NodePluginResourcesSpec \<Rightarrow> NodePluginResourcesSpec" where
  "merge_node_resources dest src = dest
     \<lparr>nr_Registrar := fill_ptr (nr_Registrar dest) (nr_Registrar src),
         nr_Liveness := fill_ptr (nr_Liveness dest) (nr_Liveness src),
         nr_Plugin := fill_ptr (nr_Plugin dest) (nr_Plugin src),
         nr_LogRotator := fill_ptr (nr_LogRotator dest) (nr_LogRotator src),
         nr_Addons := fill_ptr (nr_Addons dest) (nr_Addons src)\<rparr>"

text \<open>The topology is not merged.\<close>

definition merge_node :: "NodePluginSpec \<Rightarrow> NodePluginSpec \<Rightarrow> NodePluginSpec" where
  "merge_node dest src = dest
     \<lparr>np_Pod := merge_pod (np_Pod dest) (np_Pod src),
         np_UpdateStrategy := fill_ptr (np_UpdateStrategy dest) (np_UpdateStrategy src),
         np_KubeletDirPath := fill_str (np_KubeletDirPath dest) (np_KubeletDirPath src),
         np_EnableSeLinuxHostMount := fill_ptr (np_EnableSeLinuxHostMount dest) (np_EnableSeLinuxHostMount src),
         np_Resources := merge_node_resources (np_Resources dest) (np_Resources src),
         np_ContainerExtraArgs := fill_ptr (np_ContainerExtraArgs dest) (np_ContainerExtraArgs src)\<rparr>"

definition merge_controller_resources :: "ControllerPluginResourcesSpec \<Rightarrow> ControllerPluginResourcesSpec \<Rightarrow> ControllerPluginResourcesSpec" where
  "merge_controller_resources dest src = dest
     \<lparr>cr_Attacher := fill_ptr (cr_Attacher dest) (cr_Attacher src),
         cr_Snapshotter := fill_ptr (cr_Snapshotter dest) (cr_Snapshotter src),
         cr_Resizer := fill_ptr (cr_Resizer dest) (cr_Resizer src),
         cr_Provisioner := fill_ptr (cr_Provisioner dest) (cr_Provisioner src),
         cr_OMapGenerator := fill_ptr (cr_OMapGenerator dest) (cr_OMapGenerator src),
         cr_Liveness := fill_ptr (cr_Liveness dest) (cr_Liveness src),
         cr_Plugin := fill_ptr (cr_Plugin dest) (cr_Plugin src),
         cr_LogRotator := fill_ptr (cr_LogRotator dest) (cr_LogRotator src),
         cr_Addons := fill_ptr (cr_Addons dest) (cr_Addons src)\<rparr>"

text \<open>The host network setting and the deployment strategy are not merged.\<close>

definition merge_controller :: "ControllerPluginSpec \<Rightarrow> ControllerPluginSpec \<Rightarrow> ControllerPluginSpec" where
  "merge_controller dest src = dest
     \<lparr>ct_Pod := merge_pod (ct_Pod dest) (ct_Pod src),
         ct_Replicas := fill_ptr (ct_Replicas dest) (ct_Replicas src),
         ct_Privileged := fill_ptr (ct_Privileged dest) (ct_Privileged src),
         ct_Resources := merge_controller_resources (ct_Resources dest) (ct_Resources src),
         ct_ContainerExtraArgs := fill_ptr (ct_ContainerExtraArgs dest) (ct_ContainerExtraArgs src)\<rparr>"

text \<open>A nested struct behind a pointer: taken whole if the destination has none, else merged.\<close>

definition fill_with :: "('a \<Rightarrow> 'a \<Rightarrow> 'a) \<Rightarrow> 'a option \<Rightarrow> 'a option \<Rightarrow> 'a option" where
  "fill_with merge dest src =
     (case src of
        None \<Rightarrow> dest
      | Some s \<Rightarrow> (case dest of None \<Rightarrow> Some s | Some d \<Rightarrow> Some (merge d s)))"

definition mergeDriverSpecs :: "DriverSpec \<Rightarrow> DriverSpec \<Rightarrow> DriverSpec" where
  "mergeDriverSpecs dest src = dest
     \<lparr>d_Log := fill_ptr (d_Log dest) (d_Log src),
         d_ClusterName := fill_ptr (d_ClusterName dest) (d_ClusterName src),
         d_GRpcTimeout := fill_int (d_GRpcTimeout dest) (d_GRpcTimeout src),
         d_SnapshotPolicy := fill_str (d_SnapshotPolicy dest) (d_SnapshotPolicy src),
         d_GenerateOMapInfo := fill_ptr (d_GenerateOMapInfo dest) (d_GenerateOMapInfo src),
         d_EnableFencing := fill_ptr (d_EnableFencing dest) (d_EnableFencing src),
         d_FsGroupPolicy := fill_str (d_FsGroupPolicy dest) (d_FsGroupPolicy src),
         d_Encryption := fill_ptr (d_Encryption dest) (d_Encryption src),
         d_NodePlugin := fill_with merge_node (d_NodePlugin dest) (d_NodePlugin src),
         d_ControllerPlugin := fill_with merge_controller (d_ControllerPlugin dest) (d_ControllerPlugin src),
         d_AttachRequired := fill_ptr (d_AttachRequired dest) (d_AttachRequired src),
         d_Liveness := fill_ptr (d_Liveness dest) (d_Liveness src),
         d_LeaderElection := fill_ptr (d_LeaderElection dest) (d_LeaderElection src),
         d_DeployCsiAddons := fill_ptr (d_DeployCsiAddons dest) (d_DeployCsiAddons src),
         d_KernelMountOptions := fill_ptr (d_KernelMountOptions dest) (d_KernelMountOptions src),
         d_FuseMountOptions := fill_ptr (d_FuseMountOptions dest) (d_FuseMountOptions src),
         d_CephFsClientType := fill_str (d_CephFsClientType dest) (d_CephFsClientType src)\<rparr>"

section \<open>The contract of the merge\<close>

locale overriding =
  fixes merge :: "'a \<Rightarrow> 'a \<Rightarrow> 'a"
  assumes assoc: "merge (merge d s) t = merge d (merge s t)"
    and idem: "merge d d = d"
begin

text \<open>Applying the same defaults again changes nothing.\<close>

lemma absorb: "merge (merge d s) s = merge d s"
  by (simp add: assoc idem)

text \<open>What was set stays: merging into the result gives the result.\<close>

lemma keeps_dest: "merge d (merge d s) = merge d s"
  by (metis assoc idem)

text \<open>A chain of defaults, nearest first, can be merged beforehand.\<close>

lemma chain: "foldl merge d (s # ss) = merge d (foldl merge s ss)"
  by (induction ss arbitrary: d s) (simp_all add: assoc [symmetric])

lemma optional: "overriding (fill_with merge)"
  by unfold_locales (auto simp: fill_with_def assoc idem split: option.splits)

end

interpretation ptr: overriding fill_ptr
  by unfold_locales (auto simp: fill_ptr_def)

interpretation str: overriding fill_str
  by unfold_locales (auto simp: fill_str_def)

interpretation int: overriding fill_int
  by unfold_locales (auto simp: fill_int_def)

lemmas fill_simps = ptr.assoc ptr.idem str.assoc str.idem int.assoc int.idem

interpretation pod: overriding merge_pod
  by unfold_locales (simp_all add: merge_pod_def fill_simps)

interpretation node_resources: overriding merge_node_resources
  by unfold_locales (simp_all add: merge_node_resources_def fill_simps)

interpretation node: overriding merge_node
  by unfold_locales (simp_all add: merge_node_def fill_simps pod.assoc pod.idem
      node_resources.assoc node_resources.idem)

interpretation controller_resources: overriding merge_controller_resources
  by unfold_locales (simp_all add: merge_controller_resources_def fill_simps)

interpretation controller: overriding merge_controller
  by unfold_locales (simp_all add: merge_controller_def fill_simps pod.assoc pod.idem
      controller_resources.assoc controller_resources.idem)

interpretation node_ptr: overriding "fill_with merge_node"
  by (rule node.optional)

interpretation controller_ptr: overriding "fill_with merge_controller"
  by (rule controller.optional)

interpretation driver_specs: overriding mergeDriverSpecs
  by unfold_locales (simp_all add: mergeDriverSpecs_def fill_simps node_ptr.assoc node_ptr.idem
      controller_ptr.assoc controller_ptr.idem)

section \<open>Properties\<close>




lemma driver_types_antichain:
  "t \<in> set driver_types \<Longrightarrow> t' \<in> set driver_types \<Longrightarrow> suffix t t' \<Longrightarrow> t = t'"
  by (auto simp: driver_types_def RbdDriverType_def CephFsDriverType_def NfsDriverType_def
      NvmeofDriverType_def suffix_def append_eq_Cons_conv Cons_eq_append_conv)

lemma type_match_iff: "type_match name t \<longleftrightarrow> (\<exists>p. name = p @ t @ ''.csi.ceph.com'' \<and> prefix_ok p)"
  by (auto simp: type_match_def suffix_def)

lemma type_match_unique:
  assumes "type_match name t" "type_match name t'" "t \<in> set driver_types" "t' \<in> set driver_types"
  shows "t = t'"
proof -
  from assms(1,2) have "suffix (t @ ''.csi.ceph.com'') name" "suffix (t' @ ''.csi.ceph.com'') name"
    by (simp_all add: type_match_def)
  from suffix_same_cases [OF this] have "suffix t t' \<or> suffix t' t"
    by (metis same_suffix_suffix)
  with driver_types_antichain assms(3,4) show ?thesis by metis
qed

lemma FindStringSubmatch_iff:
  "FindStringSubmatch name = [name, t] \<longleftrightarrow> t \<in> set driver_types \<and> type_match name t"
proof -
  have "FindStringSubmatch name = [name, t] \<longleftrightarrow> find (type_match name) driver_types = Some t"
    by (auto simp: FindStringSubmatch_def split: option.splits)
  also have "\<dots> \<longleftrightarrow> t \<in> set driver_types \<and> type_match name t"
  proof
    assume "find (type_match name) driver_types = Some t"
    then show "t \<in> set driver_types \<and> type_match name t" by (auto simp: find_Some_iff)
  next
    assume t: "t \<in> set driver_types \<and> type_match name t"
    then obtain t' where f: "find (type_match name) driver_types = Some t'"
      by (cases "find (type_match name) driver_types") (auto simp: find_None_iff)
    then have "type_match name t'" "t' \<in> set driver_types" by (auto simp: find_Some_iff)
    with type_match_unique t f show "find (type_match name) driver_types = Some t" by metis
  qed
  finally show ?thesis .
qed

text \<open>
  The name of a driver determines its type. The name parses with a type as its group exactly
  when that is a supported type and the name is the type followed by \<open>.csi.ceph.com\<close>, alone or
  after a non-empty prefix and a dot; there is at most one such type, lower-casing it changes
  nothing, and any other name is refused.
\<close>

theorem driver_name_determines_type:
  "(FindStringSubmatch name = [name, t] \<longleftrightarrow>
      t \<in> set driver_types \<and> (\<exists>p. name = p @ t @ ''.csi.ceph.com'' \<and> prefix_ok p)) \<and>
   (FindStringSubmatch name = [] \<or> (\<exists>u \<in> set driver_types. FindStringSubmatch name = [name, u] \<and> ToLower u = u))"
proof -
  have low: "u \<in> set driver_types \<Longrightarrow> ToLower u = u" for u
    by (auto simp: driver_types_def RbdDriverType_def CephFsDriverType_def NfsDriverType_def
        NvmeofDriverType_def ToLower_def lower_def)
  have "FindStringSubmatch name = [] \<or> (\<exists>u. FindStringSubmatch name = [name, u])"
    by (simp add: FindStringSubmatch_def split: option.splits)
  with low show ?thesis by (auto simp: FindStringSubmatch_iff type_match_iff)
qed

end
