(* ===== verification/Mem_Cluster.thy ===== *)
theory Mem_Cluster
  imports Api_Types
begin

text \<open>
  A whole cluster in memory: one store per kind, each the in-memory server of \<open>Kube_Client\<close>,
  and the client that talks to them. It plays the part of the fake client in the repository's
  tests: it shows that the laws the properties assume of the API server can hold, and the
  witnesses run the controllers on it.
\<close>

record cluster =
  mc_Driver :: "Driver mem"
  mc_OperatorConfig :: "OperatorConfig mem"
  mc_ClientProfile :: "ClientProfile mem"
  mc_CephConnection :: "CephConnection mem"
  mc_ClientProfileMapping :: "ClientProfileMapping mem"
  mc_ClientProfileReplication :: "ClientProfileReplication mem"
  mc_ConfigMap :: "config_map mem"
  mc_CSIDriver :: "csi_driver mem"
  mc_Deployment :: "deployment mem"
  mc_DaemonSet :: "daemonset mem"
  mc_Service :: "service mem"
  mc_NetworkPolicy :: "network_policy mem"
  mc_Node :: "node mem"

definition empty_cluster :: cluster where
    "empty_cluster = \<lparr>mc_Driver = empty_mem, mc_OperatorConfig = empty_mem, mc_ClientProfile
     = empty_mem, mc_CephConnection = empty_mem, mc_ClientProfileMapping = empty_mem,
     mc_ClientProfileReplication = empty_mem, mc_ConfigMap = empty_mem, mc_CSIDriver = empty_mem,
     mc_Deployment = empty_mem, mc_DaemonSet = empty_mem, mc_Service = empty_mem, mc_NetworkPolicy =
     empty_mem, mc_Node = empty_mem\<rparr>"

abbreviation mem_Driver :: "(cluster, Driver) api" where
  "mem_Driver \<equiv> mem_api mc_Driver (\<lambda>s. mc_Driver_update (\<lambda>_. s)) dr_Meta (\<lambda>md. dr_Meta_update (\<lambda>_. md))
     (\<lambda>_ obj. obj) (\<lambda>_ _. [])"

abbreviation mem_OperatorConfig :: "(cluster, OperatorConfig) api" where
  "mem_OperatorConfig \<equiv> mem_api mc_OperatorConfig (\<lambda>s. mc_OperatorConfig_update (\<lambda>_. s)) oc_Meta (\<lambda>md. oc_Meta_update (\<lambda>_. md))
     (\<lambda>_ obj. obj) (\<lambda>_ _. [])"

abbreviation mem_ClientProfile :: "(cluster, ClientProfile) api" where
  "mem_ClientProfile \<equiv> mem_api mc_ClientProfile (\<lambda>s. mc_ClientProfile_update (\<lambda>_. s)) cp_Meta (\<lambda>md. cp_Meta_update (\<lambda>_. md))
     (\<lambda>src obj. obj\<lparr>cp_Status := cp_Status src\<rparr>) (\<lambda>_ _. [])"

abbreviation mem_CephConnection :: "(cluster, CephConnection) api" where
  "mem_CephConnection \<equiv> mem_api mc_CephConnection (\<lambda>s. mc_CephConnection_update (\<lambda>_. s)) cc_Meta (\<lambda>md. cc_Meta_update (\<lambda>_. md))
     (\<lambda>_ obj. obj) (\<lambda>_ _. [])"

abbreviation mem_ClientProfileMapping :: "(cluster, ClientProfileMapping) api" where
  "mem_ClientProfileMapping \<equiv> mem_api mc_ClientProfileMapping (\<lambda>s. mc_ClientProfileMapping_update (\<lambda>_. s)) cpm_Meta (\<lambda>md. cpm_Meta_update (\<lambda>_. md))
     (\<lambda>_ obj. obj) (\<lambda>_ _. [])"

abbreviation mem_ClientProfileReplication :: "(cluster, ClientProfileReplication) api" where
  "mem_ClientProfileReplication \<equiv> mem_api mc_ClientProfileReplication (\<lambda>s. mc_ClientProfileReplication_update (\<lambda>_. s)) cpr_Meta (\<lambda>md. cpr_Meta_update (\<lambda>_. md))
     (\<lambda>src obj. obj\<lparr>cpr_Status := cpr_Status src\<rparr>) 
     (\<lambda>field obj. if field = clientProfileIndexKey then indexClientProfileReplication obj else [])"

abbreviation mem_ConfigMap :: "(cluster, config_map) api" where
  "mem_ConfigMap \<equiv> mem_api mc_ConfigMap (\<lambda>s. mc_ConfigMap_update (\<lambda>_. s)) cm_Meta (\<lambda>md. cm_Meta_update (\<lambda>_. md))
     (\<lambda>_ obj. obj) (\<lambda>_ _. [])"

abbreviation mem_CSIDriver :: "(cluster, csi_driver) api" where
  "mem_CSIDriver \<equiv> mem_api mc_CSIDriver (\<lambda>s. mc_CSIDriver_update (\<lambda>_. s)) cd_Meta (\<lambda>md. cd_Meta_update (\<lambda>_. md))
     (\<lambda>_ obj. obj) (\<lambda>_ _. [])"

abbreviation mem_Deployment :: "(cluster, deployment) api" where
  "mem_Deployment \<equiv> mem_api mc_Deployment (\<lambda>s. mc_Deployment_update (\<lambda>_. s)) dp_Meta (\<lambda>md. dp_Meta_update (\<lambda>_. md))
     (\<lambda>src obj. obj\<lparr>dp_Status := dp_Status src\<rparr>) (\<lambda>_ _. [])"

abbreviation mem_DaemonSet :: "(cluster, daemonset) api" where
  "mem_DaemonSet \<equiv> mem_api mc_DaemonSet (\<lambda>s. mc_DaemonSet_update (\<lambda>_. s)) dset_Meta (\<lambda>md. dset_Meta_update (\<lambda>_. md))
     (\<lambda>src obj. obj\<lparr>dset_Status := dset_Status src\<rparr>) (\<lambda>_ _. [])"

abbreviation mem_Service :: "(cluster, service) api" where
  "mem_Service \<equiv> mem_api mc_Service (\<lambda>s. mc_Service_update (\<lambda>_. s)) sv_Meta (\<lambda>md. sv_Meta_update (\<lambda>_. md))
     (\<lambda>src obj. obj\<lparr>sv_Status := sv_Status src\<rparr>) (\<lambda>_ _. [])"

abbreviation mem_NetworkPolicy :: "(cluster, network_policy) api" where
  "mem_NetworkPolicy \<equiv> mem_api mc_NetworkPolicy (\<lambda>s. mc_NetworkPolicy_update (\<lambda>_. s)) np_Meta (\<lambda>md. np_Meta_update (\<lambda>_. md))
     (\<lambda>_ obj. obj) (\<lambda>_ _. [])"

abbreviation mem_Node :: "(cluster, node) api" where
  "mem_Node \<equiv> mem_api mc_Node (\<lambda>s. mc_Node_update (\<lambda>_. s)) nd_Meta (\<lambda>md. nd_Meta_update (\<lambda>_. md))
     (\<lambda>_ obj. obj) (\<lambda>_ _. [])"

definition mem_client :: "cluster client" where
  "mem_client = \<lparr>cl_Driver = mem_Driver,
     cl_OperatorConfig = mem_OperatorConfig,
     cl_ClientProfile = mem_ClientProfile,
     cl_CephConnection = mem_CephConnection,
     cl_ClientProfileMapping = mem_ClientProfileMapping,
     cl_ClientProfileReplication = mem_ClientProfileReplication,
     cl_ConfigMap = mem_ConfigMap,
     cl_CSIDriver = mem_CSIDriver,
     cl_Deployment = mem_Deployment,
     cl_DaemonSet = mem_DaemonSet,
     cl_Service = mem_Service,
     cl_NetworkPolicy = mem_NetworkPolicy,
     cl_Node = mem_Node\<rparr>"

lemma mem_client_simps [simp]:
  "cl_Driver mem_client = mem_Driver"
  "cl_OperatorConfig mem_client = mem_OperatorConfig"
  "cl_ClientProfile mem_client = mem_ClientProfile"
  "cl_CephConnection mem_client = mem_CephConnection"
  "cl_ClientProfileMapping mem_client = mem_ClientProfileMapping"
  "cl_ClientProfileReplication mem_client = mem_ClientProfileReplication"
  "cl_ConfigMap mem_client = mem_ConfigMap"
  "cl_CSIDriver mem_client = mem_CSIDriver"
  "cl_Deployment mem_client = mem_Deployment"
  "cl_DaemonSet mem_client = mem_DaemonSet"
  "cl_Service mem_client = mem_Service"
  "cl_NetworkPolicy mem_client = mem_NetworkPolicy"
  "cl_Node mem_client = mem_Node"
  by (simp_all add: mem_client_def)

text \<open>Every store keeps the contract of the API server.\<close>

interpretation Driver_store: mem_store mc_Driver "\<lambda>s. mc_Driver_update (\<lambda>_. s)" dr_Meta "\<lambda>md. dr_Meta_update (\<lambda>_. md)"
  "\<lambda>_ obj. obj" "\<lambda>_ _. []" dr_Spec
  by unfold_locales simp_all

interpretation OperatorConfig_store: mem_store mc_OperatorConfig "\<lambda>s. mc_OperatorConfig_update (\<lambda>_. s)" oc_Meta "\<lambda>md. oc_Meta_update (\<lambda>_. md)"
  "\<lambda>_ obj. obj" "\<lambda>_ _. []" oc_Spec
  by unfold_locales simp_all

interpretation ClientProfile_store: mem_store mc_ClientProfile "\<lambda>s. mc_ClientProfile_update (\<lambda>_. s)" cp_Meta "\<lambda>md. cp_Meta_update (\<lambda>_. md)"
  "\<lambda>src obj. obj\<lparr>cp_Status := cp_Status src\<rparr>" "\<lambda>_ _. []" "\<lambda>obj. (cp_Spec obj, om_Finalizers (cp_Meta obj))"
  by unfold_locales simp_all

interpretation CephConnection_store: mem_store mc_CephConnection "\<lambda>s. mc_CephConnection_update (\<lambda>_. s)" cc_Meta "\<lambda>md. cc_Meta_update (\<lambda>_. md)"
  "\<lambda>_ obj. obj" "\<lambda>_ _. []" "\<lambda>obj. (cc_Spec obj, om_OwnerReferences (cc_Meta obj))"
  by unfold_locales simp_all

interpretation ClientProfileMapping_store: mem_store mc_ClientProfileMapping "\<lambda>s. mc_ClientProfileMapping_update (\<lambda>_. s)" cpm_Meta "\<lambda>md. cpm_Meta_update (\<lambda>_. md)"
  "\<lambda>_ obj. obj" "\<lambda>_ _. []" cpm_Mappings
  by unfold_locales simp_all

interpretation ClientProfileReplication_store: mem_store mc_ClientProfileReplication "\<lambda>s. mc_ClientProfileReplication_update (\<lambda>_. s)" cpr_Meta "\<lambda>md. cpr_Meta_update (\<lambda>_. md)"
  "\<lambda>src obj. obj\<lparr>cpr_Status := cpr_Status src\<rparr>" 
  "\<lambda>field obj. if field = clientProfileIndexKey then indexClientProfileReplication obj else []" cpr_Spec
  by unfold_locales simp_all

interpretation ConfigMap_store: mem_store mc_ConfigMap "\<lambda>s. mc_ConfigMap_update (\<lambda>_. s)" cm_Meta "\<lambda>md. cm_Meta_update (\<lambda>_. md)"
  "\<lambda>_ obj. obj" "\<lambda>_ _. []" "\<lambda>obj. (cm_Data obj, om_OwnerReferences (cm_Meta obj))"
  by unfold_locales simp_all

interpretation CSIDriver_store: mem_store mc_CSIDriver "\<lambda>s. mc_CSIDriver_update (\<lambda>_. s)" cd_Meta "\<lambda>md. cd_Meta_update (\<lambda>_. md)"
  "\<lambda>_ obj. obj" "\<lambda>_ _. []" "\<lambda>obj. (cd_Spec obj, om_Annotations (cd_Meta obj))"
  by unfold_locales simp_all

interpretation Deployment_store: mem_store mc_Deployment "\<lambda>s. mc_Deployment_update (\<lambda>_. s)" dp_Meta "\<lambda>md. dp_Meta_update (\<lambda>_. md)"
  "\<lambda>src obj. obj\<lparr>dp_Status := dp_Status src\<rparr>" "\<lambda>_ _. []" "\<lambda>obj. (dp_Spec obj, om_OwnerReferences (dp_Meta obj))"
  by unfold_locales simp_all

interpretation DaemonSet_store: mem_store mc_DaemonSet "\<lambda>s. mc_DaemonSet_update (\<lambda>_. s)" dset_Meta "\<lambda>md. dset_Meta_update (\<lambda>_. md)"
  "\<lambda>src obj. obj\<lparr>dset_Status := dset_Status src\<rparr>" "\<lambda>_ _. []" "\<lambda>obj. (dset_Spec obj, om_OwnerReferences (dset_Meta obj))"
  by unfold_locales simp_all

interpretation Service_store: mem_store mc_Service "\<lambda>s. mc_Service_update (\<lambda>_. s)" sv_Meta "\<lambda>md. sv_Meta_update (\<lambda>_. md)"
  "\<lambda>src obj. obj\<lparr>sv_Status := sv_Status src\<rparr>" "\<lambda>_ _. []" "\<lambda>obj. (sv_Spec obj, om_OwnerReferences (sv_Meta obj))"
  by unfold_locales simp_all

interpretation NetworkPolicy_store: mem_store mc_NetworkPolicy "\<lambda>s. mc_NetworkPolicy_update (\<lambda>_. s)" np_Meta "\<lambda>md. np_Meta_update (\<lambda>_. md)"
  "\<lambda>_ obj. obj" "\<lambda>_ _. []" "\<lambda>obj. (np_Spec obj, om_OwnerReferences (np_Meta obj))"
  by unfold_locales simp_all

interpretation Node_store: mem_store mc_Node "\<lambda>s. mc_Node_update (\<lambda>_. s)" nd_Meta "\<lambda>md. nd_Meta_update (\<lambda>_. md)"
  "\<lambda>_ obj. obj" "\<lambda>_ _. []" "\<lambda>_. ()"
  by unfold_locales simp_all

end
