(* ===== verification/Driver_Load.thy ===== *)
theory Driver_Load
  imports Driver_Spec Mem_Cluster
begin

text \<open>
  The driver controller's state and how it is loaded: \<open>driverReconcile\<close> and
  \<open>LoadAndValidateDesiredState\<close> of \<open>driver_controller.go\<close>, with the ownership annotation on the
  cluster-scoped CSIDriver object that keeps two drivers of the same name in different namespaces
  apart.

  Shown here: the annotation round-trips, so a CSIDriver claimed by one driver is accepted for
  that driver only; loading succeeds only on an unclaimed or own CSIDriver and a well-formed name;
  the images come from the driver's image set, then the operator's, then the defaults.
\<close>

section \<open>State\<close>

record driverReconcile =
  r_driver :: Driver
  r_driverType :: string
  r_images :: string_map

text \<open>What is fixed for the process: package variables, the scheme, the map iteration order.\<close>

record driver_env =
  e_operatorNamespace :: string
  e_operatorConfigName :: string
  e_serviceAccountPrefix :: string
  e_scheme :: scheme
  e_rng :: iteration

definition isRbdDriver :: "driverReconcile \<Rightarrow> bool" where
  "isRbdDriver r = (r_driverType r = RbdDriverType)"

definition isCephFsDriver :: "driverReconcile \<Rightarrow> bool" where
  "isCephFsDriver r = (r_driverType r = CephFsDriverType)"

definition isNfsDriver :: "driverReconcile \<Rightarrow> bool" where
  "isNfsDriver r = (r_driverType r = NfsDriverType)"

definition isNvmeofDriver :: "driverReconcile \<Rightarrow> bool" where
  "isNvmeofDriver r = (r_driverType r = NvmeofDriverType)"

definition isRbdOrNvemofDriver :: "driverReconcile \<Rightarrow> bool" where
  "isRbdOrNvemofDriver r = (isRbdDriver r \<or> isNvmeofDriver r)"

definition driver_name :: "driverReconcile \<Rightarrow> string" where
  "driver_name r = om_Name (dr_Meta (r_driver r))"

definition driver_namespace :: "driverReconcile \<Rightarrow> string" where
  "driver_namespace r = om_Namespace (dr_Meta (r_driver r))"

definition generateName :: "driverReconcile \<Rightarrow> string \<Rightarrow> string" where
  "generateName r sfx = driver_name r @ ''-'' @ sfx"

text \<open>The pattern \<open>[^a-z0-9-]\<close>; names are ASCII, so bytes are characters.\<close>

definition service_char :: "char \<Rightarrow> bool" where
  "service_char c =
     (let n = of_char c :: nat in (97 \<le> n \<and> n \<le> 122) \<or> (48 \<le> n \<and> n \<le> 57) \<or> n = 45)"

definition generateServiceName :: "driverReconcile \<Rightarrow> string \<Rightarrow> string" where
  "generateServiceName r sfx =
     map (\<lambda>c. if service_char c then c else CHR ''-'') (generateName r sfx)"

section \<open>The ownership annotation\<close>

definition ownerRefAnnotationKey :: string where
  "ownerRefAnnotationKey = ''csi.ceph.io/ownerref''"

definition enc_key :: "object_key encoder" where
  "enc_key k = JObj [(''Namespace'', JStr (fst k)), (''Name'', JStr (snd k))]"

definition dec_key :: "object_key decoder" where
  "dec_key = dec_struct
     [(''Namespace'', on_field fst (\<lambda>v k. (v, snd k)) dec_string),
      (''Name'', on_field snd (\<lambda>v k. (fst k, v)) dec_string)]"

definition owner_annotation :: "object_meta \<Rightarrow> string" where
  "owner_annotation md = Deref (fmlookup (om_Annotations md) ownerRefAnnotationKey) []"

text \<open>The validation of an existing CSIDriver of the driver's name.\<close>

definition check_claim :: "object_meta \<Rightarrow> csi_driver \<Rightarrow> error" where
  "check_claim driver csiDriver =
     (if om_UID (cd_Meta csiDriver) \<noteq> []
      then let ownerRef = owner_annotation (cd_Meta csiDriver)
           in if ownerRef = [] then Some (ErrorString ''invalid driver name'')
              else case Unmarshal dec_key ownerRef ([], []) of
                     Inl err \<Rightarrow> Some err
                   | Inr ownerObjKey \<Rightarrow>
                       if om_Namespace driver \<noteq> fst ownerObjKey \<or> om_Name driver \<noteq> snd ownerObjKey
                       then Some (ErrorString ''invalid driver name'')
                       else None
      else None)"

section \<open>Loading\<close>

definition get_claim :: "'w client \<Rightarrow> driverReconcile \<Rightarrow> ('w, csi_driver result) m" where
  "get_claim cl r =
     bind_m (call (api_Get (cl_CSIDriver cl) ([], driver_name r))) (\<lambda>g.
     Ret (case g of
            Inr csiDriver \<Rightarrow> Inr csiDriver
          | Inl err \<Rightarrow> if IgnoreNotFound (Some err) \<noteq> None then Inl err else Inr (new_csi_driver (driver_name r))))"

definition get_operator_config :: "'w client \<Rightarrow> driver_env \<Rightarrow> ('w, OperatorConfig result) m" where
  "get_operator_config cl env =
     bind_m (call (api_Get (cl_OperatorConfig cl) (e_operatorNamespace env, e_operatorConfigName env))) (\<lambda>g.
     Ret (case g of
            Inr opConfig \<Rightarrow> Inr opConfig
          | Inl err \<Rightarrow>
              if IgnoreNotFound (Some err) \<noteq> None then Inl err
              else Inr (zero_OperatorConfig\<lparr>oc_Meta := named_meta (e_operatorNamespace env) (e_operatorConfigName env)\<rparr>)))"

text \<open>\<open>maps.Copy\<close> of the ConfigMap's data over the images.\<close>

definition load_image_set ::
  "'w client \<Rightarrow> string option \<Rightarrow> string \<Rightarrow> driverReconcile \<Rightarrow> ('w, error \<times> driverReconcile) m" where
  "load_image_set cl imageSetSpec ns r =
     (case imageSetSpec of
        None \<Rightarrow> Ret (None, r)
      | Some name \<Rightarrow>
          if name = [] then Ret (None, r)
          else bind_m (call (api_Get (cl_ConfigMap cl) (ns, name))) (\<lambda>g.
               case g of
                 Inl err \<Rightarrow> Ret (Some err, r)
               | Inr imageSetCM \<Rightarrow> Ret (None, r\<lparr>r_images := r_images r ++\<^sub>f cm_Data imageSetCM\<rparr>)))"

definition apply_operator_defaults ::
  "'w client \<Rightarrow> driver_env \<Rightarrow> OperatorConfig \<Rightarrow> driverReconcile \<Rightarrow> ('w, error \<times> driverReconcile) m" where
  "apply_operator_defaults cl env opConfig r =
     (case oc_DriverSpecDefaults (oc_Spec opConfig) of
        None \<Rightarrow> Ret (None, r)
      | Some defaults \<Rightarrow>
          load_image_set cl (d_ImageSet defaults) (e_operatorNamespace env)
            (r\<lparr>r_driver := (r_driver r)\<lparr>dr_Spec := mergeDriverSpecs (dr_Spec (r_driver r)) defaults\<rparr>\<rparr>))"

definition load_driver ::
  "'w client \<Rightarrow> driver_env \<Rightarrow> OperatorConfig \<Rightarrow> driverReconcile \<Rightarrow> ('w, error \<times> driverReconcile) m" where
  "load_driver cl env opConfig r =
     bind_m (call (api_Get (cl_Driver cl) (ObjectKeyFromObject (dr_Meta (r_driver r))))) (\<lambda>g.
     case g of
       Inl err \<Rightarrow> Ret (Some err, r)
     | Inr driver \<Rightarrow>
         let r = r\<lparr>r_driver := driver, r_images := imageDefaults\<rparr>
         in bind_m (apply_operator_defaults cl env opConfig r) (\<lambda>(err, r).
            case err of
              Some e \<Rightarrow> Ret (Some e, r)
            | None \<Rightarrow> load_image_set cl (d_ImageSet (dr_Spec (r_driver r))) (driver_namespace r) r))"

definition LoadAndValidateDesiredState ::
  "'w client \<Rightarrow> driver_env \<Rightarrow> driverReconcile \<Rightarrow> ('w, error \<times> driverReconcile) m" where
  "LoadAndValidateDesiredState cl env r =
     bind_m (get_claim cl r) (\<lambda>c.
     case c of
       Inl err \<Rightarrow> Ret (Some err, r)
     | Inr csiDriver \<Rightarrow>
         (case check_claim (dr_Meta (r_driver r)) csiDriver of
            Some err \<Rightarrow> Ret (Some err, r)
          | None \<Rightarrow>
              let matches = FindStringSubmatch (driver_name r)
              in if length matches \<noteq> 2
                 then Ret (Some (ErrorString (''invalid driver name '' @ driver_name r)), r)
                 else let r = r\<lparr>r_driverType := ToLower (matches ! 1)\<rparr>
                      in bind_m (get_operator_config cl env) (\<lambda>oc.
                         case oc of
                           Inl err \<Rightarrow> Ret (Some err, r)
                         | Inr opConfig \<Rightarrow> load_driver cl env opConfig r)))"

section \<open>Facts\<close>

interpretation key_codec: codec enc_key dec_key "([], [])" "\<lambda>_. True"
  by unfold_locales (simp_all add: enc_key_def dec_key_def codec_simps)

text \<open>A claimed CSIDriver is accepted for the driver whose key the annotation holds, only.\<close>

lemma check_claim_owned:
  assumes "om_UID (cd_Meta csiDriver) \<noteq> []"
    and "fmlookup (om_Annotations (cd_Meta csiDriver)) ownerRefAnnotationKey = Some (Marshal enc_key k)"
  shows "check_claim driver csiDriver = None \<longleftrightarrow> ObjectKeyFromObject driver = k"
proof -
  have nonempty: "Marshal enc_key k \<noteq> []"
    by (simp add: Marshal_def enc_key_def)
  have "Unmarshal dec_key (Marshal enc_key k) ([], []) = Inr k"
    by (rule key_codec.round_trip) simp
  with assms nonempty show ?thesis
    by (cases k) (auto simp: check_claim_def owner_annotation_def ObjectKeyFromObject_def)
qed

lemma check_claim_unclaimed:
  "om_UID (cd_Meta csiDriver) \<noteq> [] \<Longrightarrow>
     fmlookup (om_Annotations (cd_Meta csiDriver)) ownerRefAnnotationKey = None \<Longrightarrow>
     check_claim driver csiDriver = Some (ErrorString ''invalid driver name'')"
  by (simp add: check_claim_def owner_annotation_def)

lemma check_claim_new [simp]: "check_claim driver (new_csi_driver name) = None"
  by (simp add: check_claim_def named_meta_def zero_meta_def)

lemma find_SomeD: "find P xs = Some x \<Longrightarrow> x \<in> set xs \<and> P x"
  by (auto dest!: find_split)

lemma FindStringSubmatch_type:
  "length (FindStringSubmatch name) = 2 \<Longrightarrow>
     FindStringSubmatch name ! 1 \<in> set driver_types \<and> type_match name (FindStringSubmatch name ! 1)"
  by (cases "find (type_match name) driver_types") (simp_all add: FindStringSubmatch_def find_SomeD)

lemma ToLower_type: "t \<in> set driver_types \<Longrightarrow> ToLower t = t"
  by (auto simp: driver_types_def RbdDriverType_def CephFsDriverType_def NfsDriverType_def
      NvmeofDriverType_def ToLower_def lower_def)

text \<open>The image set a ConfigMap reference stands for.\<close>

definition image_layer :: "'w client \<Rightarrow> string option \<Rightarrow> string \<Rightarrow> string_map \<Rightarrow> bool" where
  "image_layer cl imageSetSpec ns images =
     (if cmp_Or_ptr imageSetSpec [] = [] then images = fmempty
      else \<exists>w cm w'. api_Get (cl_ConfigMap cl) (ns, cmp_Or_ptr imageSetSpec []) w = (Inr cm, w') \<and> images = cm_Data cm)"

lemma load_image_setE:
  assumes "run_m (load_image_set cl spec ns r) w = ((None, r'), w')"
  shows "\<exists>images. image_layer cl spec ns images \<and> r' = r\<lparr>r_images := r_images r ++\<^sub>f images\<rparr>"
proof (cases "cmp_Or_ptr spec [] = []")
  case True
  with assms have "r' = r" by (cases spec) (auto simp: load_image_set_def split: if_splits)
  with True show ?thesis by (simp add: image_layer_def)
next
  case False
  then obtain name where n: "spec = Some name" "name \<noteq> []" by (cases spec) auto
  with assms show ?thesis
    by (fastforce simp: load_image_set_def image_layer_def split: sum.splits prod.splits)
qed

lemma load_image_set_frame:
  "run_m (load_image_set cl spec ns r) w = ((e, r'), w') \<Longrightarrow>
     r_driver r' = r_driver r \<and> r_driverType r' = r_driverType r"
  by (auto simp: load_image_set_def split: option.splits if_splits sum.splits prod.splits)

lemma layered_lookup:
  "fmlookup (a ++\<^sub>f b ++\<^sub>f c) k =
     (case fmlookup c k of Some i \<Rightarrow> Some i
      | None \<Rightarrow> (case fmlookup b k of Some i \<Rightarrow> Some i | None \<Rightarrow> fmlookup a k))"
  by (auto simp: fmlookup_dom_iff split: option.splits)

text \<open>The spec and the operator's images after the defaults of the operator.\<close>

definition with_defaults :: "OperatorConfig \<Rightarrow> DriverSpec \<Rightarrow> DriverSpec" where
  "with_defaults opConfig spec =
     (case oc_DriverSpecDefaults (oc_Spec opConfig) of None \<Rightarrow> spec | Some d \<Rightarrow> mergeDriverSpecs spec d)"

definition operator_images :: "OperatorConfig \<Rightarrow> string option" where
  "operator_images opConfig =
     (case oc_DriverSpecDefaults (oc_Spec opConfig) of None \<Rightarrow> None | Some d \<Rightarrow> d_ImageSet d)"

lemma apply_operator_defaultsE:
  assumes "run_m (apply_operator_defaults cl env opConfig r) w = ((None, r'), w')"
  shows "\<exists>images. image_layer cl (operator_images opConfig) (e_operatorNamespace env) images \<and>
    r' = r\<lparr>r_driver := (r_driver r)\<lparr>dr_Spec := with_defaults opConfig (dr_Spec (r_driver r))\<rparr>,
           r_images := r_images r ++\<^sub>f images\<rparr>"
proof (cases "oc_DriverSpecDefaults (oc_Spec opConfig)")
  case None
  with assms have "r' = r" by (simp add: apply_operator_defaults_def)
  with None show ?thesis
    by (auto simp: image_layer_def operator_images_def with_defaults_def intro!: exI [of _ fmempty])
next
  case (Some d)
  with assms show ?thesis
    by (auto simp: apply_operator_defaults_def operator_images_def with_defaults_def dest!: load_image_setE)
qed

text \<open>What a successful load has read.\<close>

lemma load_driverE:
  assumes "run_m (load_driver cl env opConfig r) w = ((None, r'), w')"
  obtains stored w1 opImages drvImages where
    "api_Get (cl_Driver cl) (ObjectKeyFromObject (dr_Meta (r_driver r))) w = (Inr stored, w1)"
    "image_layer cl (operator_images opConfig) (e_operatorNamespace env) opImages"
    "image_layer cl (d_ImageSet (with_defaults opConfig (dr_Spec stored))) (om_Namespace (dr_Meta stored)) drvImages"
    "r' = r\<lparr>r_driver := stored\<lparr>dr_Spec := with_defaults opConfig (dr_Spec stored)\<rparr>,
            r_images := imageDefaults ++\<^sub>f opImages ++\<^sub>f drvImages\<rparr>"
proof -
  obtain g w1 where g: "api_Get (cl_Driver cl) (ObjectKeyFromObject (dr_Meta (r_driver r))) w = (g, w1)"
    by fastforce
  show ?thesis
  proof (cases g)
    case (Inl e)
    with assms g show ?thesis by (simp add: load_driver_def)
  next
    case (Inr stored)
    let ?r = "r\<lparr>r_driver := stored, r_images := imageDefaults\<rparr>"
    obtain e r2 w2 where a: "run_m (apply_operator_defaults cl env opConfig ?r) w1 = ((e, r2), w2)"
      by (metis prod.exhaust)
    with assms g Inr have e: "e = None" by (cases e) (simp_all add: load_driver_def)
    with assms g Inr a have b: "run_m (load_image_set cl (d_ImageSet (dr_Spec (r_driver r2))) (driver_namespace r2) r2) w2 =
        ((None, r'), w')" by (simp add: load_driver_def)
    from apply_operator_defaultsE [OF a [unfolded e]] obtain opImages where
      o: "image_layer cl (operator_images opConfig) (e_operatorNamespace env) opImages"
      "r2 = ?r\<lparr>r_driver := stored\<lparr>dr_Spec := with_defaults opConfig (dr_Spec stored)\<rparr>,
               r_images := imageDefaults ++\<^sub>f opImages\<rparr>" by auto
    from load_image_setE [OF b] o that [OF g [unfolded Inr] o(1)] show ?thesis
      by (auto simp: driver_namespace_def)
  qed
qed

section \<open>What loading guarantees\<close>

text \<open>The steps of a successful load.\<close>

lemma LoadAndValidateE:
  assumes "run_m (LoadAndValidateDesiredState cl env r) w = ((None, r'), w')"
  obtains csiDriver w1 opConfig w2 where
    "run_m (get_claim cl r) w = (Inr csiDriver, w1)"
    "check_claim (dr_Meta (r_driver r)) csiDriver = None"
    "length (FindStringSubmatch (driver_name r)) = 2"
    "run_m (get_operator_config cl env) w1 = (Inr opConfig, w2)"
    "run_m (load_driver cl env opConfig
        (r\<lparr>r_driverType := ToLower (FindStringSubmatch (driver_name r) ! 1)\<rparr>)) w2 = ((None, r'), w')"
proof -
  obtain c w1 where c: "run_m (get_claim cl r) w = (c, w1)" by fastforce
  show ?thesis
  proof (cases c)
    case (Inl e)
    with assms c show ?thesis by (simp add: LoadAndValidateDesiredState_def)
  next
    case (Inr csiDriver)
    have chk: "check_claim (dr_Meta (r_driver r)) csiDriver = None"
      using assms c Inr by (cases "check_claim (dr_Meta (r_driver r)) csiDriver")
        (simp_all add: LoadAndValidateDesiredState_def)
    have len: "length (FindStringSubmatch (driver_name r)) = 2"
      using assms c Inr chk by (simp add: LoadAndValidateDesiredState_def split: if_splits)
    obtain oc w2 where oc: "run_m (get_operator_config cl env) w1 = (oc, w2)" by fastforce
    show ?thesis
    proof (cases oc)
      case (Inl e)
      with assms c Inr chk len oc show ?thesis by (simp add: LoadAndValidateDesiredState_def)
    next
      case o: (Inr opConfig)
      with assms c Inr chk len oc that [OF c [unfolded Inr] chk len oc [unfolded o]] show ?thesis
        by (simp add: LoadAndValidateDesiredState_def)
    qed
  qed
qed

text \<open>A driver, the process it runs in and a cluster it can be loaded from.\<close>

definition example_meta :: object_meta where
  "example_meta = (named_meta ''ns'' ''rbd.csi.ceph.com'')\<lparr>om_UID := ''u1''\<rparr>"

definition example_driver :: Driver where
  "example_driver = \<lparr>dr_Meta = example_meta,
     dr_Spec = zero_DriverSpec\<lparr>d_ImageSet := Some ''images'', d_DeployCsiAddons := Some True\<rparr>\<rparr>"

definition example_images :: config_map where
  "example_images = (new_config_map ''ns'' ''images'')
     \<lparr>cm_Data := fmap_of_list [(''plugin'', ''local/cephcsi'')]\<rparr>"

definition example_claim :: csi_driver where
  "example_claim = (new_csi_driver ''rbd.csi.ceph.com'')
     \<lparr>cd_Meta := (named_meta [] ''rbd.csi.ceph.com'')
       \<lparr>om_UID := ''u2'', om_Annotations := fmap_of_list
          [(ownerRefAnnotationKey, Marshal enc_key (''ns'', ''rbd.csi.ceph.com''))]\<rparr>\<rparr>"

definition example_env :: driver_env where
  "example_env = \<lparr>e_operatorNamespace = ''op'', e_operatorConfigName = ''ceph-csi-operator-config'',
     e_serviceAccountPrefix = [], e_scheme = addKnownTypes [], e_rng = sorted_list_of_fmap\<rparr>"

definition example_cluster :: cluster where
  "example_cluster = empty_cluster
     \<lparr>mc_Driver := \<lparr>mem_objs = [example_driver], mem_next = 5, mem_faults = []\<rparr>,
      mc_ConfigMap := \<lparr>mem_objs = [example_images], mem_next = 5, mem_faults = []\<rparr>,
      mc_CSIDriver := \<lparr>mem_objs = [example_claim], mem_next = 5, mem_faults = []\<rparr>\<rparr>"

text \<open>The reconcile object before and after loading.\<close>

definition example_request :: driverReconcile where
  "example_request = \<lparr>r_driver = zero_Driver\<lparr>dr_Meta := named_meta ''ns'' ''rbd.csi.ceph.com''\<rparr>,
     r_driverType = [], r_images = fmempty\<rparr>"

definition example_loaded :: driverReconcile where
  "example_loaded = \<lparr>r_driver = example_driver, r_driverType = ''rbd'',
     r_images = imageDefaults ++\<^sub>f fmap_of_list [(''plugin'', ''local/cephcsi'')]\<rparr>"

lemmas example_simps = example_driver_def example_meta_def example_images_def example_claim_def
  example_env_def example_request_def example_loaded_def

lemma example_match: "FindStringSubmatch ''rbd.csi.ceph.com'' = [''rbd.csi.ceph.com'', ''rbd'']"
  by (simp add: FindStringSubmatch_def driver_types_def RbdDriverType_def type_match_def prefix_ok_def
      suffix_def)

lemma example_load:
  "run_m (LoadAndValidateDesiredState mem_client example_env example_request) example_cluster =
     ((None, example_loaded), example_cluster)"
proof -
  have name: "driver_name example_request = ''rbd.csi.ceph.com''"
    by (simp add: driver_name_def example_request_def zero_Driver_def)
  have claim: "run_m (get_claim mem_client example_request) example_cluster = (Inr example_claim, example_cluster)"
    by (simp add: get_claim_def name mem_api_def mem_request_def mem_find_def example_cluster_def
        example_claim_def ObjectKeyFromObject_def named_meta_def zero_meta_def)
  have chk: "check_claim (dr_Meta (r_driver example_request)) example_claim = None"
    by (subst check_claim_owned [where k = "(''ns'', ''rbd.csi.ceph.com'')"])
       (simp_all add: example_simps zero_Driver_def ObjectKeyFromObject_def)
  have conf: "run_m (get_operator_config mem_client example_env) example_cluster =
      (Inr (zero_OperatorConfig\<lparr>oc_Meta := named_meta ''op'' ''ceph-csi-operator-config''\<rparr>), example_cluster)"
    by (simp add: get_operator_config_def mem_api_def mem_request_def mem_find_def example_cluster_def
        empty_cluster_def empty_mem_def example_env_def)
  have "run_m (load_driver mem_client example_env
        (zero_OperatorConfig\<lparr>oc_Meta := named_meta ''op'' ''ceph-csi-operator-config''\<rparr>)
        (example_request\<lparr>r_driverType := ''rbd''\<rparr>)) example_cluster = ((None, example_loaded), example_cluster)"
    by (simp add: load_driver_def apply_operator_defaults_def load_image_set_def mem_api_def mem_request_def
        mem_find_def example_cluster_def empty_cluster_def empty_mem_def example_simps zero_Driver_def
        zero_OperatorConfig_def zero_DriverSpec_def ObjectKeyFromObject_def driver_namespace_def)
  with claim chk conf name show ?thesis
    by (simp add: LoadAndValidateDesiredState_def example_match ToLower_type driver_types_def
        RbdDriverType_def)
qed

text \<open>
  C11. A driver is not loaded, hence nothing is deployed for it, when a CSIDriver of its name exists
  whose ownership annotation is missing, unreadable or names another driver: after a successful
  load the annotation on an existing CSIDriver decodes to the key of the driver itself.
\<close>

theorem load_respects_claims:
  assumes run: "run_m (LoadAndValidateDesiredState cl env r) w = ((None, r'), w')"
    and get: "api_Get (cl_CSIDriver cl) ([], driver_name r) w = (Inr csiDriver, w1)"
    and exists: "om_UID (cd_Meta csiDriver) \<noteq> []"
  shows "owner_annotation (cd_Meta csiDriver) \<noteq> [] \<and>
    Unmarshal dec_key (owner_annotation (cd_Meta csiDriver)) ([], []) =
      Inr (driver_namespace r, driver_name r)"
proof -
  from run have "check_claim (dr_Meta (r_driver r)) csiDriver = None"
    using get by (auto elim!: LoadAndValidateE simp: get_claim_def)
  with exists show ?thesis
    by (auto simp: check_claim_def driver_namespace_def driver_name_def prod_eq_iff split: if_splits sum.splits)
qed

theorem load_respects_claims_witness:
  "Unmarshal dec_key (owner_annotation (cd_Meta example_claim)) ([], []) =
     Inr (driver_namespace example_request, driver_name example_request)"
proof -
  have "api_Get (cl_CSIDriver mem_client) ([], driver_name example_request) example_cluster =
      (Inr example_claim, example_cluster)"
    by (simp add: driver_name_def zero_Driver_def mem_api_def mem_request_def mem_find_def example_cluster_def
        example_request_def example_claim_def ObjectKeyFromObject_def)
  with load_respects_claims [OF example_load this] show ?thesis by (simp add: example_claim_def)
qed

text \<open>
  C22. After a successful load the driver's type is one of the four and is the one its name ends in;
  its spec is the stored one filled up with the operator's defaults; and an image comes from the
  driver's image set if that has it, else from the operator's, else from the built-in defaults.
\<close>

theorem loaded_state:
  assumes run: "run_m (LoadAndValidateDesiredState cl env r) w = ((None, r'), w')"
  shows "r_driverType r' \<in> set driver_types \<and> type_match (driver_name r) (r_driverType r') \<and>
    (\<exists>stored opConfig opImages drvImages.
       r_driver r' = stored\<lparr>dr_Spec := with_defaults opConfig (dr_Spec stored)\<rparr> \<and>
       image_layer cl (operator_images opConfig) (e_operatorNamespace env) opImages \<and>
       image_layer cl (d_ImageSet (dr_Spec (r_driver r'))) (driver_namespace r') drvImages \<and>
       (\<forall>k. fmlookup (r_images r') k =
          (case fmlookup drvImages k of Some i \<Rightarrow> Some i
           | None \<Rightarrow> (case fmlookup opImages k of Some i \<Rightarrow> Some i | None \<Rightarrow> fmlookup imageDefaults k))))"
proof -
  let ?t = "FindStringSubmatch (driver_name r) ! 1"
  from run obtain opConfig w2 where len: "length (FindStringSubmatch (driver_name r)) = 2"
    and ld: "run_m (load_driver cl env opConfig (r\<lparr>r_driverType := ToLower ?t\<rparr>)) w2 = ((None, r'), w')"
    by (rule LoadAndValidateE)
  from FindStringSubmatch_type [OF len] have t: "?t \<in> set driver_types" "type_match (driver_name r) ?t" by auto
  from ld obtain stored opImages drvImages where
    l: "image_layer cl (operator_images opConfig) (e_operatorNamespace env) opImages"
    "image_layer cl (d_ImageSet (with_defaults opConfig (dr_Spec stored))) (om_Namespace (dr_Meta stored)) drvImages"
    and r': "r' = r\<lparr>r_driverType := ToLower ?t, r_driver := stored\<lparr>dr_Spec := with_defaults opConfig (dr_Spec stored)\<rparr>,
            r_images := imageDefaults ++\<^sub>f opImages ++\<^sub>f drvImages\<rparr>"
    by (rule load_driverE) auto
  have img: "\<forall>k. fmlookup (r_images r') k = (case fmlookup drvImages k of Some i \<Rightarrow> Some i
      | None \<Rightarrow> (case fmlookup opImages k of Some i \<Rightarrow> Some i | None \<Rightarrow> fmlookup imageDefaults k))"
    using layered_lookup [of imageDefaults opImages drvImages] by (simp add: r')
  have "r_driverType r' = ?t" "r_driver r' = stored\<lparr>dr_Spec := with_defaults opConfig (dr_Spec stored)\<rparr>"
    "image_layer cl (d_ImageSet (dr_Spec (r_driver r'))) (driver_namespace r') drvImages"
    using t(1) l(2) by (simp_all add: r' ToLower_type driver_namespace_def)
  with t l(1) img show ?thesis by metis
qed

theorem loaded_state_witness:
  "r_driverType example_loaded = ''rbd'' \<and> fmlookup (r_images example_loaded) ''plugin'' = Some ''local/cephcsi'' \<and>
   type_match (driver_name example_request) (r_driverType example_loaded)"
  using loaded_state [OF example_load] by (simp add: example_loaded_def)

text \<open>
  The name of the liveness service is not injective in the driver's name: two well-formed driver
  names of the same namespace, one with a dot and one with a dash, share one service, although
  the names of their deployments differ.
\<close>

theorem service_names_collide:
  "\<exists>r1 r2. driver_namespace r1 = driver_namespace r2 \<and>
     length (FindStringSubmatch (driver_name r1)) = 2 \<and> length (FindStringSubmatch (driver_name r2)) = 2 \<and>
     generateName r1 ''ctrlplugin'' \<noteq> generateName r2 ''ctrlplugin'' \<and>
     generateServiceName r1 ''liveness'' = generateServiceName r2 ''liveness''"
proof -
  let ?r = "\<lambda>n. example_request\<lparr>r_driver := zero_Driver\<lparr>dr_Meta := named_meta ''ns'' n\<rparr>\<rparr>"
  show ?thesis
    by (rule exI [of _ "?r ''a.b.rbd.csi.ceph.com''"], rule exI [of _ "?r ''a-b.rbd.csi.ceph.com''"])
       (simp add: driver_namespace_def driver_name_def zero_Driver_def FindStringSubmatch_def driver_types_def
         RbdDriverType_def type_match_def prefix_ok_def suffix_def generateName_def generateServiceName_def
         service_char_def)
qed

end
