(* ===== verification/Driver_Pods.thy ===== *)
theory Driver_Pods
  imports Driver_Load
begin

text \<open>
  What the controller deployment and the two node daemon sets of a driver share, from
  \<open>driver_controller.go\<close>: the values read off the driver's spec, the merge of the user's volumes
  into the built-in ones, the log rotation sidecar, and the frame of every mutation that makes
  the driver the controller of an object and then overwrites the object's spec.

  The locale \<open>controlled_object\<close> is the contract of those mutations: it gives the laws of
  \<open>mutator\<close>, and that an object controlled by something else is refused. \<open>pod_ok\<close> states when the
  API server can accept a pod: distinct names and only mounts of volumes the pod has.
\<close>

lemma key_named_meta [simp]: "ObjectKeyFromObject (named_meta ns name) = (ns, name)"
  by (simp add: ObjectKeyFromObject_def)

section \<open>Values read off the spec\<close>

definition spec_of :: "driverReconcile \<Rightarrow> DriverSpec" where
  "spec_of r = dr_Spec (r_driver r)"

definition image_of :: "driverReconcile \<Rightarrow> string \<Rightarrow> string" where
  "image_of r key = Deref (fmlookup (r_images r) key) []"

definition logVerbosity :: "driverReconcile \<Rightarrow> int" where
  "logVerbosity r = lg_Verbosity (Deref (d_Log (spec_of r)) zero_LogSpec)"

definition logRotationSpec :: "driverReconcile \<Rightarrow> LogRotationSpec option" where
  "logRotationSpec r = lg_Rotation (cmp_Or_ptr (d_Log (spec_of r)) zero_LogSpec)"

definition logRotationEnabled :: "driverReconcile \<Rightarrow> bool" where
  "logRotationEnabled r = (logRotationSpec r \<noteq> None)"

definition forceKernelClient :: "driverReconcile \<Rightarrow> bool" where
  "forceKernelClient r = (isCephFsDriver r \<and> d_CephFsClientType (spec_of r) = KernelCephFsClient)"

definition deployCsiAddons :: "driverReconcile \<Rightarrow> bool" where
  "deployCsiAddons r = Deref (d_DeployCsiAddons (spec_of r)) False"

definition plugin_name :: "driverReconcile \<Rightarrow> string" where
  "plugin_name r = ''csi-'' @ r_driverType r @ ''plugin''"

definition serviceAccountName :: "driver_env \<Rightarrow> driverReconcile \<Rightarrow> PodCommonSpec \<Rightarrow> string \<Rightarrow> string" where
  "serviceAccountName env r pod sfx =
     cmp_Or_str (Deref (pc_ServiceAccountName pod) []) (e_serviceAccountPrefix env @ r_driverType r @ sfx)"

definition imagePullPolicy :: "PodCommonSpec \<Rightarrow> string" where
  "imagePullPolicy pod = cmp_Or_str (pc_ImagePullPolicy pod) PullIfNotPresent"

definition container_args :: "string list \<Rightarrow> string \<Rightarrow> (string, string list) fmap option \<Rightarrow> string list" where
  "container_args args containerName extra =
     DeleteZeroValues (args @ GetExtraArgsForContainer containerName (Deref extra fmempty))"

definition podLabels :: "PodCommonSpec \<Rightarrow> string \<Rightarrow> string_map" where
  "podLabels pod appName = fmupd ''app'' appName (fmempty ++\<^sub>f Deref (pc_Labels pod) fmempty)"

definition appSelector :: "string \<Rightarrow> label_selector" where
  "appSelector appName = match_labels (fmap_of_list [(''app'', appName)])"

definition user_volumes :: "PodCommonSpec \<Rightarrow> VolumeSpec list" where
  "user_volumes pod = Deref (pc_Volumes pod) []"

definition merge_mounts :: "volume_mount list \<Rightarrow> VolumeSpec list \<Rightarrow> volume_mount list" where
  "merge_mounts mounts vols = MapMergeByKey mounts vols (\<lambda>v. (vs_Mount v, vm_Name (vs_Mount v) \<noteq> [])) vm_Name"

definition merge_volumes :: "volume list \<Rightarrow> VolumeSpec list \<Rightarrow> volume list" where
  "merge_volumes volumes vols = MapMergeByKey volumes vols (\<lambda>v. (vs_Volume v, vol_Name (vs_Volume v) \<noteq> [])) vol_Name"

definition privilegedSecurityContext :: security_context where
  "privilegedSecurityContext = \<lparr>sc_Privileged = Some True, sc_Add = [], sc_Drop = [''All''],
     sc_AllowPrivilegeEscalation = None\<rparr>"

definition logRotateCmd :: string where
  "logRotateCmd = ''while true; do logrotate --verbose /logrotate-config/csi; sleep 15m; done''"

definition log_rotator ::
  "driverReconcile \<Rightarrow> PodCommonSpec \<Rightarrow> resource_requirements option \<Rightarrow> security_context option \<Rightarrow> container" where
  "log_rotator r pod resources sc = zero_container
     \<lparr>c_Name := ''log-rotator'', c_Image := image_of r ''plugin'', c_ImagePullPolicy := imagePullPolicy pod,
      c_Resources := Deref resources zero_resources, c_SecurityContext := sc,
      c_Command := [''/bin/bash'', ''-c'', logRotateCmd],
      c_VolumeMounts := [LogsDirVolumeMount, LogRotateDirVolumeMount]\<rparr>"

text \<open>The volumes behind the two mounts of the log rotation, in all three pods.\<close>

definition log_volumes :: "driverReconcile \<Rightarrow> string \<Rightarrow> volume list" where
  "log_volumes r appName =
     (case logRotationSpec r of
        None \<Rightarrow> []
      | Some rotation \<Rightarrow>
          [LogsDirVolume (cmp_Or_str (lr_LogHostPath rotation) defaultLogHostPath) appName,
           LogRotateDirVolumeName (driver_name r)])"

definition kms_volumes :: "driverReconcile \<Rightarrow> volume list" where
  "kms_volumes r = (case d_Encryption (spec_of r) of None \<Rightarrow> [] | Some e \<Rightarrow> [KmsConfigVolume (en_ConfigMapRef e)])"

section \<open>Pods the API server accepts\<close>

definition pod_ok :: "pod_spec \<Rightarrow> bool" where
  "pod_ok p \<longleftrightarrow>
     distinct (map c_Name (ps_Containers p)) \<and> distinct (map vol_Name (ps_Volumes p)) \<and>
     (\<forall>c \<in> set (ps_Containers p). \<forall>m \<in> set (c_VolumeMounts c). vm_Name m \<in> vol_Name ` set (ps_Volumes p))"

text \<open>
  A user volume is coherent when its mount refers to its volume, or when it has no mount and is
  not the TLS key, which the snapshot metadata sidecar mounts whatever it is.
\<close>

definition volume_coherent :: "VolumeSpec \<Rightarrow> bool" where
  "volume_coherent v \<longleftrightarrow>
     (vm_Name (vs_Mount v) = vol_Name (vs_Volume v) \<and> vol_Name (vs_Volume v) \<noteq> []) \<or>
     (vm_Name (vs_Mount v) = [] \<and> vol_Name (vs_Volume v) \<noteq> ''tls-key'')"

lemma selected_mounts:
  "selected (\<lambda>v. (vs_Mount v, vm_Name (vs_Mount v) \<noteq> [])) vm_Name vols =
     filter (\<lambda>m. vm_Name m \<noteq> []) (map vs_Mount vols)"
  by (induction vols) (simp_all add: selected_def)

lemma selected_volumes:
  "selected (\<lambda>v. (vs_Volume v, vol_Name (vs_Volume v) \<noteq> [])) vol_Name vols =
     filter (\<lambda>m. vol_Name m \<noteq> []) (map vs_Volume vols)"
  by (induction vols) (simp_all add: selected_def)

lemma merge_mounts_names:
  assumes "distinct (map vm_Name mounts)"
  shows "vm_Name ` set (merge_mounts mounts vols) = vm_Name ` set mounts \<union> (vm_Name ` vs_Mount ` set vols - {[]})"
    and "distinct (map vm_Name (merge_mounts mounts vols))"
  using assms
  by (auto simp: merge_mounts_def MapMergeByKey_upsert keys_upsert_all distinct_keys_upsert_all selected_mounts)

lemma merge_volumes_names:
  assumes "distinct (map vol_Name volumes)"
  shows "vol_Name ` set (merge_volumes volumes vols) = vol_Name ` set volumes \<union> (vol_Name ` vs_Volume ` set vols - {[]})"
    and "distinct (map vol_Name (merge_volumes volumes vols))"
  using assms
  by (auto simp: merge_volumes_def MapMergeByKey_upsert keys_upsert_all distinct_keys_upsert_all selected_volumes)

lemma coherent_mount:
  "v \<in> set vols \<Longrightarrow> \<forall>v \<in> set vols. volume_coherent v \<Longrightarrow> vm_Name (vs_Mount v) \<noteq> [] \<Longrightarrow>
     vm_Name (vs_Mount v) \<in> vol_Name ` vs_Volume ` set vols - {[]}"
  by (auto simp: volume_coherent_def)

lemma log_volumes_names:
  "map vol_Name (log_volumes r appName) = (if logRotationEnabled r then [''logs-dir'', ''log-rotate-dir''] else [])"
  by (simp add: log_volumes_def logRotationEnabled_def split: option.splits)

lemma kms_volumes_names:
  "map vol_Name (kms_volumes r) = (if d_Encryption (spec_of r) \<noteq> None then [''ceph-csi-kms-config''] else [])"
  by (simp add: kms_volumes_def split: option.splits)

lemma kms_volume_set:
  "vol_Name ` set (kms_volumes r) = (if d_Encryption (spec_of r) \<noteq> None then {''ceph-csi-kms-config''} else {})"
  using arg_cong [OF kms_volumes_names [of r], of set] by simp

lemma log_volume_set:
  "vol_Name ` set (log_volumes r appName) = (if logRotationEnabled r then {''logs-dir'', ''log-rotate-dir''} else {})"
  by (cases "logRotationSpec r") (simp_all add: log_volumes_def logRotationEnabled_def)

lemma container_args_nonempty: "[] \<notin> set (container_args args c extra)"
  by (simp add: container_args_def set_DeleteZeroValues)

lemma subseq_distinct: "subseq xs ys \<Longrightarrow> distinct ys \<Longrightarrow> distinct xs"
  by (auto simp: subseq_conv_nths)

text \<open>The mounts of a container all have a volume among the names \<open>N\<close>.\<close>

definition mounts_in :: "string set \<Rightarrow> container \<Rightarrow> bool" where
  "mounts_in N c \<longleftrightarrow> vm_Name ` set (c_VolumeMounts c) \<subseteq> N"

lemma pod_okI:
  assumes "distinct (map c_Name (ps_Containers p))" and "distinct (map vol_Name (ps_Volumes p))"
    and "\<And>c. c \<in> set (ps_Containers p) \<Longrightarrow> mounts_in (vol_Name ` set (ps_Volumes p)) c"
  shows "pod_ok p"
  using assms by (auto simp: pod_ok_def mounts_in_def)

text \<open>The pods a workload selects are the ones it creates.\<close>

lemma appSelector_selects: "fmlookup lbls ''app'' = Some appName \<Longrightarrow> selects (appSelector appName) lbls"
  by (auto simp: appSelector_def fmsubset_alt_def)

section \<open>Objects controlled by the driver\<close>

definition controlled ::
  "('o \<Rightarrow> object_meta) \<Rightarrow> (object_meta \<Rightarrow> 'o \<Rightarrow> 'o) \<Rightarrow> ('o \<Rightarrow> 'o) \<Rightarrow> Driver \<Rightarrow> scheme \<Rightarrow> 'o \<Rightarrow> 'o result" where
  "controlled meta set_meta put driver scheme obj =
     (case SetControllerReference T_Driver (dr_Meta driver) (meta obj) scheme of
        Inl err \<Rightarrow> Inl err
      | Inr md \<Rightarrow> Inr (put (set_meta md obj)))"

locale controlled_object =
  fixes meta :: "'o \<Rightarrow> object_meta" and set_meta :: "object_meta \<Rightarrow> 'o \<Rightarrow> 'o" and put :: "'o \<Rightarrow> 'o"
  assumes meta_set: "meta (set_meta md obj) = md"
    and set_set: "set_meta md (set_meta md' obj) = set_meta md obj"
    and meta_put: "meta (put obj) = meta obj"
    and put_over: "om_Name md = om_Name md' \<Longrightarrow> put (set_meta md (put (set_meta md' obj))) = put (set_meta md obj)"
begin

lemma upsert_name [simp]: "om_Name (upsertOwnerRef ref md) = om_Name md"
  by (simp add: upsertOwnerRef_def split: option.splits)

lemma controlled_InrD:
  assumes "controlled meta set_meta put driver scheme obj = Inr obj'"
  obtains md where "SetControllerReference T_Driver (dr_Meta driver) (meta obj) scheme = Inr md"
    "obj' = put (set_meta md obj)" "meta obj' = md" "om_Name md = om_Name (meta obj)"
    "controlled meta set_meta put driver scheme obj' = Inr obj'"
proof -
  from assms obtain md where
    md: "SetControllerReference T_Driver (dr_Meta driver) (meta obj) scheme = Inr md"
    and o: "obj' = put (set_meta md obj)" by (auto simp: controlled_def split: sum.splits)
  have m: "meta obj' = md" by (simp add: o meta_put meta_set)
  have n: "om_Name md = om_Name (meta obj)" using SetControllerReference_InrD(1) [OF md] by simp
  have "controlled meta set_meta put driver scheme obj' = Inr (put (set_meta md obj'))"
    using SetControllerReference_idem [OF md] by (simp add: controlled_def m)
  also have "put (set_meta md obj') = obj'"
    using put_over [of md md obj] by (simp add: o)
  finally show ?thesis using that md o m n by blast
qed

sublocale mutator meta "controlled meta set_meta put driver scheme" "\<lambda>_. True" for driver scheme
proof (unfold_locales, goal_cases)
  case (1 obj obj')
  then show ?case by (rule controlled_InrD) (simp add: SetControllerReference_frame(1))
next
  case (2 obj obj')
  from 2(2) show ?case by (rule controlled_InrD)
qed

text \<open>The driver becomes the controller.\<close>

lemma adopts:
  "controlled meta set_meta put driver scheme obj = Inr obj' \<Longrightarrow>
     GetControllerOf (meta obj') = Some (ref_for T_Driver (dr_Meta driver) (Some True))"
  by (erule controlled_InrD) (simp add: GetControllerOf_set)

text \<open>An object that something else controls is refused.\<close>

lemma refuses:
  assumes "GetControllerOf (meta obj) = Some ref" and "\<not> refers_to ref T_Driver (dr_Meta driver)"
  shows "\<exists>err. controlled meta set_meta put driver scheme obj = Inl err"
proof (cases "controlled meta set_meta put driver scheme obj")
  case (Inr obj')
  then show ?thesis
  proof (rule controlled_InrD)
    fix md assume "SetControllerReference T_Driver (dr_Meta driver) (meta obj) scheme = Inr md"
    from SetControllerReference_InrD(4) [OF this assms(1)] assms(2) show ?thesis by simp
  qed
qed simp

end

section \<open>An example\<close>

text \<open>
  An RBD driver with encryption and log rotation whose controller plugin adds a TLS key and
  redefines a built-in volume.
\<close>

definition user_volume :: "string \<Rightarrow> string \<Rightarrow> VolumeSpec" where
  "user_volume name path = \<lparr>vs_Volume = \<lparr>vol_Name = name, vol_Source = HostPath path None\<rparr>, vs_Mount = mount_at name path\<rparr>"

definition example_volumes :: "VolumeSpec list" where
  "example_volumes = [user_volume ''tls-key'' ''/tmp/certificates'', user_volume ''host-dev'' ''/dev2'']"

definition example_rotation :: LogRotationSpec where
  "example_rotation = \<lparr>lr_MaxFiles = 0, lr_MaxLogSize = \<lparr>q_IsZero = False, q_String = ''10M''\<rparr>,
     lr_Periodicity = DailyPeriod, lr_LogHostPath = []\<rparr>"

definition example_rbd :: driverReconcile where
  "example_rbd = example_loaded
     \<lparr>r_driver := example_driver
        \<lparr>dr_Spec := zero_DriverSpec
           \<lparr>d_Log := Some \<lparr>lg_Verbosity = 9, lg_Rotation = Some example_rotation\<rparr>,
            d_Encryption := Some \<lparr>en_ConfigMapRef = ''kms''\<rparr>, d_DeployCsiAddons := Some True,
            d_Liveness := Some \<lparr>lv_MetricsPort = 8081\<rparr>,
            d_ControllerPlugin := Some (zero_ControllerPluginSpec
              \<lparr>ct_Pod := zero_PodCommonSpec\<lparr>pc_Volumes := Some example_volumes\<rparr>\<rparr>),
            d_NodePlugin := Some (zero_NodePluginSpec
              \<lparr>np_Pod := zero_PodCommonSpec\<lparr>pc_Volumes := Some example_volumes\<rparr>\<rparr>)\<rparr>\<rparr>\<rparr>"

lemma example_rbd_simps [simp]:
  "r_driverType example_rbd = ''rbd''" "dr_Meta (r_driver example_rbd) = example_meta"
  "d_ControllerPlugin (spec_of example_rbd) =
     Some (zero_ControllerPluginSpec\<lparr>ct_Pod := zero_PodCommonSpec\<lparr>pc_Volumes := Some example_volumes\<rparr>\<rparr>)"
  "d_NodePlugin (spec_of example_rbd) =
     Some (zero_NodePluginSpec\<lparr>np_Pod := zero_PodCommonSpec\<lparr>pc_Volumes := Some example_volumes\<rparr>\<rparr>)"
  "d_Encryption (spec_of example_rbd) = Some \<lparr>en_ConfigMapRef = ''kms''\<rparr>"
  "d_DeployCsiAddons (spec_of example_rbd) = Some True"
  "d_Liveness (spec_of example_rbd) = Some \<lparr>lv_MetricsPort = 8081\<rparr>"
  "d_Log (spec_of example_rbd) = Some \<lparr>lg_Verbosity = 9, lg_Rotation = Some example_rotation\<rparr>"
  by (simp_all add: example_rbd_def example_loaded_def example_driver_def spec_of_def)

lemma example_volumes_coherent: "volume_coherent v" if "v \<in> set example_volumes"
  using that by (auto simp: example_volumes_def user_volume_def volume_coherent_def mount_at_def)

end
