(* ===== verification/Driver_Deploy.thy ===== *)
theory Driver_Deploy
  imports Driver_Pods
begin

text \<open>
  The controller plugin's deployment: \<open>reconcileControllerPluginDeployment\<close>,
  \<open>getControllerPluginReplicas\<close> and \<open>getControllerPluginPodAffinity\<close> of \<open>driver_controller.go\<close>, one
  definition per container, in the order the code appends them.

  The mutation lists the nodes when the spec does not fix the number of replicas, so it is a
  program and not a function; \<open>deployment_mutation\<close> is the function it computes from the
  answer.
\<close>

section \<open>Local values\<close>

definition ctrl_spec :: "driverReconcile \<Rightarrow> ControllerPluginSpec" where
  "ctrl_spec r = cmp_Or_ptr (d_ControllerPlugin (spec_of r)) zero_ControllerPluginSpec"

definition ctrl_pod :: "driverReconcile \<Rightarrow> PodCommonSpec" where
  "ctrl_pod r = ct_Pod (ctrl_spec r)"

definition ctrl_hostNetwork :: "driverReconcile \<Rightarrow> bool" where
  "ctrl_hostNetwork r = Deref (ct_HostNetwork (ctrl_spec r)) False"

definition grpcTimeout :: "driverReconcile \<Rightarrow> int" where
  "grpcTimeout r = cmp_Or_int (d_GRpcTimeout (spec_of r)) defaultGRrpcTimeout"

definition snPolicy :: "driverReconcile \<Rightarrow> string" where
  "snPolicy r = cmp_Or_str (d_SnapshotPolicy (spec_of r)) VolumeSnapshotSnapshotPolicy"

definition logRotateSecurityContext :: "driverReconcile \<Rightarrow> security_context option" where
  "logRotateSecurityContext r =
     utils_If (ct_Privileged (ctrl_spec r) \<noteq> None \<and> logRotationEnabled r)
       (Some \<lparr>sc_Privileged = ct_Privileged (ctrl_spec r), sc_Add = [], sc_Drop = [''All''],
              sc_AllowPrivilegeEscalation = None\<rparr>)
       None"

definition leaderElectionSettingsArg :: "driverReconcile \<Rightarrow> string list" where
  "leaderElectionSettingsArg r =
     (let leaderElectionSpec = cmp_Or_ptr (d_LeaderElection (spec_of r)) defaultLeaderElection
      in [LeaderElectionNamespaceContainerArg (driver_namespace r),
          LeaderElectionLeaseDurationContainerArg (le_LeaseDuration leaderElectionSpec),
          LeaderElectionRenewDeadlineContainerArg (le_RenewDeadline leaderElectionSpec),
          LeaderElectionRetryPeriodContainerArg (le_RetryPeriod leaderElectionSpec)])"

definition ctrl_topology :: "driverReconcile \<Rightarrow> bool" where
  "ctrl_topology r =
     (let nodePluginSpec = cmp_Or_ptr (d_NodePlugin (spec_of r)) zero_NodePluginSpec
      in isRbdDriver r \<and> np_Topology nodePluginSpec \<noteq> None)"

definition controllerPluginCsiAddonsContainerPort :: "driverReconcile \<Rightarrow> container_port" where
  "controllerPluginCsiAddonsContainerPort r =
     (if isCephFsDriver r then ControllerPluginCsiAddonsContainerCephFsPort
      else ControllerPluginCsiAddonsContainerRbdPort)"

definition tlsMountIndex :: "driverReconcile \<Rightarrow> nat option" where
  "tlsMountIndex r = IndexFunc (user_volumes (ctrl_pod r)) (\<lambda>vol. vol_Name (vs_Volume vol) = ''tls-key'')"

section \<open>Containers\<close>

text \<open>What every container of the deployment has in common.\<close>

definition ctrl_args :: "driverReconcile \<Rightarrow> string \<Rightarrow> string list \<Rightarrow> string list" where
  "ctrl_args r name args = container_args args name (ct_ContainerExtraArgs (ctrl_spec r))"

definition ctrl_container ::
  "driverReconcile \<Rightarrow> string \<Rightarrow> string \<Rightarrow> string list \<Rightarrow> resource_requirements option \<Rightarrow> container" where
  "ctrl_container r name img args resources = zero_container
     \<lparr>c_Name := name, c_Image := image_of r img, c_ImagePullPolicy := imagePullPolicy (ctrl_pod r),
      c_Args := ctrl_args r name args, c_VolumeMounts := [SocketDirVolumeMount],
      c_Resources := Deref resources zero_resources\<rparr>"

definition ctrl_plugin_args :: "driverReconcile \<Rightarrow> string list" where
  "ctrl_plugin_args r =
     [TypeContainerArg (r_driverType r),
      LogVerbosityContainerArg (logVerbosity r),
      EndpointContainerArg,
      NodeIdContainerArg,
      ControllerServerContainerArg,
      DriverNameContainerArg (driver_name r),
      PidlimitContainerArg,
      SetFencingContainerArg (Deref (d_EnableFencing (spec_of r)) False),
      ClusterNameContainerArg (Deref (d_ClusterName (spec_of r)) []),
      utils_If (forceKernelClient r) ForceCephKernelClientContainerArg [],
      utils_If (deployCsiAddons r) CsiAddonsEndpointContainerArg [],
      utils_If (logRotationEnabled r) LogToStdErrContainerArg [],
      utils_If (logRotationEnabled r) AlsoLogToStdErrContainerArg [],
      utils_If (logRotationEnabled r) (LogFileContainerArg (plugin_name r)) []]"

definition ctrl_plugin_mounts :: "driverReconcile \<Rightarrow> volume_mount list" where
  "ctrl_plugin_mounts r =
     [SocketDirVolumeMount, HostDevVolumeMount, HostSysVolumeMount, LibModulesVolumeMount,
      KeysTmpDirVolumeMount, CsiConfigVolumeMount] @
     (if d_Encryption (spec_of r) \<noteq> None then [KmsConfigVolumeMount] else []) @
     (if isRbdDriver r then [OidcTokenVolumeMount] else []) @
     (if logRotationEnabled r then [LogsDirVolumeMount] else [])"

definition ctrl_plugin :: "driverReconcile \<Rightarrow> container" where
  "ctrl_plugin r =
     (ctrl_container r (plugin_name r) ''plugin'' (ctrl_plugin_args r) (cr_Plugin (ct_Resources (ctrl_spec r))))
     \<lparr>c_SecurityContext := logRotateSecurityContext r,
      c_Env := [PodIpEnvVar, NodeIdEnvVar, PodNamespaceEnvVar],
      c_VolumeMounts := merge_mounts (ctrl_plugin_mounts r) (user_volumes (ctrl_pod r))\<rparr>"

definition ctrl_provisioner_args :: "driverReconcile \<Rightarrow> string list" where
  "ctrl_provisioner_args r = leaderElectionSettingsArg r @
     [LeaderElectionContainerArg,
      LogVerbosityContainerArg (logVerbosity r),
      CsiAddressContainerArg,
      TimeoutContainerArg (grpcTimeout r),
      RetryIntervalStartContainerArg,
      DefaultFsTypeContainerArg,
      PreventVolumeModeConversionContainerArg,
      utils_If (isRbdOrNvemofDriver r) DefaultFsTypeContainerArg [],
      TopologyContainerArg (ctrl_topology r),
      utils_If (\<not> isNfsDriver r) ExtraCreateMetadataContainerArg []]"

definition ctrl_provisioner :: "driverReconcile \<Rightarrow> container" where
  "ctrl_provisioner r = ctrl_container r ''csi-provisioner'' ''provisioner'' (ctrl_provisioner_args r)
     (cr_Provisioner (ct_Resources (ctrl_spec r)))"

definition ctrl_resizer :: "driverReconcile \<Rightarrow> container" where
  "ctrl_resizer r = ctrl_container r ''csi-resizer'' ''resizer''
     (leaderElectionSettingsArg r @
      [LeaderElectionContainerArg, LogVerbosityContainerArg (logVerbosity r), CsiAddressContainerArg,
       TimeoutContainerArg (grpcTimeout r), HandleVolumeInuseErrorContainerArg,
       RecoverVolumeExpansionFailureContainerArg])
     (cr_Resizer (ct_Resources (ctrl_spec r)))"

definition ctrl_attacher :: "driverReconcile \<Rightarrow> container" where
  "ctrl_attacher r = ctrl_container r ''csi-attacher'' ''attacher''
     (leaderElectionSettingsArg r @
      [LeaderElectionContainerArg, LogVerbosityContainerArg (logVerbosity r), CsiAddressContainerArg,
       TimeoutContainerArg (grpcTimeout r),
       utils_If (isRbdOrNvemofDriver r) DefaultFsTypeContainerArg []])
     (cr_Attacher (ct_Resources (ctrl_spec r)))"

definition ctrl_snapshotter :: "driverReconcile \<Rightarrow> container list" where
  "ctrl_snapshotter r =
     (if snPolicy r \<noteq> NoneSnapshotPolicy
      then [ctrl_container r ''csi-snapshotter'' ''snapshotter''
              (leaderElectionSettingsArg r @
               [LeaderElectionContainerArg, LogVerbosityContainerArg (logVerbosity r), CsiAddressContainerArg,
                TimeoutContainerArg (grpcTimeout r),
                utils_If (\<not> isNfsDriver r) ExtraCreateMetadataContainerArg [],
                utils_If (snPolicy r = VolumeGroupSnapshotPolicy) EnableVolumeGroupSnapshotsContainerArg []])
              (cr_Snapshotter (ct_Resources (ctrl_spec r)))]
      else [])"

definition ctrl_ex_snapshotter :: "driverReconcile \<Rightarrow> container list" where
  "ctrl_ex_snapshotter r =
     (if image_of r ''ex-snapshotter'' \<noteq> [] \<and> snPolicy r \<noteq> NoneSnapshotPolicy \<and> r_driverType r = CephFsDriverType
      then [(ctrl_container r ''ex-csi-snapshotter'' ''ex-snapshotter''
              (leaderElectionSettingsArg r @
               [LeaderElectionContainerArg, LogVerbosityContainerArg (logVerbosity r), CsiAddressContainerArg,
                TimeoutContainerArg (grpcTimeout r), ExtraCreateMetadataContainerArg,
                EnableVolumeGroupSnapshotsContainerArg])
              (cr_Snapshotter (ct_Resources (ctrl_spec r))))
            \<lparr>c_SecurityContext := Some privilegedSecurityContext\<rparr>]
      else [])"

definition ctrl_addons :: "driverReconcile \<Rightarrow> container list" where
  "ctrl_addons r =
     (if \<not> isNfsDriver r \<and> deployCsiAddons r
      then let port = controllerPluginCsiAddonsContainerPort r
           in [(ctrl_container r ''csi-addons'' ''addons''
                 (leaderElectionSettingsArg r @
                  [LogVerbosityContainerArg (logVerbosity r), CsiAddonsNodeIdContainerArg, PodContainerArg,
                   PodUidContainerArg, CsiAddonsAddressContainerArg, ContainerPortArg port, NamespaceContainerArg,
                   utils_If (logRotationEnabled r) (LogFileContainerArg ''csi-addons'') []])
                 (cr_Addons (ct_Resources (ctrl_spec r))))
               \<lparr>c_SecurityContext := logRotateSecurityContext r,
                c_Ports := [port],
                c_Env := [NodeIdEnvVar, PodUidEnvVar, PodNameEnvVar, PodNamespaceEnvVar],
                c_VolumeMounts := SocketDirVolumeMount # (if logRotationEnabled r then [LogsDirVolumeMount] else [])\<rparr>]
      else [])"

definition ctrl_omap_generator :: "driverReconcile \<Rightarrow> container list" where
  "ctrl_omap_generator r =
     (if (isRbdDriver r \<or> isCephFsDriver r) \<and> Deref (d_GenerateOMapInfo (spec_of r)) False
      then [(ctrl_container r ''csi-omap-generator'' ''plugin''
              [LogVerbosityContainerArg (logVerbosity r), TypeContainerArg ''controller'',
               DriverNamespaceContainerArg, DriverNameContainerArg (driver_name r),
               ClusterNameContainerArg (Deref (d_ClusterName (spec_of r)) [])]
              (cr_OMapGenerator (ct_Resources (ctrl_spec r))))
            \<lparr>c_Env := [DriverNamespaceEnvVar], c_VolumeMounts := [CsiConfigVolumeMount, KeysTmpDirVolumeMount]\<rparr>]
      else [])"

text \<open>The arguments of the liveness sidecar, which the node plugin runs as well.\<close>

definition liveness_args :: "LivenessSpec \<Rightarrow> string list" where
  "liveness_args liveness =
     [TypeContainerArg ''liveness'', EndpointContainerArg, MetricsPortContainerArg (lv_MetricsPort liveness),
      MetricsPathContainerArg, PoolTimeContainerArg, TimeoutContainerArg 3]"

definition ctrl_liveness :: "driverReconcile \<Rightarrow> container list" where
  "ctrl_liveness r =
     (case d_Liveness (spec_of r) of
        None \<Rightarrow> []
      | Some liveness \<Rightarrow>
          [(ctrl_container r ''liveness-prometheus'' ''plugin'' (liveness_args liveness)
             (cr_Liveness (ct_Resources (ctrl_spec r))))
           \<lparr>c_Env := [PodIpEnvVar]\<rparr>])"

definition ctrl_log_rotator :: "driverReconcile \<Rightarrow> container list" where
  "ctrl_log_rotator r =
     (if logRotationEnabled r
      then [log_rotator r (ctrl_pod r) (cr_LogRotator (ct_Resources (ctrl_spec r))) (logRotateSecurityContext r)]
      else [])"

definition ctrl_snapshot_metadata :: "driverReconcile \<Rightarrow> container list" where
  "ctrl_snapshot_metadata r =
     (if isRbdDriver r
      then case tlsMountIndex r of
             None \<Rightarrow> []
           | Some i \<Rightarrow>
               [(ctrl_container r ''csi-snapshot-metadata'' ''snapshot-metadata''
                  [LogVerbosityContainerArg (logVerbosity r), TimeoutContainerArg (grpcTimeout r),
                   SnapshotMetadataGrpcServicePortArg, CsiAddressContainerArg, SnapshotMetadataTlsCertArg,
                   SnapshotMetadataTlsKeyArg, SnapshotMetadataAudienceArg (driver_name r)]
                  None)
                \<lparr>c_Ports := [SnapshotMetadataGrpcPort],
                 c_VolumeMounts := [vs_Mount (user_volumes (ctrl_pod r) ! i), SocketDirVolumeMount]\<rparr>]
      else [])"

definition ctrl_containers :: "driverReconcile \<Rightarrow> container list" where
  "ctrl_containers r =
     [ctrl_plugin r, ctrl_provisioner r, ctrl_resizer r, ctrl_attacher r] @
     ctrl_snapshotter r @ ctrl_ex_snapshotter r @ ctrl_addons r @ ctrl_omap_generator r @ ctrl_liveness r @
     ctrl_log_rotator r @ ctrl_snapshot_metadata r"

section \<open>The pod and the deployment\<close>

definition ctrl_volumes :: "driverReconcile \<Rightarrow> string \<Rightarrow> volume list" where
  "ctrl_volumes r appName =
     merge_volumes
       ([HostDevVolume, HostSysVolume, LibModulesVolume, SocketDirVolume, KeysTmpDirVolume, OidcTokenVolume,
         CsiConfigVolume] @ kms_volumes r @ log_volumes r appName)
       (user_volumes (ctrl_pod r))"

definition getControllerPluginPodAffinity :: "ControllerPluginSpec \<Rightarrow> label_selector \<Rightarrow> affinity option" where
  "getControllerPluginPodAffinity pluginSpec selector =
     (let given = pc_Affinity (ct_Pod pluginSpec);
          fill = (\<lambda>a. Some (a\<lparr>af_PodAntiAffinity := Some \<lparr>paa_Required =
                     [\<lparr>pat_LabelSelector = Some selector, pat_TopologyKey = LabelHostname, pat_More = JNull\<rparr>],
                   paa_Preferred = []\<rparr>\<rparr>))
      in case given of
           None \<Rightarrow> fill zero_affinity
         | Some a \<Rightarrow> if af_PodAntiAffinity a \<noteq> None then Some a else fill a)"

definition ctrl_pod_spec :: "driver_env \<Rightarrow> driverReconcile \<Rightarrow> string \<Rightarrow> pod_spec" where
  "ctrl_pod_spec env r appName = zero_pod_spec
     \<lparr>ps_ServiceAccountName := serviceAccountName env r (ctrl_pod r) ''-ctrlplugin-sa'',
      ps_PriorityClassName := Deref (pc_PrioritylClassName (ctrl_pod r)) [],
      ps_HostNetwork := ctrl_hostNetwork r,
      ps_DNSPolicy := (if ctrl_hostNetwork r then DNSClusterFirstWithHostNet else DNSClusterFirst),
      ps_Affinity := getControllerPluginPodAffinity (ctrl_spec r) (appSelector appName),
      ps_Tolerations := Deref (pc_Tolerations (ctrl_pod r)) [],
      ps_Containers := ctrl_containers r,
      ps_Volumes := ctrl_volumes r appName\<rparr>"

definition ctrl_deployment_spec :: "driver_env \<Rightarrow> driverReconcile \<Rightarrow> 32 word \<Rightarrow> string \<Rightarrow> deployment_spec" where
  "ctrl_deployment_spec env r replicas appName =
     \<lparr>dps_Replicas = Some replicas,
      dps_Selector = Some (appSelector appName),
      dps_Strategy = Deref (ct_DeploymentStrategy (ctrl_spec r)) defaultDeploymentStrategy,
      dps_Template = \<lparr>pt_Labels = podLabels (ctrl_pod r) appName,
                      pt_Annotations = Deref (pc_Annotations (ctrl_pod r)) fmempty,
                      pt_Spec = ctrl_pod_spec env r appName\<rparr>,
      dps_Rest = JNull\<rparr>"

text \<open>The node count is a machine integer; the comparison is with the 32-bit default.\<close>

definition getControllerPluginReplicas :: "'w client \<Rightarrow> 32 word option \<Rightarrow> ('w, 32 word) m" where
  "getControllerPluginReplicas cl specReplicas =
     (case specReplicas of
        Some n \<Rightarrow> Ret n
      | None \<Rightarrow>
          bind_m (call (api_List (cl_Node cl) \<lparr>lo_Namespace = [], lo_MatchingField = None\<rparr>)) (\<lambda>l.
          Ret (case l of
                 Inl err \<Rightarrow> defaultControllerPluginReplicas
               | Inr nodes \<Rightarrow>
                   let nodeCount = int (length nodes)
                   in if nodeCount > 0 \<and> nodeCount < sint defaultControllerPluginReplicas then 1
                      else defaultControllerPluginReplicas)))"

text \<open>The function passed to \<open>CreateOrUpdate\<close>.\<close>

definition mutateControllerPluginDeployment ::
  "'w client \<Rightarrow> driver_env \<Rightarrow> driverReconcile \<Rightarrow> ('w, deployment) mutate_fn" where
  "mutateControllerPluginDeployment cl env r deploy =
     (case SetControllerReference T_Driver (dr_Meta (r_driver r)) (dp_Meta deploy) (e_scheme env) of
        Inl err \<Rightarrow> Ret (Inl err)
      | Inr md \<Rightarrow>
          bind_m (getControllerPluginReplicas cl (ct_Replicas (ctrl_spec r))) (\<lambda>replicas.
          Ret (Inr (deploy\<lparr>dp_Meta := md,
                           dp_Spec := ctrl_deployment_spec env r replicas (om_Name (dp_Meta deploy))\<rparr>))))"

definition reconcileControllerPluginDeployment ::
  "'w client \<Rightarrow> driver_env \<Rightarrow> driverReconcile \<Rightarrow> ('w, error) m" where
  "reconcileControllerPluginDeployment cl env r =
     (let deploy = new_deployment (driver_namespace r) (generateName r ''ctrlplugin'')
      in bind_m (CreateOrUpdate dp_Meta (cl_Deployment cl) deploy (mutateControllerPluginDeployment cl env r))
           (\<lambda>(opResult, err, _). Ret err))"

section \<open>The pod is acceptable\<close>

lemma ctrl_names [simp]:
  "c_Name (ctrl_plugin r) = plugin_name r" "c_Name (ctrl_provisioner r) = ''csi-provisioner''"
  "c_Name (ctrl_resizer r) = ''csi-resizer''" "c_Name (ctrl_attacher r) = ''csi-attacher''"
  "c_Name (log_rotator r pod res sc) = ''log-rotator''"
  by (simp_all add: ctrl_plugin_def ctrl_provisioner_def ctrl_resizer_def ctrl_attacher_def
      ctrl_container_def log_rotator_def)

text \<open>The optional containers: each has one fixed name or is absent.\<close>

lemma ctrl_optional_names:
  "map c_Name (ctrl_snapshotter r) \<in> {[], [''csi-snapshotter'']}"
  "map c_Name (ctrl_ex_snapshotter r) \<in> {[], [''ex-csi-snapshotter'']}"
  "map c_Name (ctrl_addons r) \<in> {[], [''csi-addons'']}"
  "map c_Name (ctrl_omap_generator r) \<in> {[], [''csi-omap-generator'']}"
  "map c_Name (ctrl_liveness r) \<in> {[], [''liveness-prometheus'']}"
  "map c_Name (ctrl_log_rotator r) \<in> {[], [''log-rotator'']}"
  "map c_Name (ctrl_snapshot_metadata r) \<in> {[], [''csi-snapshot-metadata'']}"
  by (simp_all add: ctrl_snapshotter_def ctrl_ex_snapshotter_def ctrl_addons_def ctrl_omap_generator_def
      ctrl_liveness_def ctrl_log_rotator_def ctrl_snapshot_metadata_def ctrl_container_def split: option.splits)

lemma plugin_name_cases:
  "r_driverType r \<in> set driver_types \<Longrightarrow>
     plugin_name r \<in> {''csi-rbdplugin'', ''csi-cephfsplugin'', ''csi-nfsplugin'', ''csi-nvmeofplugin''}"
  by (auto simp: plugin_name_def driver_types_def RbdDriverType_def CephFsDriverType_def NfsDriverType_def
      NvmeofDriverType_def)

text \<open>The containers are a selection of a fixed list, in its order.\<close>

lemma optional_subseq: "xs \<in> {[], [a]} \<Longrightarrow> subseq xs [a]"
  by auto

lemma ctrl_containers_subseq:
  "subseq (map c_Name (ctrl_containers r))
     [plugin_name r, ''csi-provisioner'', ''csi-resizer'', ''csi-attacher'', ''csi-snapshotter'', ''ex-csi-snapshotter'',
      ''csi-addons'', ''csi-omap-generator'', ''liveness-prometheus'', ''log-rotator'', ''csi-snapshot-metadata'']"
proof -
  note o = ctrl_optional_names [of r, THEN optional_subseq]
  have "subseq (map c_Name (ctrl_containers r))
    ([plugin_name r, ''csi-provisioner'', ''csi-resizer'', ''csi-attacher''] @ [''csi-snapshotter''] @
     [''ex-csi-snapshotter''] @ [''csi-addons''] @ [''csi-omap-generator''] @ [''liveness-prometheus''] @
     [''log-rotator''] @ [''csi-snapshot-metadata''])"
    unfolding ctrl_containers_def map_append
    by (intro list_emb_append_mono o) simp
  then show ?thesis by simp
qed

lemma ctrl_containers_distinct:
  assumes "r_driverType r \<in> set driver_types"
  shows "distinct (map c_Name (ctrl_containers r))"
  by (rule subseq_distinct [OF ctrl_containers_subseq]) (use plugin_name_cases [OF assms] in auto)

lemma ctrl_builtin_distinct:
  "distinct (map vol_Name ([HostDevVolume, HostSysVolume, LibModulesVolume, SocketDirVolume, KeysTmpDirVolume,
     OidcTokenVolume, CsiConfigVolume] @ kms_volumes r @ log_volumes r appName))"
  by (simp add: kms_volumes_names log_volumes_names)

lemma ctrl_volume_names:
  "vol_Name ` set (ctrl_volumes r appName) =
     {''host-dev'', ''host-sys'', ''lib-modules'', ''socket-dir'', ''keys-tmp-dir'', ''oidc-token'', ''ceph-csi-config''} \<union>
     (if d_Encryption (spec_of r) \<noteq> None then {''ceph-csi-kms-config''} else {}) \<union>
     (if logRotationEnabled r then {''logs-dir'', ''log-rotate-dir''} else {}) \<union>
     (vol_Name ` vs_Volume ` set (user_volumes (ctrl_pod r)) - {[]})"
proof -
  have names: "vol_Name ` set [HostDevVolume, HostSysVolume, LibModulesVolume, SocketDirVolume, KeysTmpDirVolume,
      OidcTokenVolume, CsiConfigVolume] = {''host-dev'', ''host-sys'', ''lib-modules'', ''socket-dir'', ''keys-tmp-dir'',
      ''oidc-token'', ''ceph-csi-config''}"
    by simp
  show ?thesis
    unfolding ctrl_volumes_def merge_volumes_names(1) [OF ctrl_builtin_distinct] set_append image_Un
      names kms_volume_set log_volume_set Un_assoc ..
qed

lemma ctrl_mounts_distinct: "distinct (map vm_Name (ctrl_plugin_mounts r))"
  by (simp add: ctrl_plugin_mounts_def)

lemma ctrl_container_mounts [simp]: "c_VolumeMounts (ctrl_container r n i as res) = [SocketDirVolumeMount]"
  by (simp add: ctrl_container_def)

lemma ctrl_mounts_in:
  assumes coh: "\<forall>v \<in> set (user_volumes (ctrl_pod r)). volume_coherent v"
    and N: "N = vol_Name ` set (ctrl_volumes r appName)" and c: "c \<in> set (ctrl_containers r)"
  shows "mounts_in N c"
proof -
  note names = N [unfolded ctrl_volume_names]
  have user: "vm_Name ` vs_Mount ` set (user_volumes (ctrl_pod r)) - {[]} \<subseteq> N"
    using coherent_mount [OF _ coh] by (auto simp: names)
  have builtin: "vm_Name ` set (ctrl_plugin_mounts r) \<subseteq> N"
    by (cases "d_Encryption (spec_of r) = None"; cases "logRotationEnabled r"; cases "isRbdDriver r")
       (simp_all add: names ctrl_plugin_mounts_def)
  have plugin: "mounts_in N (ctrl_plugin r)"
    using user builtin merge_mounts_names(1) [OF ctrl_mounts_distinct [of r], of "user_volumes (ctrl_pod r)"]
    by (simp add: mounts_in_def ctrl_plugin_def)
  have socket: "''socket-dir'' \<in> N" by (simp add: names)
  have meta: "mounts_in N c" if "c \<in> set (ctrl_snapshot_metadata r)"
  proof -
    from that obtain i where i: "tlsMountIndex r = Some i"
      and m: "c_VolumeMounts c = [vs_Mount (user_volumes (ctrl_pod r) ! i), SocketDirVolumeMount]"
      by (cases "isRbdDriver r"; cases "tlsMountIndex r") (simp_all add: ctrl_snapshot_metadata_def)
    from IndexFunc_SomeD [OF i [unfolded tlsMountIndex_def]]
    have v: "user_volumes (ctrl_pod r) ! i \<in> set (user_volumes (ctrl_pod r))"
      "vol_Name (vs_Volume (user_volumes (ctrl_pod r) ! i)) = ''tls-key''" by auto
    with coh have "vm_Name (vs_Mount (user_volumes (ctrl_pod r) ! i)) = ''tls-key''"
      by (auto simp: volume_coherent_def)
    with v(1) user have "vm_Name (vs_Mount (user_volumes (ctrl_pod r) ! i)) \<in> N" by force
    with m socket show ?thesis by (simp add: mounts_in_def)
  qed
  have sidecars: "mounts_in N c" if "c \<in> {ctrl_provisioner r, ctrl_resizer r, ctrl_attacher r} \<union>
      set (ctrl_snapshotter r) \<union> set (ctrl_ex_snapshotter r) \<union> set (ctrl_liveness r)"
    using that socket
    by (cases "d_Liveness (spec_of r)") (auto simp: ctrl_provisioner_def ctrl_resizer_def ctrl_attacher_def ctrl_snapshotter_def
        ctrl_ex_snapshotter_def ctrl_liveness_def mounts_in_def split: if_splits)
  have others: "mounts_in N c" if "c \<in> set (ctrl_addons r) \<union> set (ctrl_omap_generator r) \<union> set (ctrl_log_rotator r)"
    using that
    by (auto simp: ctrl_addons_def ctrl_omap_generator_def ctrl_log_rotator_def log_rotator_def mounts_in_def
        names split: if_splits)
  show ?thesis using c plugin meta sidecars others by (auto simp: ctrl_containers_def)
qed

text \<open>
  C16. The controller plugin's pod is one the API server can accept: its containers have distinct names,
  its volumes have distinct names also when the user redefines built-in ones or repeats a name,
  and every mount of every container refers to a volume of the pod.
\<close>

theorem controller_pod_ok:
  assumes "r_driverType r \<in> set driver_types"
    and "\<forall>v \<in> set (user_volumes (ctrl_pod r)). volume_coherent v"
  shows "pod_ok (ctrl_pod_spec env r appName)"
proof (rule pod_okI)
  show "distinct (map c_Name (ps_Containers (ctrl_pod_spec env r appName)))"
    using ctrl_containers_distinct [OF assms(1)] by (simp add: ctrl_pod_spec_def)
  show "distinct (map vol_Name (ps_Volumes (ctrl_pod_spec env r appName)))"
    using merge_volumes_names(2) [OF ctrl_builtin_distinct [of r appName]]
    by (simp add: ctrl_pod_spec_def ctrl_volumes_def)
  show "mounts_in (vol_Name ` set (ps_Volumes (ctrl_pod_spec env r appName))) c"
    if "c \<in> set (ps_Containers (ctrl_pod_spec env r appName))" for c
    using ctrl_mounts_in [OF assms(2) refl] that by (simp add: ctrl_pod_spec_def)
qed

theorem controller_pod_ok_witness:
  "pod_ok (ctrl_pod_spec example_env example_rbd ''rbd.csi.ceph.com-ctrlplugin'')"
proof (rule controller_pod_ok)
  show "r_driverType example_rbd \<in> set driver_types" by (simp add: driver_types_def RbdDriverType_def)
  show "\<forall>v \<in> set (user_volumes (ctrl_pod example_rbd)). volume_coherent v"
    using example_volumes_coherent
    by (simp add: user_volumes_def ctrl_pod_def ctrl_spec_def)
qed

lemma ctrl_container_args [simp]: "[] \<notin> set (c_Args (ctrl_container r n i as res))"
  by (simp add: ctrl_container_def ctrl_args_def container_args_nonempty)

lemma ctrl_args_nonempty: "c \<in> set (ctrl_containers r) \<Longrightarrow> [] \<notin> set (c_Args c)"
proof -
  have "list_all (\<lambda>c. [] \<notin> set (c_Args c)) (ctrl_containers r)"
    by (simp add: ctrl_containers_def ctrl_plugin_def ctrl_provisioner_def ctrl_resizer_def ctrl_attacher_def
       ctrl_snapshotter_def ctrl_ex_snapshotter_def ctrl_addons_def ctrl_omap_generator_def ctrl_liveness_def
       ctrl_log_rotator_def ctrl_snapshot_metadata_def log_rotator_def zero_container_def split: option.split)
  then show "c \<in> set (ctrl_containers r) \<Longrightarrow> [] \<notin> set (c_Args c)"
    by (simp add: list_all_iff)
qed

text \<open>
  C39. The deployment's selector selects the pods of its template whatever labels the user adds, even
  one named \<open>app\<close>; the default anti-affinity uses the same selector; and no container is started
  with an empty argument.
\<close>

theorem controller_selects_own_pods:
  "selects (the (dps_Selector (ctrl_deployment_spec env r n appName)))
     (pt_Labels (dps_Template (ctrl_deployment_spec env r n appName))) \<and>
   getControllerPluginPodAffinity zero_ControllerPluginSpec (appSelector appName) =
     Some (zero_affinity\<lparr>af_PodAntiAffinity := Some \<lparr>paa_Required =
        [\<lparr>pat_LabelSelector = dps_Selector (ctrl_deployment_spec env r n appName),
          pat_TopologyKey = LabelHostname, pat_More = JNull\<rparr>], paa_Preferred = []\<rparr>\<rparr>) \<and>
   [] \<notin> \<Union> (set ` c_Args ` set (ctrl_containers r))"
  using ctrl_args_nonempty
  by (auto simp: ctrl_deployment_spec_def podLabels_def getControllerPluginPodAffinity_def
      zero_ControllerPluginSpec_def zero_PodCommonSpec_def intro!: appSelector_selects)

text \<open>
  Without a configured number the controller runs one or two replicas: one exactly when the cluster
  has a single node, and the default when the nodes cannot be listed.
\<close>

theorem controller_replicas:
  assumes "run_m (getControllerPluginReplicas cl None) w = (n, w')"
  shows "n \<in> {1, 2} \<and>
    (n = 1 \<longleftrightarrow> (\<exists>node w1. api_List (cl_Node cl) \<lparr>lo_Namespace = [], lo_MatchingField = None\<rparr> w = (Inr [node], w1)))"
proof -
  obtain l w1 where l: "api_List (cl_Node cl) \<lparr>lo_Namespace = [], lo_MatchingField = None\<rparr> w = (l, w1)" by fastforce
  have one: "xs \<noteq> [] \<and> length xs < 2 \<longleftrightarrow> (\<exists>x. xs = [x])" for xs :: "node list"
    by (cases xs; cases "tl xs") auto
  show ?thesis
  proof (cases l)
    case (Inl e)
    with assms l show ?thesis
      by (auto simp: getControllerPluginReplicas_def defaultControllerPluginReplicas_def)
  next
    case (Inr nodes)
    with assms l one [of nodes] show ?thesis
      by (auto simp: getControllerPluginReplicas_def defaultControllerPluginReplicas_def split: if_splits)
  qed
qed

theorem controller_replicas_witness:
  "\<exists>n w. run_m (getControllerPluginReplicas mem_client None)
      (empty_cluster\<lparr>mc_Node := \<lparr>mem_objs = [\<lparr>nd_Meta = named_meta [] ''n1''\<rparr>], mem_next = 1, mem_faults = []\<rparr>\<rparr>) =
      (n, w) \<and> n = 1"
proof -
  let ?w = "empty_cluster\<lparr>mc_Node := \<lparr>mem_objs = [\<lparr>nd_Meta = named_meta [] ''n1''\<rparr>], mem_next = 1, mem_faults = []\<rparr>\<rparr>"
  obtain n w where r: "run_m (getControllerPluginReplicas mem_client None) ?w = (n, w)" by fastforce
  have "\<exists>node w1. api_List (cl_Node mem_client) \<lparr>lo_Namespace = [], lo_MatchingField = None\<rparr> ?w = (Inr [node], w1)"
    by (simp add: mem_api_def mem_request_def)
  with controller_replicas [OF r] r show ?thesis by blast
qed

section \<open>The mutation\<close>

definition put_deployment_spec :: "driver_env \<Rightarrow> driverReconcile \<Rightarrow> 32 word \<Rightarrow> deployment \<Rightarrow> deployment" where
  "put_deployment_spec env r replicas deploy =
     deploy\<lparr>dp_Spec := ctrl_deployment_spec env r replicas (om_Name (dp_Meta deploy))\<rparr>"

abbreviation deployment_mutation :: "driver_env \<Rightarrow> driverReconcile \<Rightarrow> 32 word \<Rightarrow> deployment \<Rightarrow> deployment result" where
  "deployment_mutation env r replicas \<equiv> controlled dp_Meta (\<lambda>md. dp_Meta_update (\<lambda>_. md))
     (put_deployment_spec env r replicas) (r_driver r) (e_scheme env)"

interpretation deployment_object: controlled_object dp_Meta "\<lambda>md. dp_Meta_update (\<lambda>_. md)"
  "put_deployment_spec env r replicas" for env r replicas
  by unfold_locales (simp_all add: put_deployment_spec_def)

lemma SetControllerReference_name:
  "SetControllerReference t owner obj scheme = Inr md \<Longrightarrow> om_Name md = om_Name obj"
  using SetControllerReference_frame(1) by (fastforce simp: ObjectKeyFromObject_def)

lemma run_mutate_deployment:
  assumes "run_m (getControllerPluginReplicas cl (ct_Replicas (ctrl_spec r))) w = (n, w')"
  shows "run_m (mutateControllerPluginDeployment cl env r obj) w =
    (case deployment_mutation env r n obj of Inl err \<Rightarrow> (Inl err, w) | Inr obj' \<Rightarrow> (Inr obj', w'))"
  using assms
  by (auto simp: mutateControllerPluginDeployment_def controlled_def put_deployment_spec_def
      dest: SetControllerReference_name split: sum.splits)

text \<open>A cluster that holds one deployment, and the deployment the example driver gets.\<close>

definition deployment_cluster :: "deployment \<Rightarrow> cluster" where
  "deployment_cluster d = empty_cluster\<lparr>mc_Deployment := \<lparr>mem_objs = [d], mem_next = 5, mem_faults = []\<rparr>\<rparr>"

lemma get_deployment:
  assumes "ObjectKeyFromObject (dp_Meta d) = k"
  shows "api_Get (cl_Deployment mem_client) k (deployment_cluster d) = (Inr d, deployment_cluster d)"
  using assms by (simp add: mem_api_def mem_request_def mem_find_def deployment_cluster_def)

lemma example_rbd_key [simp]:
  "driver_namespace example_rbd = ''ns''" "driver_name example_rbd = ''rbd.csi.ceph.com''"
  by (simp_all add: driver_namespace_def driver_name_def example_meta_def)

lemma example_controller_ref:
  "SetControllerReference T_Driver example_meta (named_meta ''ns'' name) (addKnownTypes []) =
     Inr (upsertOwnerRef (ref_for T_Driver example_meta (Some True)) (named_meta ''ns'' name))"
  by (simp add: SetControllerReference_eq validateOwner_def addKnownTypes_def GetControllerOf_def example_meta_def
      named_meta_def zero_meta_def)

text \<open>
  The reconciliation of the controller deployment settles: when the stored deployment is what an
  earlier reconciliation of the same driver computed for the same number of replicas, it is read
  and not written.
\<close>

theorem controller_deployment_settled:
  assumes get: "api_Get (cl_Deployment cl) (driver_namespace r, generateName r ''ctrlplugin'') w = (Inr existing, w1)"
    and key: "ObjectKeyFromObject (dp_Meta existing) = (driver_namespace r, generateName r ''ctrlplugin'')"
    and nodes: "run_m (getControllerPluginReplicas cl (ct_Replicas (ctrl_spec r))) w1 = (n, w2)"
    and written: "deployment_mutation env r n earlier = Inr existing"
  shows "run_m (reconcileControllerPluginDeployment cl env r) w = (None, w2)"
proof -
  have "deployment_mutation env r n existing = Inr existing"
    by (rule deployment_object.mut_idem [OF _ written]) simp
  then have "run_m (mutateControllerPluginDeployment cl env r existing) w1 = (Inr existing, w2)"
    by (simp add: run_mutate_deployment [OF nodes])
  with CreateOrUpdate_unchanged [of "cl_Deployment cl" dp_Meta
      "new_deployment (driver_namespace r) (generateName r ''ctrlplugin'')" w existing w1] get key
  show ?thesis by (simp add: reconcileControllerPluginDeployment_def)
qed

theorem controller_deployment_settled_witness:
  "\<exists>existing. deployment_mutation example_env example_rbd 2 (new_deployment ''ns'' ''rbd.csi.ceph.com-ctrlplugin'') = Inr existing \<and>
     run_m (reconcileControllerPluginDeployment mem_client example_env example_rbd) (deployment_cluster existing) =
       (None, deployment_cluster existing)"
proof -
  let ?new = "new_deployment ''ns'' ''rbd.csi.ceph.com-ctrlplugin''"
  obtain existing where m: "deployment_mutation example_env example_rbd 2 ?new = Inr existing"
    using example_controller_ref by (simp add: controlled_def example_env_def)
  from deployment_object.mut_key [OF m] have k: "ObjectKeyFromObject (dp_Meta existing) = (''ns'', ''rbd.csi.ceph.com-ctrlplugin'')"
    by simp
  have n: "run_m (getControllerPluginReplicas mem_client (ct_Replicas (ctrl_spec example_rbd))) (deployment_cluster existing) =
      (2, deployment_cluster existing)"
    by (simp add: getControllerPluginReplicas_def ctrl_spec_def zero_ControllerPluginSpec_def mem_api_def mem_request_def
        deployment_cluster_def empty_cluster_def empty_mem_def defaultControllerPluginReplicas_def)
  show ?thesis
    using controller_deployment_settled [OF _ _ n m] get_deployment [OF k] k m
    by (simp add: generateName_def)
qed

text \<open>
  C23. A deployment of the driver's name that another object controls is never overwritten: the
  reconciliation reports an error and sends nothing after the read.
\<close>

theorem foreign_deployment_refused:
  assumes get: "api_Get (cl_Deployment cl) (driver_namespace r, generateName r ''ctrlplugin'') w = (Inr existing, w1)"
    and foreign: "GetControllerOf (dp_Meta existing) = Some ref" "\<not> refers_to ref T_Driver (dr_Meta (r_driver r))"
  shows "\<exists>err. run_m (reconcileControllerPluginDeployment cl env r) w = (Some err, w1)"
proof -
  obtain n w2 where nodes: "run_m (getControllerPluginReplicas cl (ct_Replicas (ctrl_spec r))) w1 = (n, w2)"
    by fastforce
  obtain err where "deployment_mutation env r n existing = Inl err"
    using deployment_object.refuses [OF foreign] by blast
  then have "run_m (mutateControllerPluginDeployment cl env r existing) w1 = (Inl err, w1)"
    by (simp add: run_mutate_deployment [OF nodes])
  with CreateOrUpdate_failing [of "cl_Deployment cl" dp_Meta
      "new_deployment (driver_namespace r) (generateName r ''ctrlplugin'')" w existing w1] get
  show ?thesis by (simp add: reconcileControllerPluginDeployment_def)
qed

theorem foreign_deployment_refused_witness:
  "\<exists>existing err. run_m (reconcileControllerPluginDeployment mem_client example_env example_rbd) (deployment_cluster existing) =
     (Some err, deployment_cluster existing)"
proof -
  let ?ref = "ref_for T_Driver (named_meta ''ns'' ''other.rbd.csi.ceph.com'') (Some True)"
  let ?d = "(new_deployment ''ns'' ''rbd.csi.ceph.com-ctrlplugin'')
    \<lparr>dp_Meta := (named_meta ''ns'' ''rbd.csi.ceph.com-ctrlplugin'')\<lparr>om_OwnerReferences := [?ref]\<rparr>\<rparr>"
  have g: "api_Get (cl_Deployment mem_client) (driver_namespace example_rbd, generateName example_rbd ''ctrlplugin'')
      (deployment_cluster ?d) = (Inr ?d, deployment_cluster ?d)"
    by (rule get_deployment) (simp add: generateName_def ObjectKeyFromObject_def)
  have c: "GetControllerOf (dp_Meta ?d) = Some ?ref" by (simp add: GetControllerOf_def ref_for_def)
  have f: "\<not> refers_to ?ref T_Driver (dr_Meta (r_driver example_rbd))"
    by (simp add: refers_to_def example_meta_def)
  from foreign_deployment_refused [OF g c f] show ?thesis by blast
qed

text \<open>
  The provisioner of an RBD or NVMe-oF driver is started with the default file system flag twice,
  that of another driver once.
\<close>

theorem provisioner_default_fstype_count:
  "count_list (ctrl_provisioner_args r) DefaultFsTypeContainerArg = (if isRbdOrNvemofDriver r then 2 else 1)"
proof -
  have "DefaultFsTypeContainerArg \<notin> set (leaderElectionSettingsArg r)"
    by (simp add: leaderElectionSettingsArg_def DefaultFsTypeContainerArg_def LeaderElectionNamespaceContainerArg_def
        LeaderElectionLeaseDurationContainerArg_def LeaderElectionRenewDeadlineContainerArg_def
        LeaderElectionRetryPeriodContainerArg_def utils_If_def)
  then have "count_list (leaderElectionSettingsArg r) DefaultFsTypeContainerArg = 0"
    by (simp add: count_list_0_iff)
  then show ?thesis
    by (simp add: ctrl_provisioner_args_def count_list_append DefaultFsTypeContainerArg_def LeaderElectionContainerArg_def
        LogVerbosityContainerArg_def CsiAddressContainerArg_def TimeoutContainerArg_def
        RetryIntervalStartContainerArg_def PreventVolumeModeConversionContainerArg_def TopologyContainerArg_def
        ExtraCreateMetadataContainerArg_def utils_If_def)
qed

text \<open>
  The defaults of the leader election apply only when the section is left out as a whole: with a
  section that leaves a field unset, the sidecars are told a duration of zero seconds.
\<close>

theorem leader_election_defaults_all_or_nothing:
  assumes "d_LeaderElection (spec_of r) = Some \<lparr>le_LeaseDuration = l, le_RenewDeadline = 0, le_RetryPeriod = p\<rparr>"
  shows "''--leader-election-renew-deadline=0s'' \<in> set (c_Args (ctrl_provisioner r)) \<and>
    ''--leader-election-renew-deadline=107s'' \<in> set (c_Args (ctrl_provisioner
       (r\<lparr>r_driver := (r_driver r)\<lparr>dr_Spec := (spec_of r)\<lparr>d_LeaderElection := None\<rparr>\<rparr>\<rparr>)))"
proof -
  have "int_to_string 0 = ''0''" "int_to_string 107 = ''107''"
    by (simp_all add: int_to_string_def nat_to_string.simps digit_def)
  with assms show ?thesis
    by (simp add: ctrl_provisioner_def ctrl_container_def ctrl_args_def container_args_def set_DeleteZeroValues
        ctrl_provisioner_args_def leaderElectionSettingsArg_def LeaderElectionRenewDeadlineContainerArg_def
        defaultLeaderElection_def spec_of_def)
qed

theorem leader_election_defaults_all_or_nothing_witness:
  "''--leader-election-renew-deadline=0s'' \<in> set (c_Args (ctrl_provisioner
     (example_rbd\<lparr>r_driver := example_driver\<lparr>dr_Spec := zero_DriverSpec
        \<lparr>d_LeaderElection := Some \<lparr>le_LeaseDuration = 60, le_RenewDeadline = 0, le_RetryPeriod = 10\<rparr>\<rparr>\<rparr>\<rparr>)))"
  using leader_election_defaults_all_or_nothing
    [of "example_rbd\<lparr>r_driver := example_driver\<lparr>dr_Spec := zero_DriverSpec
        \<lparr>d_LeaderElection := Some \<lparr>le_LeaseDuration = 60, le_RenewDeadline = 0, le_RetryPeriod = 10\<rparr>\<rparr>\<rparr>\<rparr>" 60 10]
  by (simp add: spec_of_def)

end
