(* ===== verification/Driver_Misc.thy ===== *)
theory Driver_Misc
  imports Driver_Deploy
begin

text \<open>
  The smaller objects of a driver, from \<open>driver_controller.go\<close>: the shared ConfigMap, the log rotation
  ConfigMap, the cluster-scoped CSIDriver (deleted and created again when the server rejects the
  update of an immutable field), the two network policies and the liveness service.

  Shown here: the CSIDriver written for a driver is accepted by the load of that driver only; the
  policy of the controller opens exactly the ports of its pod, but for NFS; the port of the
  liveness service is the port of the liveness sidecar and does not wrap; a CSIDriver whose update
  is invalid is recreated; a log rotation by period alone is rejected although the API accepts it.
\<close>

section \<open>The shared ConfigMap\<close>

text \<open>Owned by every driver of the namespace, controlled by none; its data is the profiles'.\<close>

definition mutateCsiConfigMap :: "driver_env \<Rightarrow> driverReconcile \<Rightarrow> config_map \<Rightarrow> config_map result" where
  "mutateCsiConfigMap env r csiConfigMap =
     (case ToggleOwnerReference True (cm_Meta csiConfigMap) T_Driver (dr_Meta (r_driver r)) (e_scheme env) of
        Inl err \<Rightarrow> Inl err
      | Inr (md, _) \<Rightarrow> Inr (csiConfigMap\<lparr>cm_Meta := md\<rparr>))"

definition reconcileCsiConfigMap :: "'w client \<Rightarrow> driver_env \<Rightarrow> driverReconcile \<Rightarrow> ('w, error) m" where
  "reconcileCsiConfigMap cl env r =
     bind_m (CreateOrUpdate cm_Meta (cl_ConfigMap cl)
               (new_config_map (driver_namespace r) (vol_Name CsiConfigVolume))
               (pure_mut (mutateCsiConfigMap env r)))
       (\<lambda>(opResult, err, _). Ret err)"

section \<open>The log rotation ConfigMap\<close>

definition newline :: string where "newline = [CHR 0x0A]"
definition tab :: string where "tab = [CHR 0x09]"

definition cronLogRotateSettings :: "LogRotationSpec \<Rightarrow> string list" where
  "cronLogRotateSettings rotation =
     [tab @ ''missingok'', tab @ ''compress'', tab @ ''copytruncate'', tab @ ''notifempty'',
      tab @ ''rotate '' @ int_to_string (cmp_Or_int (lr_MaxFiles rotation) defaultLogRotateMaxFiles)] @
     (if lr_Periodicity rotation \<noteq> [] then [tab @ lr_Periodicity rotation] else []) @
     (if q_String (lr_MaxLogSize rotation) \<noteq> ''0'' then [tab @ ''maxsize '' @ q_String (lr_MaxLogSize rotation)] else [])"

definition logRotateFile :: "LogRotationSpec \<Rightarrow> string" where
  "logRotateFile rotation =
     ''/csi-logs/*.log {'' @ newline @ strings_Join (cronLogRotateSettings rotation) newline @ newline @ ''}'' @ newline"

definition mutateLogRotateConfigMap ::
  "driver_env \<Rightarrow> driverReconcile \<Rightarrow> LogRotationSpec \<Rightarrow> config_map \<Rightarrow> config_map result" where
  "mutateLogRotateConfigMap env r rotation cm =
     (case ToggleOwnerReference True (cm_Meta cm) T_Driver (dr_Meta (r_driver r)) (e_scheme env) of
        Inl err \<Rightarrow> Inl err
      | Inr (md, _) \<Rightarrow>
          if lr_Periodicity rotation \<noteq> [] \<and> q_IsZero (lr_MaxLogSize rotation)
          then Inl (ErrorString ''invalid Log.Rotation spec'')
          else Inr (cm\<lparr>cm_Meta := md,
                 cm_Data := fmap_of_list [(''csi'', logRotateFile rotation)]\<rparr>))"

definition reconcileLogRotateConfigMap :: "'w client \<Rightarrow> driver_env \<Rightarrow> driverReconcile \<Rightarrow> ('w, error) m" where
  "reconcileLogRotateConfigMap cl env r =
     (let logRotateConfigmap = new_config_map (driver_namespace r) (LogRotateConfigMapName (driver_name r))
      in case logRotationSpec r of
           Some rotation \<Rightarrow>
             bind_m (CreateOrUpdate cm_Meta (cl_ConfigMap cl) logRotateConfigmap
                      (pure_mut (mutateLogRotateConfigMap env r rotation)))
               (\<lambda>(opResult, err, _). Ret err)
         | None \<Rightarrow>
             bind_m (call (api_Delete (cl_ConfigMap cl) logRotateConfigmap)) (\<lambda>err. Ret (IgnoreNotFound err)))"

section \<open>The CSIDriver\<close>

definition mutateK8sCsiDriver :: "driverReconcile \<Rightarrow> csi_driver \<Rightarrow> csi_driver result" where
  "mutateK8sCsiDriver r csiDriver =
     (let ownerObjKey = ObjectKeyFromObject (dr_Meta (r_driver r));
          md = fst (AddAnnotation (cd_Meta csiDriver) ownerRefAnnotationKey (Marshal enc_key ownerObjKey))
      in Inr (csiDriver\<lparr>cd_Meta := md,
                cd_Spec := (cd_Spec csiDriver)
                  \<lparr>cds_PodInfoOnMount := Some True,
                   cds_AttachRequired := Some (cmp_Or_ptr (d_AttachRequired (spec_of r)) True),
                   cds_FSGroupPolicy := Some (cmp_Or_str (d_FsGroupPolicy (spec_of r)) FileFSGroupPolicy),
                   cds_SELinuxMount := Some True\<rparr>\<rparr>))"

text \<open>What is created again after a delete: name, labels, annotations and spec.\<close>

definition fresh_csi_driver :: "csi_driver \<Rightarrow> csi_driver" where
  "fresh_csi_driver csiDriver =
     \<lparr>cd_Meta = (named_meta [] (om_Name (cd_Meta csiDriver)))
        \<lparr>om_Labels := om_Labels (cd_Meta csiDriver), om_Annotations := om_Annotations (cd_Meta csiDriver)\<rparr>,
      cd_Spec = cd_Spec csiDriver\<rparr>"

definition recreateCsiDriver :: "'w client \<Rightarrow> csi_driver \<Rightarrow> ('w, error) m" where
  "recreateCsiDriver cl csiDriver =
     bind_m (call (api_Delete (cl_CSIDriver cl) csiDriver)) (\<lambda>d.
     case d of
       Some err \<Rightarrow> Ret (Some err)
     | None \<Rightarrow>
         bind_m (call (api_Create (cl_CSIDriver cl) (fresh_csi_driver csiDriver))) (\<lambda>c.
         Ret (case c of Inl err \<Rightarrow> Some err | Inr _ \<Rightarrow> None)))"

definition reconcileK8sCsiDriver :: "'w client \<Rightarrow> driverReconcile \<Rightarrow> ('w, error) m" where
  "reconcileK8sCsiDriver cl r =
     bind_m (CreateOrUpdate cd_Meta (cl_CSIDriver cl) (new_csi_driver (driver_name r))
               (pure_mut (mutateK8sCsiDriver r)))
       (\<lambda>(opResult, err, csiDriver).
         if om_UID (cd_Meta csiDriver) \<noteq> [] \<and> (case err of None \<Rightarrow> False | Some e \<Rightarrow> IsInvalid e)
         then recreateCsiDriver cl csiDriver
         else Ret err)"

section \<open>Network policies\<close>

definition policy_port :: "container_port \<Rightarrow> network_policy_port" where
  "policy_port port = \<lparr>npo_Protocol = Some ProtocolTCP, npo_Port = Some (IntVal (cp_ContainerPort port))\<rparr>"

definition csiAddonsPeer :: network_policy_peer where
  "csiAddonsPeer = \<lparr>npp_PodSelector = Some (match_labels (fmap_of_list
       [(''app.kubernetes.io/name'', ''csi-addons''), (''control-plane'', ''controller-manager'')])),
     npp_NamespaceSelector = Some zero_selector\<rparr>"

definition tlsConfigured :: "driverReconcile \<Rightarrow> bool" where
  "tlsConfigured r = list_ex (\<lambda>vol. vol_Name (vs_Volume vol) = ''tls-key'') (user_volumes (ctrl_pod r))"

definition ctrl_ingress :: "driverReconcile \<Rightarrow> network_policy_ingress list" where
  "ctrl_ingress r =
     (if deployCsiAddons r
      then [\<lparr>npi_From = [csiAddonsPeer], npi_Ports = [policy_port (controllerPluginCsiAddonsContainerPort r)]\<rparr>]
      else []) @
     (if isRbdDriver r \<and> tlsConfigured r
      then [\<lparr>npi_From = [], npi_Ports = [policy_port SnapshotMetadataGrpcPort]\<rparr>]
      else [])"

definition node_addons_ingress :: "network_policy_ingress list" where
  "node_addons_ingress =
     [\<lparr>npi_From = [csiAddonsPeer], npi_Ports = [policy_port NodePluginCsiAddonsContainerPort]\<rparr>]"

definition policy_spec :: "network_policy_ingress list \<Rightarrow> string \<Rightarrow> network_policy_spec" where
  "policy_spec ingress name =
     \<lparr>nps_PodSelector = appSelector name,
      nps_Ingress = ingress,
      nps_Egress = [\<lparr>npe_To = [], npe_Ports = []\<rparr>],
      nps_PolicyTypes = [''Ingress'', ''Egress'']\<rparr>"

definition put_policy_spec :: "network_policy_ingress list \<Rightarrow> network_policy \<Rightarrow> network_policy" where
  "put_policy_spec ingress np = np\<lparr>np_Spec := policy_spec ingress (om_Name (np_Meta np))\<rparr>"

definition mutateNetworkPolicy ::
  "driver_env \<Rightarrow> driverReconcile \<Rightarrow> network_policy_ingress list \<Rightarrow> network_policy \<Rightarrow> network_policy result" where
  "mutateNetworkPolicy env r ingress =
     controlled np_Meta (\<lambda>md. np_Meta_update (\<lambda>_. md)) (put_policy_spec ingress) (r_driver r) (e_scheme env)"

definition reconcileControllerPluginNetworkPolicy :: "'w client \<Rightarrow> driver_env \<Rightarrow> driverReconcile \<Rightarrow> ('w, error) m" where
  "reconcileControllerPluginNetworkPolicy cl env r =
     (let np = new_network_policy (driver_namespace r) (generateName r ''ctrlplugin'')
      in if ctrl_hostNetwork r
         then bind_m (call (api_Delete (cl_NetworkPolicy cl) np)) (\<lambda>err. Ret (IgnoreNotFound err))
         else bind_m (CreateOrUpdate np_Meta (cl_NetworkPolicy cl) np
                       (pure_mut (mutateNetworkPolicy env r (ctrl_ingress r))))
                (\<lambda>(opResult, err, _). Ret err))"

definition reconcileNodePluginCsiAddonsNetworkPolicy :: "'w client \<Rightarrow> driver_env \<Rightarrow> driverReconcile \<Rightarrow> ('w, error) m" where
  "reconcileNodePluginCsiAddonsNetworkPolicy cl env r =
     (if isNfsDriver r then Ret None
      else let np = new_network_policy (driver_namespace r) (generateName r ''nodeplugin-csi-addons'')
           in if \<not> deployCsiAddons r
              then bind_m (call (api_Delete (cl_NetworkPolicy cl) np)) (\<lambda>err. Ret (IgnoreNotFound err))
              else bind_m (CreateOrUpdate np_Meta (cl_NetworkPolicy cl) np
                            (pure_mut (mutateNetworkPolicy env r node_addons_ingress)))
                     (\<lambda>(opResult, err, _). Ret err))"

section \<open>The liveness service\<close>

definition liveness_service_spec :: "LivenessSpec \<Rightarrow> service_spec" where
  "liveness_service_spec liveness =
     \<lparr>ss_Ports = [\<lparr>sp_Name = ''csi-http-metrics'', sp_Protocol = ProtocolTCP, sp_Port = 8080,
                   sp_TargetPort = FromInt (lv_MetricsPort liveness)\<rparr>],
      ss_Selector = fmempty,
      ss_Rest = JNull\<rparr>"

definition mutateLivenessService :: "driver_env \<Rightarrow> driverReconcile \<Rightarrow> LivenessSpec \<Rightarrow> service \<Rightarrow> service result" where
  "mutateLivenessService env r liveness =
     controlled sv_Meta (\<lambda>md. sv_Meta_update (\<lambda>_. md)) (\<lambda>sv. sv\<lparr>sv_Spec := liveness_service_spec liveness\<rparr>)
       (r_driver r) (e_scheme env)"

definition reconcileLivenessService :: "'w client \<Rightarrow> driver_env \<Rightarrow> driverReconcile \<Rightarrow> ('w, error) m" where
  "reconcileLivenessService cl env r =
     (let service = new_service (driver_namespace r) (generateServiceName r ''liveness'')
      in case d_Liveness (spec_of r) of
           Some liveness \<Rightarrow>
             bind_m (CreateOrUpdate sv_Meta (cl_Service cl) service (pure_mut (mutateLivenessService env r liveness)))
               (\<lambda>(opResult, err, _). Ret err)
         | None \<Rightarrow>
             bind_m (call (api_Delete (cl_Service cl) service)) (\<lambda>err. Ret (IgnoreNotFound err)))"

section \<open>The mutations keep their contract\<close>

interpretation policy_object: controlled_object np_Meta "\<lambda>md. np_Meta_update (\<lambda>_. md)" "put_policy_spec ingress"
  for ingress
  by unfold_locales (simp_all add: put_policy_spec_def)

interpretation service_object: controlled_object sv_Meta "\<lambda>md. sv_Meta_update (\<lambda>_. md)"
  "\<lambda>sv. sv\<lparr>sv_Spec := liveness_service_spec liveness\<rparr>" for liveness
  by unfold_locales simp_all

interpretation csi_config_map: mutator cm_Meta "mutateCsiConfigMap env r" "\<lambda>_. True" for env r
proof (unfold_locales, goal_cases)
  case (1 obj obj')
  then show ?case by (auto simp: mutateCsiConfigMap_def dest: toggle_frame(1) split: sum.splits)
next
  case (2 obj obj')
  then show ?case by (auto simp: mutateCsiConfigMap_def dest: toggle_on_idem split: sum.splits)
qed simp

lemma mutateLogRotate_InrD:
  assumes "mutateLogRotateConfigMap env r rotation cm = Inr cm'"
  obtains md ch where "ToggleOwnerReference True (cm_Meta cm) T_Driver (dr_Meta (r_driver r)) (e_scheme env) = Inr (md, ch)"
    "\<not> (lr_Periodicity rotation \<noteq> [] \<and> q_IsZero (lr_MaxLogSize rotation))" "cm_Meta cm' = md"
    "cm' = cm\<lparr>cm_Meta := md, cm_Data := cm_Data cm'\<rparr>"
    "cm_Data cm' = fmap_of_list [(''csi'', logRotateFile rotation)]"
  using assms that unfolding mutateLogRotateConfigMap_def
  by (fastforce split: sum.splits if_splits)

interpretation log_rotate_map: mutator cm_Meta "mutateLogRotateConfigMap env r rotation" "\<lambda>_. True" for env r rotation
proof (unfold_locales, goal_cases)
  case (1 obj obj')
  then show ?case by (rule mutateLogRotate_InrD) (metis toggle_frame(1))
next
  case (2 obj obj')
  from 2(2) show ?case
  proof (rule mutateLogRotate_InrD)
    fix md ch
    assume t: "ToggleOwnerReference True (cm_Meta obj) T_Driver (dr_Meta (r_driver r)) (e_scheme env) = Inr (md, ch)"
      and ok: "\<not> (lr_Periodicity rotation \<noteq> [] \<and> q_IsZero (lr_MaxLogSize rotation))" and md: "cm_Meta obj' = md"
      and d: "cm_Data obj' = fmap_of_list [(''csi'', logRotateFile rotation)]"
    have "mutateLogRotateConfigMap env r rotation obj' = Inr (obj'\<lparr>cm_Meta := cm_Meta obj', cm_Data := cm_Data obj'\<rparr>)"
      unfolding mutateLogRotateConfigMap_def d md using toggle_on_idem(2) [OF t] ok by simp
    then show ?thesis by simp
  qed
qed simp

lemma AddAnnotation_lookup: "fmlookup (om_Annotations (fst (AddAnnotation obj key v))) key = Some v"
  by (auto simp: AddAnnotation_def split: option.splits)

lemma AddAnnotation_again: "fmlookup (om_Annotations obj) key = Some v \<Longrightarrow> fst (AddAnnotation obj key v) = obj"
  by (simp add: AddAnnotation_def)

lemma AddAnnotation_frame [simp]:
  "ObjectKeyFromObject (fst (AddAnnotation obj key v)) = ObjectKeyFromObject obj"
  "om_UID (fst (AddAnnotation obj key v)) = om_UID obj"
  by (simp_all add: AddAnnotation_def ObjectKeyFromObject_def split: option.splits)

interpretation k8s_csi_driver: mutator cd_Meta "mutateK8sCsiDriver r" "\<lambda>_. True" for r
proof (unfold_locales, goal_cases)
  case (1 obj obj')
  then show ?case by (auto simp: mutateK8sCsiDriver_def)
next
  case (2 obj obj')
  then show ?case using AddAnnotation_lookup by (auto simp: mutateK8sCsiDriver_def AddAnnotation_again)
qed simp

text \<open>
  The owned objects of a driver settle: applied to its own result, each of the mutations changes
  nothing, so an object that was not touched since is read and not written.
\<close>

theorem driver_mutations_idempotent:
  "(mutateCsiConfigMap env r cm = Inr cm' \<longrightarrow> mutateCsiConfigMap env r cm' = Inr cm') \<and>
   (mutateLogRotateConfigMap env r rotation cm = Inr cm' \<longrightarrow> mutateLogRotateConfigMap env r rotation cm' = Inr cm') \<and>
   (mutateK8sCsiDriver r cd = Inr cd' \<longrightarrow> mutateK8sCsiDriver r cd' = Inr cd') \<and>
   (mutateNetworkPolicy env r ingress np = Inr np' \<longrightarrow> mutateNetworkPolicy env r ingress np' = Inr np') \<and>
   (mutateLivenessService env r liveness sv = Inr sv' \<longrightarrow> mutateLivenessService env r liveness sv' = Inr sv')"
  unfolding mutateNetworkPolicy_def mutateLivenessService_def
  by (intro conjI impI;
      erule csi_config_map.mut_idem [OF TrueI] log_rotate_map.mut_idem [OF TrueI] k8s_csi_driver.mut_idem [OF TrueI]
        policy_object.mut_idem [OF TrueI] service_object.mut_idem [OF TrueI])

theorem driver_mutations_idempotent_witness:
  "\<exists>cd'. mutateK8sCsiDriver example_rbd (new_csi_driver ''rbd.csi.ceph.com'') = Inr cd' \<and>
     mutateK8sCsiDriver example_rbd cd' = Inr cd'"
proof -
  obtain cd' where m: "mutateK8sCsiDriver example_rbd (new_csi_driver ''rbd.csi.ceph.com'') = Inr cd'"
    by (simp add: mutateK8sCsiDriver_def)
  with driver_mutations_idempotent [of example_env example_rbd undefined undefined undefined
      "new_csi_driver ''rbd.csi.ceph.com''" cd' "[]" undefined undefined undefined undefined undefined]
  show ?thesis by blast
qed

section \<open>The CSIDriver\<close>

text \<open>
  C25. The ownership annotation round-trips through the API server: a stored CSIDriver with the
  annotations that the reconciliation of a driver sends, on update, on creation or on the
  creation after a delete, is accepted when that driver is loaded and refused when any other is.
\<close>

theorem csi_driver_claim_round_trip:
  assumes sent: "mutateK8sCsiDriver r csiDriver = Inr sent"
    and stored: "om_Annotations (cd_Meta stored) \<in>
      {om_Annotations (cd_Meta sent), om_Annotations (cd_Meta (fresh_csi_driver sent))}"
    and uid: "om_UID (cd_Meta stored) \<noteq> []"
  shows "check_claim driver stored = None \<longleftrightarrow> ObjectKeyFromObject driver = ObjectKeyFromObject (dr_Meta (r_driver r))"
proof -
  have "fmlookup (om_Annotations (cd_Meta sent)) ownerRefAnnotationKey =
      Some (Marshal enc_key (ObjectKeyFromObject (dr_Meta (r_driver r))))"
    using sent AddAnnotation_lookup by (auto simp: mutateK8sCsiDriver_def)
  with stored have "fmlookup (om_Annotations (cd_Meta stored)) ownerRefAnnotationKey =
      Some (Marshal enc_key (ObjectKeyFromObject (dr_Meta (r_driver r))))"
    by (auto simp: fresh_csi_driver_def)
  from check_claim_owned [OF uid this] show ?thesis .
qed

theorem csi_driver_claim_round_trip_witness:
  "\<exists>sent. mutateK8sCsiDriver example_rbd (new_csi_driver ''rbd.csi.ceph.com'') = Inr sent \<and>
     check_claim (named_meta ''ns'' ''rbd.csi.ceph.com'') (cd_Meta_update (\<lambda>md. md\<lparr>om_UID := ''u9''\<rparr>) sent) = None \<and>
     check_claim (named_meta ''ns2'' ''rbd.csi.ceph.com'') (cd_Meta_update (\<lambda>md. md\<lparr>om_UID := ''u9''\<rparr>) sent) \<noteq> None"
proof -
  obtain sent where m: "mutateK8sCsiDriver example_rbd (new_csi_driver ''rbd.csi.ceph.com'') = Inr sent"
    by (simp add: mutateK8sCsiDriver_def)
  let ?stored = "cd_Meta_update (\<lambda>md. md\<lparr>om_UID := ''u9''\<rparr>) sent"
  have "check_claim driver ?stored = None \<longleftrightarrow> ObjectKeyFromObject driver = ObjectKeyFromObject (dr_Meta (r_driver example_rbd))"
    for driver
    by (rule csi_driver_claim_round_trip [OF m]) simp_all
  from this [of "named_meta ''ns'' ''rbd.csi.ceph.com''"] this [of "named_meta ''ns2'' ''rbd.csi.ceph.com''"] m
  show ?thesis by (auto simp: example_meta_def ObjectKeyFromObject_def simp del: not_None_eq)
qed

text \<open>
  When the server rejects the update of an existing CSIDriver as invalid, because an immutable field
  would change, the object is deleted and created again with the desired spec and the same
  annotations, and the reconciliation succeeds.
\<close>

theorem csi_driver_recreated:
  assumes get: "api_Get (cl_CSIDriver cl) ([], driver_name r) w = (Inr existing, w1)"
    and key: "ObjectKeyFromObject (cd_Meta existing) = ([], driver_name r)" and uid: "om_UID (cd_Meta existing) \<noteq> []"
    and desired: "mutateK8sCsiDriver r existing = Inr desired" "existing \<noteq> desired"
    and update: "api_Update (cl_CSIDriver cl) desired w1 = (Inl Invalid, w2)"
    and delete: "api_Delete (cl_CSIDriver cl) desired w2 = (None, w3)"
    and create: "api_Create (cl_CSIDriver cl) (fresh_csi_driver desired) w3 = (Inr created, w4)"
  shows "run_m (reconcileK8sCsiDriver cl r) w = (None, w4) \<and>
    cds_AttachRequired (cd_Spec (fresh_csi_driver desired)) = Some (cmp_Or_ptr (d_AttachRequired (spec_of r)) True) \<and>
    om_Annotations (cd_Meta (fresh_csi_driver desired)) = om_Annotations (cd_Meta desired)"
proof -
  have d: "om_UID (cd_Meta desired) \<noteq> []"
    "cds_AttachRequired (cd_Spec desired) = Some (cmp_Or_ptr (d_AttachRequired (spec_of r)) True)"
    using desired(1) uid by (auto simp: mutateK8sCsiDriver_def)
  have "run_m (CreateOrUpdate cd_Meta (cl_CSIDriver cl) (new_csi_driver (driver_name r)) (pure_mut (mutateK8sCsiDriver r))) w =
      ((OperationResultNone, Some Invalid, desired), w2)"
    using k8s_csi_driver.updating [of "cl_CSIDriver cl" "new_csi_driver (driver_name r)" w existing w1 r desired]
      get key desired update by simp
  with d delete create show ?thesis
    by (simp add: reconcileK8sCsiDriver_def IsInvalid_def recreateCsiDriver_def fresh_csi_driver_def)
qed

theorem csi_driver_recreated_witness:
  "\<exists>(cl :: cluster client) w w4. run_m (reconcileK8sCsiDriver cl example_rbd) w = (None, w4) \<and> w4 \<noteq> w"
proof -
  let ?ex = "cd_Meta_update (\<lambda>md. md\<lparr>om_UID := ''u9''\<rparr>) (new_csi_driver ''rbd.csi.ceph.com'')"
  let ?cl = "mem_client\<lparr>cl_CSIDriver := mem_CSIDriver\<lparr>api_Update := \<lambda>obj w. (Inl Invalid, w)\<rparr>\<rparr>"
  let ?w = "empty_cluster\<lparr>mc_CSIDriver := \<lparr>mem_objs = [?ex], mem_next = 5, mem_faults = []\<rparr>\<rparr>"
  let ?w3 = "empty_cluster\<lparr>mc_CSIDriver := \<lparr>mem_objs = [], mem_next = 5, mem_faults = []\<rparr>\<rparr>"
  obtain d where d: "mutateK8sCsiDriver example_rbd ?ex = Inr d" by (simp add: mutateK8sCsiDriver_def)
  have md: "om_Namespace (cd_Meta d) = []" "om_Name (cd_Meta d) = ''rbd.csi.ceph.com''"
    and spec: "cds_SELinuxMount (cd_Spec d) = Some True"
    using d AddAnnotation_frame(1) [of "cd_Meta ?ex"]
    by (auto simp: mutateK8sCsiDriver_def ObjectKeyFromObject_def)
  have ne: "?ex \<noteq> d"
  proof
    assume "?ex = d"
    from arg_cong [OF this, of "\<lambda>x. cds_SELinuxMount (cd_Spec x)"] spec show False
      by (simp add: new_csi_driver_def)
  qed
  have get: "api_Get (cl_CSIDriver ?cl) ([], driver_name example_rbd) ?w = (Inr ?ex, ?w)"
    by (simp add: mem_api_def mem_request_def mem_find_def ObjectKeyFromObject_def)
  have del: "api_Delete (cl_CSIDriver ?cl) d ?w = (None, ?w3)"
    by (simp add: mem_api_def mem_request_def mem_find_def mem_drop_def md ObjectKeyFromObject_def
        named_meta_def zero_meta_def)
  obtain c w4 where create: "api_Create (cl_CSIDriver ?cl) (fresh_csi_driver d) ?w3 = (Inr c, w4)"
    by (simp add: mem_api_def mem_request_def mem_find_def)
  have upd: "api_Update (cl_CSIDriver ?cl) d ?w = (Inl Invalid, ?w)" by simp
  have r: "run_m (reconcileK8sCsiDriver ?cl example_rbd) ?w = (None, w4)"
    using csi_driver_recreated [OF get _ _ d ne upd del create] by (simp add: ObjectKeyFromObject_def)
  have "mem_next (mc_CSIDriver w4) = 6"
    using create by (auto simp: mem_api_def mem_request_def mem_find_def mem_put_def)
  then have "w4 \<noteq> ?w" by auto
  with r show ?thesis by blast
qed

section \<open>Ports\<close>

text \<open>The ports a policy opens and the ports the containers of a pod listen on.\<close>

definition opened :: "network_policy_ingress list \<Rightarrow> network_policy_port set" where
  "opened ingress = \<Union> (set ` npi_Ports ` set ingress)"

definition listening :: "container list \<Rightarrow> network_policy_port set" where
  "listening cs = policy_port ` \<Union> (set ` c_Ports ` set cs)"

lemma listening_simps [simp]:
  "listening [] = {}" "listening (c # cs) = policy_port ` set (c_Ports c) \<union> listening cs"
  "listening (cs @ ds) = listening cs \<union> listening ds"
  by (auto simp: listening_def)

lemma opened_simps [simp]:
  "opened [] = {}" "opened (i # is) = set (npi_Ports i) \<union> opened is" "opened (is @ js) = opened is \<union> opened js"
  by (auto simp: opened_def)

lemma ctrl_container_ports [simp]: "c_Ports (ctrl_container r n i as res) = []"
  by (simp add: ctrl_container_def zero_container_def)

lemma tlsConfigured_iff: "tlsConfigured r \<longleftrightarrow> tlsMountIndex r \<noteq> None"
proof -
  have "tlsMountIndex r = None \<longleftrightarrow> \<not> tlsConfigured r"
    unfolding tlsMountIndex_def IndexFunc_None_iff tlsConfigured_def list_ex_iff by blast
  then show ?thesis by auto
qed

lemma ctrl_listening:
  "listening (ctrl_containers r) =
     (if \<not> isNfsDriver r \<and> deployCsiAddons r then {policy_port (controllerPluginCsiAddonsContainerPort r)} else {}) \<union>
     (if isRbdDriver r \<and> tlsConfigured r then {policy_port SnapshotMetadataGrpcPort} else {})"
proof -
  have fixed: "listening [ctrl_plugin r, ctrl_provisioner r, ctrl_resizer r, ctrl_attacher r] = {}"
    by (simp add: ctrl_plugin_def ctrl_provisioner_def ctrl_resizer_def ctrl_attacher_def)
  have silent: "listening (ctrl_snapshotter r) = {}" "listening (ctrl_ex_snapshotter r) = {}"
    "listening (ctrl_omap_generator r) = {}" "listening (ctrl_liveness r) = {}" "listening (ctrl_log_rotator r) = {}"
    by (simp_all add: ctrl_snapshotter_def ctrl_ex_snapshotter_def ctrl_omap_generator_def ctrl_liveness_def
        ctrl_log_rotator_def log_rotator_def zero_container_def split: option.split)
  have addons: "listening (ctrl_addons r) =
      (if \<not> isNfsDriver r \<and> deployCsiAddons r then {policy_port (controllerPluginCsiAddonsContainerPort r)} else {})"
    by (simp add: ctrl_addons_def)
  have meta: "listening (ctrl_snapshot_metadata r) =
      (if isRbdDriver r \<and> tlsConfigured r then {policy_port SnapshotMetadataGrpcPort} else {})"
    by (cases "tlsMountIndex r") (simp_all add: ctrl_snapshot_metadata_def tlsConfigured_iff)
  show ?thesis
    unfolding ctrl_containers_def listening_simps(3) fixed silent addons meta by simp
qed


text \<open>
  A metrics port within the API's bounds reaches the service unchanged: the target port of the
  liveness service, as a 32-bit number, is the port the liveness sidecar is told to serve.
\<close>

theorem liveness_port_agrees:
  assumes valid: "LivenessSpec_valid liveness"
  shows "\<exists>port. map sp_TargetPort (ss_Ports (liveness_service_spec liveness)) = [IntVal port] \<and>
    sint port = lv_MetricsPort liveness \<and>
    ''--metricsport='' @ int_to_string (sint port) \<in> set (liveness_args liveness)"
proof -
  have "sint (word_of_int (lv_MetricsPort liveness) :: 32 word) = lv_MetricsPort liveness"
    using valid by (simp add: LivenessSpec_valid_def sint_sbintrunc' signed_take_bit_int_eq_self)
  then show ?thesis
    by (simp add: liveness_service_spec_def FromInt_def liveness_args_def MetricsPortContainerArg_def)
qed

theorem liveness_port_agrees_witness:
  "\<exists>port. sint port = (8081 :: int) \<and> ss_Ports (liveness_service_spec \<lparr>lv_MetricsPort = 8081\<rparr>) =
     [\<lparr>sp_Name = ''csi-http-metrics'', sp_Protocol = ProtocolTCP, sp_Port = 8080, sp_TargetPort = IntVal port\<rparr>]"
  using liveness_port_agrees [of "\<lparr>lv_MetricsPort = 8081\<rparr>"]
  by (auto simp: LivenessSpec_valid_def liveness_service_spec_def)

section \<open>Log rotation\<close>

text \<open>
  C34. A log rotation that states a period and no maximal size satisfies the API's validation, which
  asks for either, yet its reconciliation fails and writes nothing.
\<close>

theorem log_rotation_by_period:
  assumes valid: "LogRotationSpec_valid rotation" and size: "q_IsZero (lr_MaxLogSize rotation)"
    and get: "api_Get (cl_ConfigMap cl) (driver_namespace r, LogRotateConfigMapName (driver_name r)) w = (Inr existing, w1)"
    and key: "ObjectKeyFromObject (cm_Meta existing) = (driver_namespace r, LogRotateConfigMapName (driver_name r))"
    and spec: "logRotationSpec r = Some rotation"
  shows "\<exists>err. run_m (reconcileLogRotateConfigMap cl env r) w = (Some err, w1)"
proof -
  have "lr_Periodicity rotation \<noteq> []" using valid size by (simp add: LogRotationSpec_valid_def)
  with size obtain err where "mutateLogRotateConfigMap env r rotation existing = Inl err"
    by (cases "mutateLogRotateConfigMap env r rotation existing") (auto elim: mutateLogRotate_InrD)
  from log_rotate_map.failing [OF _ this, of "cl_ConfigMap cl"
      "new_config_map (driver_namespace r) (LogRotateConfigMapName (driver_name r))" w w1] get key spec
  show ?thesis by (simp add: reconcileLogRotateConfigMap_def)
qed

text \<open>A driver whose logs are to be rotated daily, and the ConfigMap that is already there.\<close>

definition daily_rbd :: driverReconcile where
  "daily_rbd = example_rbd\<lparr>r_driver := example_driver\<lparr>dr_Spec := zero_DriverSpec\<lparr>d_Log :=
     Some \<lparr>lg_Verbosity = 0, lg_Rotation = Some \<lparr>lr_MaxFiles = 0, lr_MaxLogSize = \<lparr>q_IsZero = True, q_String = ''0''\<rparr>,
       lr_Periodicity = DailyPeriod, lr_LogHostPath = []\<rparr>\<rparr>\<rparr>\<rparr>\<rparr>"

theorem log_rotation_by_period_witness:
  "\<exists>w err. LogRotationSpec_valid (the (logRotationSpec daily_rbd)) \<and>
     run_m (reconcileLogRotateConfigMap mem_client example_env daily_rbd) w = (Some err, w)"
proof -
  let ?rot = "\<lparr>lr_MaxFiles = 0, lr_MaxLogSize = \<lparr>q_IsZero = True, q_String = ''0''\<rparr>,
       lr_Periodicity = DailyPeriod, lr_LogHostPath = []\<rparr>"
  let ?cm = "new_config_map ''ns'' ''rbd.csi.ceph.com-logrotate-config''"
  let ?w = "empty_cluster\<lparr>mc_ConfigMap := \<lparr>mem_objs = [?cm], mem_next = 5, mem_faults = []\<rparr>\<rparr>"
  have key: "(driver_namespace daily_rbd, LogRotateConfigMapName (driver_name daily_rbd)) =
      (''ns'', ''rbd.csi.ceph.com-logrotate-config'')"
    by (simp add: daily_rbd_def driver_namespace_def driver_name_def LogRotateConfigMapName_def example_driver_def
        example_meta_def)
  have spec: "logRotationSpec daily_rbd = Some ?rot"
    by (simp add: logRotationSpec_def spec_of_def daily_rbd_def)
  have valid: "LogRotationSpec_valid ?rot" by (simp add: LogRotationSpec_valid_def DailyPeriod_def)
  have get: "api_Get (cl_ConfigMap mem_client) (driver_namespace daily_rbd, LogRotateConfigMapName (driver_name daily_rbd)) ?w =
      (Inr ?cm, ?w)"
    unfolding key by (simp add: mem_api_def mem_request_def mem_find_def)
  have "ObjectKeyFromObject (cm_Meta ?cm) = (driver_namespace daily_rbd, LogRotateConfigMapName (driver_name daily_rbd))"
    unfolding key by simp
  from log_rotation_by_period [OF valid _ get this spec, of example_env] valid spec show ?thesis by auto
qed

end
