(* ===== verification/Driver_Node.thy ===== *)
theory Driver_Node
  imports Driver_Pods Driver_Deploy
begin

text \<open>
  The two daemon sets of a driver, from \<open>driver_controller.go\<close>: the node plugin
  (\<open>reconcileNodePluginDaemonSet\<close>) and the CSI-Addons sidecar that runs beside it in pods of its own
  (\<open>reconcileNodePluginDaemonSetForCsiAddons\<close>), with \<open>strconv.ParseBool\<close> for the annotation that
  switches the volume condition reporter on.

  Their pods are shown acceptable, their selectors to match, their reconciliation to settle. The
  mount options are printed in the iteration order of a Go map, so two reconciliations of the same
  driver can write different daemon sets.
\<close>

section \<open>The node plugin: local values\<close>

definition node_spec :: "driverReconcile \<Rightarrow> NodePluginSpec" where
  "node_spec r = cmp_Or_ptr (d_NodePlugin (spec_of r)) zero_NodePluginSpec"

definition node_pod :: "driverReconcile \<Rightarrow> PodCommonSpec" where
  "node_pod r = np_Pod (node_spec r)"

definition kubeletDirPath :: "driverReconcile \<Rightarrow> string" where
  "kubeletDirPath r = cmp_Or_str (np_KubeletDirPath (node_spec r)) defaultKubeletDirPath"

definition node_topology :: "driverReconcile \<Rightarrow> bool" where
  "node_topology r = (isRbdDriver r \<and> np_Topology (node_spec r) \<noteq> None)"

definition domainLabels :: "driverReconcile \<Rightarrow> string list" where
  "domainLabels r = ts_DomainLabels (cmp_Or_ptr (np_Topology (node_spec r)) \<lparr>ts_DomainLabels = []\<rparr>)"

definition node_seLinux :: "driverReconcile \<Rightarrow> bool" where
  "node_seLinux r = Deref (np_EnableSeLinuxHostMount (node_spec r)) False"

section \<open>The node plugin: containers and volumes\<close>

text \<open>What the containers of both daemon sets have in common.\<close>

definition node_container ::
  "driverReconcile \<Rightarrow> string \<Rightarrow> string \<Rightarrow> string list \<Rightarrow> resource_requirements option \<Rightarrow> container" where
  "node_container r name img args resources = zero_container
     \<lparr>c_Name := name, c_Image := image_of r img, c_ImagePullPolicy := imagePullPolicy (node_pod r),
      c_SecurityContext := Some privilegedSecurityContext,
      c_Args := container_args args name (np_ContainerExtraArgs (node_spec r)),
      c_Resources := Deref resources zero_resources\<rparr>"

definition node_plugin_args :: "driver_env \<Rightarrow> driverReconcile \<Rightarrow> string list" where
  "node_plugin_args env r =
     [LogVerbosityContainerArg (logVerbosity r),
      TypeContainerArg (r_driverType r),
      NodeServerContainerArg,
      NodeIdContainerArg,
      DriverNameContainerArg (driver_name r),
      SetFencingContainerArg (Deref (d_EnableFencing (spec_of r)) False),
      EndpointContainerArg,
      PidlimitContainerArg,
      utils_If (forceKernelClient r) ForceCephKernelClientContainerArg [],
      utils_If (deployCsiAddons r) CsiAddonsEndpointContainerArg [],
      utils_If (isRbdOrNvemofDriver r) (StagingPathContainerArg (kubeletDirPath r)) [],
      utils_If (isCephFsDriver r)
        (KernelMountOptionsContainerArg (e_rng env) (Deref (d_KernelMountOptions (spec_of r)) fmempty)) [],
      utils_If (isCephFsDriver r)
        (FuseMountOptionsContainerArg (e_rng env) (Deref (d_FuseMountOptions (spec_of r)) fmempty)) [],
      utils_If (node_topology r) (DomainLabelsContainerArg (domainLabels r)) [],
      utils_If (logRotationEnabled r) LogToStdErrContainerArg [],
      utils_If (logRotationEnabled r) AlsoLogToStdErrContainerArg [],
      utils_If (logRotationEnabled r) (LogFileContainerArg (plugin_name r)) []]"

definition node_plugin_mounts :: "driverReconcile \<Rightarrow> volume_mount list" where
  "node_plugin_mounts r =
     [HostDevVolumeMount, HostSysVolumeMount, HostRunMountVolumeMount, LibModulesVolumeMount,
      KeysTmpDirVolumeMount, PluginDirVolumeMount, CsiConfigVolumeMount,
      PluginMountDirVolumeMount (kubeletDirPath r), PodsMountDirVolumeMount (kubeletDirPath r)] @
     (if node_seLinux r then [EtcSelinuxVolumeMount] else []) @
     (if d_Encryption (spec_of r) \<noteq> None then [KmsConfigVolumeMount] else []) @
     (if isCephFsDriver r then [CsiMountInfoVolumeMount] else []) @
     (if isRbdOrNvemofDriver r then [OidcTokenVolumeMount] else []) @
     (if logRotationEnabled r then [LogsDirVolumeMount] else [])"

definition node_plugin :: "driver_env \<Rightarrow> driverReconcile \<Rightarrow> container" where
  "node_plugin env r =
     (node_container r (plugin_name r) ''plugin'' (node_plugin_args env r) (nr_Plugin (np_Resources (node_spec r))))
     \<lparr>c_SecurityContext := Some \<lparr>sc_Privileged = Some True, sc_Add = [''SYS_ADMIN''], sc_Drop = [''All''],
                                sc_AllowPrivilegeEscalation = Some True\<rparr>,
      c_Env := [PodIpEnvVar, NodeIdEnvVar, PodNamespaceEnvVar],
      c_VolumeMounts := merge_mounts (node_plugin_mounts r) (user_volumes (node_pod r))\<rparr>"

definition node_registrar :: "driverReconcile \<Rightarrow> container" where
  "node_registrar r =
     (node_container r ''driver-registrar'' ''registrar''
        [LogVerbosityContainerArg (logVerbosity r),
         KubeletRegistrationPathContainerArg (kubeletDirPath r) (driver_name r), CsiAddressContainerArg]
        (nr_Registrar (np_Resources (node_spec r))))
     \<lparr>c_VolumeMounts := [PluginDirVolumeMount, RegistrationDirVolumeMount]\<rparr>"

definition node_liveness :: "driverReconcile \<Rightarrow> container list" where
  "node_liveness r =
     (case d_Liveness (spec_of r) of
        None \<Rightarrow> []
      | Some liveness \<Rightarrow>
          [(node_container r ''liveness-prometheus'' ''plugin'' (liveness_args liveness)
             (nr_Liveness (np_Resources (node_spec r))))
           \<lparr>c_Env := [PodIpEnvVar], c_VolumeMounts := [PluginDirVolumeMount]\<rparr>])"

definition node_log_rotator :: "driverReconcile \<Rightarrow> container list" where
  "node_log_rotator r =
     (if logRotationEnabled r
      then [log_rotator r (node_pod r) (nr_LogRotator (np_Resources (node_spec r))) (Some privilegedSecurityContext)]
      else [])"

definition node_containers :: "driver_env \<Rightarrow> driverReconcile \<Rightarrow> container list" where
  "node_containers env r =
     [node_plugin env r, node_registrar r] @ node_liveness r @ node_log_rotator r"

definition node_builtin_volumes :: "driverReconcile \<Rightarrow> string \<Rightarrow> volume list" where
  "node_builtin_volumes r appName =
     [HostDevVolume, HostSysVolume, HostRunMountVolume, LibModulesVolume, KeysTmpDirVolume, CsiConfigVolume,
      PluginDirVolume (kubeletDirPath r) (driver_name r), PluginMountDirVolume (kubeletDirPath r),
      PodsMountDirVolume (kubeletDirPath r), RegistrationDirVolume (kubeletDirPath r)] @
     (if isCephFsDriver r then [CsiMountInfoVolume (kubeletDirPath r) (driver_name r)] else []) @
     (if node_seLinux r then [EtcSelinuxVolume] else []) @
     kms_volumes r @
     (if isRbdOrNvemofDriver r then [OidcTokenVolume] else []) @
     log_volumes r appName"

definition node_volumes :: "driverReconcile \<Rightarrow> string \<Rightarrow> volume list" where
  "node_volumes r appName = merge_volumes (node_builtin_volumes r appName) (user_volumes (node_pod r))"

definition node_labels :: "driverReconcile \<Rightarrow> string \<Rightarrow> string_map" where
  "node_labels r appName =
     (let lbls = podLabels (node_pod r) appName
      in if d_Liveness (spec_of r) \<noteq> None then fmupd ''contains'' (appName @ ''-metrics'') lbls else lbls)"

definition node_pod_spec :: "driver_env \<Rightarrow> driverReconcile \<Rightarrow> string \<Rightarrow> pod_spec" where
  "node_pod_spec env r appName = zero_pod_spec
     \<lparr>ps_ServiceAccountName := serviceAccountName env r (node_pod r) ''-nodeplugin-sa'',
      ps_PriorityClassName := Deref (pc_PrioritylClassName (node_pod r)) [],
      ps_HostNetwork := True,
      ps_HostPID := isRbdOrNvemofDriver r,
      ps_DNSPolicy := DNSClusterFirstWithHostNet,
      ps_Tolerations := Deref (pc_Tolerations (node_pod r)) [],
      ps_Affinity := pc_Affinity (node_pod r),
      ps_Containers := node_containers env r,
      ps_Volumes := node_volumes r appName\<rparr>"

definition node_daemonset_spec :: "driver_env \<Rightarrow> driverReconcile \<Rightarrow> string \<Rightarrow> daemonset_spec" where
  "node_daemonset_spec env r appName =
     \<lparr>dss_Selector = Some (appSelector appName),
      dss_UpdateStrategy = Deref (np_UpdateStrategy (node_spec r)) defaultDaemonSetUpdateStrategy,
      dss_Template = \<lparr>pt_Labels = node_labels r appName,
                      pt_Annotations = Deref (pc_Annotations (node_pod r)) fmempty,
                      pt_Spec = node_pod_spec env r appName\<rparr>,
      dss_Rest = JNull\<rparr>"

text \<open>Both daemon sets are mutated alike: adopt the object, then overwrite its spec.\<close>

definition put_daemonset_spec :: "(string \<Rightarrow> daemonset_spec) \<Rightarrow> daemonset \<Rightarrow> daemonset" where
  "put_daemonset_spec spec ds = ds\<lparr>dset_Spec := spec (om_Name (dset_Meta ds))\<rparr>"

definition mutateDaemonSet :: "driver_env \<Rightarrow> driverReconcile \<Rightarrow> (string \<Rightarrow> daemonset_spec) \<Rightarrow> daemonset \<Rightarrow> daemonset result" where
  "mutateDaemonSet env r spec =
     controlled dset_Meta (\<lambda>md. dset_Meta_update (\<lambda>_. md)) (put_daemonset_spec spec) (r_driver r) (e_scheme env)"

definition reconcileNodePluginDaemonSet :: "'w client \<Rightarrow> driver_env \<Rightarrow> driverReconcile \<Rightarrow> ('w, error) m" where
  "reconcileNodePluginDaemonSet cl env r =
     (let daemonSet = new_daemonset (driver_namespace r) (generateName r ''nodeplugin'')
      in bind_m (CreateOrUpdate dset_Meta (cl_DaemonSet cl) daemonSet
                  (pure_mut (mutateDaemonSet env r (node_daemonset_spec env r))))
           (\<lambda>(opResult, err, _). Ret err))"

section \<open>The CSI-Addons daemon set\<close>

definition driverCSIAddonsFeatureVolumeCondition :: string where
  "driverCSIAddonsFeatureVolumeCondition = ''addons.csi.ceph.io/volume-condition''"

definition ParseBool :: "string \<Rightarrow> bool result" where
  "ParseBool s =
     (if s \<in> {''1'', ''t'', ''T'', ''TRUE'', ''true'', ''True''} then Inr True
      else if s \<in> {''0'', ''f'', ''F'', ''FALSE'', ''false'', ''False''} then Inr False
      else Inl (SyntaxError (''strconv.ParseBool: parsing '' @ s @ '': invalid syntax'')))"

definition withCsiAddonsVolumeCondition :: "driverReconcile \<Rightarrow> bool result" where
  "withCsiAddonsVolumeCondition r =
     (let feature = Deref (fmlookup (om_Annotations (dr_Meta (r_driver r))) driverCSIAddonsFeatureVolumeCondition) []
      in if feature \<noteq> [] then ParseBool feature else Inr False)"

definition withCsiAddonsDaemonSet :: "driverReconcile \<Rightarrow> bool" where
  "withCsiAddonsDaemonSet r = (if isNfsDriver r then False else deployCsiAddons r)"

definition addons_mounts :: "driverReconcile \<Rightarrow> bool \<Rightarrow> volume_mount list" where
  "addons_mounts r condition =
     [PluginDirVolumeMount] @
     (if logRotationEnabled r then [LogsDirVolumeMount] else []) @
     (if condition then [PluginMountDirVolumeMount (kubeletDirPath r), PodsMountDirVolumeMount (kubeletDirPath r)] else [])"

definition addons_container :: "driverReconcile \<Rightarrow> bool \<Rightarrow> container" where
  "addons_container r condition =
     (node_container r ''csi-addons'' ''addons''
        [CsiAddonsNodeIdContainerArg, LogVerbosityContainerArg (logVerbosity r), CsiAddonsAddressContainerArg,
         ContainerPortArg NodePluginCsiAddonsContainerPort, PodContainerArg, NamespaceContainerArg,
         PodUidContainerArg, StagingPathContainerArg (kubeletDirPath r),
         utils_If (logRotationEnabled r) (LogFileContainerArg ''csi-addons'') [],
         utils_If condition CsiAddonsVolumeConditionArg []]
        (nr_Addons (np_Resources (node_spec r))))
     \<lparr>c_Ports := [NodePluginCsiAddonsContainerPort],
      c_Env := [NodeIdEnvVar, PodUidEnvVar, PodNameEnvVar, PodNamespaceEnvVar],
      c_VolumeMounts := addons_mounts r condition\<rparr>"

definition addons_volumes :: "driverReconcile \<Rightarrow> bool \<Rightarrow> string \<Rightarrow> volume list" where
  "addons_volumes r condition appName =
     [PluginDirVolume (kubeletDirPath r) (driver_name r)] @
     log_volumes r appName @
     (if condition then [PluginMountDirVolume (kubeletDirPath r), PodsMountDirVolume (kubeletDirPath r)] else [])"

definition addons_pod_spec :: "driver_env \<Rightarrow> driverReconcile \<Rightarrow> bool \<Rightarrow> string \<Rightarrow> pod_spec" where
  "addons_pod_spec env r condition appName = zero_pod_spec
     \<lparr>ps_ServiceAccountName := serviceAccountName env r (node_pod r) ''-nodeplugin-sa'',
      ps_PriorityClassName := Deref (pc_PrioritylClassName (node_pod r)) [],
      ps_DNSPolicy := DNSClusterFirstWithHostNet,
      ps_Tolerations := Deref (pc_Tolerations (node_pod r)) [],
      ps_Affinity := pc_Affinity (node_pod r),
      ps_Containers := addons_container r condition # node_log_rotator r,
      ps_Volumes := addons_volumes r condition appName\<rparr>"

definition addons_daemonset_spec :: "driver_env \<Rightarrow> driverReconcile \<Rightarrow> bool \<Rightarrow> string \<Rightarrow> daemonset_spec" where
  "addons_daemonset_spec env r condition appName =
     \<lparr>dss_Selector = Some (appSelector appName),
      dss_UpdateStrategy = Deref (np_UpdateStrategy (node_spec r)) defaultDaemonSetUpdateStrategy,
      dss_Template = \<lparr>pt_Labels = podLabels (node_pod r) appName,
                      pt_Annotations = Deref (pc_Annotations (node_pod r)) fmempty,
                      pt_Spec = addons_pod_spec env r condition appName\<rparr>,
      dss_Rest = JNull\<rparr>"

definition reconcileNodePluginDaemonSetForCsiAddons ::
  "'w client \<Rightarrow> driver_env \<Rightarrow> driverReconcile \<Rightarrow> ('w, error) m" where
  "reconcileNodePluginDaemonSetForCsiAddons cl env r =
     (let daemonSet = new_daemonset (driver_namespace r) (generateName r ''nodeplugin-csi-addons'')
      in case withCsiAddonsVolumeCondition r of
           Inl err \<Rightarrow> Ret (Some err)
         | Inr condition \<Rightarrow>
             if \<not> withCsiAddonsDaemonSet r
             then bind_m (call (api_Delete (cl_DaemonSet cl) daemonSet)) (\<lambda>err. Ret (IgnoreNotFound err))
             else bind_m (CreateOrUpdate dset_Meta (cl_DaemonSet cl) daemonSet
                           (pure_mut (mutateDaemonSet env r (addons_daemonset_spec env r condition))))
                    (\<lambda>(opResult, err, _). Ret err))"

section \<open>The pods are acceptable\<close>

lemma node_names [simp]:
  "c_Name (node_plugin env r) = plugin_name r" "c_Name (node_registrar r) = ''driver-registrar''"
  "c_Name (addons_container r condition) = ''csi-addons''"
  by (simp_all add: node_plugin_def node_registrar_def addons_container_def node_container_def)

lemma node_optional_names:
  "map c_Name (node_liveness r) \<in> {[], [''liveness-prometheus'']}"
  "map c_Name (node_log_rotator r) \<in> {[], [''log-rotator'']}"
  by (simp_all add: node_liveness_def node_log_rotator_def node_container_def split: option.splits)

lemma node_containers_distinct:
  assumes "r_driverType r \<in> set driver_types"
  shows "distinct (map c_Name (node_containers env r))"
proof -
  note o = node_optional_names [of r, THEN optional_subseq]
  have "subseq (map c_Name (node_containers env r))
      ([plugin_name r, ''driver-registrar''] @ [''liveness-prometheus''] @ [''log-rotator''])"
    unfolding node_containers_def map_append
    by (intro list_emb_append_mono o) simp
  then show ?thesis
    by (rule subseq_distinct) (use plugin_name_cases [OF assms] in auto)
qed

lemma addons_containers_distinct: "distinct (map c_Name (addons_container r condition # node_log_rotator r))"
  using node_optional_names(2) [of r] by auto

lemma node_builtin_names:
  "map vol_Name (node_builtin_volumes r appName) =
     [''host-dev'', ''host-sys'', ''host-run-mount'', ''lib-modules'', ''keys-tmp-dir'', ''ceph-csi-config'', ''plugin-dir'',
      ''plugin-mount-dir'', ''pods-mount-dir'', ''registration-dir''] @
     (if isCephFsDriver r then [''ceph-csi-mountinfo''] else []) @
     (if node_seLinux r then [''etc-selinux''] else []) @
     (if d_Encryption (spec_of r) \<noteq> None then [''ceph-csi-kms-config''] else []) @
     (if isRbdOrNvemofDriver r then [''oidc-token''] else []) @
     (if logRotationEnabled r then [''logs-dir'', ''log-rotate-dir''] else [])"
  by (simp add: node_builtin_volumes_def kms_volumes_names log_volumes_names)

lemma node_builtin_distinct: "distinct (map vol_Name (node_builtin_volumes r appName))"
  unfolding node_builtin_names by simp

text \<open>Every built-in mount of the plugin has its built-in volume.\<close>

lemma node_mount_names:
  "map vm_Name (node_plugin_mounts r) =
     [''host-dev'', ''host-sys'', ''host-run-mount'', ''lib-modules'', ''keys-tmp-dir'', ''plugin-dir'', ''ceph-csi-config'',
      ''plugin-mount-dir'', ''pods-mount-dir''] @
     (if node_seLinux r then [''etc-selinux''] else []) @
     (if d_Encryption (spec_of r) \<noteq> None then [''ceph-csi-kms-config''] else []) @
     (if isCephFsDriver r then [''ceph-csi-mountinfo''] else []) @
     (if isRbdOrNvemofDriver r then [''oidc-token''] else []) @
     (if logRotationEnabled r then [''logs-dir''] else [])"
  by (simp add: node_plugin_mounts_def)

lemma node_mounts_builtin:
  "vm_Name ` set (node_plugin_mounts r) \<subseteq> vol_Name ` set (node_builtin_volumes r appName)"
  unfolding set_map [symmetric] node_builtin_names node_mount_names by auto

lemma node_volume_names:
  "vol_Name ` set (node_volumes r appName) =
     vol_Name ` set (node_builtin_volumes r appName) \<union> (vol_Name ` vs_Volume ` set (user_volumes (node_pod r)) - {[]})"
  unfolding node_volumes_def by (rule merge_volumes_names(1) [OF node_builtin_distinct])

lemma node_fixed_names:
  "{''plugin-dir'', ''registration-dir''} \<subseteq> vol_Name ` set (node_builtin_volumes r appName)"
  "logRotationEnabled r \<Longrightarrow> {''logs-dir'', ''log-rotate-dir''} \<subseteq> vol_Name ` set (node_builtin_volumes r appName)"
  unfolding set_map [symmetric] node_builtin_names by auto

lemma node_mounts_in:
  assumes coh: "\<forall>v \<in> set (user_volumes (node_pod r)). volume_coherent v"
    and N: "N = vol_Name ` set (node_volumes r appName)" and c: "c \<in> set (node_containers env r)"
  shows "mounts_in N c"
proof -
  let ?B = "vol_Name ` set (node_builtin_volumes r appName)"
  have B: "?B \<subseteq> N" by (simp add: N node_volume_names)
  have user: "vm_Name ` vs_Mount ` set (user_volumes (node_pod r)) - {[]} \<subseteq> N"
    using coherent_mount [OF _ coh] by (auto simp: N node_volume_names)
  have "distinct (map vm_Name (node_plugin_mounts r))"
    unfolding node_mount_names by simp
  from merge_mounts_names(1) [OF this, of "user_volumes (node_pod r)"]
  have plugin: "mounts_in N (node_plugin env r)"
    using user B node_mounts_builtin [of r appName] by (simp add: mounts_in_def node_plugin_def)
  have registrar: "mounts_in N (node_registrar r)"
    using subset_trans [OF node_fixed_names(1) B] by (simp add: mounts_in_def node_registrar_def)
  have liveness: "list_all (mounts_in N) (node_liveness r)"
    using subset_trans [OF node_fixed_names(1) B] by (simp add: mounts_in_def node_liveness_def split: option.split)
  have rotator: "list_all (mounts_in N) (node_log_rotator r)"
    using subset_trans [OF node_fixed_names(2) B]
    by (cases "logRotationEnabled r") (simp_all add: mounts_in_def node_log_rotator_def log_rotator_def)
  show ?thesis using c plugin registrar liveness rotator by (auto simp: node_containers_def list_all_iff)
qed

text \<open>The CSI-Addons pod has no user volumes.\<close>

lemma addons_volume_names:
  "map vol_Name (addons_volumes r condition appName) =
     [''plugin-dir''] @ (if logRotationEnabled r then [''logs-dir'', ''log-rotate-dir''] else []) @
     (if condition then [''plugin-mount-dir'', ''pods-mount-dir''] else [])"
  by (simp add: addons_volumes_def log_volumes_names)

lemma addons_mounts_in:
  "list_all (mounts_in (vol_Name ` set (addons_volumes r condition appName)))
     (addons_container r condition # node_log_rotator r)"
  unfolding set_map [symmetric] addons_volume_names
  by (cases condition; cases "logRotationEnabled r")
     (simp_all add: mounts_in_def addons_container_def addons_mounts_def node_log_rotator_def log_rotator_def)

text \<open>
  C18. The pods of both daemon sets are ones the API server can accept: distinct containers, distinct
  volumes whatever the user adds or redefines, and a volume for every mount, for every driver
  type and every combination of encryption, SELinux, log rotation, liveness and volume condition.
\<close>

theorem node_pods_ok:
  assumes "r_driverType r \<in> set driver_types"
    and "\<forall>v \<in> set (user_volumes (node_pod r)). volume_coherent v"
  shows "pod_ok (node_pod_spec env r appName) \<and> pod_ok (addons_pod_spec env r condition appName')"
proof
  show "pod_ok (node_pod_spec env r appName)"
  proof (rule pod_okI)
    show "distinct (map c_Name (ps_Containers (node_pod_spec env r appName)))"
      using node_containers_distinct [OF assms(1)] by (simp add: node_pod_spec_def)
    show "distinct (map vol_Name (ps_Volumes (node_pod_spec env r appName)))"
      using merge_volumes_names(2) [OF node_builtin_distinct [of r appName]]
      by (simp add: node_pod_spec_def node_volumes_def)
    show "mounts_in (vol_Name ` set (ps_Volumes (node_pod_spec env r appName))) c"
      if "c \<in> set (ps_Containers (node_pod_spec env r appName))" for c
      using node_mounts_in [OF assms(2) refl] that by (simp add: node_pod_spec_def)
  qed
  show "pod_ok (addons_pod_spec env r condition appName')"
  proof (rule pod_okI)
    show "distinct (map c_Name (ps_Containers (addons_pod_spec env r condition appName')))"
      using addons_containers_distinct by (simp add: addons_pod_spec_def)
    show "distinct (map vol_Name (ps_Volumes (addons_pod_spec env r condition appName')))"
      by (cases condition; cases "logRotationEnabled r") (simp_all add: addons_pod_spec_def addons_volume_names)
    show "mounts_in (vol_Name ` set (ps_Volumes (addons_pod_spec env r condition appName'))) c"
      if "c \<in> set (ps_Containers (addons_pod_spec env r condition appName'))" for c
      using addons_mounts_in [of r condition appName'] that by (auto simp: addons_pod_spec_def list_all_iff)
  qed
qed

theorem node_pods_ok_witness:
  "pod_ok (node_pod_spec example_env example_rbd ''rbd.csi.ceph.com-nodeplugin'') \<and>
   pod_ok (addons_pod_spec example_env example_rbd True ''rbd.csi.ceph.com-nodeplugin-csi-addons'')"
proof (rule node_pods_ok)
  show "r_driverType example_rbd \<in> set driver_types" by (simp add: driver_types_def RbdDriverType_def)
  show "\<forall>v \<in> set (user_volumes (node_pod example_rbd)). volume_coherent v"
    using example_volumes_coherent by (simp add: user_volumes_def node_pod_def node_spec_def)
qed

section \<open>The daemon sets\<close>

interpretation daemonset_object: controlled_object dset_Meta "\<lambda>md. dset_Meta_update (\<lambda>_. md)"
  "put_daemonset_spec spec" for spec
  by unfold_locales (simp_all add: put_daemonset_spec_def)

text \<open>
  Each daemon set selects the pods of its own template and none of the other's: the user's labels
  cannot take the \<open>app\<close> label over.
\<close>

theorem daemonset_selectors:
  assumes "appName \<noteq> appName'"
  shows "selects (the (dss_Selector (node_daemonset_spec env r appName)))
       (pt_Labels (dss_Template (node_daemonset_spec env r appName))) \<and>
     selects (the (dss_Selector (addons_daemonset_spec env r condition appName')))
       (pt_Labels (dss_Template (addons_daemonset_spec env r condition appName'))) \<and>
     \<not> selects (the (dss_Selector (node_daemonset_spec env r appName)))
       (pt_Labels (dss_Template (addons_daemonset_spec env r condition appName'))) \<and>
     \<not> selects (the (dss_Selector (addons_daemonset_spec env r condition appName')))
       (pt_Labels (dss_Template (node_daemonset_spec env r appName)))"
proof -
  have app: "fmlookup (node_labels r appName) ''app'' = Some appName" "fmlookup (podLabels (node_pod r) appName') ''app'' = Some appName'"
    by (simp_all add: node_labels_def podLabels_def)
  have other: "\<not> selects (appSelector a) lbls" if "fmlookup lbls ''app'' = Some b" "a \<noteq> b" for a b lbls
    using that by (force simp: appSelector_def fmsubset_alt_def)
  show ?thesis
    using app other [OF app(1), of appName'] other [OF app(2), of appName] assms
    by (simp add: node_daemonset_spec_def addons_daemonset_spec_def appSelector_selects)
qed

theorem daemonset_selectors_witness:
  "\<not> selects (the (dss_Selector (node_daemonset_spec example_env example_rbd (generateName example_rbd ''nodeplugin''))))
     (pt_Labels (dss_Template (addons_daemonset_spec example_env example_rbd False
        (generateName example_rbd ''nodeplugin-csi-addons''))))"
  using daemonset_selectors [of "generateName example_rbd ''nodeplugin''" "generateName example_rbd ''nodeplugin-csi-addons''"
      example_env example_rbd False]
  by (simp add: generateName_def)

text \<open>Two iteration orders of one map, and a driver that mounts with its two options.\<close>

definition two_options :: string_map where
  "two_options = fmap_of_list [(''a'', ''1''), (''b'', ''2'')]"

definition order_of :: "(string \<times> string) list \<Rightarrow> iteration" where
  "order_of kvs = (\<lambda>mp. if mp = two_options then kvs else sorted_list_of_fmap mp)"

lemma iterates_order: "kvs \<in> {[(''a'', ''1''), (''b'', ''2'')], [(''b'', ''2''), (''a'', ''1'')]} \<Longrightarrow> iterates (order_of kvs)"
  using iterates_sorted by (auto simp: iterates_def order_of_def two_options_def fmlookup_of_list fun_eq_iff)

definition example_cephfs :: driverReconcile where
  "example_cephfs = example_loaded\<lparr>r_driverType := CephFsDriverType,
     r_driver := example_driver\<lparr>dr_Spec := zero_DriverSpec\<lparr>d_KernelMountOptions := Some two_options\<rparr>\<rparr>\<rparr>"

lemma example_cephfs_args:
  "\<exists>A B. \<forall>kvs. node_plugin_args (example_env\<lparr>e_rng := order_of kvs\<rparr>) example_cephfs =
     A @ (''--kernelmountoptions='' @ MapToString kvs ''='' '','') # B"
proof -
  let ?n = "node_plugin_args example_env example_cephfs"
  have "node_plugin_args (example_env\<lparr>e_rng := order_of kvs\<rparr>) example_cephfs =
     take 11 ?n @ (''--kernelmountoptions='' @ MapToString kvs ''='' '','') # drop 12 ?n" for kvs
    by (simp add: node_plugin_args_def example_cephfs_def isCephFsDriver_def KernelMountOptionsContainerArg_def
        FuseMountOptionsContainerArg_def spec_of_def order_of_def two_options_def zero_DriverSpec_def)
  then show ?thesis by blast
qed

lemma node_plugin_args_of:
  "c_Args (hd (ps_Containers (pt_Spec (dss_Template (node_daemonset_spec env r a))))) =
     DeleteZeroValues (node_plugin_args env r @
       GetExtraArgsForContainer (plugin_name r) (Deref (np_ContainerExtraArgs (node_spec r)) fmempty))"
  by (simp add: node_daemonset_spec_def node_pod_spec_def node_containers_def node_plugin_def node_container_def
      container_args_def)

text \<open>
  The mount options are written in the iteration order of a Go map: two reconciliations of one
  unchanged CephFS driver can compute different daemon sets, hence an update of the stored one,
  although nothing changed.
\<close>

theorem mount_options_unstable:
  "\<exists>rng rng' env r ds. iterates rng \<and> iterates rng' \<and>
     mutateDaemonSet env r (node_daemonset_spec (env\<lparr>e_rng := rng\<rparr>) r) ds \<noteq>
     mutateDaemonSet env r (node_daemonset_spec (env\<lparr>e_rng := rng'\<rparr>) r) ds"
proof -
  let ?kvs = "[(''a'', ''1''), (''b'', ''2'')]" and ?kvs' = "[(''b'', ''2''), (''a'', ''1'')]"
  let ?ds = "new_daemonset ''ns'' ''n''"
  let ?spec = "\<lambda>kvs. node_daemonset_spec (example_env\<lparr>e_rng := order_of kvs\<rparr>) example_cephfs"
  obtain A B where args: "\<And>kvs. node_plugin_args (example_env\<lparr>e_rng := order_of kvs\<rparr>) example_cephfs =
     A @ (''--kernelmountoptions='' @ MapToString kvs ''='' '','') # B" using example_cephfs_args by blast
  have "?spec ?kvs ''n'' \<noteq> ?spec ?kvs' ''n''"
  proof
    assume "?spec ?kvs ''n'' = ?spec ?kvs' ''n''"
    from arg_cong [OF this, of "\<lambda>s. c_Args (hd (ps_Containers (pt_Spec (dss_Template s))))"]
    show False
      unfolding node_plugin_args_of args
      by (simp add: DeleteZeroValues_def MapToString_Join item_string_def)
  qed
  moreover have "SetControllerReference T_Driver (dr_Meta (r_driver example_cephfs)) (dset_Meta ?ds) (e_scheme example_env) =
      Inr (upsertOwnerRef (ref_for T_Driver example_meta (Some True)) (named_meta ''ns'' ''n''))"
    using example_controller_ref [of "''n''"] by (simp add: example_cephfs_def example_driver_def example_env_def)
  ultimately have "mutateDaemonSet example_env example_cephfs (?spec ?kvs) ?ds \<noteq>
      mutateDaemonSet example_env example_cephfs (?spec ?kvs') ?ds"
    by (auto simp: mutateDaemonSet_def controlled_def put_daemonset_spec_def dest: arg_cong [of _ _ dset_Spec])
  with iterates_order [of ?kvs] iterates_order [of ?kvs'] show ?thesis by blast
qed

end
