(* ===== verification/Concurrency.thy ===== *)
theory Concurrency
  imports Utils_Core
begin

text \<open>
  \<open>RunConcurrently\<close> and \<open>ChannelToSlice\<close> of \<open>internal/utils/core.go\<close> as a step relation.

  A configuration holds the goroutines started by \<open>RunConcurrently\<close>, the wait group, the
  closing goroutine's progress, and the consumer that ranges over the unbuffered channel. One
  step is one API request of one goroutine, the return of a function, a rendezvous on the
  channel, a \<open>wg.Done\<close>, the close, or the end of the range loop; the scheduler picks any
  step that is enabled. The facts: no execution is stuck before the slice is complete, none is
  infinite, nothing is ever sent on the closed channel, and the slice holds every
  function's result exactly once, in some order.
\<close>

section \<open>Configurations and steps\<close>

datatype 'w goroutine =
    Running "('w, error) m"   \<comment> \<open>inside \<open>fn()\<close>\<close>
  | Sending error             \<comment> \<open>blocked on \<open>errors <- fn()\<close>\<close>
  | Sent error                \<comment> \<open>the deferred \<open>wg.Done()\<close> has not run\<close>
  | Exited error

record 'w conf =
  gos :: "'w goroutine list"
  wg :: nat
  closed :: bool
  slice :: "error list"       \<comment> \<open>\<open>ChannelToSlice\<close>'s list\<close>
  drained :: bool             \<comment> \<open>the range loop has ended\<close>
  world :: 'w

definition RunConcurrently :: "('w, error) m list \<Rightarrow> 'w \<Rightarrow> 'w conf" where
  "RunConcurrently fnList w =
     \<lparr>gos = map Running fnList, wg = length fnList, closed = False, slice = [], drained = False, world = w\<rparr>"

inductive step :: "'w conf \<Rightarrow> 'w conf \<Rightarrow> bool" where
  request:
    "i < length (gos s) \<Longrightarrow> gos s ! i = Running (Act f) \<Longrightarrow> f (world s) = (p, w') \<Longrightarrow>
     step s (s\<lparr>gos := (gos s)[i := Running p], world := w'\<rparr>)"
| return:
    "i < length (gos s) \<Longrightarrow> gos s ! i = Running (Ret e) \<Longrightarrow>
     step s (s\<lparr>gos := (gos s)[i := Sending e]\<rparr>)"
| rendezvous:
    "i < length (gos s) \<Longrightarrow> gos s ! i = Sending e \<Longrightarrow> \<not> closed s \<Longrightarrow> \<not> drained s \<Longrightarrow>
     step s (s\<lparr>gos := (gos s)[i := Sent e], slice := slice s @ [e]\<rparr>)"
| wg_done:
    "i < length (gos s) \<Longrightarrow> gos s ! i = Sent e \<Longrightarrow> 0 < wg s \<Longrightarrow>
     step s (s\<lparr>gos := (gos s)[i := Exited e], wg := wg s - 1\<rparr>)"
| close_chan:
    "wg s = 0 \<Longrightarrow> \<not> closed s \<Longrightarrow> step s (s\<lparr>closed := True\<rparr>)"
| range_end:
    "closed s \<Longrightarrow> \<not> drained s \<Longrightarrow> step s (s\<lparr>drained := True\<rparr>)"

abbreviation steps :: "'w conf \<Rightarrow> 'w conf \<Rightarrow> bool" where
  "steps \<equiv> step\<^sup>*\<^sup>*"

definition reachable :: "('w, error) m list \<Rightarrow> 'w \<Rightarrow> 'w conf \<Rightarrow> bool" where
  "reachable fnList w s \<longleftrightarrow> steps (RunConcurrently fnList w) s"

text \<open>\<open>ChannelToSlice\<close> has returned.\<close>

definition ChannelToSlice :: "'w conf \<Rightarrow> error list option" where
  "ChannelToSlice s = (if drained s then Some (slice s) else None)"

section \<open>The invariant\<close>

fun result_of :: "'w goroutine \<Rightarrow> error option" where
  "result_of (Running p) = None"
| "result_of (Sending e) = Some e"
| "result_of (Sent e) = Some e"
| "result_of (Exited e) = Some e"

fun delivered :: "'w goroutine \<Rightarrow> error list" where
  "delivered (Sent e) = [e]"
| "delivered (Exited e) = [e]"
| "delivered _ = []"

fun pending :: "'w goroutine \<Rightarrow> nat" where
  "pending (Exited e) = 0"
| "pending _ = 1"

definition conc_inv :: "'w conf \<Rightarrow> bool" where
  "conc_inv s \<longleftrightarrow>
     wg s = sum_list (map pending (gos s)) \<and>
     mset (slice s) = mset (concat (map delivered (gos s))) \<and>
     (closed s \<longrightarrow> wg s = 0) \<and> (drained s \<longrightarrow> closed s)"

lemma list_replace:
  assumes "i < length xs"
  shows "mset (concat (map f (xs[i := y]))) + mset (f (xs ! i)) = mset (concat (map f xs)) + mset (f y)"
    and "sum_list (map g (xs[i := y])) + g (xs ! i) = sum_list (map g xs) + (g y :: nat)"
proof -
  have xs: "xs = take i xs @ xs ! i # drop (Suc i) xs" using assms by (rule id_take_nth_drop)
  then have up: "xs[i := y] = take i xs @ y # drop (Suc i) xs"
    using assms by (metis upd_conv_take_nth_drop)
  show "mset (concat (map f (xs[i := y]))) + mset (f (xs ! i)) = mset (concat (map f xs)) + mset (f y)"
    unfolding up by (subst (2) xs) simp
  show "sum_list (map g (xs[i := y])) + g (xs ! i) = sum_list (map g xs) + g y"
    unfolding up by (subst (2) xs) simp
qed

lemma pending_le: "i < length xs \<Longrightarrow> pending (xs ! i) \<le> sum_list (map pending xs)"
  using elem_le_sum_list [of i "map pending xs"] by simp

lemma conc_inv_init: "conc_inv (RunConcurrently fnList w)"
  by (induction fnList) (simp_all add: conc_inv_def RunConcurrently_def)

lemma conc_inv_step: "step s t \<Longrightarrow> conc_inv s \<Longrightarrow> conc_inv t"
proof (induction rule: step.induct)
  case (request i s f p w')
  then show ?case
    using list_replace(1) [of i "gos s" delivered "Running p"] list_replace(2) [of i "gos s" pending "Running p"]
    by (auto simp: conc_inv_def simp del: sum_list_eq_0_iff)
next
  case (return i s e)
  then show ?case
    using list_replace(1) [of i "gos s" delivered "Sending e"] list_replace(2) [of i "gos s" pending "Sending e"]
    by (auto simp: conc_inv_def simp del: sum_list_eq_0_iff)
next
  case (rendezvous i s e)
  then show ?case
    using list_replace(1) [of i "gos s" delivered "Sent e"] list_replace(2) [of i "gos s" pending "Sent e"]
    by (auto simp: conc_inv_def simp del: sum_list_eq_0_iff)
next
  case (wg_done i s e)
  then show ?case
    using list_replace(1) [of i "gos s" delivered "Exited e"] list_replace(2) [of i "gos s" pending "Exited e"]
    by (auto simp: conc_inv_def simp del: sum_list_eq_0_iff)
next
  case (close_chan s)
  then show ?case by (auto simp: conc_inv_def simp del: sum_list_eq_0_iff)
next
  case (range_end s)
  then show ?case by (auto simp: conc_inv_def simp del: sum_list_eq_0_iff)
qed

lemma conc_inv_steps: "steps s t \<Longrightarrow> conc_inv s \<Longrightarrow> conc_inv t"
  by (induction rule: rtranclp_induct) (auto intro: conc_inv_step)

lemma reachable_inv: "reachable fnList w s \<Longrightarrow> conc_inv s"
  unfolding reachable_def by (rule conc_inv_steps [OF _ conc_inv_init])

lemma length_gos_steps: "steps s t \<Longrightarrow> length (gos t) = length (gos s)"
  by (induction rule: rtranclp_induct) (auto elim!: step.cases)

section \<open>Progress\<close>

lemma not_pending_Exited: "pending g = 0 \<longleftrightarrow> (\<exists>e. g = Exited e)"
  by (cases g) auto

text \<open>Some step is enabled until the range loop has ended.\<close>

lemma progress:
  assumes inv: "conc_inv s" and "\<not> drained s"
  shows "\<exists>t. step s t"
proof (cases "wg s = 0")
  case True
  then show ?thesis using assms(2) by (cases "closed s") (auto intro: step.intros)
next
  case False
  then have open_ch: "\<not> closed s" and "sum_list (map pending (gos s)) \<noteq> 0"
    using inv by (auto simp: conc_inv_def simp del: sum_list_eq_0_iff)
  then obtain g where "g \<in> set (gos s)" "pending g \<noteq> 0" by auto
  then obtain i where i: "i < length (gos s)" "gos s ! i = g" by (auto simp: in_set_conv_nth)
  show ?thesis
  proof (cases g)
    case (Running p)
    show ?thesis
    proof (cases p)
      case (Ret e)
      with Running i show ?thesis using step.return [of i s e] by auto
    next
      case (Act f)
      obtain p' w' where "f (world s) = (p', w')" by fastforce
      with Running Act i show ?thesis using step.request [of i s f p' w'] by auto
    qed
  next
    case (Sending e)
    with i open_ch assms(2) show ?thesis using step.rendezvous [of i s e] by auto
  next
    case (Sent e)
    with i False show ?thesis using step.wg_done [of i s e] by auto
  next
    case (Exited e)
    with \<open>pending g \<noteq> 0\<close> show ?thesis by simp
  qed
qed

section \<open>Every execution ends\<close>

text \<open>
  A program is a well-founded tree, so the programs reachable from one another form a
  well-founded order even though a request has one continuation per answer.
\<close>

definition sub_prog :: "(('w, error) m \<times> ('w, error) m) set" where
  "sub_prog = {(p, Act f) | p f w. p = fst (f w)}"

lemma wf_sub_prog: "wf sub_prog"
proof (rule wfUNIVI)
  fix P :: "('a, error) m \<Rightarrow> bool" and x
  assume *: "\<forall>x. (\<forall>y. (y, x) \<in> sub_prog \<longrightarrow> P y) \<longrightarrow> P x"
  show "P x"
  proof (induction x)
    case (Ret a)
    show ?case using * by (auto simp: sub_prog_def)
  next
    case (Act f)
    have "\<forall>y. (y, Act f) \<in> sub_prog \<longrightarrow> P y" using Act by (auto simp: sub_prog_def)
    with * show ?case by blast
  qed
qed

definition go_less :: "('w goroutine \<times> 'w goroutine) set" where
  "go_less =
     {(Running p, Running q) | p q. (p, q) \<in> sub_prog} \<union>
     {(Sending e, Running p) | e p. True} \<union> {(Sent e, Sending e') | e e'. True} \<union>
     {(Exited e, Sent e') | e e'. True}"

lemma go_less_intros:
  "(Sending e, Running p) \<in> go_less" "(Sent e, Sending e') \<in> go_less" "(Exited e, Sent e') \<in> go_less"
  by (auto simp: go_less_def)

lemma wf_go_less: "wf go_less"
proof -
  define stage :: "'a goroutine \<Rightarrow> nat" where
    "stage = (\<lambda>g. case g of Running _ \<Rightarrow> 3 | Sending _ \<Rightarrow> 2 | Sent _ \<Rightarrow> 1 | Exited _ \<Rightarrow> 0)"
  define prog :: "'a goroutine \<Rightarrow> ('a, error) m" where
    "prog = (\<lambda>g. case g of Running p \<Rightarrow> p | _ \<Rightarrow> Ret None)"
  have "wf (inv_image (less_than <*lex*> sub_prog) (\<lambda>g. (stage g, prog g)))"
    by (intro wf_inv_image wf_lex_prod wf_less_than wf_sub_prog)
  moreover have "go_less \<subseteq> inv_image (less_than <*lex*> sub_prog) (\<lambda>g. (stage g, prog g))"
    by (auto simp: go_less_def stage_def prog_def)
  ultimately show ?thesis by (rule wf_subset)
qed

definition conf_less :: "('w conf \<times> 'w conf) set" where
  "conf_less = inv_image (mult go_less <*lex*> less_than <*lex*> less_than)
     (\<lambda>s. (mset (gos s), if closed s then 0 else 1 :: nat, if drained s then 0 else 1 :: nat))"

lemma wf_conf_less: "wf conf_less"
  unfolding conf_less_def by (intro wf_inv_image wf_lex_prod wf_mult wf_go_less wf_less_than)

lemma mult_update:
  assumes "i < length gs" "(g, gs ! i) \<in> go_less"
  shows "(mset (gs[i := g]), mset gs) \<in> mult go_less"
proof -
  have "mset gs = mset (gs[i := g]) - {#g#} + {#gs ! i#}" using assms(1) by (simp add: mset_update)
  moreover have "mset (gs[i := g]) = mset (gs[i := g]) - {#g#} + {#g#}"
    using assms(1) by (simp add: set_update_memI)
  ultimately show ?thesis
    using assms(2) one_step_implies_mult [of "{#gs ! i#}" "{#g#}" go_less "mset (gs[i := g]) - {#g#}"] by simp
qed

lemma step_conf_less: "step s t \<Longrightarrow> (t, s) \<in> conf_less"
proof (induction rule: step.induct)
  case (request i s f p w')
  then have "(p, Act f) \<in> sub_prog" unfolding sub_prog_def by (metis (mono_tags, lifting) fst_conv mem_Collect_eq)
  with request have "(Running p, gos s ! i) \<in> go_less" by (auto simp: go_less_def)
  from mult_update [OF request(1) this] show ?case by (simp add: conf_less_def)
qed (auto simp: conf_less_def intro!: mult_update go_less_intros)

lemma no_infinite_run: "\<not> (\<exists>run. \<forall>n. step (run n) (run (Suc n)))"
  using wf_conf_less step_conf_less by (fastforce simp: wf_iff_no_infinite_down_chain)

text \<open>So from every reachable configuration the range loop can be, and finally is, left.\<close>

lemma reaches_drained: "conc_inv s \<Longrightarrow> \<exists>t. steps s t \<and> drained t"
proof (induction s rule: wf_induct_rule [OF wf_conf_less])
  case (1 s)
  show ?case
  proof (cases "drained s")
    case False
    with progress 1 obtain t where t: "step s t" by blast
    with 1 step_conf_less conc_inv_step obtain u where "steps t u" "drained u" by blast
    with t show ?thesis by (blast intro: converse_rtranclp_into_rtranclp)
  qed blast
qed

section \<open>One schedule: the functions one after another\<close>

text \<open>
  The schedule that runs the functions in order is one of the executions; it makes the
  relation executable.
\<close>

fun run_seq :: "('w, 'a) m list \<Rightarrow> 'w \<Rightarrow> 'a list \<times> 'w" where
  "run_seq [] w = ([], w)"
| "run_seq (p # ps) w =
     (case run_m p w of (e, w1) \<Rightarrow> case run_seq ps w1 of (es, w2) \<Rightarrow> (e # es, w2))"

lemma steps_run:
  "i < length (gos s) \<Longrightarrow> gos s ! i = Running p \<Longrightarrow> run_m p (world s) = (e, w') \<Longrightarrow>
     steps s (s\<lparr>gos := (gos s)[i := Sending e], world := w'\<rparr>)"
proof (induction p arbitrary: s)
  case (Ret a)
  then show ?case using step.return [of i s a] by auto
next
  case (Act f)
  obtain p w1 where f: "f (world s) = (p, w1)" by fastforce
  let ?t = "s\<lparr>gos := (gos s)[i := Running p], world := w1\<rparr>"
  have "step s ?t" using Act.prems(1,2) f by (rule step.request)
  moreover have "steps ?t (?t\<lparr>gos := (gos ?t)[i := Sending e], world := w'\<rparr>)"
    using Act.IH [of ?t "world s"] Act.prems f by simp
  ultimately show ?case by (auto intro: converse_rtranclp_into_rtranclp)
qed

lemma steps_one:
  assumes "i < length (gos s)" "gos s ! i = Running p" "run_m p (world s) = (e, w')"
    and "\<not> closed s" "\<not> drained s" "0 < wg s"
  shows "steps s (s\<lparr>gos := (gos s)[i := Exited e], world := w', slice := slice s @ [e], wg := wg s - 1\<rparr>)"
proof -
  let ?a = "s\<lparr>gos := (gos s)[i := Sending e], world := w'\<rparr>"
  let ?b = "s\<lparr>gos := (gos s)[i := Sent e], world := w', slice := slice s @ [e]\<rparr>"
  have "steps s ?a" by (rule steps_run [OF assms(1-3)])
  also have "step ?a ?b" using step.rendezvous [of i ?a e] assms by (cases s) simp
  also have "step ?b (s\<lparr>gos := (gos s)[i := Exited e], world := w', slice := slice s @ [e], wg := wg s - 1\<rparr>)"
    using step.wg_done [of i ?b e] assms by (cases s) simp
  finally show ?thesis .
qed

lemma steps_seq:
  assumes "gos s = ds @ map Running ps" "wg s = length ps" "\<not> closed s" "\<not> drained s"
    and "run_seq ps (world s) = (es, w')"
  shows "steps s (s\<lparr>gos := ds @ map Exited es, wg := 0, slice := slice s @ es, world := w'\<rparr>)"
  using assms
proof (induction ps arbitrary: s ds es)
  case Nil
  then show ?case by (cases s) simp
next
  case (Cons p ps)
  obtain e w1 where e: "run_m p (world s) = (e, w1)" by fastforce
  obtain es' where es: "run_seq ps w1 = (es', w')" "es = e # es'"
    using Cons.prems(5) e by (auto split: prod.splits)
  let ?t = "s\<lparr>gos := (gos s)[length ds := Exited e], world := w1, slice := slice s @ [e], wg := wg s - 1\<rparr>"
  have "steps s ?t"
    using Cons.prems e by (intro steps_one [where p = p]) (auto simp: nth_append)
  moreover have "steps ?t (?t\<lparr>gos := (ds @ [Exited e]) @ map Exited es', wg := 0,
      slice := slice ?t @ es', world := w'\<rparr>)"
    using Cons.prems es by (intro Cons.IH) (auto simp: list_update_append)
  ultimately show ?case using es by auto
qed

lemma run_seq_reachable:
  assumes "run_seq fnList w = (es, w')"
  shows "\<exists>s. reachable fnList w s \<and> ChannelToSlice s = Some es \<and> world s = w' \<and> gos s = map Exited es"
proof -
  let ?s = "RunConcurrently fnList w"
  let ?t = "?s\<lparr>gos := map Exited es, wg := 0, slice := es, world := w'\<rparr>"
  have "steps ?s ?t"
    using steps_seq [of ?s "[]" fnList es w'] assms by (simp add: RunConcurrently_def)
  also have "step ?t (?t\<lparr>closed := True\<rparr>)" by (rule step.close_chan) (simp_all add: RunConcurrently_def)
  also have "step (?t\<lparr>closed := True\<rparr>) (?t\<lparr>closed := True, drained := True\<rparr>)"
    using step.range_end [of "?t\<lparr>closed := True\<rparr>"] by (simp add: RunConcurrently_def)
  finally show ?thesis
    by (intro exI [of _ "?t\<lparr>closed := True, drained := True\<rparr>"]) (simp add: reachable_def ChannelToSlice_def)
qed

text \<open>When the consumer has its slice, every function has returned and is in it once.\<close>

lemma results_complete:
  assumes "reachable fnList w s" and "ChannelToSlice s = Some errs"
  shows "\<exists>results. gos s = map Exited results \<and> length results = length fnList \<and>
           mset errs = mset results"
proof -
  from assms(1) have inv: "conc_inv s" by (rule reachable_inv)
  from assms(2) have d: "drained s" and errs: "errs = slice s"
    by (auto simp: ChannelToSlice_def split: if_splits)
  from inv d have "sum_list (map pending (gos s)) = 0"
    by (auto simp: conc_inv_def simp del: sum_list_eq_0_iff)
  then have "\<forall>g \<in> set (gos s). \<exists>e. g = Exited e" by (auto simp: not_pending_Exited)
  then obtain results where r: "gos s = map Exited results"
    by (metis (mono_tags, lifting) ex_map_conv)
  moreover have "length results = length fnList"
    using length_gos_steps [OF assms(1) [unfolded reachable_def]] r by (simp add: RunConcurrently_def)
  moreover have "mset errs = mset results"
    using inv r errs by (simp add: conc_inv_def comp_def)
  ultimately show ?thesis by blast
qed

section \<open>Properties\<close>

text \<open>
  C14. Whatever the scheduler does, when \<open>ChannelToSlice\<close> returns, every function has returned
  and the slice holds each function's result exactly once.
\<close>

theorem run_concurrently_results:
  assumes "reachable fnList w s" and "ChannelToSlice s = Some errs"
  shows "\<exists>results. gos s = map Exited results \<and> length results = length fnList \<and>
           mset errs = mset results"
  using assms by (rule results_complete)

theorem run_concurrently_results_witness:
  "\<exists>s results. reachable [Ret None, call (\<lambda>n. (Some NotFound, Suc n))] (0::nat) s \<and>
     gos s = map Exited results \<and> mset [None, Some NotFound] = mset results"
proof -
  have "run_seq [Ret None, call (\<lambda>n. (Some NotFound, Suc n))] (0::nat) = ([None, Some NotFound], 1)"
    by simp
  then obtain s where s: "reachable [Ret None, call (\<lambda>n. (Some NotFound, Suc n))] (0::nat) s"
      "ChannelToSlice s = Some [None, Some NotFound]"
    by (blast dest: run_seq_reachable)
  from run_concurrently_results [OF s] s(1) show ?thesis by blast
qed

text \<open>
  C20. Every execution of \<open>RunConcurrently\<close> with its consumer ends with the complete slice: no
  execution is infinite, and a configuration in which no step is possible is one in which the
  range loop has ended.
\<close>

theorem run_concurrently_terminates:
  "\<not> (\<exists>run. run 0 = RunConcurrently fnList w \<and> (\<forall>n. step (run n) (run (Suc n)))) \<and>
   (\<forall>s. reachable fnList w s \<and> ChannelToSlice s = None \<longrightarrow> (\<exists>t. step s t)) \<and>
   (\<forall>s. reachable fnList w s \<longrightarrow> (\<exists>t errs. steps s t \<and> ChannelToSlice t = Some errs))"
  using no_infinite_run progress reachable_inv reaches_drained
  by (fastforce simp: ChannelToSlice_def split: if_splits)

theorem run_concurrently_terminates_witness:
  "\<exists>t errs. steps (RunConcurrently [Ret None, Ret (Some Invalid)] ()) t \<and> ChannelToSlice t = Some errs"
  using run_concurrently_terminates [of "[Ret None, Ret (Some Invalid)]" "()"]
  by (auto simp: reachable_def)

end
