(* ===== verification/Local_Views.thy ===== *)
theory Local_Views
  imports Concurrency Kube_Client
begin

text \<open>
  Reasoning about one of several concurrently running programs through the part of the world only
  it writes.

  \<open>V\<close> reads that part. \<open>locally V Q p v\<close> says that \<open>p\<close>, started when the part is \<open>v\<close>, ends with a result
  and a part that satisfy \<open>Q\<close>, whatever happens to the rest of the world between its requests;
  \<open>frames V p\<close> says that no request of \<open>p\<close> changes the part. The main fact, \<open>concurrent_local\<close>: under every
  schedule of \<open>RunConcurrently\<close>, a program that ends locally well does so while the others only
  frame its part. For \<open>CreateOrUpdate\<close> on a server that keeps its contract the rule is
  \<open>locally_CreateOrUpdate\<close>.
\<close>

section \<open>Local correctness\<close>

primrec locally :: "('w \<Rightarrow> 'v) \<Rightarrow> ('v \<Rightarrow> 'a \<Rightarrow> bool) \<Rightarrow> ('w, 'a) m \<Rightarrow> 'v \<Rightarrow> bool" where
  "locally V Q (Ret a) = (\<lambda>v. Q v a)"
| "locally V Q (Act f) =
     (\<lambda>v. \<forall>w. V w = v \<longrightarrow> (\<lambda>p. fst p (V (snd p))) (map_prod (locally V Q) id (f w)))"

lemma locally_Act [simp]:
  "locally V Q (Act f) v \<longleftrightarrow> (\<forall>w. V w = v \<longrightarrow> locally V Q (fst (f w)) (V (snd (f w))))"
  by (simp add: split_beta)

declare locally.simps(2) [simp del]

lemma locally_call: "locally V Q (call f) v \<longleftrightarrow> (\<forall>w. V w = v \<longrightarrow> Q (V (snd (f w))) (fst (f w)))"
  by (simp add: call_def)

lemma locally_mono: "locally V Q p v \<Longrightarrow> (\<And>v a. Q v a \<Longrightarrow> Q' v a) \<Longrightarrow> locally V Q' p v"
  by (induction p arbitrary: v) auto

lemma locally_bind:
  "locally V R p v \<Longrightarrow> (\<And>v' a. R v' a \<Longrightarrow> locally V Q (k a) v') \<Longrightarrow> locally V Q (bind_m p k) v"
  by (induction p arbitrary: v) auto

text \<open>The part as another kind of value that holds no less.\<close>

lemma locally_embed:
  assumes "\<And>x y. h x = h y \<Longrightarrow> x = y"
  shows "locally V (\<lambda>v a. Q (h v) a) p v \<Longrightarrow> locally (\<lambda>w. h (V w)) Q p (h v)"
proof (induction p arbitrary: v)
  case (Act f)
  then show ?case by (auto dest: assms)
qed simp

lemma locally_run: "locally V Q p v \<Longrightarrow> V w = v \<Longrightarrow> Q (V (snd (run_m p w))) (fst (run_m p w))"
proof (induction p arbitrary: v w)
  case (Act f)
  then have "locally V Q (fst (f w)) (V (snd (f w)))" by simp
  from Act.IH [OF this refl] show ?case by (simp add: split_beta)
qed simp

definition frames :: "('w \<Rightarrow> 'v) \<Rightarrow> ('w, 'a) m \<Rightarrow> bool" where
  "frames V p \<longleftrightarrow> (\<forall>v. keeps (\<lambda>w. V w = v) p)"

lemma frames_Ret [simp]: "frames V (Ret a)"
  by (simp add: frames_def)

lemma frames_Act: "frames V (Act f) \<longleftrightarrow> (\<forall>w. frames V (fst (f w)) \<and> V (snd (f w)) = V w)"
  by (auto simp: frames_def split_beta)

lemma frames_call [simp]: "frames V (call f) \<longleftrightarrow> (\<forall>w. V (snd (f w)) = V w)"
  by (auto simp: frames_def)

lemma frames_bind: "frames V p \<Longrightarrow> (\<And>a. frames V (k a)) \<Longrightarrow> frames V (bind_m p k)"
  by (simp add: frames_def keeps_bind)

lemma frames_comp: "frames V p \<Longrightarrow> frames (\<lambda>w. g (V w)) p"
  by (induction p) (simp_all add: frames_Act)

text \<open>A part that is determined by framed parts is framed.\<close>

lemma frames_determined:
  assumes "\<And>w w'. A w = A w' \<Longrightarrow> (\<And>i. i \<in> I \<Longrightarrow> B i w = B i w') \<Longrightarrow> V w = V w'"
  shows "frames A p \<Longrightarrow> (\<And>i. i \<in> I \<Longrightarrow> frames (B i) p) \<Longrightarrow> frames V p"
proof (induction p)
  case (Act f)
  have "V (snd (f w)) = V w" for w
    by (rule assms) (use Act.prems in \<open>auto simp: frames_Act\<close>)
  moreover have "frames V (fst (f w))" for w
    by (rule Act.IH) (use Act.prems in \<open>auto simp: frames_Act\<close>)
  ultimately show ?case by (simp add: frames_Act)
qed simp

text \<open>The results a program can return; framing of a continuation is needed for these only.\<close>

inductive yields :: "('w, 'a) m \<Rightarrow> 'a \<Rightarrow> bool" where
  "yields (Ret a) a"
| "f w = (p, w') \<Longrightarrow> yields p a \<Longrightarrow> yields (Act f) a"

inductive_simps yields_Ret [simp]: "yields (Ret a) b"
inductive_cases yields_ActE: "yields (Act f) a"

lemma yields_call: "yields (call f) a \<longleftrightarrow> (\<exists>w. a = fst (f w))"
proof
  assume "yields (call f) a"
  then show "\<exists>w. a = fst (f w)"
    unfolding call_def by (auto elim!: yields_ActE simp: map_prod_def split: prod.splits) (metis fst_conv)
next
  assume "\<exists>w. a = fst (f w)"
  then obtain w where a: "a = fst (f w)" by blast
  show "yields (call f) a"
    unfolding call_def by (rule yields.intros(2) [of _ w "Ret a" "snd (f w)"]) (simp_all add: a map_prod_def split_beta)
qed

lemma yields_bindE:
  "yields (bind_m p k) b \<Longrightarrow> \<exists>a. yields p a \<and> yields (k a) b"
proof (induction p)
  case (Act f)
  from Act.prems obtain p w w' where f: "f w = (p, w')" and b: "yields (bind_m p k) b"
    by (auto elim!: yields_ActE simp: map_prod_def split: prod.splits)
  with Act.IH [of w] obtain a where "yields p a" "yields (k a) b" by auto
  with f show ?case by (blast intro: yields.intros(2))
qed auto

lemma frames_bind_yields:
  "frames V p \<Longrightarrow> (\<And>a. yields p a \<Longrightarrow> frames V (k a)) \<Longrightarrow> frames V (bind_m p k)"
proof (induction p)
  case (Act f)
  have "frames V (bind_m (fst (f w)) k)" for w
    using Act.IH [of w] Act.prems yields.intros(2) [of f w "fst (f w)" "snd (f w)"]
    by (auto simp: frames_Act)
  with Act.prems(1) show ?case by (simp add: frames_Act split_beta)
qed auto

lemma frames_locally: "frames V p \<Longrightarrow> locally V (\<lambda>v' _. v' = v) p v"
  by (induction p) (auto simp: frames_Act)

section \<open>Under every schedule\<close>

fun local_ok :: "('w \<Rightarrow> 'v) \<Rightarrow> ('v \<Rightarrow> error \<Rightarrow> bool) \<Rightarrow> 'w \<Rightarrow> 'w goroutine \<Rightarrow> bool" where
  "local_ok V Q w (Running p) = locally V Q p (V w)"
| "local_ok V Q w (Sending e) = Q (V w) e"
| "local_ok V Q w (Sent e) = Q (V w) e"
| "local_ok V Q w (Exited e) = Q (V w) e"

text \<open>
  Worlds may be confined to an invariant \<open>I\<close> that every program keeps; then the part need only be framed,
  and the program need only be right, in such worlds.
\<close>

definition frames_in :: "('w \<Rightarrow> bool) \<Rightarrow> ('w \<Rightarrow> 'v) \<Rightarrow> ('w, 'a) m \<Rightarrow> bool" where
  "frames_in I V p \<longleftrightarrow> (\<forall>v. keeps (\<lambda>w. I w \<and> V w = v) p)"

lemma frames_in_Act:
  "frames_in I V (Act f) \<longleftrightarrow>
     (\<forall>w. frames_in I V (fst (f w)) \<and> (I w \<longrightarrow> I (snd (f w)) \<and> V (snd (f w)) = V w))"
  by (auto simp: frames_in_def split_beta)

lemma frames_in_frames: "frames V p \<Longrightarrow> keeps I p \<Longrightarrow> frames_in I V p"
  by (induction p) (simp_all add: frames_in_Act frames_Act split_beta, simp add: frames_in_def)

fun framing :: "('w \<Rightarrow> bool) \<Rightarrow> ('w \<Rightarrow> 'v) \<Rightarrow> 'w goroutine \<Rightarrow> bool" where
  "framing I V (Running p) = frames_in I V p"
| "framing I V _ = True"

fun staying :: "('w \<Rightarrow> bool) \<Rightarrow> 'w goroutine \<Rightarrow> bool" where
  "staying I (Running p) = keeps I p"
| "staying I _ = True"

definition all_local :: "('w \<Rightarrow> bool) \<Rightarrow> ('w \<Rightarrow> 'v) \<Rightarrow> ('v \<Rightarrow> error \<Rightarrow> bool) \<Rightarrow> nat \<Rightarrow> 'w conf \<Rightarrow> bool" where
  "all_local I V Q i s \<longleftrightarrow> I (world s) \<and> staying I (gos s ! i) \<and>
     local_ok (\<lambda>w. (I w, V w)) (\<lambda>v. Q (snd v)) (world s) (gos s ! i) \<and>
     (\<forall>j < length (gos s). j \<noteq> i \<longrightarrow> framing I V (gos s ! j))"

lemma local_ok_view: "V w' = V w \<Longrightarrow> local_ok V Q w' g = local_ok V Q w g"
  by (cases g) simp_all

lemma all_local_irrelevant [simp]:
  "all_local I V Q i (s\<lparr>wg := n\<rparr>) = all_local I V Q i s" "all_local I V Q i (s\<lparr>closed := b\<rparr>) = all_local I V Q i s"
  "all_local I V Q i (s\<lparr>drained := b\<rparr>) = all_local I V Q i s" "all_local I V Q i (s\<lparr>slice := es\<rparr>) = all_local I V Q i s"
  by (simp_all add: all_local_def)

text \<open>A step of goroutine \<open>i\<close> itself, or of another one.\<close>

lemma all_local_put:
  assumes loc: "all_local I V Q i s" and i: "i < length (gos s)" and j: "j < length (gos s)"
    and own: "j = i \<Longrightarrow> I w' \<and> staying I g \<and> local_ok (\<lambda>w. (I w, V w)) (\<lambda>v. Q (snd v)) w' g"
    and other: "j \<noteq> i \<Longrightarrow> framing I V g \<and> I w' \<and> V w' = V (world s)"
  shows "all_local I V Q i (s\<lparr>gos := (gos s)[j := g], world := w'\<rparr>)"
proof (cases "j = i")
  case True
  with loc i own show ?thesis by (auto simp: all_local_def nth_list_update)
next
  case False
  with loc other have "(I w', V w') = (I (world s), V (world s))" by (simp add: all_local_def)
  from local_ok_view [where V = "\<lambda>w. (I w, V w)", OF this] False loc i j other show ?thesis
    by (auto simp: all_local_def nth_list_update)
qed

lemma all_local_step:
  assumes "step s t" "all_local I V Q i s" "i < length (gos s)"
  shows "all_local I V Q i t"
  using assms
proof (induction rule: step.induct)
  case (request j s f p w')
  have w: "I (world s)" using request by (simp add: all_local_def)
  have "frames_in I V p \<and> I w' \<and> V w' = V (world s)" if "j \<noteq> i"
  proof -
    from request that have "frames_in I V (Act f)" by (auto simp: all_local_def dest: spec [of _ j])
    with request(3) w show ?thesis by (metis frames_in_Act fst_conv snd_conv)
  qed
  moreover have "I w' \<and> keeps I p \<and> locally (\<lambda>w. (I w, V w)) (\<lambda>v. Q (snd v)) p (I w', V w')" if "j = i"
    using request that by (auto simp: all_local_def split_beta dest!: spec [of _ "world s"])
  ultimately show ?case using request by (intro all_local_put) auto
next
  case (return j s e)
  then show ?case by (auto simp: all_local_def nth_list_update)
next
  case (rendezvous j s e)
  then show ?case by (auto simp: all_local_def nth_list_update)
next
  case (wg_done j s e)
  then show ?case by (auto simp: all_local_def nth_list_update)
qed simp_all

lemma all_local_steps:
  "steps s t \<Longrightarrow> all_local I V Q i s \<Longrightarrow> i < length (gos s) \<Longrightarrow> all_local I V Q i t"
proof (induction rule: rtranclp_induct)
  case (step t u)
  then show ?case using all_local_step [of t u] length_gos_steps [of s t] by simp
qed simp

lemma concurrent_local_in:
  assumes "i < length fns" and "locally (\<lambda>w. (I w, V w)) (\<lambda>v. Q (snd v)) (fns ! i) (True, V w)" and "keeps I (fns ! i)" and "I w"
    and "\<And>j. j < length fns \<Longrightarrow> j \<noteq> i \<Longrightarrow> frames_in I V (fns ! j)"
    and "reachable fns w s" and "gos s = map Exited results"
  shows "Q (V (world s)) (results ! i)"
proof -
  have "all_local I V Q i (RunConcurrently fns w)"
    using assms(1-5) by (simp add: all_local_def RunConcurrently_def)
  with assms(1,6) have loc: "all_local I V Q i s"
    unfolding reachable_def by (auto intro: all_local_steps simp: RunConcurrently_def)
  have "length results = length fns"
    using length_gos_steps [OF assms(6) [unfolded reachable_def]] assms(7) by (simp add: RunConcurrently_def)
  with loc assms(1,7) show ?thesis by (simp add: all_local_def)
qed

lemma keeps_True [simp]: "keeps (\<lambda>_. True) p"
  by (induction p) (simp_all add: split_beta)

lemma concurrent_local:
  assumes "i < length fns" and "locally V Q (fns ! i) (V w)"
    and "\<And>j. j < length fns \<Longrightarrow> j \<noteq> i \<Longrightarrow> frames V (fns ! j)"
    and "reachable fns w s" and "gos s = map Exited results"
  shows "Q (V (world s)) (results ! i)"
proof (rule concurrent_local_in [where I = "\<lambda>_. True" and V = V and Q = Q and fns = fns and w = w])
  show "locally (\<lambda>w. (True, V w)) (\<lambda>v. Q (snd v)) (fns ! i) (True, V w)"
    by (rule locally_embed [where h = "\<lambda>v. (True, v)"]) (use assms(2) in simp_all)
qed (use assms in \<open>auto intro: frames_in_frames\<close>)

lemma concurrent_frames:
  assumes "\<And>p. p \<in> set fns \<Longrightarrow> frames V p" and "reachable fns w s"
  shows "V (world s) = V w"
proof -
  have "list_all (framing (\<lambda>_. True) V) (gos s) \<and> V (world s) = V w"
    using assms(2) unfolding reachable_def
  proof (induction rule: rtranclp_induct)
    case base
    show ?case using assms(1) by (auto simp: RunConcurrently_def list_all_iff intro: frames_in_frames)
  next
    case (step s t)
    from step(2,3) show ?case
      by (induction rule: step.induct)
        (auto simp: list_all_length nth_list_update frames_in_Act, (metis framing.simps(1) frames_in_Act fst_conv snd_conv)+)
  qed
  then show ?thesis by simp
qed

section \<open>Requests of one kind\<close>

text \<open>No request of a kind changes what \<open>V\<close> reads.\<close>

definition api_frames :: "('w \<Rightarrow> 'v) \<Rightarrow> ('w, 'o) api \<Rightarrow> bool" where
  "api_frames V api \<longleftrightarrow>
     (\<forall>k w. V (snd (api_Get api k w)) = V w) \<and> (\<forall>opts w. V (snd (api_List api opts w)) = V w) \<and>
     (\<forall>obj w. V (snd (api_Create api obj w)) = V w) \<and> (\<forall>obj w. V (snd (api_Update api obj w)) = V w) \<and>
     (\<forall>obj w. V (snd (api_Delete api obj w)) = V w)"

lemma api_framesD:
  assumes "api_frames V api"
  shows "V (snd (api_Get api k w)) = V w" "V (snd (api_List api opts w)) = V w" "V (snd (api_Create api obj w)) = V w"
    "V (snd (api_Update api obj w)) = V w" "V (snd (api_Delete api obj w)) = V w"
  using assms unfolding api_frames_def by blast+

lemma api_frames_comp: "api_frames V api \<Longrightarrow> api_frames (\<lambda>w. g (V w)) api"
  by (simp add: api_frames_def)

lemma frames_mutate: "(\<And>obj. frames V (f obj)) \<Longrightarrow> frames V (mutate meta f key obj)"
  by (simp add: mutate_def frames_bind)

lemma frames_CreateOrUpdate:
  assumes "api_frames V api" and "\<And>obj. frames V (f obj)"
  shows "frames V (CreateOrUpdate meta api obj f)"
  unfolding CreateOrUpdate_def Let_def using assms api_framesD [OF assms(1)]
  by (simp del: bind_call split: sum.split prod.split add: frames_bind frames_mutate)

text \<open>And every request of a kind keeps an invariant.\<close>

definition api_keeps :: "('w \<Rightarrow> bool) \<Rightarrow> ('w, 'o) api \<Rightarrow> bool" where
  "api_keeps I api \<longleftrightarrow> (\<forall>w. I w \<longrightarrow>
     (\<forall>k. I (snd (api_Get api k w))) \<and> (\<forall>opts. I (snd (api_List api opts w))) \<and>
     (\<forall>obj. I (snd (api_Create api obj w))) \<and> (\<forall>obj. I (snd (api_Update api obj w))) \<and>
     (\<forall>obj. I (snd (api_Delete api obj w))))"

lemma api_keepsD:
  assumes "api_keeps I api" and "I w"
  shows "I (snd (api_Get api k w))" "I (snd (api_List api opts w))" "I (snd (api_Create api obj w))"
    "I (snd (api_Update api obj w))" "I (snd (api_Delete api obj w))"
  using assms unfolding api_keeps_def by blast+

lemma keeps_CreateOrUpdate:
  assumes "api_keeps I api" and "\<And>obj. keeps I (f obj)"
  shows "keeps I (CreateOrUpdate meta api obj f)"
proof -
  have "keeps I (mutate meta f k obj)" for k obj
    unfolding mutate_def by (rule keeps_bind [OF assms(2)]) (simp add: Let_def split: sum.split)
  then show ?thesis
    unfolding CreateOrUpdate_def Let_def using api_keepsD [OF assms(1)]
    by (simp del: bind_call split: sum.split prod.split add: keeps_bind)
qed

lemma frames_pure [simp]: "frames V (pure_mut f obj)"
  by (simp add: pure_mut_def)

section \<open>One object of a kind\<close>

lemma mutate_key:
  "yields (mutate meta f key obj) (Inr obj') \<Longrightarrow> ObjectKeyFromObject (meta obj') = key"
  by (auto simp: mutate_def Let_def dest!: yields_bindE split: sum.splits if_splits)

text \<open>The object a \<open>CreateOrUpdate\<close> starts from.\<close>

definition start_of :: "'o option \<Rightarrow> 'o \<Rightarrow> 'o" where
  "start_of v obj = (case v of None \<Rightarrow> obj | Some stored \<Rightarrow> stored)"

lemma start_of_simps [simp]: "start_of None obj = obj" "start_of (Some stored) obj = stored"
  by (simp_all add: start_of_def)

context kube_api
begin

lemma frames_get: "frames (\<lambda>w. view w k) (call (api_Get api k'))"
  using get_frame [of k'] by (simp add: prod_eq_iff)

lemma frames_create:
  assumes "ObjectKeyFromObject (meta obj) \<noteq> k"
  shows "frames (\<lambda>w. view w k) (call (api_Create api obj))"
proof -
  have "view (snd (api_Create api obj w)) k = view w k" for w
    using create_ok [of obj w] create_fail [of obj w] assms
    by (cases "api_Create api obj w"; cases "fst (api_Create api obj w)") auto
  then show ?thesis by simp
qed

lemma frames_update:
  assumes "ObjectKeyFromObject (meta obj) \<noteq> k"
  shows "frames (\<lambda>w. view w k) (call (api_Update api obj))"
proof -
  have "view (snd (api_Update api obj w)) k = view w k" for w
    using update_ok [of obj w] update_fail [of obj w] assms
    by (cases "api_Update api obj w"; cases "fst (api_Update api obj w)") (auto simp del: split_paired_All)
  then show ?thesis by simp
qed

lemma frames_delete:
  "ObjectKeyFromObject (meta obj) \<noteq> k \<Longrightarrow> frames (\<lambda>w. view w k) (call (api_Delete api obj))"
  using delete_frame [OF surjective_pairing] by simp

lemma frames_other_key:
  assumes "ObjectKeyFromObject (meta obj) \<noteq> k" and "\<And>o1. frames (\<lambda>w. view w k) (f o1)"
  shows "frames (\<lambda>w. view w k) (CreateOrUpdate meta api obj f)"
proof -
  let ?k = "ObjectKeyFromObject (meta obj)"
  have writes: "frames (\<lambda>w. view w k) (bind_m (mutate meta f ?k o1) cont)"
    if "\<And>o2. ObjectKeyFromObject (meta o2) \<noteq> k \<Longrightarrow> frames (\<lambda>w. view w k) (cont (Inr o2))"
      and "\<And>e. frames (\<lambda>w. view w k) (cont (Inl e))" for o1 cont
  proof (rule frames_bind_yields [OF frames_mutate [OF assms(2)]])
    fix r assume "yields (mutate meta f ?k o1) r"
    with that assms(1) show "frames (\<lambda>w. view w k) (cont r)"
      using mutate_key [of meta f ?k o1] by (cases r) auto
  qed
  show ?thesis
    unfolding CreateOrUpdate_def Let_def
    by (rule frames_bind [OF frames_get])
      (simp del: bind_call frames_call split: sum.split
         add: writes frames_bind [OF frames_create] frames_bind [OF frames_update])
qed

text \<open>The object returned with an error is the one asked for.\<close>

lemma error_key:
  assumes "yields (CreateOrUpdate meta api obj f) (res, Some e, obj')"
  shows "ObjectKeyFromObject (meta obj') = ObjectKeyFromObject (meta obj)"
proof -
  have get: "ObjectKeyFromObject (meta ex) = k" if "yields (call (api_Get api k)) (Inr ex)" for ex k
    using that get_found [of k] by (auto simp: yields_call) (metis prod.collapse)
  from assms show ?thesis
    by (auto simp: CreateOrUpdate_def Let_def simp del: bind_call dest!: yields_bindE get mutate_key
        split: sum.splits if_splits)
qed

text \<open>
  Everything but the object itself is framed: \<open>A\<close> is the world without the kind, \<open>V\<close> the world without
  the object.
\<close>

lemma frames_all_but:
  assumes A: "api_frames A api" "\<And>o1. frames A (f o1)" and f: "\<And>o1 k. frames (\<lambda>w. view w k) (f o1)"
    and V: "\<And>w w'. A w = A w' \<Longrightarrow> (\<And>k. k \<noteq> ObjectKeyFromObject (meta obj) \<Longrightarrow> view w k = view w' k) \<Longrightarrow> V w = V w'"
  shows "frames V (CreateOrUpdate meta api obj f)" and "frames V (call (api_Delete api obj))"
    and "frames V (call (api_Create api obj))"
proof -
  note split = frames_determined [where A = A and I = "- {ObjectKeyFromObject (meta obj)}" and B = "\<lambda>k w. view w k" and V = V, OF V]
  show "frames V (CreateOrUpdate meta api obj f)"
    by (rule split) (use frames_CreateOrUpdate [OF A] frames_other_key [OF _ f] in auto)
  show "frames V (call (api_Delete api obj))"
    by (rule split) (use api_framesD(5) [OF A(1)] frames_delete in \<open>auto simp del: frames_call simp: frames_call [of A]\<close>)
  show "frames V (call (api_Create api obj))"
    by (rule split) (use api_framesD(3) [OF A(1)] frames_create in \<open>auto simp del: frames_call simp: frames_call [of A]\<close>)
qed

text \<open>What the requests establish for the object under key \<open>k\<close>, read as \<open>v\<close>.\<close>

lemma locally_get:
  "locally (\<lambda>w. view w k)
     (\<lambda>v' r. v' = v \<and> (case r of Inr obj \<Rightarrow> v = Some obj \<and> ObjectKeyFromObject (meta obj) = k | Inl e \<Rightarrow> e = NotFound \<longrightarrow> v = None))
     (call (api_Get api k)) v"
proof -
  have "view (snd (api_Get api k w)) k = v \<and>
      (case fst (api_Get api k w) of Inr obj \<Rightarrow> v = Some obj \<and> ObjectKeyFromObject (meta obj) = k
       | Inl e \<Rightarrow> e = NotFound \<longrightarrow> v = None)" if "view w k = v" for w
    using get_frame [of k w] get_found [of k w] get_missing [of k w] that
    by (cases "api_Get api k w"; cases "fst (api_Get api k w)") auto
  then show ?thesis by (simp add: locally_call)
qed

lemma locally_create:
  assumes "ObjectKeyFromObject (meta sent) = k"
  shows "locally (\<lambda>w. view w k)
     (\<lambda>v' r. case r of Inr obj' \<Rightarrow> v' = Some obj' \<and> content obj' = content sent | Inl e \<Rightarrow> v' = v)
     (call (api_Create api sent)) v"
proof -
  have "case fst (api_Create api sent w) of
        Inr obj' \<Rightarrow> view (snd (api_Create api sent w)) k = Some obj' \<and> content obj' = content sent
      | Inl e \<Rightarrow> view (snd (api_Create api sent w)) k = v" if "view w k = v" for w
    using create_ok [of sent w] create_fail [of sent w] that assms
    by (cases "api_Create api sent w"; cases "fst (api_Create api sent w)") auto
  then show ?thesis by (simp add: locally_call)
qed

lemma locally_update:
  assumes "ObjectKeyFromObject (meta sent) = k" and "om_DeletionTimestamp (meta sent) = None"
  shows "locally (\<lambda>w. view w k)
     (\<lambda>v' r. case r of Inr obj' \<Rightarrow> v' = Some obj' \<and> content obj' = content sent | Inl e \<Rightarrow> v' = v)
     (call (api_Update api sent)) v"
proof -
  have "case fst (api_Update api sent w) of
        Inr obj' \<Rightarrow> view (snd (api_Update api sent w)) k = Some obj' \<and> content obj' = content sent
      | Inl e \<Rightarrow> view (snd (api_Update api sent w)) k = v" if "view w k = v" for w
    using update_ok [of sent w] update_fail [of sent w] that assms
    by (cases "api_Update api sent w"; cases "fst (api_Update api sent w)") (auto simp del: split_paired_All)
  then show ?thesis by (simp add: locally_call)
qed

lemma locally_delete:
  assumes "ObjectKeyFromObject (meta obj) = k" and "\<And>stored. v = Some stored \<Longrightarrow> om_Finalizers (meta stored) = []"
  shows "locally (\<lambda>w. view w k) (\<lambda>v' err. IgnoreNotFound err = None \<longrightarrow> v' = None) (call (api_Delete api obj)) v"
proof -
  have "IgnoreNotFound (fst (api_Delete api obj w)) = None \<longrightarrow> view (snd (api_Delete api obj w)) k = None"
    if "view w k = v" for w
    using delete_ok [of obj w] delete_missing [of obj w] delete_absent [of obj w] that assms
    by (cases "api_Delete api obj w"; cases "fst (api_Delete api obj w)"; cases v)
      (auto simp: IgnoreNotFound_def IsNotFound_def split: if_splits)
  then show ?thesis by (simp add: locally_call)
qed

text \<open>
  \<open>P before r\<close> relates the object a mutation is given to its result. Afterwards the stored object has
  the content of a mutated one, or there is an error and nothing was written.
\<close>

lemma locally_CreateOrUpdate:
  assumes f: "\<And>o1. locally (\<lambda>w. view w k) (\<lambda>v' r. v' = v \<and> P o1 r) (f o1) v"
    and P: "\<And>o1 o2. P o1 (Inr o2) \<Longrightarrow> ObjectKeyFromObject (meta o2) = ObjectKeyFromObject (meta o1) \<and>
              om_DeletionTimestamp (meta o2) = om_DeletionTimestamp (meta o1)"
    and k: "ObjectKeyFromObject (meta obj) = k"
    and alive: "om_DeletionTimestamp (meta (start_of v obj)) = None"
  shows "locally (\<lambda>w. view w k)
     (\<lambda>v' (res, err, obj'). case err of
          None \<Rightarrow> \<exists>sent. ObjectKeyFromObject (meta (start_of v obj)) = k \<and> P (start_of v obj) (Inr sent) \<and>
            v' = Some obj' \<and> content obj' = content sent
        | Some e \<Rightarrow> v' = v \<and> (obj' = obj \<or> ObjectKeyFromObject (meta (start_of v obj)) = k \<and>
            (P (start_of v obj) (Inl e) \<or> P (start_of v obj) (Inr obj'))))
     (CreateOrUpdate meta api obj f) v" (is "locally ?V ?Q _ _")
proof -
  have mut: "locally ?V (\<lambda>v' r. v' = v \<and> P o1 r) (mutate meta f k o1) v" if "ObjectKeyFromObject (meta o1) = k" for o1
    unfolding mutate_def using P that
    by (intro locally_bind [OF f]) (auto simp: Let_def split: sum.splits)
  show ?thesis
    unfolding CreateOrUpdate_def Let_def k
  proof (rule locally_bind [OF locally_get], goal_cases)
    case (1 v1 r)
    show ?case
    proof (cases r)
      case (Inl e)
      show ?thesis
      proof (cases "e = NotFound")
        case True
        with 1 Inl have v: "v1 = v" "start_of v obj = obj" by simp_all
        show ?thesis
          unfolding v(1) v(2) k using Inl True P [of obj, unfolded k] alive [unfolded v(2)]
          by (auto simp: IsNotFound_def simp del: bind_call split: sum.split
              intro!: locally_bind [OF mut [OF k]] locally_bind [OF locally_create]) blast
      next
        case False
        with 1 Inl show ?thesis by (simp add: IsNotFound_def)
      qed
    next
      case (Inr ex)
      with 1 have v: "v1 = v" "v = Some ex" "ObjectKeyFromObject (meta ex) = k" by simp_all
      have st: "start_of v obj = ex" using v(2) by simp
      note key = v(3)
      have ok: "ObjectKeyFromObject (meta o2) = k" "om_DeletionTimestamp (meta o2) = None" if "P ex (Inr o2)" for o2
        using P [OF that] alive v(3) st by simp_all
      show ?thesis
        unfolding Inr v(1) st sum.case key
      proof (rule locally_bind [OF mut [OF v(3)]], goal_cases)
        case (1 v2 r2)
        with ok v(2) show ?case
          by (cases r2) (auto simp del: bind_call split: sum.split intro!: locally_bind [OF locally_update], blast)
      qed
    qed
  qed
qed

text \<open>A stored object that its mutation does not change is left as it is, and an absent one stays absent.\<close>

lemma locally_untouched:
  assumes f: "ObjectKeyFromObject (meta ex) = k \<Longrightarrow> locally (\<lambda>w. view w k) (\<lambda>v' r. v' = Some ex \<and> P r) (f ex) (Some ex)"
    and P: "\<And>o2. ObjectKeyFromObject (meta ex) = k \<Longrightarrow> P (Inr o2) \<Longrightarrow> o2 = ex"
    and k: "ObjectKeyFromObject (meta obj) = k"
  shows "locally (\<lambda>w. view w k)
     (\<lambda>v' (res, err, obj'). v' = Some ex \<and> (err = None \<or> obj' = obj \<or> (\<exists>e. P (Inl e))))
     (CreateOrUpdate meta api obj f) (Some ex)"
  unfolding CreateOrUpdate_def Let_def k
proof (rule locally_bind [OF locally_get], goal_cases)
  case (1 v1 r)
  show ?case
  proof (cases r)
    case (Inl e)
    with 1 show ?thesis by (auto simp: IsNotFound_def)
  next
    case (Inr o1)
    with 1 have o1: "o1 = ex" "v1 = Some ex" and key: "ObjectKeyFromObject (meta ex) = k" by simp_all
    have mut: "locally (\<lambda>w. view w k) (\<lambda>v' r. v' = Some ex \<and> (case r of Inr o2 \<Rightarrow> o2 = ex | Inl e \<Rightarrow> P (Inl e)))
        (mutate meta f k ex) (Some ex)"
      unfolding mutate_def using P [OF key] key
      by (intro locally_bind [OF f [OF key]]) (auto simp: Let_def split: sum.splits)
    show ?thesis
      unfolding Inr o1 sum.case key
      by (rule locally_bind [OF mut]) (auto split: sum.splits)
  qed
qed

lemma locally_kept:
  assumes "\<And>o2. ObjectKeyFromObject (meta ex) = k \<Longrightarrow> mut ex = Inr o2 \<Longrightarrow> o2 = ex"
    and "ObjectKeyFromObject (meta obj) = k"
  shows "locally (\<lambda>w. view w k) (\<lambda>v' _. v' = Some ex)
     (bind_m (CreateOrUpdate meta api obj (pure_mut mut)) (\<lambda>(opResult, err, _). Ret err)) (Some ex)"
  by (rule locally_bind [OF locally_untouched [where P = "\<lambda>r. mut ex = r"]]) (use assms in \<open>auto simp: pure_mut_def\<close>)

lemma locally_absent:
  assumes "ObjectKeyFromObject (meta obj) = k"
  shows "locally (\<lambda>w. view w k) (\<lambda>v' _. v' = None)
     (bind_m (call (api_Delete api obj)) (\<lambda>err. Ret (IgnoreNotFound err))) None"
proof -
  have "view (snd (api_Delete api obj w)) k = None" if "view w k = None" for w
    using delete_fail [of obj w] delete_absent [of obj w] that assms
    by (cases "api_Delete api obj w"; cases "fst (api_Delete api obj w)") auto
  then show ?thesis by (simp add: split_beta)
qed

text \<open>The two shapes of a reconciler: bring the object about, or delete it.\<close>

lemma locally_apply:
  assumes mut: "\<And>o1 o2. mut o1 = Inr o2 \<Longrightarrow> ObjectKeyFromObject (meta o2) = ObjectKeyFromObject (meta o1) \<and>
              om_DeletionTimestamp (meta o2) = om_DeletionTimestamp (meta o1)"
    and k: "ObjectKeyFromObject (meta obj) = k"
    and alive: "om_DeletionTimestamp (meta (start_of v obj)) = None"
    and R: "\<And>o1 sent stored. ObjectKeyFromObject (meta o1) = k \<Longrightarrow> mut o1 = Inr sent \<Longrightarrow> content stored = content sent \<Longrightarrow> R stored"
  shows "locally (\<lambda>w. view w k) (\<lambda>v' e. e = None \<longrightarrow> (\<exists>stored. v' = Some stored \<and> R stored))
     (bind_m (CreateOrUpdate meta api obj (pure_mut mut)) (\<lambda>(opResult, err, _). Ret err)) v"
proof (rule locally_bind [OF locally_CreateOrUpdate [where P = "\<lambda>o1 r. mut o1 = r"]], goal_cases)
  case (1 o1)
  then show ?case by (simp add: pure_mut_def)
next
  case (2 o1 o2)
  then show ?case using mut by simp
next
  case 3
  then show ?case by (rule k)
next
  case 4
  then show ?case by (rule alive)
next
  case (5 v' a)
  then show ?case using R by (cases a) (auto split: option.splits)
qed

lemma locally_remove:
  assumes "ObjectKeyFromObject (meta obj) = k" and "\<And>stored. v = Some stored \<Longrightarrow> om_Finalizers (meta stored) = []"
  shows "locally (\<lambda>w. view w k) (\<lambda>v' e. e = None \<longrightarrow> v' = None)
     (bind_m (call (api_Delete api obj)) (\<lambda>err. Ret (IgnoreNotFound err))) v"
  by (rule locally_bind [OF locally_delete [OF assms]]) simp_all

end

end
