(* ===== verification/Driver_Reconcile.thy ===== *)
theory Driver_Reconcile
  imports Driver_Misc Driver_Node Local_Views
begin

text \<open>
  The whole reconciliation of a driver: \<open>Reconcile\<close> and \<open>reconcile\<close> of \<open>driver_controller.go\<close>, which load
  the desired state and then run nine reconcilers concurrently.

  \<open>driver_reconciles\<close> relates a request and a world to every error and world the concurrent execution
  can end with. The abstract specification is \<open>driver_ready\<close>: what a driver's nine objects are to
  look like. Shown here: a reconciliation that returns no error has established it, whatever the
  schedule; no reconciliation changes any other object; every reconciliation ends; and the error of
  any step is returned.

  What is assumed of the API server is the locale \<open>driver_server\<close>: each kind keeps the contract of
  \<open>Kube_Client\<close>, and the requests of one kind leave the others alone.
\<close>

section \<open>The nine reconcilers\<close>

definition driver_reconcilers :: "'w client \<Rightarrow> driver_env \<Rightarrow> driverReconcile \<Rightarrow> ('w, error) m list" where
  "driver_reconcilers cl env r =
     [reconcileCsiConfigMap cl env r,
      reconcileLogRotateConfigMap cl env r,
      reconcileK8sCsiDriver cl r,
      reconcileControllerPluginDeployment cl env r,
      reconcileControllerPluginNetworkPolicy cl env r,
      reconcileNodePluginDaemonSet cl env r,
      reconcileLivenessService cl env r,
      reconcileNodePluginDaemonSetForCsiAddons cl env r,
      reconcileNodePluginCsiAddonsNetworkPolicy cl env r]"

text \<open>The handler as \<open>Reconcile\<close> creates it for a request.\<close>

definition new_driverReconcile :: "object_key \<Rightarrow> driverReconcile" where
  "new_driverReconcile req =
     \<lparr>r_driver = zero_Driver\<lparr>dr_Meta := named_meta (fst req) (snd req)\<rparr>, r_driverType = [], r_images = fmempty\<rparr>"

inductive driver_reconciles :: "'w client \<Rightarrow> driver_env \<Rightarrow> object_key \<Rightarrow> 'w \<Rightarrow> error \<Rightarrow> 'w \<Rightarrow> bool"
  for cl env req w where
  load_fails:
    "run_m (LoadAndValidateDesiredState cl env (new_driverReconcile req)) w = ((Some e, r), w') \<Longrightarrow>
     driver_reconciles cl env req w (Some e) w'"
| concurrently:
    "run_m (LoadAndValidateDesiredState cl env (new_driverReconcile req)) w = ((None, r), w1) \<Longrightarrow>
     reachable (driver_reconcilers cl env r) w1 s \<Longrightarrow> ChannelToSlice s = Some errList \<Longrightarrow>
     driver_reconciles cl env req w (errors_Join errList) (world s)"

inductive_cases driver_reconcilesE: "driver_reconciles cl env req w err w'"

section \<open>The objects\<close>

record kube_objects =
  ko_Driver :: "object_key \<Rightarrow> Driver option"
  ko_ConfigMap :: "object_key \<Rightarrow> config_map option"
  ko_CSIDriver :: "object_key \<Rightarrow> csi_driver option"
  ko_Deployment :: "object_key \<Rightarrow> deployment option"
  ko_DaemonSet :: "object_key \<Rightarrow> daemonset option"
  ko_Service :: "object_key \<Rightarrow> service option"
  ko_NetworkPolicy :: "object_key \<Rightarrow> network_policy option"

definition no_objects :: kube_objects where
  "no_objects = \<lparr>ko_Driver = Map.empty, ko_ConfigMap = Map.empty, ko_CSIDriver = Map.empty,
     ko_Deployment = Map.empty, ko_DaemonSet = Map.empty, ko_Service = Map.empty, ko_NetworkPolicy = Map.empty\<rparr>"

datatype slot =
    ConfigMap_at object_key | CSIDriver_at object_key | Deployment_at object_key
  | DaemonSet_at object_key | Service_at object_key | NetworkPolicy_at object_key

text \<open>The objects but one, and one object alone.\<close>

fun without :: "slot \<Rightarrow> kube_objects \<Rightarrow> kube_objects" where
  "without (ConfigMap_at k) ob = ob\<lparr>ko_ConfigMap := (ko_ConfigMap ob)(k := None)\<rparr>"
| "without (CSIDriver_at k) ob = ob\<lparr>ko_CSIDriver := (ko_CSIDriver ob)(k := None)\<rparr>"
| "without (Deployment_at k) ob = ob\<lparr>ko_Deployment := (ko_Deployment ob)(k := None)\<rparr>"
| "without (DaemonSet_at k) ob = ob\<lparr>ko_DaemonSet := (ko_DaemonSet ob)(k := None)\<rparr>"
| "without (Service_at k) ob = ob\<lparr>ko_Service := (ko_Service ob)(k := None)\<rparr>"
| "without (NetworkPolicy_at k) ob = ob\<lparr>ko_NetworkPolicy := (ko_NetworkPolicy ob)(k := None)\<rparr>"

fun only :: "slot \<Rightarrow> kube_objects \<Rightarrow> kube_objects" where
  "only (ConfigMap_at k) ob = no_objects\<lparr>ko_ConfigMap := Map.empty(k := ko_ConfigMap ob k)\<rparr>"
| "only (CSIDriver_at k) ob = no_objects\<lparr>ko_CSIDriver := Map.empty(k := ko_CSIDriver ob k)\<rparr>"
| "only (Deployment_at k) ob = no_objects\<lparr>ko_Deployment := Map.empty(k := ko_Deployment ob k)\<rparr>"
| "only (DaemonSet_at k) ob = no_objects\<lparr>ko_DaemonSet := Map.empty(k := ko_DaemonSet ob k)\<rparr>"
| "only (Service_at k) ob = no_objects\<lparr>ko_Service := Map.empty(k := ko_Service ob k)\<rparr>"
| "only (NetworkPolicy_at k) ob = no_objects\<lparr>ko_NetworkPolicy := Map.empty(k := ko_NetworkPolicy ob k)\<rparr>"

lemma only_without: "s \<noteq> s' \<Longrightarrow> only s (without s' ob) = only s ob"
  by (cases s; cases s') (simp_all add: no_objects_def)

lemma without_eqI:
  "ob\<lparr>ko_ConfigMap := Map.empty\<rparr> = ob'\<lparr>ko_ConfigMap := Map.empty\<rparr> \<Longrightarrow> (\<And>k'. k' \<noteq> k \<Longrightarrow> ko_ConfigMap ob k' = ko_ConfigMap ob' k') \<Longrightarrow>
     without (ConfigMap_at k) ob = without (ConfigMap_at k) ob'"
  "ob\<lparr>ko_CSIDriver := Map.empty\<rparr> = ob'\<lparr>ko_CSIDriver := Map.empty\<rparr> \<Longrightarrow> (\<And>k'. k' \<noteq> k \<Longrightarrow> ko_CSIDriver ob k' = ko_CSIDriver ob' k') \<Longrightarrow>
     without (CSIDriver_at k) ob = without (CSIDriver_at k) ob'"
  "ob\<lparr>ko_DaemonSet := Map.empty\<rparr> = ob'\<lparr>ko_DaemonSet := Map.empty\<rparr> \<Longrightarrow> (\<And>k'. k' \<noteq> k \<Longrightarrow> ko_DaemonSet ob k' = ko_DaemonSet ob' k') \<Longrightarrow>
     without (DaemonSet_at k) ob = without (DaemonSet_at k) ob'"
  "ob\<lparr>ko_Service := Map.empty\<rparr> = ob'\<lparr>ko_Service := Map.empty\<rparr> \<Longrightarrow> (\<And>k'. k' \<noteq> k \<Longrightarrow> ko_Service ob k' = ko_Service ob' k') \<Longrightarrow>
     without (Service_at k) ob = without (Service_at k) ob'"
  "ob\<lparr>ko_NetworkPolicy := Map.empty\<rparr> = ob'\<lparr>ko_NetworkPolicy := Map.empty\<rparr> \<Longrightarrow> (\<And>k'. k' \<noteq> k \<Longrightarrow> ko_NetworkPolicy ob k' = ko_NetworkPolicy ob' k') \<Longrightarrow>
     without (NetworkPolicy_at k) ob = without (NetworkPolicy_at k) ob'"
  "ob\<lparr>ko_Deployment := Map.empty\<rparr> = ob'\<lparr>ko_Deployment := Map.empty\<rparr> \<Longrightarrow> (\<And>k'. k' \<noteq> k \<Longrightarrow> ko_Deployment ob k' = ko_Deployment ob' k') \<Longrightarrow>
     without (Deployment_at k) ob = without (Deployment_at k) ob'"
  by (cases ob; cases ob'; simp add: fun_eq_iff del: split_paired_All)+

text \<open>The object each reconciler writes, in their order; all from the driver's key.\<close>

definition driver_slots :: "object_key \<Rightarrow> slot list" where
  "driver_slots k =
     (let r = new_driverReconcile k in
      [ConfigMap_at (fst k, vol_Name CsiConfigVolume),
       ConfigMap_at (fst k, LogRotateConfigMapName (snd k)),
       CSIDriver_at ([], snd k),
       Deployment_at (fst k, generateName r ''ctrlplugin''),
       NetworkPolicy_at (fst k, generateName r ''ctrlplugin''),
       DaemonSet_at (fst k, generateName r ''nodeplugin''),
       Service_at (fst k, generateServiceName r ''liveness''),
       DaemonSet_at (fst k, generateName r ''nodeplugin-csi-addons''),
       NetworkPolicy_at (fst k, generateName r ''nodeplugin-csi-addons'')])"

lemma config_map_names_differ: "LogRotateConfigMapName name \<noteq> ''ceph-csi-config''"
proof
  assume "LogRotateConfigMapName name = ''ceph-csi-config''"
  then have "rev (LogRotateConfigMapName name) = rev ''ceph-csi-config''" by (rule arg_cong)
  then show False by (simp add: LogRotateConfigMapName_def)
qed

lemma distinct_driver_slots: "distinct (driver_slots k)"
  using config_map_names_differ [of "snd k"] by (auto simp: driver_slots_def Let_def generateName_def CsiConfigVolume_def)

text \<open>An object that is not being deleted and that no finalizer holds.\<close>

definition unheld :: "object_meta \<Rightarrow> bool" where
  "unheld md \<longleftrightarrow> om_DeletionTimestamp md = None \<and> om_Finalizers md = []"

fun slot_free :: "slot \<Rightarrow> kube_objects \<Rightarrow> bool" where
  "slot_free (ConfigMap_at k) ob = pred_option (unheld \<circ> cm_Meta) (ko_ConfigMap ob k)"
| "slot_free (CSIDriver_at k) ob = pred_option (unheld \<circ> cd_Meta) (ko_CSIDriver ob k)"
| "slot_free (Deployment_at k) ob = pred_option (unheld \<circ> dp_Meta) (ko_Deployment ob k)"
| "slot_free (DaemonSet_at k) ob = pred_option (unheld \<circ> dset_Meta) (ko_DaemonSet ob k)"
| "slot_free (Service_at k) ob = pred_option (unheld \<circ> sv_Meta) (ko_Service ob k)"
| "slot_free (NetworkPolicy_at k) ob = pred_option (unheld \<circ> np_Meta) (ko_NetworkPolicy ob k)"

section \<open>What a driver's objects are to look like\<close>

text \<open>The driver is the controller, and the first reference to it says so.\<close>

definition controlled_by :: "driverReconcile \<Rightarrow> object_meta \<Rightarrow> bool" where
  "controlled_by r md \<longleftrightarrow>
     (let ref = ref_for T_Driver (dr_Meta (r_driver r)) (Some True)
      in GetControllerOf md = Some ref \<and> upsertOwnerRef ref md = md)"

definition stored_as :: "'o option \<Rightarrow> ('o \<Rightarrow> bool) \<Rightarrow> bool" where
  "stored_as v P \<longleftrightarrow> (\<exists>obj. v = Some obj \<and> P obj)"

definition csi_config_map_ready :: "driverReconcile \<Rightarrow> kube_objects \<Rightarrow> bool" where
  "csi_config_map_ready r ob \<longleftrightarrow>
     stored_as (ko_ConfigMap ob (driver_namespace r, vol_Name CsiConfigVolume))
       (\<lambda>cm. IsOwnedBy (cm_Meta cm) (dr_Meta (r_driver r)))"

definition log_rotation_ready :: "driverReconcile \<Rightarrow> kube_objects \<Rightarrow> bool" where
  "log_rotation_ready r ob \<longleftrightarrow>
     (let v = ko_ConfigMap ob (driver_namespace r, LogRotateConfigMapName (driver_name r))
      in case logRotationSpec r of
           None \<Rightarrow> v = None
         | Some rotation \<Rightarrow> stored_as v (\<lambda>cm. cm_Data cm = fmap_of_list [(''csi'', logRotateFile rotation)] \<and>
             IsOwnedBy (cm_Meta cm) (dr_Meta (r_driver r))))"

definition csi_driver_ready :: "driverReconcile \<Rightarrow> kube_objects \<Rightarrow> bool" where
  "csi_driver_ready r ob \<longleftrightarrow>
     stored_as (ko_CSIDriver ob ([], driver_name r)) (\<lambda>cd.
       fmlookup (om_Annotations (cd_Meta cd)) ownerRefAnnotationKey =
         Some (Marshal enc_key (driver_namespace r, driver_name r)) \<and>
       cds_PodInfoOnMount (cd_Spec cd) = Some True \<and>
       cds_AttachRequired (cd_Spec cd) = Some (cmp_Or_ptr (d_AttachRequired (spec_of r)) True) \<and>
       cds_FSGroupPolicy (cd_Spec cd) = Some (cmp_Or_str (d_FsGroupPolicy (spec_of r)) FileFSGroupPolicy) \<and>
       cds_SELinuxMount (cd_Spec cd) = Some True)"

text \<open>The number of replicas a deployment may be given.\<close>

definition may_replicate :: "driverReconcile \<Rightarrow> 32 word \<Rightarrow> bool" where
  "may_replicate r n \<longleftrightarrow> (case ct_Replicas (ctrl_spec r) of Some k \<Rightarrow> n = k | None \<Rightarrow> n = 1 \<or> n = 2)"

definition controller_ready :: "driver_env \<Rightarrow> driverReconcile \<Rightarrow> kube_objects \<Rightarrow> bool" where
  "controller_ready env r ob \<longleftrightarrow>
     stored_as (ko_Deployment ob (driver_namespace r, generateName r ''ctrlplugin'')) (\<lambda>dp.
       controlled_by r (dp_Meta dp) \<and>
       (\<exists>n. may_replicate r n \<and>
            dp_Spec dp = ctrl_deployment_spec env r n (generateName r ''ctrlplugin'')))"

definition controller_policy_ready :: "driverReconcile \<Rightarrow> kube_objects \<Rightarrow> bool" where
  "controller_policy_ready r ob \<longleftrightarrow>
     (let v = ko_NetworkPolicy ob (driver_namespace r, generateName r ''ctrlplugin'')
      in if ctrl_hostNetwork r then v = None
         else stored_as v (\<lambda>np. controlled_by r (np_Meta np) \<and>
           np_Spec np = policy_spec (ctrl_ingress r) (generateName r ''ctrlplugin'')))"

definition node_plugin_ready :: "driver_env \<Rightarrow> driverReconcile \<Rightarrow> kube_objects \<Rightarrow> bool" where
  "node_plugin_ready env r ob \<longleftrightarrow>
     stored_as (ko_DaemonSet ob (driver_namespace r, generateName r ''nodeplugin'')) (\<lambda>ds.
       controlled_by r (dset_Meta ds) \<and> dset_Spec ds = node_daemonset_spec env r (generateName r ''nodeplugin''))"

definition liveness_ready :: "driverReconcile \<Rightarrow> kube_objects \<Rightarrow> bool" where
  "liveness_ready r ob \<longleftrightarrow>
     (let v = ko_Service ob (driver_namespace r, generateServiceName r ''liveness'')
      in case d_Liveness (spec_of r) of
           None \<Rightarrow> v = None
         | Some liveness \<Rightarrow> stored_as v (\<lambda>sv. controlled_by r (sv_Meta sv) \<and> sv_Spec sv = liveness_service_spec liveness))"

definition csi_addons_ready :: "driver_env \<Rightarrow> driverReconcile \<Rightarrow> kube_objects \<Rightarrow> bool" where
  "csi_addons_ready env r ob \<longleftrightarrow>
     (let v = ko_DaemonSet ob (driver_namespace r, generateName r ''nodeplugin-csi-addons'')
      in case withCsiAddonsVolumeCondition r of
           Inl _ \<Rightarrow> False
         | Inr condition \<Rightarrow>
             if withCsiAddonsDaemonSet r
             then stored_as v (\<lambda>ds. controlled_by r (dset_Meta ds) \<and>
               dset_Spec ds = addons_daemonset_spec env r condition (generateName r ''nodeplugin-csi-addons''))
             else v = None)"

definition csi_addons_policy_ready :: "driverReconcile \<Rightarrow> kube_objects \<Rightarrow> bool" where
  "csi_addons_policy_ready r ob \<longleftrightarrow>
     (let v = ko_NetworkPolicy ob (driver_namespace r, generateName r ''nodeplugin-csi-addons'')
      in if isNfsDriver r then True
         else if deployCsiAddons r
         then stored_as v (\<lambda>np. controlled_by r (np_Meta np) \<and>
           np_Spec np = policy_spec node_addons_ingress (generateName r ''nodeplugin-csi-addons''))
         else v = None)"

definition ready_conditions :: "driver_env \<Rightarrow> driverReconcile \<Rightarrow> (kube_objects \<Rightarrow> bool) list" where
  "ready_conditions env r =
     [csi_config_map_ready r, log_rotation_ready r, csi_driver_ready r, controller_ready env r,
      controller_policy_ready r, node_plugin_ready env r, liveness_ready r, csi_addons_ready env r,
      csi_addons_policy_ready r]"

definition driver_ready :: "driver_env \<Rightarrow> driverReconcile \<Rightarrow> kube_objects \<Rightarrow> bool" where
  "driver_ready env r ob \<longleftrightarrow> list_all (\<lambda>P. P ob) (ready_conditions env r)"

lemmas ready_defs =
  csi_config_map_ready_def log_rotation_ready_def csi_driver_ready_def controller_ready_def
  controller_policy_ready_def node_plugin_ready_def liveness_ready_def csi_addons_ready_def csi_addons_policy_ready_def

text \<open>Each condition reads the slot of its reconciler only.\<close>

lemma slot_names:
  "driver_name (new_driverReconcile k) = snd k"
  "generateName (new_driverReconcile (driver_namespace r, driver_name r)) sfx = generateName r sfx"
  "generateServiceName (new_driverReconcile (driver_namespace r, driver_name r)) sfx = generateServiceName r sfx"
  by (simp_all add: new_driverReconcile_def driver_name_def generateName_def generateServiceName_def)

lemma ready_conditions_local:
  "list_all2 (\<lambda>s P. \<forall>ob. P (only s ob) = P ob) (driver_slots (driver_namespace r, driver_name r)) (ready_conditions env r)"
  unfolding ready_conditions_def driver_slots_def Let_def slot_names fst_conv snd_conv
  by (simp add: ready_defs)

text \<open>What a mutation leaves of the metadata.\<close>

lemma SetControllerReference_alive:
  "SetControllerReference t owner obj scheme = Inr md \<Longrightarrow> om_DeletionTimestamp md = om_DeletionTimestamp obj"
  by (drule SetControllerReference_InrD(1)) (simp add: upsertOwnerRef_def split: option.split)

lemma GetControllerOf_cong: "om_OwnerReferences a = om_OwnerReferences b \<Longrightarrow> GetControllerOf a = GetControllerOf b"
  by (simp add: GetControllerOf_def)

lemma upsert_fixed_cong:
  assumes "om_OwnerReferences a = om_OwnerReferences b"
  shows "upsertOwnerRef ref a = a \<longleftrightarrow> upsertOwnerRef ref b = b"
proof -
  have "om_OwnerReferences (x\<lparr>om_OwnerReferences := y\<rparr>) = y" "x\<lparr>om_OwnerReferences := y\<rparr> = x \<longleftrightarrow> y = om_OwnerReferences x"
    for x :: object_meta and y
    by (cases x; auto)+
  with assms show ?thesis by (simp add: upsertOwnerRef_def Let_def split: option.split)
qed

lemma IsOwnedBy_cong: "om_OwnerReferences a = om_OwnerReferences b \<Longrightarrow> IsOwnedBy a owner = IsOwnedBy b owner"
  by (simp add: IsOwnedBy_def)

lemma alive_start:
  "pred_option (unheld \<circ> meta) v \<Longrightarrow> om_DeletionTimestamp (meta obj) = None \<Longrightarrow>
     om_DeletionTimestamp (meta (start_of v obj)) = None"
  by (cases v) (simp_all add: unheld_def)

lemma named_alive [simp]: "om_DeletionTimestamp (named_meta ns name) = None"
  by (simp add: named_meta_def zero_meta_def)

context controlled_object
begin

lemma controlled_meta:
  assumes "controlled meta set_meta put driver scheme obj = Inr obj'"
  shows "ObjectKeyFromObject (meta obj') = ObjectKeyFromObject (meta obj) \<and>
    om_DeletionTimestamp (meta obj') = om_DeletionTimestamp (meta obj)"
proof -
  from assms have "om_DeletionTimestamp (meta obj') = om_DeletionTimestamp (meta obj)"
    by (rule controlled_InrD) (simp add: SetControllerReference_alive)
  with mut_key [OF assms] show ?thesis by simp
qed

lemma controlled_stored:
  assumes ok: "controlled meta set_meta put (r_driver r) scheme obj = Inr sent"
    and key: "ObjectKeyFromObject (meta obj) = (ns, name)"
    and refs: "om_OwnerReferences (meta stored) = om_OwnerReferences (meta sent)"
  shows "controlled_by r (meta stored)" and "\<exists>obj1. sent = put obj1 \<and> om_Name (meta obj1) = name"
proof -
  have "upsertOwnerRef (ref_for T_Driver (dr_Meta (r_driver r)) (Some True)) (meta sent) = meta sent"
    using ok by (rule controlled_InrD) (auto dest!: SetControllerReference_InrD(1) simp: upsertOwnerRef_idem)
  then show "controlled_by r (meta stored)"
    using adopts [OF ok] GetControllerOf_cong [OF refs] upsert_fixed_cong [OF refs] by (simp add: controlled_by_def)
  from ok obtain md where "sent = put (set_meta md obj)" "om_Name md = om_Name (meta obj)" by (rule controlled_InrD)
  with key show "\<exists>obj1. sent = put obj1 \<and> om_Name (meta obj1) = name"
    by (intro exI [of _ "set_meta md obj"]) (simp add: meta_set ObjectKeyFromObject_def)
qed

end

section \<open>The server\<close>

locale driver_server =
    drivers: kube_api "cl_Driver cl" dr_Meta "\<lambda>w. ko_Driver (view w)" dr_Spec +
    config_maps: kube_api "cl_ConfigMap cl" cm_Meta "\<lambda>w. ko_ConfigMap (view w)"
      "\<lambda>cm. (cm_Data cm, om_OwnerReferences (cm_Meta cm))" +
    csi_drivers: kube_api "cl_CSIDriver cl" cd_Meta "\<lambda>w. ko_CSIDriver (view w)"
      "\<lambda>cd. (cd_Spec cd, om_Annotations (cd_Meta cd))" +
    deployments: kube_api "cl_Deployment cl" dp_Meta "\<lambda>w. ko_Deployment (view w)"
      "\<lambda>dp. (dp_Spec dp, om_OwnerReferences (dp_Meta dp))" +
    daemonsets: kube_api "cl_DaemonSet cl" dset_Meta "\<lambda>w. ko_DaemonSet (view w)"
      "\<lambda>ds. (dset_Spec ds, om_OwnerReferences (dset_Meta ds))" +
    services: kube_api "cl_Service cl" sv_Meta "\<lambda>w. ko_Service (view w)"
      "\<lambda>sv. (sv_Spec sv, om_OwnerReferences (sv_Meta sv))" +
    policies: kube_api "cl_NetworkPolicy cl" np_Meta "\<lambda>w. ko_NetworkPolicy (view w)"
      "\<lambda>np. (np_Spec np, om_OwnerReferences (np_Meta np))"
  for cl :: "'w client" and view :: "'w \<Rightarrow> kube_objects" +
  assumes driver_apart: "api_frames (\<lambda>w. (view w)\<lparr>ko_Driver := Map.empty\<rparr>) (cl_Driver cl)"
    and config_map_apart: "api_frames (\<lambda>w. (view w)\<lparr>ko_ConfigMap := Map.empty\<rparr>) (cl_ConfigMap cl)"
    and csi_driver_apart: "api_frames (\<lambda>w. (view w)\<lparr>ko_CSIDriver := Map.empty\<rparr>) (cl_CSIDriver cl)"
    and deployment_apart: "api_frames (\<lambda>w. (view w)\<lparr>ko_Deployment := Map.empty\<rparr>) (cl_Deployment cl)"
    and daemonset_apart: "api_frames (\<lambda>w. (view w)\<lparr>ko_DaemonSet := Map.empty\<rparr>) (cl_DaemonSet cl)"
    and service_apart: "api_frames (\<lambda>w. (view w)\<lparr>ko_Service := Map.empty\<rparr>) (cl_Service cl)"
    and policy_apart: "api_frames (\<lambda>w. (view w)\<lparr>ko_NetworkPolicy := Map.empty\<rparr>) (cl_NetworkPolicy cl)"
    and operator_config_apart: "api_frames view (cl_OperatorConfig cl)"
    and nodes_apart: "api_frames view (cl_Node cl)"
begin

text \<open>What one request or \<open>CreateOrUpdate\<close> of a kind leaves alone.\<close>

lemmas apart =
  config_map_apart csi_driver_apart deployment_apart daemonset_apart service_apart policy_apart

lemma frames_without:
  "frames (\<lambda>w. without (ConfigMap_at (ObjectKeyFromObject (cm_Meta cm))) (view w))
     (CreateOrUpdate cm_Meta (cl_ConfigMap cl) cm (pure_mut cm_mut))"
  "frames (\<lambda>w. without (ConfigMap_at (ObjectKeyFromObject (cm_Meta cm))) (view w)) (call (api_Delete (cl_ConfigMap cl) cm))"
  "frames (\<lambda>w. without (CSIDriver_at (ObjectKeyFromObject (cd_Meta cd))) (view w))
     (CreateOrUpdate cd_Meta (cl_CSIDriver cl) cd (pure_mut cd_mut))"
  "frames (\<lambda>w. without (CSIDriver_at (ObjectKeyFromObject (cd_Meta cd))) (view w)) (call (api_Delete (cl_CSIDriver cl) cd))"
  "frames (\<lambda>w. without (DaemonSet_at (ObjectKeyFromObject (dset_Meta ds))) (view w))
     (CreateOrUpdate dset_Meta (cl_DaemonSet cl) ds (pure_mut ds_mut))"
  "frames (\<lambda>w. without (DaemonSet_at (ObjectKeyFromObject (dset_Meta ds))) (view w)) (call (api_Delete (cl_DaemonSet cl) ds))"
  "frames (\<lambda>w. without (Service_at (ObjectKeyFromObject (sv_Meta sv))) (view w))
     (CreateOrUpdate sv_Meta (cl_Service cl) sv (pure_mut sv_mut))"
  "frames (\<lambda>w. without (Service_at (ObjectKeyFromObject (sv_Meta sv))) (view w)) (call (api_Delete (cl_Service cl) sv))"
  "frames (\<lambda>w. without (NetworkPolicy_at (ObjectKeyFromObject (np_Meta np))) (view w))
     (CreateOrUpdate np_Meta (cl_NetworkPolicy cl) np (pure_mut np_mut))"
  "frames (\<lambda>w. without (NetworkPolicy_at (ObjectKeyFromObject (np_Meta np))) (view w)) (call (api_Delete (cl_NetworkPolicy cl) np))"
  by (rule config_maps.frames_all_but [OF config_map_apart] csi_drivers.frames_all_but [OF csi_driver_apart]
      daemonsets.frames_all_but [OF daemonset_apart] services.frames_all_but [OF service_apart]
      policies.frames_all_but [OF policy_apart]; (rule frames_pure without_eqI; assumption?)+)+

lemma frames_csi_create:
  "frames (\<lambda>w. without (CSIDriver_at (ObjectKeyFromObject (cd_Meta cd))) (view w)) (call (api_Create (cl_CSIDriver cl) cd))"
  by (rule csi_drivers.frames_all_but(3) [OF csi_driver_apart, where f = "\<lambda>_. Ret (Inl NotFound)"])
    (rule frames_Ret without_eqI; assumption?)+

lemma view_apart: "api_frames (\<lambda>w. g (view w)) (cl_Node cl)" "api_frames (\<lambda>w. g (view w)) (cl_OperatorConfig cl)"
  by (rule api_frames_comp [OF nodes_apart] api_frames_comp [OF operator_config_apart])+

lemma frames_deployment_mutation:
  "frames (\<lambda>w. g (view w)) (mutateControllerPluginDeployment cl env r deploy)"
  using api_framesD(2) [OF nodes_apart]
  by (auto simp: mutateControllerPluginDeployment_def getControllerPluginReplicas_def simp del: bind_call
      intro!: frames_bind split: sum.split option.split)

lemma frames_deployment:
  "frames (\<lambda>w. without (Deployment_at (ObjectKeyFromObject (dp_Meta dp))) (view w))
     (CreateOrUpdate dp_Meta (cl_Deployment cl) dp (mutateControllerPluginDeployment cl env r))"
  by (rule deployments.frames_all_but(1) [OF deployment_apart frames_deployment_mutation frames_deployment_mutation])
    (rule without_eqI)

lemma frames_csi_driver:
  "frames (\<lambda>w. without (CSIDriver_at ([], driver_name r)) (view w)) (reconcileK8sCsiDriver cl r)"
proof -
  let ?V = "\<lambda>w. without (CSIDriver_at ([], driver_name r)) (view w)"
  have recreate: "frames ?V (recreateCsiDriver cl cd)" if "ObjectKeyFromObject (cd_Meta cd) = ([], driver_name r)" for cd
  proof -
    have "ObjectKeyFromObject (cd_Meta (fresh_csi_driver cd)) = ([], driver_name r)"
      using that by (simp add: fresh_csi_driver_def ObjectKeyFromObject_def named_meta_def zero_meta_def)
    with frames_without(4) [of cd] frames_csi_create [of "fresh_csi_driver cd"] that show ?thesis
      by (auto simp: recreateCsiDriver_def simp del: bind_call frames_call intro!: frames_bind split: option.split)
  qed
  have key: "ObjectKeyFromObject (cd_Meta (new_csi_driver (driver_name r))) = ([], driver_name r)" by simp
  show ?thesis
    unfolding reconcileK8sCsiDriver_def
  proof (rule frames_bind_yields)
    show "frames ?V (CreateOrUpdate cd_Meta (cl_CSIDriver cl) (new_csi_driver (driver_name r)) (pure_mut (mutateK8sCsiDriver r)))"
      using frames_without(3) [of "new_csi_driver (driver_name r)"] by simp
  next
    fix a assume y: "yields (CreateOrUpdate cd_Meta (cl_CSIDriver cl) (new_csi_driver (driver_name r)) (pure_mut (mutateK8sCsiDriver r))) a"
    show "frames ?V ((\<lambda>(opResult, err, csiDriver). if om_UID (cd_Meta csiDriver) \<noteq> [] \<and>
        (case err of None \<Rightarrow> False | Some e \<Rightarrow> IsInvalid e) then recreateCsiDriver cl csiDriver else Ret err) a)"
      using csi_drivers.error_key [of "new_csi_driver (driver_name r)"] y recreate
      by (cases a) (auto split: option.splits)
  qed
qed

text \<open>Each reconciler writes its own object only.\<close>

lemmas frames_new =
  frames_without(1,2) [of "new_config_map ns name" for ns name, unfolded new_meta key_named_meta]
  frames_without(5,6) [of "new_daemonset ns name" for ns name, unfolded new_meta key_named_meta]
  frames_without(7,8) [of "new_service ns name" for ns name, unfolded new_meta key_named_meta]
  frames_without(9,10) [of "new_network_policy ns name" for ns name, unfolded new_meta key_named_meta]
  frames_deployment [of "new_deployment ns name" for ns name, unfolded new_meta key_named_meta]

lemma reconcilers_frame:
  "list_all2 (\<lambda>s p. frames (\<lambda>w. without s (view w)) p) (driver_slots (driver_namespace r, driver_name r))
     (driver_reconcilers cl env r)"
proof -
  show ?thesis
    unfolding driver_reconcilers_def driver_slots_def Let_def slot_names fst_conv snd_conv list_all2_Cons list_all2_Nil
    by (intro conjI frames_csi_driver;
        (simp add: reconcileCsiConfigMap_def reconcileLogRotateConfigMap_def reconcileControllerPluginDeployment_def
          reconcileControllerPluginNetworkPolicy_def reconcileNodePluginDaemonSet_def reconcileLivenessService_def
          reconcileNodePluginDaemonSetForCsiAddons_def reconcileNodePluginCsiAddonsNetworkPolicy_def Let_def
          frames_bind frames_new split_beta del: without.simps bind_call frames_call split: option.split sum.split)?)
qed

text \<open>From the view of one object to the slot.\<close>

lemma locally_only_ConfigMap:
  "locally (\<lambda>w. ko_ConfigMap (view w) k) (\<lambda>v e. Q (no_objects\<lparr>ko_ConfigMap := Map.empty(k := v)\<rparr>) e) p (ko_ConfigMap ob k) \<Longrightarrow>
     locally (\<lambda>w. only (ConfigMap_at k) (view w)) Q p (only (ConfigMap_at k) ob)"
  unfolding only.simps
  by (rule locally_embed [where h = "\<lambda>v. no_objects\<lparr>ko_ConfigMap := Map.empty(k := v)\<rparr>"])
    (drule arg_cong [where f = "\<lambda>ob. ko_ConfigMap ob k"], simp_all)

lemma locally_only_CSIDriver:
  "locally (\<lambda>w. ko_CSIDriver (view w) k) (\<lambda>v e. Q (no_objects\<lparr>ko_CSIDriver := Map.empty(k := v)\<rparr>) e) p (ko_CSIDriver ob k) \<Longrightarrow>
     locally (\<lambda>w. only (CSIDriver_at k) (view w)) Q p (only (CSIDriver_at k) ob)"
  unfolding only.simps
  by (rule locally_embed [where h = "\<lambda>v. no_objects\<lparr>ko_CSIDriver := Map.empty(k := v)\<rparr>"])
    (drule arg_cong [where f = "\<lambda>ob. ko_CSIDriver ob k"], simp_all)

lemma locally_only_Deployment:
  "locally (\<lambda>w. ko_Deployment (view w) k) (\<lambda>v e. Q (no_objects\<lparr>ko_Deployment := Map.empty(k := v)\<rparr>) e) p (ko_Deployment ob k) \<Longrightarrow>
     locally (\<lambda>w. only (Deployment_at k) (view w)) Q p (only (Deployment_at k) ob)"
  unfolding only.simps
  by (rule locally_embed [where h = "\<lambda>v. no_objects\<lparr>ko_Deployment := Map.empty(k := v)\<rparr>"])
    (drule arg_cong [where f = "\<lambda>ob. ko_Deployment ob k"], simp_all)

lemma locally_only_DaemonSet:
  "locally (\<lambda>w. ko_DaemonSet (view w) k) (\<lambda>v e. Q (no_objects\<lparr>ko_DaemonSet := Map.empty(k := v)\<rparr>) e) p (ko_DaemonSet ob k) \<Longrightarrow>
     locally (\<lambda>w. only (DaemonSet_at k) (view w)) Q p (only (DaemonSet_at k) ob)"
  unfolding only.simps
  by (rule locally_embed [where h = "\<lambda>v. no_objects\<lparr>ko_DaemonSet := Map.empty(k := v)\<rparr>"])
    (drule arg_cong [where f = "\<lambda>ob. ko_DaemonSet ob k"], simp_all)

lemma locally_only_Service:
  "locally (\<lambda>w. ko_Service (view w) k) (\<lambda>v e. Q (no_objects\<lparr>ko_Service := Map.empty(k := v)\<rparr>) e) p (ko_Service ob k) \<Longrightarrow>
     locally (\<lambda>w. only (Service_at k) (view w)) Q p (only (Service_at k) ob)"
  unfolding only.simps
  by (rule locally_embed [where h = "\<lambda>v. no_objects\<lparr>ko_Service := Map.empty(k := v)\<rparr>"])
    (drule arg_cong [where f = "\<lambda>ob. ko_Service ob k"], simp_all)

lemma locally_only_NetworkPolicy:
  "locally (\<lambda>w. ko_NetworkPolicy (view w) k) (\<lambda>v e. Q (no_objects\<lparr>ko_NetworkPolicy := Map.empty(k := v)\<rparr>) e) p (ko_NetworkPolicy ob k) \<Longrightarrow>
     locally (\<lambda>w. only (NetworkPolicy_at k) (view w)) Q p (only (NetworkPolicy_at k) ob)"
  unfolding only.simps
  by (rule locally_embed [where h = "\<lambda>v. no_objects\<lparr>ko_NetworkPolicy := Map.empty(k := v)\<rparr>"])
    (drule arg_cong [where f = "\<lambda>ob. ko_NetworkPolicy ob k"], simp_all)

text \<open>Each reconciler, run on its slot, makes its condition true or returns an error.\<close>

lemma apply_daemonset:
  assumes free: "slot_free (DaemonSet_at (ns, name)) ob"
  shows "locally (\<lambda>w. ko_DaemonSet (view w) (ns, name))
    (\<lambda>v e. e = None \<longrightarrow> (\<exists>ds. v = Some ds \<and> controlled_by r (dset_Meta ds) \<and> dset_Spec ds = spec name))
    (bind_m (CreateOrUpdate dset_Meta (cl_DaemonSet cl) (new_daemonset ns name) (pure_mut (mutateDaemonSet env r spec)))
      (\<lambda>(opResult, err, _). Ret err)) (ko_DaemonSet ob (ns, name))"
proof (rule daemonsets.locally_apply, goal_cases)
  case (1 o1 o2)
  then show ?case unfolding mutateDaemonSet_def by (rule daemonset_object.controlled_meta)
next
  case 3
  show ?case by (rule alive_start [where meta = dset_Meta]) (use free in simp_all)
next
  case (4 o1 sent stored)
  note stored = daemonset_object.controlled_stored [OF 4(2) [unfolded mutateDaemonSet_def] 4(1), of stored]
  from stored 4(3) show ?case by (auto simp: put_daemonset_spec_def)
qed simp

lemma local_node_plugin:
  assumes "slot_free (DaemonSet_at k) ob" and k: "k = (driver_namespace r, generateName r ''nodeplugin'')"
  shows "locally (\<lambda>w. only (DaemonSet_at k) (view w)) (\<lambda>ob' e. e = None \<longrightarrow> node_plugin_ready env r ob')
    (reconcileNodePluginDaemonSet cl env r) (only (DaemonSet_at k) ob)"
  unfolding reconcileNodePluginDaemonSet_def Let_def k
  by (rule locally_only_DaemonSet, rule locally_mono, rule apply_daemonset)
    (use assms in \<open>simp_all add: node_plugin_ready_def stored_as_def\<close>)

lemma local_csi_addons:
  assumes "slot_free (DaemonSet_at k) ob" and k: "k = (driver_namespace r, generateName r ''nodeplugin-csi-addons'')"
  shows "locally (\<lambda>w. only (DaemonSet_at k) (view w)) (\<lambda>ob' e. e = None \<longrightarrow> csi_addons_ready env r ob')
    (reconcileNodePluginDaemonSetForCsiAddons cl env r) (only (DaemonSet_at k) ob)"
proof (cases "withCsiAddonsVolumeCondition r")
  case (Inl err)
  then show ?thesis by (simp add: reconcileNodePluginDaemonSetForCsiAddons_def Let_def)
next
  case (Inr condition)
  show ?thesis
  proof (cases "withCsiAddonsDaemonSet r")
    case True
    show ?thesis
      unfolding reconcileNodePluginDaemonSetForCsiAddons_def Let_def k Inr sum.case
      by (simp only: True not_True_eq_False if_False, rule locally_only_DaemonSet, rule locally_mono, rule apply_daemonset)
        (use assms True Inr in \<open>simp_all add: csi_addons_ready_def stored_as_def\<close>)
  next
    case False
    show ?thesis
      unfolding reconcileNodePluginDaemonSetForCsiAddons_def Let_def k Inr sum.case
      by (simp only: False not_False_eq_True if_True, rule locally_only_DaemonSet, rule locally_mono,
          rule daemonsets.locally_remove)
        (use assms False Inr in \<open>auto simp: csi_addons_ready_def no_objects_def unheld_def\<close>)
  qed
qed

lemma apply_policy:
  assumes free: "slot_free (NetworkPolicy_at (ns, name)) ob"
  shows "locally (\<lambda>w. ko_NetworkPolicy (view w) (ns, name))
    (\<lambda>v e. e = None \<longrightarrow> (\<exists>np. v = Some np \<and> controlled_by r (np_Meta np) \<and> np_Spec np = policy_spec ingress name))
    (bind_m (CreateOrUpdate np_Meta (cl_NetworkPolicy cl) (new_network_policy ns name)
        (pure_mut (mutateNetworkPolicy env r ingress)))
      (\<lambda>(opResult, err, _). Ret err)) (ko_NetworkPolicy ob (ns, name))"
proof (rule policies.locally_apply, goal_cases)
  case (1 o1 o2)
  then show ?case unfolding mutateNetworkPolicy_def by (rule policy_object.controlled_meta)
next
  case 3
  show ?case by (rule alive_start [where meta = np_Meta]) (use free in simp_all)
next
  case (4 o1 sent stored)
  note stored = policy_object.controlled_stored [OF 4(2) [unfolded mutateNetworkPolicy_def] 4(1), of stored]
  from stored 4(3) show ?case by (auto simp: put_policy_spec_def)
qed simp

lemma local_controller_policy:
  assumes "slot_free (NetworkPolicy_at k) ob" and k: "k = (driver_namespace r, generateName r ''ctrlplugin'')"
  shows "locally (\<lambda>w. only (NetworkPolicy_at k) (view w)) (\<lambda>ob' e. e = None \<longrightarrow> controller_policy_ready r ob')
    (reconcileControllerPluginNetworkPolicy cl env r) (only (NetworkPolicy_at k) ob)"
proof (cases "ctrl_hostNetwork r")
  case False
  show ?thesis
    unfolding reconcileControllerPluginNetworkPolicy_def Let_def k
    by (simp only: False if_False, rule locally_only_NetworkPolicy, rule locally_mono, rule apply_policy)
      (use assms False in \<open>simp_all add: controller_policy_ready_def stored_as_def\<close>)
next
  case True
  show ?thesis
    unfolding reconcileControllerPluginNetworkPolicy_def Let_def k
    by (simp only: True if_True, rule locally_only_NetworkPolicy, rule locally_mono, rule policies.locally_remove)
      (use assms True in \<open>auto simp: controller_policy_ready_def no_objects_def unheld_def\<close>)
qed

lemma local_addons_policy:
  assumes "slot_free (NetworkPolicy_at k) ob" and k: "k = (driver_namespace r, generateName r ''nodeplugin-csi-addons'')"
  shows "locally (\<lambda>w. only (NetworkPolicy_at k) (view w)) (\<lambda>ob' e. e = None \<longrightarrow> csi_addons_policy_ready r ob')
    (reconcileNodePluginCsiAddonsNetworkPolicy cl env r) (only (NetworkPolicy_at k) ob)"
proof (cases "isNfsDriver r")
  case True
  then show ?thesis by (simp add: reconcileNodePluginCsiAddonsNetworkPolicy_def csi_addons_policy_ready_def)
next
  case nfs: False
  show ?thesis
  proof (cases "deployCsiAddons r")
    case True
    show ?thesis
      unfolding reconcileNodePluginCsiAddonsNetworkPolicy_def Let_def k
      by (simp only: nfs True not_True_eq_False if_False, rule locally_only_NetworkPolicy, rule locally_mono, rule apply_policy)
        (use assms nfs True in \<open>simp_all add: csi_addons_policy_ready_def stored_as_def\<close>)
  next
    case False
    show ?thesis
      unfolding reconcileNodePluginCsiAddonsNetworkPolicy_def Let_def k
      by (simp only: nfs False not_False_eq_True if_True if_False, rule locally_only_NetworkPolicy, rule locally_mono,
          rule policies.locally_remove)
        (use assms nfs False in \<open>auto simp: csi_addons_policy_ready_def no_objects_def unheld_def\<close>)
  qed
qed

lemma local_liveness:
  assumes free: "slot_free (Service_at k) ob" and k: "k = (driver_namespace r, generateServiceName r ''liveness'')"
  shows "locally (\<lambda>w. only (Service_at k) (view w)) (\<lambda>ob' e. e = None \<longrightarrow> liveness_ready r ob')
    (reconcileLivenessService cl env r) (only (Service_at k) ob)"
proof (cases "d_Liveness (spec_of r)")
  case None
  show ?thesis
    unfolding reconcileLivenessService_def Let_def k None option.case
    by (rule locally_only_Service, rule locally_mono, rule services.locally_remove)
      (use assms None in \<open>auto simp: liveness_ready_def no_objects_def unheld_def\<close>)
next
  case (Some liveness)
  let ?R = "\<lambda>sv. controlled_by r (sv_Meta sv) \<and> sv_Spec sv = liveness_service_spec liveness"
  show ?thesis
    unfolding reconcileLivenessService_def Let_def k Some option.case
  proof (rule locally_only_Service, rule locally_mono, rule services.locally_apply [where R = ?R], goal_cases)
    case (1 o1 o2)
    then show ?case unfolding mutateLivenessService_def by (rule service_object.controlled_meta)
  next
    case 3
    show ?case by (rule alive_start [where meta = sv_Meta]) (use free k in simp_all)
  next
    case (4 o1 sent stored)
    note stored = service_object.controlled_stored [OF 4(2) [unfolded mutateLivenessService_def] 4(1), of stored]
    from stored 4(3) show ?case by auto
  next
    case 5
    then show ?case using Some by (simp add: liveness_ready_def stored_as_def)
  qed simp
qed

lemma local_csi_config_map:
  assumes free: "slot_free (ConfigMap_at k) ob" and k: "k = (driver_namespace r, vol_Name CsiConfigVolume)"
  shows "locally (\<lambda>w. only (ConfigMap_at k) (view w)) (\<lambda>ob' e. e = None \<longrightarrow> csi_config_map_ready r ob')
    (reconcileCsiConfigMap cl env r) (only (ConfigMap_at k) ob)"
  unfolding reconcileCsiConfigMap_def k
proof (rule locally_only_ConfigMap, rule locally_mono,
    rule config_maps.locally_apply [where R = "\<lambda>cm. IsOwnedBy (cm_Meta cm) (dr_Meta (r_driver r))"], goal_cases)
  case (1 o1 o2)
  then show ?case by (auto simp: mutateCsiConfigMap_def dest: toggle_frame split: sum.splits)
next
  case 3
  show ?case by (rule alive_start [where meta = cm_Meta]) (use free k in simp_all)
next
  case (4 o1 sent stored)
  then have "IsOwnedBy (cm_Meta sent) (dr_Meta (r_driver r))"
    by (auto simp: mutateCsiConfigMap_def dest: toggle_on_idem(1) split: sum.splits)
  with 4(3) IsOwnedBy_cong [of "cm_Meta stored" "cm_Meta sent"] show ?case by simp
next
  case 5
  then show ?case by (simp add: csi_config_map_ready_def stored_as_def)
qed simp

lemma local_log_rotation:
  assumes free: "slot_free (ConfigMap_at k) ob" and k: "k = (driver_namespace r, LogRotateConfigMapName (driver_name r))"
  shows "locally (\<lambda>w. only (ConfigMap_at k) (view w)) (\<lambda>ob' e. e = None \<longrightarrow> log_rotation_ready r ob')
    (reconcileLogRotateConfigMap cl env r) (only (ConfigMap_at k) ob)"
proof (cases "logRotationSpec r")
  case None
  show ?thesis
    unfolding reconcileLogRotateConfigMap_def Let_def k None option.case
    by (rule locally_only_ConfigMap, rule locally_mono, rule config_maps.locally_remove)
      (use assms None in \<open>auto simp: log_rotation_ready_def no_objects_def unheld_def\<close>)
next
  case (Some rotation)
  let ?R = "\<lambda>cm. cm_Data cm = fmap_of_list [(''csi'', logRotateFile rotation)] \<and> IsOwnedBy (cm_Meta cm) (dr_Meta (r_driver r))"
  show ?thesis
    unfolding reconcileLogRotateConfigMap_def Let_def k Some option.case
  proof (rule locally_only_ConfigMap, rule locally_mono, rule config_maps.locally_apply [where R = ?R], goal_cases)
    case (1 o1 o2)
    then show ?case by (rule mutateLogRotate_InrD) (simp add: toggle_frame)
  next
    case 3
    show ?case by (rule alive_start [where meta = cm_Meta]) (use free k in simp_all)
  next
    case (4 o1 sent stored)
    from 4(2) have "IsOwnedBy (cm_Meta sent) (dr_Meta (r_driver r)) \<and> cm_Data sent = fmap_of_list [(''csi'', logRotateFile rotation)]"
      by (rule mutateLogRotate_InrD) (simp add: toggle_on_idem(1))
    with 4(3) IsOwnedBy_cong [of "cm_Meta stored" "cm_Meta sent"] show ?case by simp
  next
    case 5
    then show ?case using Some by (simp add: log_rotation_ready_def stored_as_def)
  qed simp
qed

text \<open>What the mutation of the deployment returns.\<close>

lemma local_deployment_mutation:
  "locally (\<lambda>w. ko_Deployment (view w) k)
     (\<lambda>v' res. v' = v \<and> ((\<exists>e. res = Inl e) \<or> (\<exists>n. may_replicate r n \<and> deployment_mutation env r n o1 = res)))
     (mutateControllerPluginDeployment cl env r o1) v"
proof (cases "SetControllerReference T_Driver (dr_Meta (r_driver r)) (dp_Meta o1) (e_scheme env)")
  case (Inr md)
  have replicas: "locally (\<lambda>w. ko_Deployment (view w) k) (\<lambda>v' n. v' = v \<and> may_replicate r n)
      (getControllerPluginReplicas cl (ct_Replicas (ctrl_spec r))) v"
    using api_framesD(2) [OF nodes_apart]
    by (auto simp: getControllerPluginReplicas_def may_replicate_def locally_call defaultControllerPluginReplicas_def Let_def
        simp del: bind_call intro!: locally_bind [where R = "\<lambda>v' _. v' = v"] split: option.split sum.split)
  show ?thesis
    unfolding mutateControllerPluginDeployment_def Inr sum.case
  proof (rule locally_bind [OF replicas], goal_cases)
    case (1 v' n)
    with Inr SetControllerReference_name [OF Inr] show ?case
      by (auto simp: controlled_def put_deployment_spec_def intro!: exI [of _ n])
  qed
qed (simp add: mutateControllerPluginDeployment_def)

lemma local_controller:
  assumes free: "slot_free (Deployment_at k) ob" and k: "k = (driver_namespace r, generateName r ''ctrlplugin'')"
  shows "locally (\<lambda>w. only (Deployment_at k) (view w)) (\<lambda>ob' e. e = None \<longrightarrow> controller_ready env r ob')
    (reconcileControllerPluginDeployment cl env r) (only (Deployment_at k) ob)"
proof -
  let ?P = "\<lambda>o1 res. (\<exists>e. res = Inl e) \<or> (\<exists>n. may_replicate r n \<and> deployment_mutation env r n o1 = res)"
  show ?thesis
    unfolding reconcileControllerPluginDeployment_def Let_def k
  proof (rule locally_only_Deployment, rule locally_bind,
      rule deployments.locally_CreateOrUpdate [where P = ?P], goal_cases)
    case (1 o1)
    show ?case by (rule local_deployment_mutation)
  next
    case (2 o1 o2)
    then show ?case using deployment_object.controlled_meta by blast
  next
    case 4
    show ?case by (rule alive_start [where meta = dp_Meta]) (use free k in simp_all)
  next
    case (5 v' a)
    show ?case
    proof (cases "fst (snd a)")
      case None
      with 5 obtain sent n dp where n: "may_replicate r n" and m: "deployment_mutation env r n (start_of (ko_Deployment ob k)
            (new_deployment (driver_namespace r) (generateName r ''ctrlplugin''))) = Inr sent"
        and key: "ObjectKeyFromObject (dp_Meta (start_of (ko_Deployment ob k)
            (new_deployment (driver_namespace r) (generateName r ''ctrlplugin'')))) = k"
        and dp: "v' = Some dp" "dp_Spec dp = dp_Spec sent" "om_OwnerReferences (dp_Meta dp) = om_OwnerReferences (dp_Meta sent)"
        by (auto simp: k split_beta)
      note stored = deployment_object.controlled_stored [OF m [unfolded k] key [unfolded k] dp(3)]
      from stored(2) dp(2) have "dp_Spec dp = ctrl_deployment_spec env r n (generateName r ''ctrlplugin'')"
        by (auto simp: put_deployment_spec_def)
      with stored(1) dp(1) n None show ?thesis by (auto simp: controller_ready_def stored_as_def split_beta)
    qed (simp add: split_beta)
  qed simp
qed

lemma sent_ready:
  assumes "mutateK8sCsiDriver r o1 = Inr sent"
    and "cd_Spec stored = cd_Spec sent" "om_Annotations (cd_Meta stored) = om_Annotations (cd_Meta sent)"
  shows "csi_driver_ready r (no_objects\<lparr>ko_CSIDriver := Map.empty(([], driver_name r) \<mapsto> stored)\<rparr>)"
  using assms AddAnnotation_lookup
  by (auto simp: csi_driver_ready_def stored_as_def mutateK8sCsiDriver_def driver_name_def driver_namespace_def
      ObjectKeyFromObject_def)

lemma local_csi_driver:
  assumes free: "slot_free (CSIDriver_at k) ob" and k: "k = ([], driver_name r)"
  shows "locally (\<lambda>w. only (CSIDriver_at k) (view w)) (\<lambda>ob' e. e = None \<longrightarrow> csi_driver_ready r ob')
    (reconcileK8sCsiDriver cl r) (only (CSIDriver_at k) ob)"
  unfolding reconcileK8sCsiDriver_def k
proof (rule locally_only_CSIDriver, rule locally_bind,
    rule csi_drivers.locally_CreateOrUpdate [where P = "\<lambda>o1 res. mutateK8sCsiDriver r o1 = res"], goal_cases)
  case (1 o1)
  show ?case by (simp add: pure_mut_def)
next
  case (2 o1 o2)
  then show ?case
    by (auto simp: mutateK8sCsiDriver_def AddAnnotation_def ObjectKeyFromObject_def split: option.splits)
next
  case 4
  show ?case by (rule alive_start [where meta = cd_Meta]) (use free k in simp_all)
next
  case (5 v' a)
  obtain res err cd where a: "a = (res, err, cd)" by (cases a) auto
  let ?start = "start_of (ko_CSIDriver ob ([], driver_name r)) (new_csi_driver (driver_name r))"
  show ?case
  proof (cases err)
    case None
    with 5 a sent_ready show ?thesis by auto
  next
    case (Some e)
    show ?thesis
    proof (cases "om_UID (cd_Meta cd) \<noteq> [] \<and> IsInvalid e")
      case False
      with Some a show ?thesis by auto
    next
      case True
      then have "cd \<noteq> new_csi_driver (driver_name r)" by (auto simp: named_meta_def zero_meta_def)
      moreover have "mutateK8sCsiDriver r ?start \<noteq> Inl e" by (simp add: mutateK8sCsiDriver_def)
      ultimately have v: "v' = ko_CSIDriver ob ([], driver_name r)" "ObjectKeyFromObject (cd_Meta ?start) = ([], driver_name r)"
        and m: "mutateK8sCsiDriver r ?start = Inr cd"
        using 5 a Some by auto
      have key: "ObjectKeyFromObject (cd_Meta cd) = ([], driver_name r)"
        using k8s_csi_driver.mut_key [OF m] v(2) by simp
      then have fresh: "ObjectKeyFromObject (cd_Meta (fresh_csi_driver cd)) = ([], driver_name r)"
        by (simp add: fresh_csi_driver_def ObjectKeyFromObject_def named_meta_def zero_meta_def)
      have "locally (\<lambda>w. ko_CSIDriver (view w) ([], driver_name r))
          (\<lambda>v e. e = None \<longrightarrow> csi_driver_ready r (no_objects\<lparr>ko_CSIDriver := Map.empty(([], driver_name r) := v)\<rparr>))
          (recreateCsiDriver cl cd) v'"
        unfolding recreateCsiDriver_def
      proof (rule locally_bind [OF csi_drivers.locally_delete [OF key]], goal_cases)
        case (1 stored)
        then show ?case using free v(1) k by (simp add: unheld_def)
      next
        case (2 v2 d)
        show ?case
        proof (cases d)
          case None
          then show ?thesis
            unfolding None option.case
            by (intro locally_bind [OF csi_drivers.locally_create [OF fresh]])
              (auto simp: fresh_csi_driver_def split: sum.splits intro!: sent_ready [OF m])
        qed simp
      qed
      with a Some True show ?thesis by simp
    qed
  qed
qed simp

lemmas local_steps =
  local_csi_config_map [OF _ refl] local_log_rotation [OF _ refl] local_csi_driver [OF _ refl]
  local_controller [OF _ refl] local_controller_policy [OF _ refl] local_node_plugin [OF _ refl]
  local_liveness [OF _ refl] local_csi_addons [OF _ refl] local_addons_policy [OF _ refl]

lemma reconcilers_local:
  "list_all2 (\<lambda>s (P, p). slot_free s ob \<longrightarrow>
       locally (\<lambda>w. only s (view w)) (\<lambda>ob' e. e = None \<longrightarrow> P ob') p (only s ob))
     (driver_slots (driver_namespace r, driver_name r)) (zip (ready_conditions env r) (driver_reconcilers cl env r))"
  unfolding driver_reconcilers_def driver_slots_def ready_conditions_def Let_def slot_names fst_conv snd_conv
    zip_Cons_Cons zip_Nil list_all2_Cons list_all2_Nil prod.case
  by (intro conjI impI refl; erule local_steps)

text \<open>All nine together, under every schedule.\<close>

lemma concurrent_ready:
  assumes reach: "reachable (driver_reconcilers cl env r) w s"
    and ended: "gos s = map Exited results" "set results \<subseteq> {None}"
    and free: "\<forall>sl \<in> set (driver_slots (driver_namespace r, driver_name r)). slot_free sl (view w)"
  shows "driver_ready env r (view (world s))"
proof -
  let ?k = "(driver_namespace r, driver_name r)"
  let ?slots = "driver_slots ?k" and ?recs = "driver_reconcilers cl env r" and ?conds = "ready_conditions env r"
  have len: "length ?slots = 9" "length ?recs = 9" "length ?conds = 9"
    by (simp_all add: driver_slots_def driver_reconcilers_def ready_conditions_def Let_def)
  have "(?conds ! i) (view (world s))" if i: "i < 9" for i
  proof -
    let ?V = "\<lambda>w. only (?slots ! i) (view w)"
    have own: "locally ?V (\<lambda>ob' e. e = None \<longrightarrow> (?conds ! i) ob') (?recs ! i) (?V w)"
      using list_all2_nthD [OF reconcilers_local [of "view w" r env], of i] i len free by (auto split: prod.splits)
    have others: "frames ?V (?recs ! j)" if "j < length ?recs" "j \<noteq> i" for j
    proof -
      have "frames (\<lambda>w. without (?slots ! j) (view w)) (?recs ! j)"
        using list_all2_nthD [OF reconcilers_frame [of r env], of j] that len by simp
      then have "frames (\<lambda>w. only (?slots ! i) (without (?slots ! j) (view w))) (?recs ! j)" by (rule frames_comp)
      moreover have "?slots ! i \<noteq> ?slots ! j"
        using distinct_driver_slots [of ?k] i that len by (simp add: nth_eq_iff_index_eq)
      ultimately show ?thesis by (simp add: only_without)
    qed
    have "results ! i = None"
      using length_gos_steps [OF reach [unfolded reachable_def]] ended i len
      by (auto simp: RunConcurrently_def subset_iff)
    with concurrent_local [where V = ?V, OF _ own others reach ended(1)] i len
    have "(?conds ! i) (only (?slots ! i) (view (world s)))" by simp
    then show ?thesis
      using list_all2_nthD [OF ready_conditions_local [of r env], of i] i len by simp
  qed
  then show ?thesis by (simp add: driver_ready_def list_all_length len)
qed

text \<open>Loading only reads, and it loads the driver of the request.\<close>

lemma frames_reads: "frames view (call (api_Get (cl_Driver cl) k))" "frames view (call (api_Get (cl_ConfigMap cl) k))"
  "frames view (call (api_Get (cl_CSIDriver cl) k))" "frames view (call (api_Get (cl_OperatorConfig cl) k))"
proof -
  have eq: "ob = ob'" if "ob\<lparr>ko_Driver := m\<rparr> = ob'\<lparr>ko_Driver := m\<rparr>" "ko_Driver ob = ko_Driver ob'" for ob ob' :: kube_objects and m
    using that by (cases ob; cases ob') simp
  have "view (snd (api_Get (cl_Driver cl) k w)) = view w" for w
    using api_framesD(1) [OF driver_apart] drivers.get_frame [of k w] eq by (metis prod.collapse)
  then show "frames view (call (api_Get (cl_Driver cl) k))" by simp
  have eq: "ob = ob'" if "ob\<lparr>ko_ConfigMap := m\<rparr> = ob'\<lparr>ko_ConfigMap := m\<rparr>" "ko_ConfigMap ob = ko_ConfigMap ob'" for ob ob' :: kube_objects and m
    using that by (cases ob; cases ob') simp
  have "view (snd (api_Get (cl_ConfigMap cl) k w)) = view w" for w
    using api_framesD(1) [OF config_map_apart] config_maps.get_frame [of k w] eq by (metis prod.collapse)
  then show "frames view (call (api_Get (cl_ConfigMap cl) k))" by simp
  have eq: "ob = ob'" if "ob\<lparr>ko_CSIDriver := m\<rparr> = ob'\<lparr>ko_CSIDriver := m\<rparr>" "ko_CSIDriver ob = ko_CSIDriver ob'" for ob ob' :: kube_objects and m
    using that by (cases ob; cases ob') simp
  have "view (snd (api_Get (cl_CSIDriver cl) k w)) = view w" for w
    using api_framesD(1) [OF csi_driver_apart] csi_drivers.get_frame [of k w] eq by (metis prod.collapse)
  then show "frames view (call (api_Get (cl_CSIDriver cl) k))" by simp
  show "frames view (call (api_Get (cl_OperatorConfig cl) k))" using api_framesD(1) [OF operator_config_apart] by simp
qed

lemma frames_load: "frames view (LoadAndValidateDesiredState cl env r)"
proof -
  have set: "frames view (load_image_set cl spec ns r1)" for spec ns r1
    by (auto simp: load_image_set_def simp del: bind_call frames_call intro!: frames_bind frames_reads split: option.split sum.split)
  have "frames view (load_driver cl env opConfig r1)" for opConfig r1
    by (auto simp: load_driver_def apply_operator_defaults_def Let_def set simp del: bind_call frames_call
        intro!: frames_bind frames_reads split: option.split sum.split prod.split)
  then show ?thesis
    by (auto simp: LoadAndValidateDesiredState_def get_claim_def get_operator_config_def Let_def simp del: bind_call frames_call
        intro!: frames_bind frames_reads split: option.split sum.split)
qed

lemma load_key:
  assumes "run_m (LoadAndValidateDesiredState cl env (new_driverReconcile req)) w = ((None, r), w')"
  shows "(driver_namespace r, driver_name r) = req"
proof -
  from assms obtain opConfig w2 t where "run_m (load_driver cl env opConfig (new_driverReconcile req\<lparr>r_driverType := t\<rparr>)) w2 = ((None, r), w')"
    by (rule LoadAndValidateE)
  then obtain stored w1 where
    get: "api_Get (cl_Driver cl) (ObjectKeyFromObject (dr_Meta (r_driver (new_driverReconcile req)))) w2 = (Inr stored, w1)"
    and r: "dr_Meta (r_driver r) = dr_Meta stored"
    by (rule load_driverE) simp
  from drivers.get_found [OF get] r show ?thesis
    by (auto simp: new_driverReconcile_def driver_name_def driver_namespace_def ObjectKeyFromObject_def prod_eq_iff)
qed

end

end
