(* ===== verification/Driver_Ready.thy ===== *)
theory Driver_Ready
  imports Driver_Reconcile
begin

text \<open>
  The properties of a driver's reconciliation as a whole, and the in-memory cluster as a server that
  keeps the contract they rest on.

  On that cluster, when no request fails and none of the driver's objects exists yet, the first
  reconciliation succeeds under every schedule; its run is the concrete input the witnesses use.
\<close>

section \<open>The in-memory cluster is such a server\<close>

definition mem_objects :: "cluster \<Rightarrow> kube_objects" where
  "mem_objects w = \<lparr>ko_Driver = (\<lambda>k. mem_find dr_Meta k (mc_Driver w)),
     ko_ConfigMap = (\<lambda>k. mem_find cm_Meta k (mc_ConfigMap w)),
     ko_CSIDriver = (\<lambda>k. mem_find cd_Meta k (mc_CSIDriver w)),
     ko_Deployment = (\<lambda>k. mem_find dp_Meta k (mc_Deployment w)),
     ko_DaemonSet = (\<lambda>k. mem_find dset_Meta k (mc_DaemonSet w)),
     ko_Service = (\<lambda>k. mem_find sv_Meta k (mc_Service w)),
     ko_NetworkPolicy = (\<lambda>k. mem_find np_Meta k (mc_NetworkPolicy w))\<rparr>"

lemma api_frames_mem:
  assumes "\<And>s w. V (pt s w) = V w"
  shows "api_frames V (mem_api gt pt meta set_meta put_status idx)"
  unfolding api_frames_def
  by (auto simp: mem_api_def mem_request_def assms Let_def split: list.split option.split prod.split)

interpretation cluster_server: driver_server mem_client mem_objects
proof (intro driver_server.intro driver_server_axioms.intro, goal_cases)
  case 1
  then show ?case using Driver_store.kube_api_axioms by (simp add: mem_objects_def)
next
  case 2
  then show ?case using ConfigMap_store.kube_api_axioms by (simp add: mem_objects_def)
next
  case 3
  then show ?case using CSIDriver_store.kube_api_axioms by (simp add: mem_objects_def)
next
  case 4
  then show ?case using Deployment_store.kube_api_axioms by (simp add: mem_objects_def)
next
  case 5
  then show ?case using DaemonSet_store.kube_api_axioms by (simp add: mem_objects_def)
next
  case 6
  then show ?case using Service_store.kube_api_axioms by (simp add: mem_objects_def)
next
  case 7
  then show ?case using NetworkPolicy_store.kube_api_axioms by (simp add: mem_objects_def)
qed (simp_all add: mem_objects_def api_frames_mem)

section \<open>A first reconciliation succeeds\<close>

context mem_store
begin

text \<open>
  Locally: \<open>V\<close> reads enough of the world to know that no request of the store is scripted to fail and that
  the object is absent.
\<close>

lemma local_create:
  assumes v: "\<And>w. V w = v \<Longrightarrow> mem_faults (gt w) = [] \<and> mem_find meta (ObjectKeyFromObject (meta obj)) (gt w) = None \<and> pt (gt w) w = w"
    and f: "locally V (\<lambda>v' r. v' = v \<and> (\<exists>sent. r = Inr sent \<and> ObjectKeyFromObject (meta sent) = ObjectKeyFromObject (meta obj))) (f obj) v"
  shows "locally V (\<lambda>_ a. fst (snd a) = None) (CreateOrUpdate meta (mem_api gt pt meta set_meta put_status idx) obj f) v"
    (is "locally V _ (CreateOrUpdate meta ?api obj f) v")
proof -
  let ?k = "ObjectKeyFromObject (meta obj)"
  have get: "locally V (\<lambda>v' r. v' = v \<and> r = Inl NotFound) (call (api_Get ?api ?k)) v"
    unfolding locally_call using v by (auto simp: mem_api_def mem_request_def)
  have mut: "locally V (\<lambda>v' r. v' = v \<and> (\<exists>sent. r = Inr sent \<and> ObjectKeyFromObject (meta sent) = ?k)) (mutate meta f ?k obj) v"
    unfolding mutate_def by (rule locally_bind [OF f]) auto
  have create: "locally V (\<lambda>_ r. \<exists>obj'. r = Inr obj') (call (api_Create ?api sent)) v"
    if "ObjectKeyFromObject (meta sent) = ?k" for sent
    unfolding locally_call using v that by (auto simp: mem_api_def mem_request_def Let_def)
  show ?thesis
    unfolding CreateOrUpdate_def Let_def
  proof (rule locally_bind [OF get], goal_cases)
    case (1 v' r)
    then have eqs: "r = Inl NotFound" "v' = v" by simp_all
    show ?case
      unfolding eqs
      by (auto simp: IsNotFound_def simp del: bind_call intro!: locally_bind [OF mut] locally_bind [OF create])
  qed
qed

lemma local_apply:
  assumes "\<And>w. V w = v \<Longrightarrow> mem_faults (gt w) = [] \<and> mem_find meta (ObjectKeyFromObject (meta obj)) (gt w) = None \<and> pt (gt w) w = w"
    and "locally V (\<lambda>v' r. v' = v \<and> (\<exists>sent. r = Inr sent \<and> ObjectKeyFromObject (meta sent) = ObjectKeyFromObject (meta obj))) (f obj) v"
  shows "locally V (\<lambda>_ e. e = None) (bind_m (CreateOrUpdate meta (mem_api gt pt meta set_meta put_status idx) obj f)
       (\<lambda>(opResult, err, _). Ret err)) v"
  by (rule locally_bind, rule local_create) (use assms in \<open>auto split: prod.split\<close>)

lemma local_create_pure:
  assumes v: "\<And>w. V w = v \<Longrightarrow> mem_faults (gt w) = [] \<and> mem_find meta (ObjectKeyFromObject (meta obj)) (gt w) = None \<and> pt (gt w) w = w"
    and mut: "mut obj = Inr sent" "ObjectKeyFromObject (meta sent) = ObjectKeyFromObject (meta obj)"
  shows "locally V (\<lambda>_ a. fst (snd a) = None) (CreateOrUpdate meta (mem_api gt pt meta set_meta put_status idx) obj (pure_mut mut)) v"
  by (rule local_create) (use assms in \<open>auto simp: pure_mut_def\<close>)

lemma local_apply_pure:
  assumes v: "\<And>w. V w = v \<Longrightarrow> mem_faults (gt w) = [] \<and> mem_find meta (ObjectKeyFromObject (meta obj)) (gt w) = None \<and> pt (gt w) w = w"
    and mut: "mut obj = Inr sent" "ObjectKeyFromObject (meta sent) = ObjectKeyFromObject (meta obj)"
  shows "locally V (\<lambda>_ e. e = None) (bind_m (CreateOrUpdate meta (mem_api gt pt meta set_meta put_status idx) obj (pure_mut mut))
       (\<lambda>(opResult, err, _). Ret err)) v"
  by (rule local_apply) (use assms in \<open>auto simp: pure_mut_def\<close>)

lemma local_delete_absent:
  assumes "\<And>w. V w = v \<Longrightarrow> mem_faults (gt w) = [] \<and> mem_find meta (ObjectKeyFromObject (meta obj)) (gt w) = None"
  shows "locally V (\<lambda>_ e. e = None) (bind_m (call (api_Delete (mem_api gt pt meta set_meta put_status idx) obj))
       (\<lambda>err. Ret (IgnoreNotFound err))) v"
  using assms by (auto simp: mem_api_def mem_request_def IgnoreNotFound_def IsNotFound_def)

text \<open>A store without scripted failures stays one.\<close>

lemma faultless:
  assumes "\<And>w s. I w \<Longrightarrow> mem_faults s = [] \<Longrightarrow> I (pt s w)" and "\<And>w. I w \<Longrightarrow> mem_faults (gt w) = []"
  shows "api_keeps I (mem_api gt pt meta set_meta put_status idx)"
  using assms by (auto simp: api_keeps_def mem_api_def mem_request_def Let_def mem_put_def mem_drop_def
      split: option.split prod.split)

end

definition quiet :: "cluster \<Rightarrow> bool" where
  "quiet w \<longleftrightarrow> mem_faults (mc_ConfigMap w) = [] \<and> mem_faults (mc_CSIDriver w) = [] \<and> mem_faults (mc_Deployment w) = [] \<and>
     mem_faults (mc_DaemonSet w) = [] \<and> mem_faults (mc_Service w) = [] \<and> mem_faults (mc_NetworkPolicy w) = [] \<and>
     mem_faults (mc_Node w) = []"

text \<open>The step of a slot succeeds when the slot is empty, whatever the other steps have done.\<close>

definition slot_view :: "slot \<Rightarrow> cluster \<Rightarrow> bool \<times> kube_objects" where
  "slot_view s w = (quiet w, only s (mem_objects w))"

definition succeeds :: "slot \<Rightarrow> (cluster, error) m \<Rightarrow> bool" where
  "succeeds s p \<longleftrightarrow> locally (slot_view s) (\<lambda>_ e. e = None) p (True, no_objects)"

text \<open>What a driver must state for its objects to be acceptable.\<close>

definition acceptable :: "driver_env \<Rightarrow> driverReconcile \<Rightarrow> bool" where
  "acceptable env r \<longleftrightarrow> T_Driver \<in> set (e_scheme env) \<and>
     pred_option (\<lambda>rotation. lr_Periodicity rotation = [] \<or> \<not> q_IsZero (lr_MaxLogSize rotation)) (logRotationSpec r) \<and>
     (\<exists>condition. withCsiAddonsVolumeCondition r = Inr condition)"

lemma mem_put_faults [simp]: "mem_faults (mem_put meta obj s) = mem_faults s"
  by (simp add: mem_put_def)

lemma empty_slot:
  "only (ConfigMap_at k) (mem_objects w) = no_objects \<Longrightarrow> mem_find cm_Meta k (mc_ConfigMap w) = None"
  "only (CSIDriver_at k) (mem_objects w) = no_objects \<Longrightarrow> mem_find cd_Meta k (mc_CSIDriver w) = None"
  "only (Deployment_at k) (mem_objects w) = no_objects \<Longrightarrow> mem_find dp_Meta k (mc_Deployment w) = None"
  "only (DaemonSet_at k) (mem_objects w) = no_objects \<Longrightarrow> mem_find dset_Meta k (mc_DaemonSet w) = None"
  "only (Service_at k) (mem_objects w) = no_objects \<Longrightarrow> mem_find sv_Meta k (mc_Service w) = None"
  "only (NetworkPolicy_at k) (mem_objects w) = no_objects \<Longrightarrow> mem_find np_Meta k (mc_NetworkPolicy w) = None"
  unfolding only.simps
  by (drule arg_cong [where f = "\<lambda>ob. (ko_ConfigMap ob k, ko_CSIDriver ob k, ko_Deployment ob k, ko_DaemonSet ob k,
        ko_Service ob k, ko_NetworkPolicy ob k)"], simp add: mem_objects_def no_objects_def)+

lemma new_controlled:
  assumes "T_Driver \<in> set scheme"
  shows "SetControllerReference T_Driver (dr_Meta (r_driver r)) (named_meta (driver_namespace r) name) scheme =
      Inr (upsertOwnerRef (ref_for T_Driver (dr_Meta (r_driver r)) (Some True)) (named_meta (driver_namespace r) name))"
    and "SetOwnerReference T_Driver (dr_Meta (r_driver r)) (named_meta (driver_namespace r) name) scheme =
      Inr (upsertOwnerRef (ref_for T_Driver (dr_Meta (r_driver r)) None) (named_meta (driver_namespace r) name))"
  using assms
  by (simp_all add: SetControllerReference_eq SetOwnerReference_eq validateOwner_def GetControllerOf_def driver_namespace_def
      named_meta_def zero_meta_def)

lemma key_upsert [simp]: "ObjectKeyFromObject (upsertOwnerRef ref obj) = ObjectKeyFromObject obj"
  by (simp add: ObjectKeyFromObject_def)

text \<open>The shape of the steps: create the object, or delete what is not there.\<close>

lemma slot_view_iff: "slot_view s w = (True, no_objects) \<longleftrightarrow> quiet w \<and> only s (mem_objects w) = no_objects"
  by (auto simp: slot_view_def)

lemma succeeds_daemonset:
  assumes "T_Driver \<in> set (e_scheme env)"
  shows "succeeds (DaemonSet_at (driver_namespace r, name))
    (bind_m (CreateOrUpdate dset_Meta (cl_DaemonSet mem_client) (new_daemonset (driver_namespace r) name)
        (pure_mut (mutateDaemonSet env r spec))) (\<lambda>(opResult, err, _). Ret err))"
proof -
  let ?obj = "new_daemonset (driver_namespace r) name"
  obtain sent where m: "mutateDaemonSet env r spec ?obj = Inr sent"
    using new_controlled(1) [OF assms] by (simp add: mutateDaemonSet_def controlled_def)
  have "ObjectKeyFromObject (dset_Meta sent) = ObjectKeyFromObject (dset_Meta ?obj)"
    using daemonset_object.mut_key m unfolding mutateDaemonSet_def by blast
  with m empty_slot(4) show ?thesis
    unfolding succeeds_def mem_client_simps
    by (intro DaemonSet_store.local_apply_pure [where sent = sent]) (auto simp: slot_view_iff quiet_def simp del: only.simps)
qed

lemma succeeds_policy:
  assumes "T_Driver \<in> set (e_scheme env)"
  shows "succeeds (NetworkPolicy_at (driver_namespace r, name))
    (bind_m (CreateOrUpdate np_Meta (cl_NetworkPolicy mem_client) (new_network_policy (driver_namespace r) name)
        (pure_mut (mutateNetworkPolicy env r ingress))) (\<lambda>(opResult, err, _). Ret err))"
proof -
  let ?obj = "new_network_policy (driver_namespace r) name"
  obtain sent where m: "mutateNetworkPolicy env r ingress ?obj = Inr sent"
    using new_controlled(1) [OF assms] by (simp add: mutateNetworkPolicy_def controlled_def)
  have "ObjectKeyFromObject (np_Meta sent) = ObjectKeyFromObject (np_Meta ?obj)"
    using policy_object.mut_key m unfolding mutateNetworkPolicy_def by blast
  with m empty_slot(6) show ?thesis
    unfolding succeeds_def mem_client_simps
    by (intro NetworkPolicy_store.local_apply_pure [where sent = sent]) (auto simp: slot_view_iff quiet_def simp del: only.simps)
qed

lemma succeeds_service:
  assumes "T_Driver \<in> set (e_scheme env)"
  shows "succeeds (Service_at (driver_namespace r, name))
    (bind_m (CreateOrUpdate sv_Meta (cl_Service mem_client) (new_service (driver_namespace r) name)
        (pure_mut (mutateLivenessService env r liveness))) (\<lambda>(opResult, err, _). Ret err))"
proof -
  let ?obj = "new_service (driver_namespace r) name"
  obtain sent where m: "mutateLivenessService env r liveness ?obj = Inr sent"
    using new_controlled(1) [OF assms] by (simp add: mutateLivenessService_def controlled_def)
  have "ObjectKeyFromObject (sv_Meta sent) = ObjectKeyFromObject (sv_Meta ?obj)"
    using service_object.mut_key m unfolding mutateLivenessService_def by blast
  with m empty_slot(5) show ?thesis
    unfolding succeeds_def mem_client_simps
    by (intro Service_store.local_apply_pure [where sent = sent]) (auto simp: slot_view_iff quiet_def simp del: only.simps)
qed

text \<open>Both ConfigMaps: \<open>mut\<close> is one of the two mutations.\<close>

lemma succeeds_config_map:
  assumes "mut (new_config_map ns name) = Inr sent"
    and "ObjectKeyFromObject (cm_Meta sent) = (ns, name)"
  shows "succeeds (ConfigMap_at (ns, name))
    (bind_m (CreateOrUpdate cm_Meta (cl_ConfigMap mem_client) (new_config_map ns name) (pure_mut mut))
      (\<lambda>(opResult, err, _). Ret err))"
proof -
  from assms empty_slot(1) show ?thesis
    unfolding succeeds_def mem_client_simps
    by (intro ConfigMap_store.local_apply_pure [where sent = sent]) (auto simp: slot_view_iff quiet_def simp del: only.simps)
qed

lemma succeeds_csi_driver: "succeeds (CSIDriver_at ([], driver_name r)) (reconcileK8sCsiDriver mem_client r)"
proof -
  let ?obj = "new_csi_driver (driver_name r)"
  obtain sent where m: "mutateK8sCsiDriver r ?obj = Inr sent" by (simp add: mutateK8sCsiDriver_def)
  have "locally (slot_view (CSIDriver_at ([], driver_name r))) (\<lambda>_ a. fst (snd a) = None)
      (CreateOrUpdate cd_Meta (cl_CSIDriver mem_client) ?obj (pure_mut (mutateK8sCsiDriver r))) (True, no_objects)"
    unfolding mem_client_simps
    by (rule CSIDriver_store.local_create_pure [where sent = sent])
      (use m k8s_csi_driver.mut_key [OF m] empty_slot(2) in \<open>auto simp: slot_view_iff quiet_def simp del: only.simps\<close>)
  then show ?thesis
    unfolding succeeds_def reconcileK8sCsiDriver_def by (rule locally_bind) (auto split: prod.split)
qed

lemma succeeds_controller:
  assumes "T_Driver \<in> set (e_scheme env)"
  shows "succeeds (Deployment_at (driver_namespace r, generateName r ''ctrlplugin'')) (reconcileControllerPluginDeployment mem_client env r)"
proof -
  let ?s = "Deployment_at (driver_namespace r, generateName r ''ctrlplugin'')"
  let ?obj = "new_deployment (driver_namespace r) (generateName r ''ctrlplugin'')" and ?v = "(True, no_objects)"
  obtain md where md: "SetControllerReference T_Driver (dr_Meta (r_driver r)) (dp_Meta ?obj) (e_scheme env) = Inr md"
    using new_controlled(1) [OF assms] by simp
  have key: "ObjectKeyFromObject md = ObjectKeyFromObject (dp_Meta ?obj)"
    using SetControllerReference_frame(1) [OF md] by simp
  have "locally (slot_view ?s) (\<lambda>v' n. v' = ?v) (getControllerPluginReplicas mem_client (ct_Replicas (ctrl_spec r))) ?v"
    by (auto simp: getControllerPluginReplicas_def mem_api_def mem_request_def slot_view_iff quiet_def Let_def
        simp del: only.simps split: option.split)
  then have mut: "locally (slot_view ?s) (\<lambda>v' res. v' = ?v \<and> (\<exists>sent. res = Inr sent \<and>
      ObjectKeyFromObject (dp_Meta sent) = ObjectKeyFromObject (dp_Meta ?obj))) (mutateControllerPluginDeployment mem_client env r ?obj) ?v"
    unfolding mutateControllerPluginDeployment_def md sum.case
    by (rule locally_bind) (use key in \<open>simp add: put_deployment_spec_def\<close>)
  show ?thesis
    unfolding succeeds_def reconcileControllerPluginDeployment_def Let_def mem_client_simps
    by (rule Deployment_store.local_apply)
      (use mut [unfolded mem_client_simps] empty_slot(3) in \<open>auto simp: slot_view_iff quiet_def simp del: only.simps\<close>)
qed

lemma succeeds_remove:
  "succeeds (ConfigMap_at (ns, name))
     (bind_m (call (api_Delete (cl_ConfigMap mem_client) (new_config_map ns name))) (\<lambda>err. Ret (IgnoreNotFound err)))"
  "succeeds (DaemonSet_at (ns, name))
     (bind_m (call (api_Delete (cl_DaemonSet mem_client) (new_daemonset ns name))) (\<lambda>err. Ret (IgnoreNotFound err)))"
  "succeeds (Service_at (ns, name))
     (bind_m (call (api_Delete (cl_Service mem_client) (new_service ns name))) (\<lambda>err. Ret (IgnoreNotFound err)))"
  "succeeds (NetworkPolicy_at (ns, name))
     (bind_m (call (api_Delete (cl_NetworkPolicy mem_client) (new_network_policy ns name))) (\<lambda>err. Ret (IgnoreNotFound err)))"
  unfolding succeeds_def mem_client_simps
  by (rule ConfigMap_store.local_delete_absent DaemonSet_store.local_delete_absent Service_store.local_delete_absent
      NetworkPolicy_store.local_delete_absent; use empty_slot in \<open>auto simp: slot_view_iff quiet_def simp del: only.simps\<close>)+

lemma succeeds_nothing [simp]: "succeeds s (Ret None)"
  by (simp add: succeeds_def)

text \<open>So every step of an acceptable driver succeeds on an empty slot.\<close>

lemma reconcilers_succeed:
  assumes "acceptable env r"
  shows "list_all2 succeeds (driver_slots (driver_namespace r, driver_name r)) (driver_reconcilers mem_client env r)"
proof -
  have scheme: "T_Driver \<in> set (e_scheme env)" using assms by (simp add: acceptable_def)
  obtain condition where condition: "withCsiAddonsVolumeCondition r = Inr condition"
    using assms by (auto simp: acceptable_def)
  let ?cm = "new_config_map (driver_namespace r)"
  obtain sent where csi: "mutateCsiConfigMap env r (?cm ''ceph-csi-config'') = Inr sent"
    using new_controlled(2) [OF scheme] by (simp add: mutateCsiConfigMap_def ToggleOwnerReference_def IsOwnedBy_def
        named_meta_def zero_meta_def)
  have rotated: "\<exists>sent. mutateLogRotateConfigMap env r rotation (?cm name) = Inr sent" if "logRotationSpec r = Some rotation" for rotation name
    using new_controlled(2) [OF scheme, of r name] assms that
    by (auto simp: mutateLogRotateConfigMap_def ToggleOwnerReference_def acceptable_def split: if_splits)
  show ?thesis
    unfolding driver_reconcilers_def driver_slots_def Let_def slot_names fst_conv snd_conv list_all2_Cons list_all2_Nil
  proof (intro conjI succeeds_csi_driver succeeds_controller [OF scheme], goal_cases)
    case 1
    show ?case
      using succeeds_config_map [of "mutateCsiConfigMap env r", OF csi] csi_config_map.mut_key [OF csi]
      by (simp add: reconcileCsiConfigMap_def CsiConfigVolume_def)
  next
    case 2
    show ?case
    proof (cases "logRotationSpec r")
      case None
      then show ?thesis
        by (simp add: reconcileLogRotateConfigMap_def succeeds_remove del: mem_client_simps bind_call)
    next
      case (Some rotation)
      from rotated [OF Some, of "LogRotateConfigMapName (driver_name r)"] obtain sent where
        m: "mutateLogRotateConfigMap env r rotation (?cm (LogRotateConfigMapName (driver_name r))) = Inr sent" by blast
      from succeeds_config_map [of "mutateLogRotateConfigMap env r rotation", OF m] log_rotate_map.mut_key [OF m] Some
      show ?thesis by (simp add: reconcileLogRotateConfigMap_def)
    qed
  qed (simp_all add: reconcileControllerPluginNetworkPolicy_def reconcileNodePluginDaemonSet_def reconcileLivenessService_def
      reconcileNodePluginDaemonSetForCsiAddons_def reconcileNodePluginCsiAddonsNetworkPolicy_def Let_def condition
      succeeds_daemonset [OF scheme] succeeds_policy [OF scheme] succeeds_service [OF scheme] succeeds_remove
      del: mem_client_simps bind_call split: option.split)
qed

lemma frames_run: "frames V p \<Longrightarrow> V (snd (run_m p w)) = V w"
  unfolding frames_def using keeps_run by fastforce

text \<open>No step makes a later request fail.\<close>

lemma quiet_apis:
  "api_keeps quiet (cl_ConfigMap mem_client)" "api_keeps quiet (cl_CSIDriver mem_client)" "api_keeps quiet (cl_Deployment mem_client)"
  "api_keeps quiet (cl_DaemonSet mem_client)" "api_keeps quiet (cl_Service mem_client)" "api_keeps quiet (cl_NetworkPolicy mem_client)"
  "api_keeps quiet (cl_Node mem_client)"
  unfolding mem_client_simps
  by (rule ConfigMap_store.faultless CSIDriver_store.faultless Deployment_store.faultless DaemonSet_store.faultless
      Service_store.faultless NetworkPolicy_store.faultless Node_store.faultless; simp add: quiet_def)+

lemma reconcilers_quiet: "p \<in> set (driver_reconcilers mem_client env r) \<Longrightarrow> keeps quiet p"
proof -
  have pure: "keeps quiet (pure_mut f obj)" for f :: "'o \<Rightarrow> 'o result" and obj by (simp add: pure_mut_def)
  have replicas: "keeps quiet (mutateControllerPluginDeployment mem_client env r dp)" for dp
    using api_keepsD(2) [OF quiet_apis(7)]
    by (auto simp: mutateControllerPluginDeployment_def getControllerPluginReplicas_def simp del: bind_call mem_client_simps
        intro!: keeps_bind split: sum.split option.split)
  have recreate: "keeps quiet (recreateCsiDriver mem_client cd)" for cd
    using api_keepsD [OF quiet_apis(2)]
    by (auto simp: recreateCsiDriver_def simp del: bind_call mem_client_simps intro!: keeps_bind split: option.split sum.split)
  note written = keeps_bind [OF keeps_CreateOrUpdate [OF quiet_apis(1) pure]] keeps_bind [OF keeps_CreateOrUpdate [OF quiet_apis(2) pure]]
    keeps_bind [OF keeps_CreateOrUpdate [OF quiet_apis(3) replicas]] keeps_bind [OF keeps_CreateOrUpdate [OF quiet_apis(4) pure]]
    keeps_bind [OF keeps_CreateOrUpdate [OF quiet_apis(5) pure]] keeps_bind [OF keeps_CreateOrUpdate [OF quiet_apis(6) pure]]
  note remove = api_keepsD(5) [OF quiet_apis(1)] api_keepsD(5) [OF quiet_apis(4)] api_keepsD(5) [OF quiet_apis(5)] api_keepsD(5) [OF quiet_apis(6)]
  show "p \<in> set (driver_reconcilers mem_client env r) \<Longrightarrow> keeps quiet p"
    unfolding driver_reconcilers_def
    by (auto simp: reconcileCsiConfigMap_def reconcileLogRotateConfigMap_def reconcileK8sCsiDriver_def
        reconcileControllerPluginDeployment_def reconcileControllerPluginNetworkPolicy_def reconcileNodePluginDaemonSet_def
        reconcileLivenessService_def reconcileNodePluginDaemonSetForCsiAddons_def reconcileNodePluginCsiAddonsNetworkPolicy_def
        Let_def remove recreate simp del: bind_call mem_client_simps intro!: written keeps_bind split: option.split sum.split)
qed

text \<open>Leaving out a set of slots can begin with any of them.\<close>

lemma upd_None_commute: "f(a := None, b := None) = f(b := None, a := None)"
  by auto

lemma without_commute: "without s (without s' ob) = without s' (without s ob)"
  by (cases s; cases s') (simp_all add: upd_None_commute)

lemma without_idem [simp]: "without s (without s ob) = without s ob"
  by (cases s) simp_all

lemma fold_without_commute: "fold without ss (without s ob) = without s (fold without ss ob)"
proof (induction ss arbitrary: ob)
  case (Cons a ss)
  then show ?case using without_commute [of a s ob] by simp
qed simp

lemma fold_without: "s \<in> set ss \<Longrightarrow> fold without ss ob = fold without ss (without s ob)"
  by (induction ss arbitrary: ob) (auto simp: fold_without_commute)

text \<open>A cluster that holds the example driver and its image set, and nothing deployed for it.\<close>

definition first_cluster :: cluster where
  "first_cluster = empty_cluster
     \<lparr>mc_Driver := \<lparr>mem_objs = [example_driver], mem_next = 5, mem_faults = []\<rparr>,
      mc_ConfigMap := \<lparr>mem_objs = [example_images], mem_next = 5, mem_faults = []\<rparr>\<rparr>"

lemma example_key [simp]:
  "new_driverReconcile (''ns'', ''rbd.csi.ceph.com'') = example_request"
  "driver_name example_loaded = ''rbd.csi.ceph.com''" "driver_namespace example_loaded = ''ns''"
  by (simp_all add: new_driverReconcile_def example_simps driver_name_def driver_namespace_def)

lemma first_load:
  "run_m (LoadAndValidateDesiredState mem_client example_env example_request) first_cluster =
     ((None, example_loaded), first_cluster)"
proof -
  have name: "driver_name example_request = ''rbd.csi.ceph.com''"
    by (simp add: driver_name_def example_request_def zero_Driver_def)
  have claim: "run_m (get_claim mem_client example_request) first_cluster = (Inr (new_csi_driver ''rbd.csi.ceph.com''), first_cluster)"
    by (simp add: get_claim_def name mem_api_def mem_request_def mem_find_def first_cluster_def empty_cluster_def empty_mem_def)
  let ?conf = "zero_OperatorConfig\<lparr>oc_Meta := named_meta ''op'' ''ceph-csi-operator-config''\<rparr>"
  have conf: "run_m (get_operator_config mem_client example_env) first_cluster = (Inr ?conf, first_cluster)"
    by (simp add: get_operator_config_def mem_api_def mem_request_def mem_find_def first_cluster_def
        empty_cluster_def empty_mem_def example_env_def)
  have "run_m (load_driver mem_client example_env ?conf (example_request\<lparr>r_driverType := ''rbd''\<rparr>)) first_cluster =
      ((None, example_loaded), first_cluster)"
    by (simp add: load_driver_def apply_operator_defaults_def load_image_set_def mem_api_def mem_request_def
        mem_find_def first_cluster_def empty_cluster_def empty_mem_def example_simps zero_Driver_def
        zero_OperatorConfig_def zero_DriverSpec_def ObjectKeyFromObject_def driver_namespace_def)
  with claim conf name show ?thesis
    by (simp add: LoadAndValidateDesiredState_def example_match ToLower_type driver_types_def RbdDriverType_def)
qed

lemma first_empty: "\<forall>s \<in> set (driver_slots (''ns'', ''rbd.csi.ceph.com'')). only s (mem_objects first_cluster) = no_objects"
  by (simp add: driver_slots_def mem_objects_def no_objects_def mem_find_def first_cluster_def empty_cluster_def empty_mem_def
      example_images_def CsiConfigVolume_def LogRotateConfigMapName_def)

lemma first_quiet: "quiet first_cluster"
  by (simp add: quiet_def first_cluster_def empty_cluster_def empty_mem_def)

lemma example_acceptable: "acceptable example_env example_loaded"
  by (auto simp: acceptable_def example_simps addKnownTypes_def logRotationSpec_def spec_of_def zero_DriverSpec_def
      withCsiAddonsVolumeCondition_def zero_LogSpec_def named_meta_def zero_meta_def)

lemma slot_free_only: "slot_free s (only s ob) = slot_free s ob" "slot_free s no_objects"
  by (cases s; simp add: no_objects_def)+

lemma empty_free: "only s ob = no_objects \<Longrightarrow> slot_free s ob"
  using slot_free_only by metis

text \<open>All nine steps of an acceptable driver whose slots are empty, under every schedule.\<close>

lemma concurrent_succeeds:
  assumes "acceptable env r" and quiet: "quiet w"
    and empty: "\<forall>s \<in> set (driver_slots (driver_namespace r, driver_name r)). only s (mem_objects w) = no_objects"
    and reach: "reachable (driver_reconcilers mem_client env r) w s" and ended: "gos s = map Exited results"
  shows "set results \<subseteq> {None}"
proof -
  let ?slots = "driver_slots (driver_namespace r, driver_name r)" and ?recs = "driver_reconcilers mem_client env r"
  have len: "length ?slots = 9" "length ?recs = 9" by (simp_all add: driver_slots_def driver_reconcilers_def Let_def)
  have res: "length results = 9"
    using length_gos_steps [OF reach [unfolded reachable_def]] ended len by (simp add: RunConcurrently_def)
  have "results ! i = None" if i: "i < 9" for i
  proof -
    let ?V = "\<lambda>w. only (?slots ! i) (mem_objects w)"
    have own: "locally (\<lambda>w. (quiet w, ?V w)) (\<lambda>v e. e = None) (?recs ! i) (True, ?V w)"
      using list_all2_nthD2 [OF reconcilers_succeed [OF assms(1)], of i] i len empty
      by (simp add: succeeds_def slot_view_def [abs_def])
    have keeps: "keeps quiet (?recs ! j)" if "j < length ?recs" for j
      using that by (intro reconcilers_quiet [of _ env r]) simp
    have others: "frames_in quiet ?V (?recs ! j)" if "j < length ?recs" "j \<noteq> i" for j
    proof (rule frames_in_frames [OF _ keeps [OF that(1)]])
      have "frames (\<lambda>w. without (?slots ! j) (mem_objects w)) (?recs ! j)"
        using list_all2_nthD2 [OF cluster_server.reconcilers_frame [of r env], of j] that by simp
      then have "frames (\<lambda>w. only (?slots ! i) (without (?slots ! j) (mem_objects w))) (?recs ! j)" by (rule frames_comp)
      moreover have "?slots ! i \<noteq> ?slots ! j"
        using distinct_driver_slots [of "(driver_namespace r, driver_name r)"] i that len by (simp add: nth_eq_iff_index_eq)
      ultimately show "frames ?V (?recs ! j)" by (simp add: only_without)
    qed
    show ?thesis
      by (rule concurrent_local_in [where I = quiet and V = ?V and Q = "\<lambda>_ e. e = None", OF _ own keeps quiet others reach ended])
        (use i len in simp_all)
  qed
  with res show ?thesis by (auto simp: in_set_conv_nth)
qed

lemma first_succeeds:
  assumes load: "run_m (LoadAndValidateDesiredState mem_client env (new_driverReconcile req)) w = ((None, r), w1)"
    and acc: "acceptable env r" and q: "quiet w1" and empty: "\<forall>s \<in> set (driver_slots req). only s (mem_objects w1) = no_objects"
    and run: "driver_reconciles mem_client env req w err w'"
  shows "err = None"
proof -
  have key: "(driver_namespace r, driver_name r) = req" by (rule cluster_server.load_key [OF load])
  from run load obtain s errs where reach: "reachable (driver_reconcilers mem_client env r) w1 s" "ChannelToSlice s = Some errs"
    and err: "err = errors_Join errs" by (auto elim!: driver_reconcilesE)
  from results_complete [OF reach] obtain results where ended: "gos s = map Exited results" and errs: "mset errs = mset results" by blast
  from concurrent_succeeds [OF acc q _ reach(1) ended] empty key have "set results \<subseteq> {None}" by simp
  with errs have "set errs \<subseteq> {None}" by (metis set_mset_mset)
  then show ?thesis using err errors_Join_None_iff [of errs] by simp
qed

lemma reconciles_something: "\<exists>err w'. driver_reconciles cl env req w err w'"
proof -
  obtain err r0 w0 where load: "run_m (LoadAndValidateDesiredState cl env (new_driverReconcile req)) w = ((err, r0), w0)"
    by (metis prod.exhaust)
  show ?thesis
  proof (cases err)
    case (Some e)
    with load show ?thesis using driver_reconciles.load_fails by metis
  next
    case None
    obtain es w' where "run_seq (driver_reconcilers cl env r0) w0 = (es, w')" by fastforce
    from run_seq_reachable [OF this] load None show ?thesis using driver_reconciles.concurrently by metis
  qed
qed

lemma first_run:
  assumes "run_m (LoadAndValidateDesiredState mem_client env (new_driverReconcile req)) w = ((None, r), w1)"
    and "acceptable env r" and "quiet w1" and "\<forall>s \<in> set (driver_slots req). only s (mem_objects w1) = no_objects"
  shows "\<exists>w'. driver_reconciles mem_client env req w None w'"
  using reconciles_something [of mem_client env req w] first_succeeds [OF assms] by blast

lemma fold_without_ConfigMap:
  "ko_ConfigMap (fold without ss ob) k = (if ConfigMap_at k \<in> set ss then None else ko_ConfigMap ob k)"
proof (induction ss arbitrary: ob)
  case (Cons s ss)
  then show ?case by (cases s) auto
qed simp

lemma frames_const: "frames (\<lambda>_. c) p"
  by (induction p) (simp_all add: frames_Act)

lemma driver_reconcilers_length: "length (driver_reconcilers cl env r) = 9"
  by (simp add: driver_reconcilers_def)

section \<open>Properties\<close>

text \<open>How a reconciliation without an error came about.\<close>

lemma driver_reconciles_None:
  assumes "driver_reconciles cl env req w None w'"
  obtains r w1 s results where
    "run_m (LoadAndValidateDesiredState cl env (new_driverReconcile req)) w = ((None, r), w1)"
    "reachable (driver_reconcilers cl env r) w1 s" "gos s = map Exited results" "set results \<subseteq> {None}" "w' = world s"
  using assms
proof (rule driver_reconcilesE)
  fix r w1 s errs
  assume *: "None = errors_Join errs" "w' = world s" "run_m (LoadAndValidateDesiredState cl env (new_driverReconcile req)) w = ((None, r), w1)"
    "reachable (driver_reconcilers cl env r) w1 s" "ChannelToSlice s = Some errs"
  from results_complete [OF *(4,5)] obtain results where "gos s = map Exited results" "mset errs = mset results" by blast
  moreover have "set errs \<subseteq> {None}" using *(1) errors_Join_None_iff [of errs] by simp
  ultimately show thesis using that * by (metis set_mset_mset)
qed simp



text \<open>What no reconciler of the driver writes.\<close>

lemma own_objects_frame:
  assumes server: "driver_server cl view" and run: "driver_reconciles cl env req w err w'"
  shows "fold without (driver_slots req) (view w') = fold without (driver_slots req) (view w)"
proof -
  have load: "view w1 = view w" if "run_m (LoadAndValidateDesiredState cl env (new_driverReconcile req)) w = (x, w1)" for x w1
    using frames_run [OF driver_server.frames_load [OF server], of env "new_driverReconcile req" w] that by simp
  from run show ?thesis
  proof (rule driver_reconcilesE)
    fix r w1 s errs
    assume l: "run_m (LoadAndValidateDesiredState cl env (new_driverReconcile req)) w = ((None, r), w1)"
      and reach: "reachable (driver_reconcilers cl env r) w1 s" and w': "w' = world s"
    have key: "(driver_namespace r, driver_name r) = req" by (rule driver_server.load_key [OF server l])
    have "frames (\<lambda>w. fold without (driver_slots req) (view w)) p" if "p \<in> set (driver_reconcilers cl env r)" for p
    proof -
      from that obtain sl where "sl \<in> set (driver_slots req)" "frames (\<lambda>w. without sl (view w)) p"
        using driver_server.reconcilers_frame [OF server, of r env] unfolding key
        by (metis (no_types, lifting) in_set_conv_nth list_all2_conv_all_nth)
      from frames_comp [OF this(2), of "fold without (driver_slots req)"] this(1) show ?thesis
        by (simp add: fold_without [symmetric])
    qed
    from concurrent_frames [OF this reach] load [OF l] show ?thesis by (simp add: w')
  qed (simp add: load)
qed

text \<open>
  C5. A reconciliation, successful or not and under every schedule, changes none but the driver's own nine
  objects: no other object of their kinds, and no Driver.
\<close>

theorem driver_reconcile_own_objects:
  assumes server: "driver_server cl view" and run: "driver_reconciles cl env req w err w'"
  shows "fold without (driver_slots req) (view w') = fold without (driver_slots req) (view w)"
  using assms by (rule own_objects_frame)

theorem driver_reconcile_own_objects_witness:
  "\<exists>w'. driver_reconciles mem_client example_env (''ns'', ''rbd.csi.ceph.com'') first_cluster None w' \<and>
     ko_ConfigMap (mem_objects w') (''ns'', ''images'') = Some example_images"
proof -
  let ?req = "(''ns'', ''rbd.csi.ceph.com'')"
  have load: "run_m (LoadAndValidateDesiredState mem_client example_env (new_driverReconcile ?req)) first_cluster = ((None, example_loaded), first_cluster)"
    by (simp add: first_load)
  from first_run [OF load example_acceptable first_quiet first_empty] obtain w' where
    run: "driver_reconciles mem_client example_env ?req first_cluster None w'" by blast
  from driver_reconcile_own_objects [OF cluster_server.driver_server_axioms run]
  have "ko_ConfigMap (fold without (driver_slots ?req) (mem_objects w')) (''ns'', ''images'') =
      ko_ConfigMap (fold without (driver_slots ?req) (mem_objects first_cluster)) (''ns'', ''images'')" by simp
  moreover have "ConfigMap_at (''ns'', ''images'') \<notin> set (driver_slots ?req)"
    by (simp add: driver_slots_def CsiConfigVolume_def LogRotateConfigMapName_def)
  moreover have "ko_ConfigMap (mem_objects first_cluster) (''ns'', ''images'') = Some example_images"
    by (simp add: mem_objects_def mem_find_def first_cluster_def example_images_def)
  ultimately show ?thesis using run by (auto simp: fold_without_ConfigMap)
qed



lemma first_ready:
  assumes load: "run_m (LoadAndValidateDesiredState mem_client env (new_driverReconcile req)) w = ((None, r), w1)"
    and acc: "acceptable env r" and q: "quiet w1" and empty: "\<forall>s \<in> set (driver_slots req). only s (mem_objects w1) = no_objects"
    and run: "driver_reconciles mem_client env req w err w'"
  shows "err = None \<and> driver_ready env r (mem_objects w')"
proof -
  have err: "err = None" by (rule first_succeeds [OF load acc q empty run])
  with run obtain r' w1' s results where load': "run_m (LoadAndValidateDesiredState mem_client env (new_driverReconcile req)) w = ((None, r'), w1')"
    and conc: "reachable (driver_reconcilers mem_client env r') w1' s" "gos s = map Exited results" "set results \<subseteq> {None}" "w' = world s"
    by (auto elim: driver_reconciles_None)
  with load have eq: "r' = r" "w1' = w1" by simp_all
  have "driver_ready env r (mem_objects w')"
    using cluster_server.concurrent_ready [OF conc(1-3)] cluster_server.load_key [OF load] empty empty_free conc(4) eq by blast
  with err show ?thesis by simp
qed

lemma first_run_ready:
  assumes "run_m (LoadAndValidateDesiredState mem_client env (new_driverReconcile req)) w = ((None, r), w1)"
    and "acceptable env r" and "quiet w1" and "\<forall>s \<in> set (driver_slots req). only s (mem_objects w1) = no_objects"
  shows "\<exists>w'. driver_reconciles mem_client env req w None w' \<and> driver_ready env r (mem_objects w')"
  using first_run [OF assms] first_ready [OF assms] by blast



text \<open>
  C29. An unreadable volume-condition annotation fails every reconciliation of the driver, also of one that does not
  deploy CSI-Addons, and leaves the CSI-Addons daemon set as it is: one deployed earlier is not removed.
\<close>

theorem volume_condition_blocks:
  assumes server: "driver_server cl view" and run: "driver_reconciles cl env req w err w'"
    and load: "run_m (LoadAndValidateDesiredState cl env (new_driverReconcile req)) w = ((None, r), w1)"
    and bad: "withCsiAddonsVolumeCondition r = Inl e"
  shows "err \<noteq> None \<and>
    ko_DaemonSet (view w') (fst req, generateName r ''nodeplugin-csi-addons'') =
    ko_DaemonSet (view w) (fst req, generateName r ''nodeplugin-csi-addons'')"
proof -
  let ?recs = "driver_reconcilers cl env r" and ?slots = "driver_slots req"
  let ?k = "(fst req, generateName r ''nodeplugin-csi-addons'')"
  obtain s errs where reach: "reachable ?recs w1 s" "ChannelToSlice s = Some errs"
    and e: "err = errors_Join errs" "w' = world s"
    using run by (rule driver_reconcilesE) (use load in auto)
  have key: "(driver_namespace r, driver_name r) = req" by (rule driver_server.load_key [OF server load])
  have stuck: "?recs ! 7 = Ret (Some e)" using bad by (simp add: driver_reconcilers_def reconcileNodePluginDaemonSetForCsiAddons_def Let_def)
  have slot: "?slots ! 7 = DaemonSet_at ?k"
    using slot_names(2) [of r] by (simp add: driver_slots_def Let_def key)
  obtain results where res: "gos s = map Exited results" "length results = 9" "mset errs = mset results"
    using results_complete [OF reach] by (auto simp: driver_reconcilers_length)
  have "results ! 7 = Some e"
    using concurrent_local [where V = "\<lambda>_. ()" and Q = "\<lambda>_ e'. e' = Some e" and i = 7, OF _ _ frames_const reach(1) res(1)] stuck
    by (simp add: driver_reconcilers_length)
  then have "Some e \<in> set results" using nth_mem [of 7 results] res(2) by simp
  then have "Some e \<in> set errs" using res(3) by (metis set_mset_mset)
  then have "errors_Join errs \<noteq> None" using errors_Join_None_iff [of errs] by auto
  moreover have same: "only (DaemonSet_at ?k) (view (world s)) = only (DaemonSet_at ?k) (view w1)"
  proof (rule concurrent_frames [where V = "\<lambda>w. only (DaemonSet_at ?k) (view w)", OF _ reach(1)])
    fix p assume "p \<in> set ?recs"
    then obtain j where j: "j < 9" "p = ?recs ! j" by (auto simp: in_set_conv_nth driver_reconcilers_length)
    show "frames (\<lambda>w. only (DaemonSet_at ?k) (view w)) p"
    proof (cases "j = 7")
      case False
      have "frames (\<lambda>w. without (?slots ! j) (view w)) p"
        using list_all2_nthD2 [OF driver_server.reconcilers_frame [OF server, of r env], of j] j by (simp add: key driver_reconcilers_length)
      then have "frames (\<lambda>w. only (?slots ! 7) (without (?slots ! j) (view w))) p" by (rule frames_comp)
      moreover have "length ?slots = 9" by (simp add: driver_slots_def Let_def)
      with False j have "?slots ! 7 \<noteq> ?slots ! j" using distinct_driver_slots [of req] by (simp add: nth_eq_iff_index_eq)
      ultimately show ?thesis by (simp only: only_without slot not_False_eq_True)
    qed (simp add: j stuck)
  qed
  moreover have "view w1 = view w"
    using frames_run [OF driver_server.frames_load [OF server], of env "new_driverReconcile req" w] load by simp
  moreover from arg_cong [OF same, of "\<lambda>ob. ko_DaemonSet ob ?k"]
  have "ko_DaemonSet (view (world s)) ?k = ko_DaemonSet (view w1) ?k" by simp
  ultimately show ?thesis by (simp add: e)
qed

text \<open>The example driver with an annotation that is no boolean.\<close>

definition odd_driver :: Driver where
  "odd_driver = example_driver
     \<lparr>dr_Meta := example_meta\<lparr>om_Annotations := fmap_of_list [(driverCSIAddonsFeatureVolumeCondition, ''yes'')]\<rparr>\<rparr>"

definition odd_cluster :: cluster where
  "odd_cluster = first_cluster\<lparr>mc_Driver := \<lparr>mem_objs = [odd_driver], mem_next = 5, mem_faults = []\<rparr>\<rparr>"

lemma odd_load:
  "run_m (LoadAndValidateDesiredState mem_client example_env example_request) odd_cluster =
     ((None, example_loaded\<lparr>r_driver := odd_driver\<rparr>), odd_cluster)"
proof -
  have name: "driver_name example_request = ''rbd.csi.ceph.com''"
    by (simp add: driver_name_def example_request_def zero_Driver_def)
  have claim: "run_m (get_claim mem_client example_request) odd_cluster = (Inr (new_csi_driver ''rbd.csi.ceph.com''), odd_cluster)"
    by (simp add: get_claim_def name mem_api_def mem_request_def mem_find_def odd_cluster_def first_cluster_def
        empty_cluster_def empty_mem_def)
  let ?conf = "zero_OperatorConfig\<lparr>oc_Meta := named_meta ''op'' ''ceph-csi-operator-config''\<rparr>"
  have conf: "run_m (get_operator_config mem_client example_env) odd_cluster = (Inr ?conf, odd_cluster)"
    by (simp add: get_operator_config_def mem_api_def mem_request_def mem_find_def odd_cluster_def first_cluster_def
        empty_cluster_def empty_mem_def example_env_def)
  have "run_m (load_driver mem_client example_env ?conf (example_request\<lparr>r_driverType := ''rbd''\<rparr>)) odd_cluster =
      ((None, example_loaded\<lparr>r_driver := odd_driver\<rparr>), odd_cluster)"
    by (simp add: load_driver_def apply_operator_defaults_def load_image_set_def mem_api_def mem_request_def
        mem_find_def odd_cluster_def first_cluster_def empty_cluster_def empty_mem_def odd_driver_def example_simps
        zero_Driver_def zero_OperatorConfig_def zero_DriverSpec_def ObjectKeyFromObject_def driver_namespace_def)
  with claim conf name show ?thesis
    by (simp add: LoadAndValidateDesiredState_def example_match ToLower_type driver_types_def RbdDriverType_def)
qed

theorem volume_condition_blocks_witness:
  "\<exists>err w'. driver_reconciles mem_client example_env (''ns'', ''rbd.csi.ceph.com'') odd_cluster err w' \<and> err \<noteq> None"
proof -
  let ?req = "(''ns'', ''rbd.csi.ceph.com'')" and ?r = "example_loaded\<lparr>r_driver := odd_driver\<rparr>"
  have load: "run_m (LoadAndValidateDesiredState mem_client example_env (new_driverReconcile ?req)) odd_cluster = ((None, ?r), odd_cluster)"
    by (simp add: odd_load)
  obtain es w' where "run_seq (driver_reconcilers mem_client example_env ?r) odd_cluster = (es, w')" by fastforce
  from run_seq_reachable [OF this] obtain err where
    run: "driver_reconciles mem_client example_env ?req odd_cluster err w'"
    using driver_reconciles.concurrently [OF load] by metis
  have "withCsiAddonsVolumeCondition ?r = Inl (SyntaxError (''strconv.ParseBool: parsing '' @ ''yes'' @ '': invalid syntax''))"
    by (simp add: withCsiAddonsVolumeCondition_def odd_driver_def ParseBool_def)
  from volume_condition_blocks [OF cluster_server.driver_server_axioms run load this] run show ?thesis by blast
qed

end
