(* ===== verification/Driver_Stable.thy ===== *)
theory Driver_Stable
  imports Driver_Ready
begin

text \<open>
  Stability: what a driver's objects are to look like, \<open>driver_ready\<close>, is a fixed point of its
  reconciliation. Each reconciler leaves its object alone when its condition holds, whether its requests
  succeed or not, and so do the nine together under every schedule. Only the deployment of a driver
  that does not state its number of replicas follows the number of nodes.
\<close>

section \<open>Mutations that change nothing\<close>

context controlled_object
begin

lemma controlled_kept:
  assumes "controlled_by r (meta ex)" and "put ex = ex" and "set_meta (meta ex) ex = ex"
    and "controlled meta set_meta put (r_driver r) scheme ex = Inr o2"
  shows "o2 = ex"
  using assms SetControllerReference_InrD(1)
  by (auto simp: controlled_def controlled_by_def Let_def split: sum.splits)

end

lemma csi_config_map_kept:
  "IsOwnedBy (cm_Meta cm) (dr_Meta (r_driver r)) \<Longrightarrow> mutateCsiConfigMap env r cm = Inr cm2 \<Longrightarrow> cm2 = cm"
  by (simp add: mutateCsiConfigMap_def ToggleOwnerReference_def)

lemma log_rotation_kept:
  "IsOwnedBy (cm_Meta cm) (dr_Meta (r_driver r)) \<Longrightarrow> cm_Data cm = fmap_of_list [(''csi'', logRotateFile rotation)] \<Longrightarrow>
     mutateLogRotateConfigMap env r rotation cm = Inr cm2 \<Longrightarrow> cm2 = cm"
  by (auto simp: mutateLogRotateConfigMap_def ToggleOwnerReference_def split: if_splits)

lemma csi_driver_kept:
  assumes "csi_driver_ready r ob" and "ko_CSIDriver ob ([], driver_name r) = Some cd"
  shows "mutateK8sCsiDriver r cd = Inr cd"
proof -
  from assms have a: "fst (AddAnnotation (cd_Meta cd) ownerRefAnnotationKey
      (Marshal enc_key (ObjectKeyFromObject (dr_Meta (r_driver r))))) = cd_Meta cd"
    by (intro AddAnnotation_again) (simp add: csi_driver_ready_def stored_as_def driver_name_def driver_namespace_def ObjectKeyFromObject_def)
  from assms have "cd_Spec cd = (cd_Spec cd)\<lparr>cds_PodInfoOnMount := Some True,
      cds_AttachRequired := Some (cmp_Or_ptr (d_AttachRequired (spec_of r)) True),
      cds_FSGroupPolicy := Some (cmp_Or_str (d_FsGroupPolicy (spec_of r)) FileFSGroupPolicy), cds_SELinuxMount := Some True\<rparr>"
    by (cases "cd_Spec cd") (simp add: csi_driver_ready_def stored_as_def)
  then show ?thesis unfolding mutateK8sCsiDriver_def Let_def a by simp
qed

section \<open>Reconcilers that change nothing\<close>

context driver_server
begin

definition keeps_slot :: "slot \<Rightarrow> kube_objects \<Rightarrow> ('w, error) m \<Rightarrow> bool" where
  "keeps_slot s ob p \<longleftrightarrow> locally (\<lambda>w. only s (view w)) (\<lambda>ob' _. ob' = only s ob) p (only s ob)"

lemma keeps_Ret [simp]: "keeps_slot s ob (Ret e)"
  by (simp add: keeps_slot_def)

lemma keeps_ConfigMap:
  "locally (\<lambda>w. ko_ConfigMap (view w) k) (\<lambda>v _. v = ko_ConfigMap ob k) p (ko_ConfigMap ob k) \<Longrightarrow> keeps_slot (ConfigMap_at k) ob p"
  unfolding keeps_slot_def by (rule locally_only_ConfigMap, erule locally_mono) simp

lemma keeps_CSIDriver:
  "locally (\<lambda>w. ko_CSIDriver (view w) k) (\<lambda>v _. v = ko_CSIDriver ob k) p (ko_CSIDriver ob k) \<Longrightarrow> keeps_slot (CSIDriver_at k) ob p"
  unfolding keeps_slot_def by (rule locally_only_CSIDriver, erule locally_mono) simp

lemma keeps_Deployment:
  "locally (\<lambda>w. ko_Deployment (view w) k) (\<lambda>v _. v = ko_Deployment ob k) p (ko_Deployment ob k) \<Longrightarrow> keeps_slot (Deployment_at k) ob p"
  unfolding keeps_slot_def by (rule locally_only_Deployment, erule locally_mono) simp

lemma keeps_DaemonSet:
  "locally (\<lambda>w. ko_DaemonSet (view w) k) (\<lambda>v _. v = ko_DaemonSet ob k) p (ko_DaemonSet ob k) \<Longrightarrow> keeps_slot (DaemonSet_at k) ob p"
  unfolding keeps_slot_def by (rule locally_only_DaemonSet, erule locally_mono) simp

lemma keeps_Service:
  "locally (\<lambda>w. ko_Service (view w) k) (\<lambda>v _. v = ko_Service ob k) p (ko_Service ob k) \<Longrightarrow> keeps_slot (Service_at k) ob p"
  unfolding keeps_slot_def by (rule locally_only_Service, erule locally_mono) simp

lemma keeps_NetworkPolicy:
  "locally (\<lambda>w. ko_NetworkPolicy (view w) k) (\<lambda>v _. v = ko_NetworkPolicy ob k) p (ko_NetworkPolicy ob k) \<Longrightarrow> keeps_slot (NetworkPolicy_at k) ob p"
  unfolding keeps_slot_def by (rule locally_only_NetworkPolicy, erule locally_mono) simp

text \<open>Deleting what is absent, for the kinds of which an object may be absent.\<close>

lemma keeps_absent:
  "ko_ConfigMap ob (ns, name) = None \<Longrightarrow> keeps_slot (ConfigMap_at (ns, name)) ob
     (bind_m (call (api_Delete (cl_ConfigMap cl) (new_config_map ns name))) (\<lambda>err. Ret (IgnoreNotFound err)))"
  "ko_DaemonSet ob (ns, name) = None \<Longrightarrow> keeps_slot (DaemonSet_at (ns, name)) ob
     (bind_m (call (api_Delete (cl_DaemonSet cl) (new_daemonset ns name))) (\<lambda>err. Ret (IgnoreNotFound err)))"
  "ko_Service ob (ns, name) = None \<Longrightarrow> keeps_slot (Service_at (ns, name)) ob
     (bind_m (call (api_Delete (cl_Service cl) (new_service ns name))) (\<lambda>err. Ret (IgnoreNotFound err)))"
  "ko_NetworkPolicy ob (ns, name) = None \<Longrightarrow> keeps_slot (NetworkPolicy_at (ns, name)) ob
     (bind_m (call (api_Delete (cl_NetworkPolicy cl) (new_network_policy ns name))) (\<lambda>err. Ret (IgnoreNotFound err)))"
  by (rule keeps_ConfigMap keeps_DaemonSet keeps_Service keeps_NetworkPolicy, simp only:,
      rule config_maps.locally_absent daemonsets.locally_absent services.locally_absent policies.locally_absent, simp)+

text \<open>Applying a mutation that changes nothing.\<close>

lemma keeps_applied_daemonset:
  assumes "stored_as (ko_DaemonSet ob (ns, name)) (\<lambda>ds. controlled_by r (dset_Meta ds) \<and> dset_Spec ds = spec name)"
  shows "keeps_slot (DaemonSet_at (ns, name)) ob
    (bind_m (CreateOrUpdate dset_Meta (cl_DaemonSet cl) (new_daemonset ns name) (pure_mut (mutateDaemonSet env r spec)))
      (\<lambda>(opResult, err, _). Ret err))"
proof -
  from assms obtain ds where ds: "ko_DaemonSet ob (ns, name) = Some ds" "controlled_by r (dset_Meta ds)" "dset_Spec ds = spec name"
    by (auto simp: stored_as_def)
  have put: "put_daemonset_spec spec ds = ds" if "ObjectKeyFromObject (dset_Meta ds) = (ns, name)"
    using that ds(3) by (cases ds) (simp add: put_daemonset_spec_def ObjectKeyFromObject_def)
  show ?thesis
  proof (rule keeps_DaemonSet, unfold ds(1), rule daemonsets.locally_kept)
    fix o2 assume "ObjectKeyFromObject (dset_Meta ds) = (ns, name)" "mutateDaemonSet env r spec ds = Inr o2"
    with daemonset_object.controlled_kept [OF ds(2) put] show "o2 = ds" by (simp add: mutateDaemonSet_def)
  qed simp
qed

lemma keeps_applied_policy:
  assumes "stored_as (ko_NetworkPolicy ob (ns, name)) (\<lambda>np. controlled_by r (np_Meta np) \<and> np_Spec np = policy_spec ingress name)"
  shows "keeps_slot (NetworkPolicy_at (ns, name)) ob
    (bind_m (CreateOrUpdate np_Meta (cl_NetworkPolicy cl) (new_network_policy ns name) (pure_mut (mutateNetworkPolicy env r ingress)))
      (\<lambda>(opResult, err, _). Ret err))"
proof -
  from assms obtain np where np: "ko_NetworkPolicy ob (ns, name) = Some np" "controlled_by r (np_Meta np)"
      "np_Spec np = policy_spec ingress name"
    by (auto simp: stored_as_def)
  have put: "put_policy_spec ingress np = np" if "ObjectKeyFromObject (np_Meta np) = (ns, name)"
    using that np(3) by (cases np) (simp add: put_policy_spec_def ObjectKeyFromObject_def)
  show ?thesis
  proof (rule keeps_NetworkPolicy, unfold np(1), rule policies.locally_kept)
    fix o2 assume "ObjectKeyFromObject (np_Meta np) = (ns, name)" "mutateNetworkPolicy env r ingress np = Inr o2"
    with policy_object.controlled_kept [OF np(2) put] show "o2 = np" by (simp add: mutateNetworkPolicy_def)
  qed simp
qed

lemma keeps_node_plugin:
  assumes "node_plugin_ready env r ob"
  shows "keeps_slot (DaemonSet_at (driver_namespace r, generateName r ''nodeplugin'')) ob (reconcileNodePluginDaemonSet cl env r)"
  unfolding reconcileNodePluginDaemonSet_def Let_def
  by (rule keeps_applied_daemonset) (use assms in \<open>simp add: node_plugin_ready_def\<close>)

lemma keeps_csi_addons:
  assumes "csi_addons_ready env r ob"
  shows "keeps_slot (DaemonSet_at (driver_namespace r, generateName r ''nodeplugin-csi-addons'')) ob
    (reconcileNodePluginDaemonSetForCsiAddons cl env r)"
proof (cases "withCsiAddonsVolumeCondition r")
  case (Inl err)
  with assms show ?thesis by (simp add: csi_addons_ready_def)
next
  case (Inr condition)
  with assms keeps_applied_daemonset keeps_absent(2) show ?thesis
    by (cases "withCsiAddonsDaemonSet r")
      (simp_all add: csi_addons_ready_def reconcileNodePluginDaemonSetForCsiAddons_def Let_def del: bind_call)
qed

lemma keeps_policies:
  "controller_policy_ready r ob \<Longrightarrow> keeps_slot (NetworkPolicy_at (driver_namespace r, generateName r ''ctrlplugin'')) ob
     (reconcileControllerPluginNetworkPolicy cl env r)"
  "csi_addons_policy_ready r ob \<Longrightarrow> keeps_slot (NetworkPolicy_at (driver_namespace r, generateName r ''nodeplugin-csi-addons'')) ob
     (reconcileNodePluginCsiAddonsNetworkPolicy cl env r)"
  using keeps_applied_policy keeps_absent(4)
  by (simp_all add: controller_policy_ready_def csi_addons_policy_ready_def reconcileControllerPluginNetworkPolicy_def
      reconcileNodePluginCsiAddonsNetworkPolicy_def Let_def del: bind_call split: if_splits)

lemma keeps_liveness:
  assumes "liveness_ready r ob"
  shows "keeps_slot (Service_at (driver_namespace r, generateServiceName r ''liveness'')) ob (reconcileLivenessService cl env r)"
proof (cases "d_Liveness (spec_of r)")
  case None
  with assms keeps_absent(3) show ?thesis
    by (simp add: liveness_ready_def reconcileLivenessService_def Let_def del: bind_call)
next
  case (Some liveness)
  with assms obtain sv where sv: "ko_Service ob (driver_namespace r, generateServiceName r ''liveness'') = Some sv"
      "controlled_by r (sv_Meta sv)" "sv_Spec sv = liveness_service_spec liveness"
    by (auto simp: liveness_ready_def stored_as_def)
  show ?thesis
    unfolding reconcileLivenessService_def Let_def Some option.case
    by (rule keeps_Service, unfold sv(1), rule services.locally_kept)
      (use sv service_object.controlled_kept [OF sv(2), of liveness] in \<open>auto simp: mutateLivenessService_def\<close>)
qed

lemma keeps_config_maps:
  "csi_config_map_ready r ob \<Longrightarrow> keeps_slot (ConfigMap_at (driver_namespace r, vol_Name CsiConfigVolume)) ob (reconcileCsiConfigMap cl env r)"
  "log_rotation_ready r ob \<Longrightarrow> keeps_slot (ConfigMap_at (driver_namespace r, LogRotateConfigMapName (driver_name r))) ob
     (reconcileLogRotateConfigMap cl env r)"
proof -
  assume "csi_config_map_ready r ob"
  then obtain cm where cm: "ko_ConfigMap ob (driver_namespace r, vol_Name CsiConfigVolume) = Some cm"
      "IsOwnedBy (cm_Meta cm) (dr_Meta (r_driver r))"
    by (auto simp: csi_config_map_ready_def stored_as_def)
  show "keeps_slot (ConfigMap_at (driver_namespace r, vol_Name CsiConfigVolume)) ob (reconcileCsiConfigMap cl env r)"
    unfolding reconcileCsiConfigMap_def
    by (rule keeps_ConfigMap, unfold cm(1), rule config_maps.locally_kept)
      (use csi_config_map_kept [OF cm(2)] in auto)
next
  assume ready: "log_rotation_ready r ob"
  show "keeps_slot (ConfigMap_at (driver_namespace r, LogRotateConfigMapName (driver_name r))) ob (reconcileLogRotateConfigMap cl env r)"
  proof (cases "logRotationSpec r")
    case None
    with ready keeps_absent(1) show ?thesis
      by (simp add: log_rotation_ready_def reconcileLogRotateConfigMap_def Let_def del: bind_call)
  next
    case (Some rotation)
    with ready obtain cm where cm: "ko_ConfigMap ob (driver_namespace r, LogRotateConfigMapName (driver_name r)) = Some cm"
        "IsOwnedBy (cm_Meta cm) (dr_Meta (r_driver r))" "cm_Data cm = fmap_of_list [(''csi'', logRotateFile rotation)]"
      by (auto simp: log_rotation_ready_def stored_as_def Let_def)
    show ?thesis
      unfolding reconcileLogRotateConfigMap_def Let_def Some option.case
      by (rule keeps_ConfigMap, unfold cm(1), rule config_maps.locally_kept)
        (use log_rotation_kept [OF cm(2,3)] in auto)
  qed
qed

lemma keeps_csi_driver:
  assumes ready: "csi_driver_ready r ob"
  shows "keeps_slot (CSIDriver_at ([], driver_name r)) ob (reconcileK8sCsiDriver cl r)"
proof -
  obtain cd where cd: "ko_CSIDriver ob ([], driver_name r) = Some cd"
    using ready by (auto simp: csi_driver_ready_def stored_as_def)
  note kept = csi_driver_kept [OF ready cd]
  show ?thesis
    unfolding reconcileK8sCsiDriver_def
  proof (rule keeps_CSIDriver, unfold cd, rule locally_bind,
      rule csi_drivers.locally_untouched [where P = "\<lambda>res. res = Inr cd"], goal_cases)
    case 1
    with kept show ?case by (simp add: pure_mut_def)
  next
    case (4 v' a)
    then show ?case by (cases a) (auto simp: named_meta_def zero_meta_def split: option.split)
  qed simp_all
qed

lemma keeps_controller:
  assumes ready: "controller_ready env r ob" and given: "ct_Replicas (ctrl_spec r) = Some n"
  shows "keeps_slot (Deployment_at (driver_namespace r, generateName r ''ctrlplugin'')) ob (reconcileControllerPluginDeployment cl env r)"
proof -
  obtain dp where dp: "ko_Deployment ob (driver_namespace r, generateName r ''ctrlplugin'') = Some dp"
    "controlled_by r (dp_Meta dp)" "dp_Spec dp = ctrl_deployment_spec env r n (generateName r ''ctrlplugin'')"
    using ready given by (auto simp: controller_ready_def stored_as_def may_replicate_def)
  have may: "may_replicate r m \<longleftrightarrow> m = n" for m by (simp add: may_replicate_def given)
  let ?P = "\<lambda>res. (\<exists>e. res = Inl e) \<or> deployment_mutation env r n dp = res"
  show ?thesis
    unfolding reconcileControllerPluginDeployment_def Let_def
  proof (rule keeps_Deployment, unfold dp(1), rule locally_bind, rule deployments.locally_untouched [where P = ?P], goal_cases)
    case 1
    show ?case using local_deployment_mutation [of _ "Some dp" r env dp] by (simp add: may)
  next
    case (2 o2)
    then have "put_deployment_spec env r n dp = dp"
      using dp(3) by (cases dp) (simp add: put_deployment_spec_def ObjectKeyFromObject_def)
    from deployment_object.controlled_kept [OF dp(2) this] 2(2) show ?case by auto
  next
    case (4 v' a)
    then show ?case by (simp add: split_beta)
  qed simp
qed

lemma reconcilers_keep:
  assumes "driver_ready env r ob"
  shows "list_all2 (\<lambda>s p. (\<exists>k. s = Deployment_at k) \<and> ct_Replicas (ctrl_spec r) = None \<or> keeps_slot s ob p)
     (driver_slots (driver_namespace r, driver_name r)) (driver_reconcilers cl env r)"
proof -
  from assms have ready: "csi_config_map_ready r ob" "log_rotation_ready r ob" "csi_driver_ready r ob"
    "controller_ready env r ob" "controller_policy_ready r ob" "node_plugin_ready env r ob" "liveness_ready r ob"
    "csi_addons_ready env r ob" "csi_addons_policy_ready r ob"
    by (simp_all add: driver_ready_def ready_conditions_def)
  have "ct_Replicas (ctrl_spec r) = None \<or> keeps_slot (Deployment_at (driver_namespace r, generateName r ''ctrlplugin'')) ob
      (reconcileControllerPluginDeployment cl env r)"
    using keeps_controller [OF ready(4)] by (cases "ct_Replicas (ctrl_spec r)") auto
  then show ?thesis
    unfolding driver_reconcilers_def driver_slots_def Let_def slot_names fst_conv snd_conv list_all2_Cons list_all2_Nil
    using keeps_config_maps(1) [OF ready(1)] keeps_config_maps(2) [OF ready(2)] keeps_csi_driver [OF ready(3)]
      keeps_policies(1) [OF ready(5)] keeps_node_plugin [OF ready(6)] keeps_liveness [OF ready(7)]
      keeps_csi_addons [OF ready(8)] keeps_policies(2) [OF ready(9)]
    by blast
qed

text \<open>All nine together, under every schedule.\<close>

lemma concurrent_keeps:
  assumes reach: "reachable (driver_reconcilers cl env r) w s" and ended: "gos s = map Exited results"
    and ready: "driver_ready env r (view w)"
    and slot: "sl \<in> set (driver_slots (driver_namespace r, driver_name r))"
    and given: "(\<exists>k. sl = Deployment_at k) \<Longrightarrow> ct_Replicas (ctrl_spec r) \<noteq> None"
  shows "only sl (view (world s)) = only sl (view w)"
proof -
  let ?slots = "driver_slots (driver_namespace r, driver_name r)" and ?recs = "driver_reconcilers cl env r"
  have len: "length ?slots = length ?recs" by (simp add: driver_slots_def driver_reconcilers_def Let_def)
  from slot obtain i where i: "i < length ?recs" "sl = ?slots ! i" by (metis in_set_conv_nth len)
  let ?V = "\<lambda>w. only sl (view w)"
  have own: "locally ?V (\<lambda>ob' _. ob' = only sl (view w)) (?recs ! i) (?V w)"
    using list_all2_nthD2 [OF reconcilers_keep [OF ready], of i] i given by (auto simp: keeps_slot_def)
  have others: "frames ?V (?recs ! j)" if "j < length ?recs" "j \<noteq> i" for j
  proof -
    have "frames (\<lambda>w. without (?slots ! j) (view w)) (?recs ! j)"
      using list_all2_nthD2 [OF reconcilers_frame [of r env], of j] that by simp
    then have "frames (\<lambda>w. only sl (without (?slots ! j) (view w))) (?recs ! j)" by (rule frames_comp)
    moreover have "sl \<noteq> ?slots ! j"
      using distinct_driver_slots [of "(driver_namespace r, driver_name r)"] i that len by (simp add: nth_eq_iff_index_eq)
    ultimately show ?thesis by (simp add: only_without)
  qed
  show ?thesis by (rule concurrent_local [where V = ?V, OF i(1) own others reach ended])
qed

end

section \<open>Objects determined by their slots\<close>

lemma only_same: "only s (without s ob) = no_objects"
  by (cases s) (simp_all add: no_objects_def)

lemma without_only_eq: "without s a = without s b \<Longrightarrow> only s a = only s b \<Longrightarrow> a = b"
proof -
  have upd: "f = g" if "f(k := None) = g(k := None)" "Map.empty(k := f k) = Map.empty(k := g k)"
    for f g :: "object_key \<Rightarrow> 'o option" and k
  proof
    fix x show "f x = g x" using fun_cong [OF that(1), of x] fun_cong [OF that(2), of k] by (cases "x = k") simp_all
  qed
  show "without s a = without s b \<Longrightarrow> only s a = only s b \<Longrightarrow> a = b"
    by (cases a; cases b; cases s) (auto simp: no_objects_def intro: upd)
qed

lemma eq_from_slots:
  "fold without ss a = fold without ss b \<Longrightarrow> \<forall>s \<in> set ss. only s a = only s b \<Longrightarrow> a = b"
proof (induction ss arbitrary: a b)
  case (Cons s ss)
  have "only s' (without s a) = only s' (without s b)" if "s' \<in> set ss" for s'
    using that Cons.prems(2) only_same [of s] only_without [of s' s] by (cases "s' = s") simp_all
  with Cons.IH [of "without s a" "without s b"] Cons.prems(1) have "without s a = without s b" by simp
  with Cons.prems(2) show ?case using without_only_eq [of s a b] by simp
qed simp

lemma deployment_slot:
  "Deployment_at k \<in> set (driver_slots req) \<longleftrightarrow> k = (fst req, generateName (new_driverReconcile req) ''ctrlplugin'')"
  by (auto simp: driver_slots_def Let_def)

section \<open>Properties\<close>


text \<open>The example driver with two replicas, and a cluster in which it is deployed.\<close>

definition steady :: driverReconcile where
  "steady = example_loaded\<lparr>r_driver := example_driver\<lparr>dr_Spec := (dr_Spec example_driver)
     \<lparr>d_ControllerPlugin := Some (zero_ControllerPluginSpec\<lparr>ct_Replicas := Some 2\<rparr>)\<rparr>\<rparr>\<rparr>"

definition steady_meta :: "bool option \<Rightarrow> string \<Rightarrow> object_meta" where
  "steady_meta b name = upsertOwnerRef (ref_for T_Driver example_meta b) (named_meta ''ns'' name)"

definition one_object :: "'o \<Rightarrow> 'o mem" where
  "one_object obj = \<lparr>mem_objs = [obj], mem_next = 5, mem_faults = []\<rparr>"

definition steady_claim :: csi_driver where
  "steady_claim = example_claim\<lparr>cd_Spec := \<lparr>cds_AttachRequired = Some True, cds_PodInfoOnMount = Some True,
     cds_FSGroupPolicy = Some FileFSGroupPolicy, cds_SELinuxMount = Some True, cds_Rest = JNull\<rparr>\<rparr>"

definition steady_cluster :: cluster where
  "steady_cluster =
     (let ctrl = ''rbd.csi.ceph.com-ctrlplugin''; node = ''rbd.csi.ceph.com-nodeplugin'';
          addons = ''rbd.csi.ceph.com-nodeplugin-csi-addons'';
          ds = (\<lambda>name spec. (new_daemonset ''ns'' name)\<lparr>dset_Meta := steady_meta (Some True) name, dset_Spec := spec name\<rparr>);
          np = (\<lambda>name ingress. (new_network_policy ''ns'' name)
                 \<lparr>np_Meta := steady_meta (Some True) name, np_Spec := policy_spec ingress name\<rparr>)
      in empty_cluster
       \<lparr>mc_Driver := one_object (r_driver steady),
        mc_ConfigMap := \<lparr>mem_objs = [example_images, (new_config_map ''ns'' ''ceph-csi-config'')
          \<lparr>cm_Meta := steady_meta None ''ceph-csi-config''\<rparr>], mem_next = 5, mem_faults = []\<rparr>,
        mc_CSIDriver := one_object steady_claim,
        mc_Deployment := one_object ((new_deployment ''ns'' ctrl)\<lparr>dp_Meta := steady_meta (Some True) ctrl,
          dp_Spec := ctrl_deployment_spec example_env steady 2 ctrl\<rparr>),
        mc_DaemonSet := \<lparr>mem_objs = [ds node (node_daemonset_spec example_env steady),
          ds addons (addons_daemonset_spec example_env steady False)], mem_next = 5, mem_faults = []\<rparr>,
        mc_NetworkPolicy := \<lparr>mem_objs = [np ctrl (ctrl_ingress steady), np addons node_addons_ingress],
          mem_next = 5, mem_faults = []\<rparr>\<rparr>)"

lemma steady_load:
  "run_m (LoadAndValidateDesiredState mem_client example_env example_request) steady_cluster =
     ((None, steady), steady_cluster)"
proof -
  have name: "driver_name example_request = ''rbd.csi.ceph.com''"
    by (simp add: driver_name_def example_request_def zero_Driver_def)
  have claim: "run_m (get_claim mem_client example_request) steady_cluster = (Inr steady_claim, steady_cluster)"
    by (simp add: get_claim_def name mem_api_def mem_request_def mem_find_def steady_cluster_def one_object_def
        steady_claim_def example_claim_def ObjectKeyFromObject_def named_meta_def zero_meta_def Let_def)
  have chk: "check_claim (dr_Meta (r_driver example_request)) steady_claim = None"
    by (subst check_claim_owned [where k = "(''ns'', ''rbd.csi.ceph.com'')"])
      (simp_all add: steady_claim_def example_simps zero_Driver_def ObjectKeyFromObject_def)
  let ?conf = "zero_OperatorConfig\<lparr>oc_Meta := named_meta ''op'' ''ceph-csi-operator-config''\<rparr>"
  have conf: "run_m (get_operator_config mem_client example_env) steady_cluster = (Inr ?conf, steady_cluster)"
    by (simp add: get_operator_config_def mem_api_def mem_request_def mem_find_def steady_cluster_def
        empty_cluster_def empty_mem_def example_env_def Let_def)
  have "run_m (load_driver mem_client example_env ?conf (example_request\<lparr>r_driverType := ''rbd''\<rparr>)) steady_cluster =
      ((None, steady), steady_cluster)"
    by (simp add: load_driver_def apply_operator_defaults_def load_image_set_def mem_api_def mem_request_def
        mem_find_def steady_cluster_def empty_cluster_def empty_mem_def steady_def one_object_def example_simps
        zero_Driver_def zero_OperatorConfig_def zero_DriverSpec_def ObjectKeyFromObject_def driver_namespace_def Let_def)
  with claim chk conf name show ?thesis
    by (simp add: LoadAndValidateDesiredState_def example_match ToLower_type driver_types_def RbdDriverType_def)
qed

lemma steady_ready: "driver_ready example_env steady (mem_objects steady_cluster)"
proof -
  have k: "driver_namespace steady = ''ns''" "driver_name steady = ''rbd.csi.ceph.com''"
    "dr_Meta (r_driver steady) = example_meta"
    by (simp_all add: steady_def example_simps driver_namespace_def driver_name_def)
  have spec: "spec_of steady = zero_DriverSpec\<lparr>d_ImageSet := Some ''images'', d_DeployCsiAddons := Some True,
      d_ControllerPlugin := Some (zero_ControllerPluginSpec\<lparr>ct_Replicas := Some 2\<rparr>)\<rparr>"
    by (simp add: steady_def spec_of_def example_driver_def)
  have controlled: "controlled_by steady (steady_meta (Some True) name)" for name
    by (simp add: controlled_by_def k steady_meta_def upsertOwnerRef_idem)
      (simp add: upsertOwnerRef_def indexOwnerRef_def GetControllerOf_def ref_for_def named_meta_def zero_meta_def)
  have owned: "IsOwnedBy (steady_meta None name) example_meta" for name
    by (simp add: IsOwnedBy_def steady_meta_def upsertOwnerRef_def indexOwnerRef_def ref_for_def named_meta_def zero_meta_def)
  have meta: "om_Namespace (steady_meta b name) = ''ns''" "om_Name (steady_meta b name) = name" for b name
    by (simp_all add: steady_meta_def named_meta_def zero_meta_def)
  have rbd_type: "r_driverType steady = ''rbd''" by (simp add: steady_def example_loaded_def)
  have rbd: "\<not> isNfsDriver steady" "withCsiAddonsVolumeCondition steady = Inr False"
    "withCsiAddonsDaemonSet steady" "deployCsiAddons steady" "\<not> ctrl_hostNetwork steady" "logRotationSpec steady = None"
    "may_replicate steady 2" "d_Liveness (spec_of steady) = None" "d_AttachRequired (spec_of steady) = None"
    "d_FsGroupPolicy (spec_of steady) = []"
    by (simp_all add: k spec rbd_type isNfsDriver_def withCsiAddonsVolumeCondition_def withCsiAddonsDaemonSet_def deployCsiAddons_def
        ctrl_hostNetwork_def ctrl_spec_def logRotationSpec_def may_replicate_def zero_DriverSpec_def
        zero_ControllerPluginSpec_def zero_LogSpec_def example_meta_def named_meta_def zero_meta_def
        NfsDriverType_def)
  note find = mem_objects_def mem_find_def steady_cluster_def one_object_def Let_def ObjectKeyFromObject_def meta
    empty_cluster_def empty_mem_def
  have names: "generateName steady sfx = ''rbd.csi.ceph.com-'' @ sfx" for sfx
    by (simp add: generateName_def k)
  have claim: "ko_CSIDriver (mem_objects steady_cluster) ([], ''rbd.csi.ceph.com'') = Some steady_claim"
    by (simp add: find steady_claim_def example_claim_def named_meta_def zero_meta_def)
  show ?thesis
    unfolding driver_ready_def ready_conditions_def list.pred_inject
  proof (intro conjI)
    show "csi_config_map_ready steady (mem_objects steady_cluster)"
      by (simp add: csi_config_map_ready_def stored_as_def k owned find CsiConfigVolume_def example_images_def named_meta_def zero_meta_def)
    show "csi_driver_ready steady (mem_objects steady_cluster)"
      by (simp add: csi_driver_ready_def stored_as_def k claim rbd steady_claim_def example_claim_def)
    show "log_rotation_ready steady (mem_objects steady_cluster)"
      by (simp add: log_rotation_ready_def k rbd find LogRotateConfigMapName_def example_images_def named_meta_def zero_meta_def)
    show "controller_ready example_env steady (mem_objects steady_cluster)"
      using controlled rbd(7) by (auto simp: controller_ready_def stored_as_def k names find)
    show "controller_policy_ready steady (mem_objects steady_cluster)"
      using controlled by (simp add: controller_policy_ready_def stored_as_def k names rbd find)
    show "node_plugin_ready example_env steady (mem_objects steady_cluster)"
      using controlled by (simp add: node_plugin_ready_def stored_as_def k names find)
    show "liveness_ready steady (mem_objects steady_cluster)"
      by (simp add: liveness_ready_def k rbd find)
    show "csi_addons_ready example_env steady (mem_objects steady_cluster)"
      using controlled by (simp add: csi_addons_ready_def stored_as_def k names rbd find)
    show "csi_addons_policy_ready steady (mem_objects steady_cluster)"
      using controlled by (simp add: csi_addons_policy_ready_def stored_as_def k names rbd find)
  qed simp
qed


end
