(* ===== verification/Cluster_Info.thy ===== *)
theory Cluster_Info
  imports Api_Types
begin

text \<open>
  The cluster information Ceph CSI reads from the ConfigMap \<open>ceph-csi-config\<close>: the record type of
  \<open>clientprofile_controller.go\<close> with its JSON form, how a record is composed from a client
  profile, and the update the client profile controller applies to the shared list.

  Shown here: the JSON form round-trips; the update is an upsert or a delete on the list seen
  as a map from cluster id to record, whatever the position of the record and although the
  deletion reorders the list; so profiles do not disturb each other's records (locale
  \<open>keyed_list\<close>), and the mutation is idempotent (locale \<open>mutator\<close>).
\<close>

section \<open>The record\<close>

record cephfs_info =
  ci_SubvolumeGroup :: string
  ci_KernelMountOptions :: string
  ci_FuseMountOptions :: string
  ci_RadosNamespace :: string
  ci_ControllerPublishSecretRef :: secret_reference

record rbd_info =
  ri_RadosNamespace :: string
  ri_MirrorCount :: "64 word"
  ri_ControllerPublishSecretRef :: secret_reference
  ri_NodePublishSecretRef :: secret_reference

record nvmeof_info =
  ni_RadosNamespace :: string
  ni_ControllerPublishSecretRef :: secret_reference

record read_affinity_info =
  ai_Enabled :: bool
  ai_CrushLocationLabels :: "string list"

record remotePoolDetails =
  pd_PoolID :: string

record remoteRbdDetails =
  rd_RemotePoolMapping :: "(string, remotePoolDetails) fmap"

record replicationDestinationInfo =
  di_RemoteClusterID :: string
  di_Rbd :: "remoteRbdDetails option"

record csiClusterInfoRecord =
  i_ClusterId :: string
  i_Monitors :: "string list"
  i_CephFs :: cephfs_info
  i_Rbd :: rbd_info
  i_Nfs :: unit
  i_Nvmeof :: nvmeof_info
  i_ReadAffinity :: read_affinity_info
  i_ReplicationDestination :: "replicationDestinationInfo option"

definition zero_secret :: secret_reference where
  "zero_secret = \<lparr>sr_Name = [], sr_Namespace = []\<rparr>"

definition zero_cephfs :: cephfs_info where
  "zero_cephfs = \<lparr>ci_SubvolumeGroup = [], ci_KernelMountOptions = [], ci_FuseMountOptions = [],
     ci_RadosNamespace = [], ci_ControllerPublishSecretRef = zero_secret\<rparr>"

definition zero_rbd :: rbd_info where
  "zero_rbd = \<lparr>ri_RadosNamespace = [], ri_MirrorCount = 0,
     ri_ControllerPublishSecretRef = zero_secret, ri_NodePublishSecretRef = zero_secret\<rparr>"

definition zero_nvmeof :: nvmeof_info where
  "zero_nvmeof = \<lparr>ni_RadosNamespace = [], ni_ControllerPublishSecretRef = zero_secret\<rparr>"

definition zero_read_affinity :: read_affinity_info where
  "zero_read_affinity = \<lparr>ai_Enabled = False, ai_CrushLocationLabels = []\<rparr>"

definition zero_record :: csiClusterInfoRecord where
  "zero_record = \<lparr>i_ClusterId = [], i_Monitors = [], i_CephFs = zero_cephfs, i_Rbd = zero_rbd,
     i_Nfs = (), i_Nvmeof = zero_nvmeof, i_ReadAffinity = zero_read_affinity,
     i_ReplicationDestination = None\<rparr>"

section \<open>Its JSON form\<close>

definition enc_int64 :: "64 word encoder" where
  "enc_int64 w = enc_int (sint w)"

definition dec_int64 :: "64 word decoder" where
  "dec_int64 j w = map_sum id word_of_int (dec_int j (sint w))"

definition enc_secret :: "secret_reference encoder" where
  "enc_secret x = JObj (
     omitempty (sr_Name x = []) ''name'' (JStr (sr_Name x)) @
     omitempty (sr_Namespace x = []) ''namespace'' (JStr (sr_Namespace x)))"

definition dec_secret :: "secret_reference decoder" where
  "dec_secret = dec_struct
     [(''name'', on_field sr_Name (\<lambda>v. sr_Name_update (\<lambda>_. v)) dec_string),
      (''namespace'', on_field sr_Namespace (\<lambda>v. sr_Namespace_update (\<lambda>_. v)) dec_string)]"

definition enc_cephfs :: "cephfs_info encoder" where
  "enc_cephfs x = JObj (
     omitempty (ci_SubvolumeGroup x = []) ''subvolumeGroup'' (JStr (ci_SubvolumeGroup x)) @
     [(''kernelMountOptions'', JStr (ci_KernelMountOptions x)),
      (''fuseMountOptions'', JStr (ci_FuseMountOptions x))] @
     omitempty (ci_RadosNamespace x = []) ''radosNamespace'' (JStr (ci_RadosNamespace x)) @
     [(''controllerPublishSecretRef'', enc_secret (ci_ControllerPublishSecretRef x))])"

definition dec_cephfs :: "cephfs_info decoder" where
  "dec_cephfs = dec_struct
     [(''subvolumeGroup'', on_field ci_SubvolumeGroup (\<lambda>v. ci_SubvolumeGroup_update (\<lambda>_. v)) dec_string),
      (''kernelMountOptions'', on_field ci_KernelMountOptions (\<lambda>v. ci_KernelMountOptions_update (\<lambda>_. v)) dec_string),
      (''fuseMountOptions'', on_field ci_FuseMountOptions (\<lambda>v. ci_FuseMountOptions_update (\<lambda>_. v)) dec_string),
      (''radosNamespace'', on_field ci_RadosNamespace (\<lambda>v. ci_RadosNamespace_update (\<lambda>_. v)) dec_string),
      (''controllerPublishSecretRef'',
         on_field ci_ControllerPublishSecretRef (\<lambda>v. ci_ControllerPublishSecretRef_update (\<lambda>_. v)) dec_secret)]"

definition enc_rbd :: "rbd_info encoder" where
  "enc_rbd x = JObj (
     omitempty (ri_RadosNamespace x = []) ''radosNamespace'' (JStr (ri_RadosNamespace x)) @
     omitempty (ri_MirrorCount x = 0) ''mirrorCount'' (enc_int64 (ri_MirrorCount x)) @
     [(''controllerPublishSecretRef'', enc_secret (ri_ControllerPublishSecretRef x)),
      (''nodePublishSecretRef'', enc_secret (ri_NodePublishSecretRef x))])"

definition dec_rbd :: "rbd_info decoder" where
  "dec_rbd = dec_struct
     [(''radosNamespace'', on_field ri_RadosNamespace (\<lambda>v. ri_RadosNamespace_update (\<lambda>_. v)) dec_string),
      (''mirrorCount'', on_field ri_MirrorCount (\<lambda>v. ri_MirrorCount_update (\<lambda>_. v)) dec_int64),
      (''controllerPublishSecretRef'',
         on_field ri_ControllerPublishSecretRef (\<lambda>v. ri_ControllerPublishSecretRef_update (\<lambda>_. v)) dec_secret),
      (''nodePublishSecretRef'',
         on_field ri_NodePublishSecretRef (\<lambda>v. ri_NodePublishSecretRef_update (\<lambda>_. v)) dec_secret)]"

definition enc_nvmeof :: "nvmeof_info encoder" where
  "enc_nvmeof x = JObj (
     omitempty (ni_RadosNamespace x = []) ''radosNamespace'' (JStr (ni_RadosNamespace x)) @
     [(''controllerPublishSecretRef'', enc_secret (ni_ControllerPublishSecretRef x))])"

definition dec_nvmeof :: "nvmeof_info decoder" where
  "dec_nvmeof = dec_struct
     [(''radosNamespace'', on_field ni_RadosNamespace (\<lambda>v. ni_RadosNamespace_update (\<lambda>_. v)) dec_string),
      (''controllerPublishSecretRef'',
         on_field ni_ControllerPublishSecretRef (\<lambda>v. ni_ControllerPublishSecretRef_update (\<lambda>_. v)) dec_secret)]"

definition enc_read_affinity :: "read_affinity_info encoder" where
  "enc_read_affinity x = JObj (
     omitempty (\<not> ai_Enabled x) ''enabled'' (JBool (ai_Enabled x)) @
     omitempty (ai_CrushLocationLabels x = []) ''crushLocationLabels''
       (enc_slice JStr (ai_CrushLocationLabels x)))"

definition dec_read_affinity :: "read_affinity_info decoder" where
  "dec_read_affinity = dec_struct
     [(''enabled'', on_field ai_Enabled (\<lambda>v. ai_Enabled_update (\<lambda>_. v)) dec_bool),
      (''crushLocationLabels'',
         on_field ai_CrushLocationLabels (\<lambda>v. ai_CrushLocationLabels_update (\<lambda>_. v)) (dec_slice [] dec_string))]"

definition enc_pool :: "remotePoolDetails encoder" where
  "enc_pool x = JObj [(''poolID'', JStr (pd_PoolID x))]"

definition dec_pool :: "remotePoolDetails decoder" where
  "dec_pool = dec_struct [(''poolID'', on_field pd_PoolID (\<lambda>v. pd_PoolID_update (\<lambda>_. v)) dec_string)]"

definition enc_remote_rbd :: "remoteRbdDetails encoder" where
  "enc_remote_rbd x = JObj (
     omitempty (rd_RemotePoolMapping x = fmempty) ''remotePoolMapping''
       (enc_map enc_pool (rd_RemotePoolMapping x)))"

definition dec_remote_rbd :: "remoteRbdDetails decoder" where
  "dec_remote_rbd = dec_struct
     [(''remotePoolMapping'', on_field rd_RemotePoolMapping (\<lambda>v. rd_RemotePoolMapping_update (\<lambda>_. v))
         (dec_map \<lparr>pd_PoolID = []\<rparr> dec_pool))]"

definition enc_destination :: "replicationDestinationInfo encoder" where
  "enc_destination x = JObj (
     [(''remoteClusterID'', JStr (di_RemoteClusterID x))] @
     omitempty (di_Rbd x = None) ''rbd'' (enc_ptr enc_remote_rbd (di_Rbd x)))"

definition dec_destination :: "replicationDestinationInfo decoder" where
  "dec_destination = dec_struct
     [(''remoteClusterID'', on_field di_RemoteClusterID (\<lambda>v. di_RemoteClusterID_update (\<lambda>_. v)) dec_string),
      (''rbd'', on_field di_Rbd (\<lambda>v. di_Rbd_update (\<lambda>_. v))
         (dec_ptr \<lparr>rd_RemotePoolMapping = fmempty\<rparr> dec_remote_rbd))]"

definition enc_record :: "csiClusterInfoRecord encoder" where
  "enc_record x = JObj (
     omitempty (i_ClusterId x = []) ''clusterID'' (JStr (i_ClusterId x)) @
     omitempty (i_Monitors x = []) ''monitors'' (enc_slice JStr (i_Monitors x)) @
     [(''cephFS'', enc_cephfs (i_CephFs x)),
      (''rbd'', enc_rbd (i_Rbd x)),
      (''nfs'', JObj []),
      (''nvmeof'', enc_nvmeof (i_Nvmeof x)),
      (''readAffinity'', enc_read_affinity (i_ReadAffinity x))] @
     omitempty (i_ReplicationDestination x = None) ''replicationDestination''
       (enc_ptr enc_destination (i_ReplicationDestination x)))"

definition dec_record :: "csiClusterInfoRecord decoder" where
  "dec_record = dec_struct
     [(''clusterID'', on_field i_ClusterId (\<lambda>v. i_ClusterId_update (\<lambda>_. v)) dec_string),
      (''monitors'', on_field i_Monitors (\<lambda>v. i_Monitors_update (\<lambda>_. v)) (dec_slice [] dec_string)),
      (''cephFS'', on_field i_CephFs (\<lambda>v. i_CephFs_update (\<lambda>_. v)) dec_cephfs),
      (''rbd'', on_field i_Rbd (\<lambda>v. i_Rbd_update (\<lambda>_. v)) dec_rbd),
      (''nfs'', on_field i_Nfs (\<lambda>v. i_Nfs_update (\<lambda>_. v)) (dec_struct [])),
      (''nvmeof'', on_field i_Nvmeof (\<lambda>v. i_Nvmeof_update (\<lambda>_. v)) dec_nvmeof),
      (''readAffinity'', on_field i_ReadAffinity (\<lambda>v. i_ReadAffinity_update (\<lambda>_. v)) dec_read_affinity),
      (''replicationDestination'', on_field i_ReplicationDestination (\<lambda>v. i_ReplicationDestination_update (\<lambda>_. v))
         (dec_ptr \<lparr>di_RemoteClusterID = [], di_Rbd = None\<rparr> dec_destination))]"

text \<open>The list holds pointers: an element \<open>null\<close> is a nil pointer.\<close>

definition marshal_infos :: "csiClusterInfoRecord option list \<Rightarrow> string" where
  "marshal_infos = Marshal (enc_slice (enc_ptr enc_record))"

definition unmarshal_infos :: "string \<Rightarrow> csiClusterInfoRecord option list result" where
  "unmarshal_infos s = Unmarshal (dec_slice None (dec_ptr zero_record dec_record)) s []"

section \<open>Round trips\<close>

lemma int64_simps [simp]: "dec_int64 (enc_int64 w) 0 = Inr w" "wf_json (enc_int64 w)"
proof -
  have "int64 (sint w)" using sint_range_size [of w] by (simp add: int64_def word_size)
  from int_codec.dec_enc [OF this] int_codec.enc_wf [OF this]
  show "dec_int64 (enc_int64 w) 0 = Inr w" "wf_json (enc_int64 w)"
    by (simp_all add: dec_int64_def enc_int64_def)
qed

interpretation secret: codec enc_secret dec_secret zero_secret "\<lambda>_. True"
  by unfold_locales (simp_all add: enc_secret_def dec_secret_def zero_secret_def codec_simps)

lemmas secret_simps = secret.dec_enc secret.enc_wf

interpretation cephfs: codec enc_cephfs dec_cephfs zero_cephfs "\<lambda>_. True"
  by unfold_locales
    (simp_all add: enc_cephfs_def dec_cephfs_def zero_cephfs_def codec_simps secret_simps)

interpretation rbd: codec enc_rbd dec_rbd zero_rbd "\<lambda>_. True"
  by unfold_locales
    (simp_all add: enc_rbd_def dec_rbd_def zero_rbd_def codec_simps secret_simps)

interpretation nvmeof: codec enc_nvmeof dec_nvmeof zero_nvmeof "\<lambda>_. True"
  by unfold_locales
    (simp_all add: enc_nvmeof_def dec_nvmeof_def zero_nvmeof_def codec_simps secret_simps)

interpretation read_affinity: codec enc_read_affinity dec_read_affinity zero_read_affinity "\<lambda>_. True"
  by unfold_locales
    (simp_all add: enc_read_affinity_def dec_read_affinity_def zero_read_affinity_def codec_simps)

interpretation pool: codec enc_pool dec_pool "\<lparr>pd_PoolID = []\<rparr>" "\<lambda>_. True"
  by unfold_locales (simp_all add: enc_pool_def dec_pool_def codec_simps)

interpretation remote_rbd: codec enc_remote_rbd dec_remote_rbd "\<lparr>rd_RemotePoolMapping = fmempty\<rparr>" "\<lambda>_. True"
  by unfold_locales
    (simp_all add: enc_remote_rbd_def dec_remote_rbd_def codec_simps pool.wf_map pool.dec_map_enc)

text \<open>A pointer to a struct: the encoder's value is an object, never \<open>null\<close>.\<close>

lemma dec_ptr_struct: "dec_ptr z d (JObj kvs) None = map_sum id Some (d (JObj kvs) z)"
  by (simp add: dec_ptr_def)

interpretation destination:
  codec enc_destination dec_destination "\<lparr>di_RemoteClusterID = [], di_Rbd = None\<rparr>" "\<lambda>_. True"
proof (unfold_locales, goal_cases)
  case (1 x)
  then show ?case
    by (simp add: enc_destination_def enc_ptr_def omitempty_def remote_rbd.enc_wf split: option.splits)
next
  case (2 x)
  have "dec_ptr \<lparr>rd_RemotePoolMapping = fmempty\<rparr> dec_remote_rbd (enc_remote_rbd y) None = Inr (Some y)" for y
    using remote_rbd.dec_enc [of y] by (simp add: dec_ptr_struct enc_remote_rbd_def)
  then show ?case
    by (cases x; cases "di_Rbd x")
      (simp_all add: enc_destination_def dec_destination_def codec_simps enc_ptr_def)
qed

interpretation info_record: codec enc_record dec_record zero_record "\<lambda>_. True"
proof (unfold_locales, goal_cases)
  case (1 x)
  then show ?case
    by (simp add: enc_record_def enc_ptr_def omitempty_def destination.enc_wf cephfs.enc_wf rbd.enc_wf
        nvmeof.enc_wf read_affinity.enc_wf split: option.splits)
next
  case (2 x)
  have "dec_ptr \<lparr>di_RemoteClusterID = [], di_Rbd = None\<rparr> dec_destination (enc_destination y) None = Inr (Some y)" for y
    using destination.dec_enc [of y] by (simp add: dec_ptr_struct enc_destination_def)
  then show ?case
    by (cases x; cases "i_ReplicationDestination x")
      (simp_all add: enc_record_def dec_record_def zero_record_def codec_simps enc_ptr_def cephfs.dec_enc
        rbd.dec_enc nvmeof.dec_enc read_affinity.dec_enc)
qed

interpretation info_ptr: codec "enc_ptr enc_record" "dec_ptr zero_record dec_record" None "\<lambda>_. True"
proof (unfold_locales, goal_cases)
  case (1 x)
  then show ?case by (simp add: enc_ptr_def info_record.enc_wf split: option.splits)
next
  case (2 x)
  have "dec_ptr zero_record dec_record (enc_record y) None = Inr (Some y)" for y
    using info_record.dec_enc [of y] by (simp add: dec_ptr_struct enc_record_def)
  then show ?case by (cases x) (simp_all add: enc_ptr_def dec_ptr_def)
qed

interpretation info_list: codec "enc_slice (enc_ptr enc_record)"
  "dec_slice None (dec_ptr zero_record dec_record)" "[]" "\<lambda>_. True"
  by unfold_locales (simp_all add: info_ptr.wf_slice info_ptr.dec_slice_enc)

lemma unmarshal_marshal_infos [simp]: "unmarshal_infos (marshal_infos rs) = Inr rs"
  by (simp add: unmarshal_infos_def marshal_infos_def info_list.round_trip)

section \<open>Composing a record\<close>

definition compose_cephfs :: "iteration \<Rightarrow> CephFsConfigSpec option \<Rightarrow> cephfs_info" where
  "compose_cephfs rng spec =
     (case spec of
        None \<Rightarrow> zero_cephfs
      | Some cephFs \<Rightarrow>
          \<lparr>ci_SubvolumeGroup = fs_SubVolumeGroup cephFs,
           ci_KernelMountOptions =
             (case fs_KernelMountOptions cephFs of None \<Rightarrow> [] | Some mountOpt \<Rightarrow> MapToString (rng mountOpt) ''='' '',''),
           ci_FuseMountOptions =
             (case fs_FuseMountOptions cephFs of None \<Rightarrow> [] | Some mountOpt \<Rightarrow> MapToString (rng mountOpt) ''='' '',''),
           ci_RadosNamespace = Deref (fs_RadosNamespace cephFs) [],
           ci_ControllerPublishSecretRef =
             (case fs_CephCsiSecrets cephFs of
                None \<Rightarrow> zero_secret
              | Some cephCsiSecrets \<Rightarrow> cs_ControllerPublishSecret cephCsiSecrets)\<rparr>)"

definition compose_rbd :: "RbdConfigSpec option \<Rightarrow> CephConnection \<Rightarrow> rbd_info" where
  "compose_rbd spec cephConn =
     (case spec of
        None \<Rightarrow> zero_rbd
      | Some rbd \<Rightarrow>
          \<lparr>ri_RadosNamespace = rb_RadosNamespace rbd,
           ri_MirrorCount = cc_RbdMirrorDaemonCount (cc_Spec cephConn),
           ri_ControllerPublishSecretRef =
             (case rb_CephCsiSecrets rbd of
                None \<Rightarrow> zero_secret
              | Some cephCsiSecrets \<Rightarrow> cs_ControllerPublishSecret cephCsiSecrets),
           ri_NodePublishSecretRef =
             (case rb_CephCsiSecrets rbd of
                None \<Rightarrow> zero_secret
              | Some cephCsiSecrets \<Rightarrow> cs_NodePublishSecret cephCsiSecrets)\<rparr>)"

definition compose_nvmeof :: "NvmeofConfigSpec option \<Rightarrow> nvmeof_info" where
  "compose_nvmeof spec =
     (case spec of
        None \<Rightarrow> zero_nvmeof
      | Some nvmeof \<Rightarrow>
          \<lparr>ni_RadosNamespace = nv_RadosNamespace nvmeof,
           ni_ControllerPublishSecretRef =
             (case nv_CephCsiSecrets nvmeof of
                None \<Rightarrow> zero_secret
              | Some cephCsiSecrets \<Rightarrow> cs_ControllerPublishSecret cephCsiSecrets)\<rparr>)"

definition compose_read_affinity :: "CephConnection \<Rightarrow> read_affinity_info" where
  "compose_read_affinity cephConn =
     (case cc_ReadAffinity (cc_Spec cephConn) of
        None \<Rightarrow> zero_read_affinity
      | Some readAffinity \<Rightarrow>
          \<lparr>ai_Enabled = True, ai_CrushLocationLabels = ra_CrushLocationLabels readAffinity\<rparr>)"

definition pool_mapping :: "PoolMappingSpec list \<Rightarrow> (string, remotePoolDetails) fmap" where
  "pool_mapping pools =
     foldl (\<lambda>mp poolMapping. fmupd (pm_Name poolMapping) \<lparr>pd_PoolID = pm_RemoteID poolMapping\<rparr> mp) fmempty pools"

definition compose_destination :: "ClientProfileReplication option \<Rightarrow> replicationDestinationInfo option" where
  "compose_destination repl =
     (case repl of
        None \<Rightarrow> None
      | Some cpr \<Rightarrow>
          if crt_Phase (cpr_Status cpr) = ClientProfileReplicationPhaseReady
          then Some \<lparr>di_RemoteClusterID = crs_RemoteClientProfile (cpr_Spec cpr),
                     di_Rbd = (case crs_RBD (cpr_Spec cpr) of
                                 None \<Rightarrow> None
                               | Some rbd \<Rightarrow>
                                   if length (rr_PoolMapping rbd) > 0
                                   then Some \<lparr>rd_RemotePoolMapping = pool_mapping (rr_PoolMapping rbd)\<rparr>
                                   else None)\<rparr>
          else None)"

definition composeCsiClusterInfoRecord ::
  "iteration \<Rightarrow> ClientProfile \<Rightarrow> CephConnection \<Rightarrow> ClientProfileReplication option \<Rightarrow> csiClusterInfoRecord" where
  "composeCsiClusterInfoRecord rng clientProfile cephConn clientProfileReplication =
     \<lparr>i_ClusterId = om_Name (cp_Meta clientProfile),
      i_Monitors = cc_Monitors (cc_Spec cephConn),
      i_CephFs = compose_cephfs rng (cps_CephFs (cp_Spec clientProfile)),
      i_Rbd = compose_rbd (cps_Rbd (cp_Spec clientProfile)) cephConn,
      i_Nfs = (),
      i_Nvmeof = compose_nvmeof (cps_Nvmeof (cp_Spec clientProfile)),
      i_ReadAffinity = compose_read_affinity cephConn,
      i_ReplicationDestination = compose_destination clientProfileReplication\<rparr>"

section \<open>Updating the shared list\<close>

record ClientProfileReconcile =
  r_clientProfile :: ClientProfile
  r_cephConn :: CephConnection
  r_clientProfileReplication :: ClientProfileReplication
  r_cleanUp :: bool

text \<open>\<open>slices.IndexFunc\<close> over pointers: reading the id of a nil pointer panics.\<close>

fun index_record :: "csiClusterInfoRecord option list \<Rightarrow> string \<Rightarrow> nat option result" where
  "index_record [] name = Inr None"
| "index_record (None # rs) name = Inl (Panic ''nil pointer dereference'')"
| "index_record (Some r # rs) name =
     (if i_ClusterId r = name then Inr (Some 0)
      else map_sum id (map_option Suc) (index_record rs name))"

definition delete_unordered :: "nat \<Rightarrow> 'a list \<Rightarrow> 'a list" where
  "delete_unordered index xs = (let n = length xs in take (n - 1) (xs[index := xs ! (n - 1)]))"

definition update_infos ::
  "bool \<Rightarrow> string \<Rightarrow> csiClusterInfoRecord \<Rightarrow> csiClusterInfoRecord option list \<Rightarrow>
   csiClusterInfoRecord option list result" where
  "update_infos cleanUp name record clusterInfoList =
     (case index_record clusterInfoList name of
        Inl err \<Rightarrow> Inl err
      | Inr index \<Rightarrow>
          if \<not> cleanUp
          then (case index of
                  Some i \<Rightarrow> Inr (clusterInfoList[i := Some record])
                | None \<Rightarrow> Inr (clusterInfoList @ [Some record]))
          else (case index of
                  Some i \<Rightarrow> Inr (delete_unordered i clusterInfoList)
                | None \<Rightarrow> Inr clusterInfoList))"

definition infos_of :: "config_map \<Rightarrow> csiClusterInfoRecord option list result" where
  "infos_of cm =
     (let configsAsJson = Deref (fmlookup (cm_Data cm) CsiConfigMapConfigKey) []
      in if configsAsJson \<noteq> [] then unmarshal_infos configsAsJson else Inr [])"

definition put_infos :: "csiClusterInfoRecord option list \<Rightarrow> config_map \<Rightarrow> config_map" where
  "put_infos clusterInfoList cm =
     cm\<lparr>cm_Data := fmupd CsiConfigMapConfigKey (marshal_infos clusterInfoList) (cm_Data cm)\<rparr>"

definition compose_for :: "iteration \<Rightarrow> ClientProfileReconcile \<Rightarrow> csiClusterInfoRecord" where
  "compose_for rng r =
     composeCsiClusterInfoRecord rng (r_clientProfile r) (r_cephConn r) (Some (r_clientProfileReplication r))"

text \<open>The function passed to \<open>CreateOrUpdate\<close> in \<open>reconcileCephCsiClusterInfo\<close>.\<close>

definition mutateCephCsiClusterInfo ::
  "iteration \<Rightarrow> scheme \<Rightarrow> ClientProfileReconcile \<Rightarrow> config_map \<Rightarrow> config_map result" where
  "mutateCephCsiClusterInfo rng scheme r csiConfigMap =
     (case ToggleOwnerReference (\<not> r_cleanUp r) (cm_Meta csiConfigMap) T_ClientProfile
             (cp_Meta (r_clientProfile r)) scheme of
        Inl err \<Rightarrow> Inl err
      | Inr (meta, _) \<Rightarrow>
          let csiConfigMap = csiConfigMap\<lparr>cm_Meta := meta\<rparr>
          in case infos_of csiConfigMap of
               Inl err \<Rightarrow> Inl err
             | Inr clusterInfoList \<Rightarrow>
                 (case update_infos (r_cleanUp r) (om_Name (cp_Meta (r_clientProfile r)))
                         (compose_for rng r) clusterInfoList of
                    Inl err \<Rightarrow> Inl err
                  | Inr clusterInfoList' \<Rightarrow> Inr (put_infos clusterInfoList' csiConfigMap)))"

section \<open>The list as a keyed store\<close>

datatype ('k, 'v) store_op = Put 'v | Del 'k

text \<open>
  What users of a keyed store rely on. The client lemma: after any sequence of operations, what
  is stored under a key depends only on the last operation on that key.
\<close>

locale keyed_store =
  fixes lookup :: "'s \<Rightarrow> 'k \<Rightarrow> 'v option" and put :: "'v \<Rightarrow> 's \<Rightarrow> 's" and del :: "'k \<Rightarrow> 's \<Rightarrow> 's"
    and key :: "'v \<Rightarrow> 'k" and ok :: "'s \<Rightarrow> bool"
  assumes ok_put: "ok s \<Longrightarrow> ok (put v s)"
    and ok_del: "ok s \<Longrightarrow> ok (del k s)"
    and lookup_put: "ok s \<Longrightarrow> lookup (put v s) k = (if k = key v then Some v else lookup s k)"
    and lookup_del: "ok s \<Longrightarrow> lookup (del k s) k' = (if k' = k then None else lookup s k')"
begin

primrec op :: "('k, 'v) store_op \<Rightarrow> 's \<Rightarrow> 's" where
  "op (Put v) = put v"
| "op (Del k) = del k"

primrec op_key :: "('k, 'v) store_op \<Rightarrow> 'k" where
  "op_key (Put v) = key v"
| "op_key (Del k) = k"

primrec op_val :: "('k, 'v) store_op \<Rightarrow> 'v option" where
  "op_val (Put v) = Some v"
| "op_val (Del k) = None"

lemma ok_op: "ok s \<Longrightarrow> ok (op x s)"
  by (cases x) (simp_all add: ok_put ok_del)

lemma lookup_op: "ok s \<Longrightarrow> lookup (op x s) k = (if k = op_key x then op_val x else lookup s k)"
  by (cases x) (simp_all add: lookup_put lookup_del)

lemma history:
  "ok s \<Longrightarrow>
     ok (fold op xs s) \<and>
     lookup (fold op xs s) k =
       (case find (\<lambda>x. op_key x = k) (rev xs) of None \<Rightarrow> lookup s k | Some x \<Rightarrow> op_val x)"
proof (induction xs arbitrary: s)
  case (Cons x xs)
  from Cons.IH [OF ok_op [OF Cons.prems, of x]] Cons.prems show ?case
    by (simp add: find_append lookup_op split: option.splits)
qed simp

end

definition lookup_info :: "csiClusterInfoRecord list \<Rightarrow> string \<Rightarrow> csiClusterInfoRecord option" where
  "lookup_info rs k = find (\<lambda>r. i_ClusterId r = k) rs"

definition delete_info :: "string \<Rightarrow> csiClusterInfoRecord list \<Rightarrow> csiClusterInfoRecord list" where
  "delete_info k rs =
     (case IndexFunc rs (\<lambda>r. i_ClusterId r = k) of None \<Rightarrow> rs | Some i \<Rightarrow> delete_unordered i rs)"

text \<open>Moving the last element into the gap is, up to order, removing the element.\<close>

lemma delete_unordered_mset: "mset (delete_unordered (length us) (us @ x # vs)) = mset us + mset vs"
proof (cases vs rule: rev_cases)
  case Nil
  then show ?thesis by (simp add: delete_unordered_def)
next
  case (snoc ws y)
  then have "(us @ x # vs)[length us := (us @ x # vs) ! (length (us @ x # vs) - 1)] = us @ y # ws @ [y]"
    by (simp add: nth_append)
  with snoc show ?thesis by (simp add: delete_unordered_def)
qed

lemma lookup_info_mset:
  assumes "distinct (map i_ClusterId rs)" "mset rs = mset rs'"
  shows "lookup_info rs k = lookup_info rs' k" "distinct (map i_ClusterId rs')"
proof -
  show d: "distinct (map i_ClusterId rs')"
    using assms by (metis mset_eq_imp_distinct_iff mset_map)
  have set: "set rs = set rs'" using assms(2) by (rule mset_eq_setD)
  have uniq: "lookup_info xs k = Some r \<longleftrightarrow> r \<in> set xs \<and> i_ClusterId r = k"
    if "distinct (map i_ClusterId xs)" for xs r
    using that unfolding lookup_info_def by (induction xs) auto
  show "lookup_info rs k = lookup_info rs' k"
    using uniq [OF assms(1)] uniq [OF d] set by (cases "lookup_info rs k"; cases "lookup_info rs' k") auto
qed

lemma delete_info_mset:
  assumes "distinct (map i_ClusterId rs)"
  shows "mset (delete_info k rs) = mset (filter (\<lambda>r. i_ClusterId r \<noteq> k) rs)"
proof (cases "IndexFunc rs (\<lambda>r. i_ClusterId r = k)")
  case None
  then have "filter (\<lambda>r. i_ClusterId r \<noteq> k) rs = rs" by (simp add: IndexFunc_None_iff filter_id_conv)
  with None show ?thesis by (simp add: delete_info_def)
next
  case (Some i)
  then obtain us r vs where s: "rs = us @ r # vs" "length us = i" "i_ClusterId r = k"
    by (blast dest: IndexFunc_split)
  have "i_ClusterId r \<notin> i_ClusterId ` (set us \<union> set vs)"
    using assms unfolding s(1) by auto
  then have "\<forall>u \<in> set us \<union> set vs. i_ClusterId u \<noteq> k" using s(3) by blast
  then have "filter (\<lambda>r. i_ClusterId r \<noteq> k) us = us" "filter (\<lambda>r. i_ClusterId r \<noteq> k) vs = vs"
    by (auto simp: filter_id_conv)
  with s(1,3) have "filter (\<lambda>r. i_ClusterId r \<noteq> k) rs = us @ vs" by simp
  with Some s delete_unordered_mset [of us r vs] show ?thesis by (simp add: delete_info_def)
qed

interpretation infos: keyed_store lookup_info "upsert i_ClusterId" delete_info i_ClusterId
  "\<lambda>rs. distinct (map i_ClusterId rs)"
proof (unfold_locales, goal_cases)
  case (1 s v)
  then show ?case by (rule distinct_keys_upsert)
next
  case (2 s k)
  from 2 have "distinct (map i_ClusterId (filter (\<lambda>r. i_ClusterId r \<noteq> k) s))" by (rule distinct_map_filter)
  with delete_info_mset [OF 2] show ?case by (metis lookup_info_mset(2))
next
  case (3 s v k)
  then show ?case
    using find_upsert [of i_ClusterId k v s] by (auto simp: lookup_info_def)
next
  case (4 s k k')
  from 4 have "distinct (map i_ClusterId (filter (\<lambda>r. i_ClusterId r \<noteq> k) s))" by (rule distinct_map_filter)
  from lookup_info_mset(1) [OF this delete_info_mset [OF 4, symmetric], of k']
  show ?case
    using find_filter_key [of i_ClusterId k' k s] by (auto simp: lookup_info_def)
qed

text \<open>On a list without nil pointers the update is the upsert or the deletion.\<close>

lemma index_record_some:
  "index_record (map Some rs) name = Inr (IndexFunc rs (\<lambda>r. i_ClusterId r = name))"
  by (induction rs) simp_all

lemma update_infos_some:
  assumes "i_ClusterId record = name"
  shows "update_infos cleanUp name record (map Some rs) =
     Inr (map Some (if cleanUp then delete_info name rs else upsert i_ClusterId record rs))"
proof (cases "IndexFunc rs (\<lambda>r. i_ClusterId r = name)")
  case None
  then have "i_ClusterId record \<notin> i_ClusterId ` set rs" using assms by (auto simp: IndexFunc_None_iff)
  with None show ?thesis
    by (simp add: update_infos_def index_record_some delete_info_def upsert_new)
next
  case (Some i)
  then obtain us r vs where s: "rs = us @ r # vs" "length us = i" "i_ClusterId r = name"
      "\<forall>u \<in> set us. i_ClusterId u \<noteq> name"
    by (blast dest: IndexFunc_split)
  with assms have "upsert i_ClusterId record rs = rs[i := record]"
    using upsert_split [of us i_ClusterId "record" r vs] by (auto simp: list_update_append)
  moreover have "delete_unordered i (map Some rs) = map Some (delete_unordered i rs)"
  proof -
    have "rs \<noteq> []" using s(1) by simp
    then show ?thesis by (simp add: delete_unordered_def map_update take_map [symmetric])
  qed
  ultimately show ?thesis
    using Some by (simp add: update_infos_def index_record_some delete_info_def map_update)
qed

section \<open>The update of the ConfigMap\<close>

lemma upsert_idem: "upsert key d (upsert key d xs) = upsert key d xs"
  by (induction xs) auto

lemma marshal_infos_nonempty [simp]: "marshal_infos rs \<noteq> []"
  by (simp add: marshal_infos_def Marshal_def enc_slice_def)

lemma infos_of_put [simp]: "infos_of (put_infos rs cm) = Inr rs"
  by (simp add: infos_of_def put_infos_def)

lemma infos_of_meta [simp]: "infos_of (cm\<lparr>cm_Meta := md\<rparr>) = infos_of cm"
  by (simp add: infos_of_def)

lemma put_infos_frame [simp]:
  "cm_Meta (put_infos rs cm) = cm_Meta cm" "cm_More (put_infos rs cm) = cm_More cm"
  "k \<noteq> CsiConfigMapConfigKey \<Longrightarrow> fmlookup (cm_Data (put_infos rs cm)) k = fmlookup (cm_Data cm) k"
  by (simp_all add: put_infos_def)

lemma compose_id [simp]: "i_ClusterId (compose_for rng r) = om_Name (cp_Meta (r_clientProfile r))"
  by (simp add: compose_for_def composeCsiClusterInfoRecord_def)

definition new_infos ::
  "iteration \<Rightarrow> ClientProfileReconcile \<Rightarrow> csiClusterInfoRecord list \<Rightarrow> csiClusterInfoRecord list" where
  "new_infos rng r rs =
     (if r_cleanUp r then delete_info (om_Name (cp_Meta (r_clientProfile r))) rs
      else upsert i_ClusterId (compose_for rng r) rs)"

lemma mutate_cluster_info_eq:
  assumes "infos_of cm = Inr (map Some rs)"
  shows "mutateCephCsiClusterInfo rng scheme r cm =
    (case ToggleOwnerReference (\<not> r_cleanUp r) (cm_Meta cm) T_ClientProfile (cp_Meta (r_clientProfile r)) scheme of
       Inl err \<Rightarrow> Inl err
     | Inr (md, _) \<Rightarrow> Inr (put_infos (map Some (new_infos rng r rs)) (cm\<lparr>cm_Meta := md\<rparr>)))"
  using assms
  by (auto simp: mutateCephCsiClusterInfo_def update_infos_some new_infos_def split: sum.splits)

text \<open>The list as a \<open>keyed_store\<close> operation.\<close>

definition info_op :: "iteration \<Rightarrow> ClientProfileReconcile \<Rightarrow> (string, csiClusterInfoRecord) store_op" where
  "info_op rng r =
     (if r_cleanUp r then Del (om_Name (cp_Meta (r_clientProfile r))) else Put (compose_for rng r))"

lemma new_infos_op: "new_infos rng r = infos.op (info_op rng r)"
  by (simp add: fun_eq_iff new_infos_def info_op_def)

lemma info_op_simps [simp]:
  "infos.op_key (info_op rng r) = om_Name (cp_Meta (r_clientProfile r))"
  "infos.op_val (info_op rng r) = (if r_cleanUp r then None else Some (compose_for rng r))"
  by (simp_all add: info_op_def)

definition good_config_map :: "ClientProfileReconcile \<Rightarrow> config_map \<Rightarrow> bool" where
  "good_config_map r cm \<longleftrightarrow>
     (\<exists>rs. infos_of cm = Inr (map Some rs) \<and> distinct (map i_ClusterId rs)) \<and>
     refs_coherent T_ClientProfile (cp_Meta (r_clientProfile r)) (cm_Meta cm)"

lemma new_infos_idem:
  assumes "distinct (map i_ClusterId rs)"
  shows "new_infos rng r (new_infos rng r rs) = new_infos rng r rs"
proof (cases "r_cleanUp r")
  case True
  let ?n = "om_Name (cp_Meta (r_clientProfile r))"
  have "lookup_info (delete_info ?n rs) ?n = None" using infos.lookup_del [OF assms, of ?n ?n] by simp
  then have "IndexFunc (delete_info ?n rs) (\<lambda>r. i_ClusterId r = ?n) = None"
    by (simp add: IndexFunc_None_iff lookup_info_def find_None_iff)
  with True show ?thesis by (simp add: new_infos_def delete_info_def [of ?n "delete_info ?n rs"])
qed (simp add: new_infos_def upsert_idem)

interpretation cluster_info:
  mutator cm_Meta "mutateCephCsiClusterInfo rng scheme r" "good_config_map r" for rng scheme r
proof (unfold_locales, goal_cases)
  case (1 cm cm')
  then show ?case
    by (auto simp: mutateCephCsiClusterInfo_def toggle_frame split: sum.splits prod.splits)
next
  case (2 cm cm')
  then obtain rs where rs: "infos_of cm = Inr (map Some rs)" "distinct (map i_ClusterId rs)"
      "refs_coherent T_ClientProfile (cp_Meta (r_clientProfile r)) (cm_Meta cm)"
    by (auto simp: good_config_map_def)
  with 2 mutate_cluster_info_eq [OF rs(1)] obtain md ch where
    t: "ToggleOwnerReference (\<not> r_cleanUp r) (cm_Meta cm) T_ClientProfile (cp_Meta (r_clientProfile r)) scheme = Inr (md, ch)"
    and cm': "cm' = put_infos (map Some (new_infos rng r rs)) (cm\<lparr>cm_Meta := md\<rparr>)"
    by (auto split: sum.splits prod.splits)
  have "infos_of cm' = Inr (map Some (new_infos rng r rs))" by (simp add: cm')
  from mutate_cluster_info_eq [OF this, of rng scheme r] toggle_idem(2) [OF rs(3) t] show ?case
    by (simp add: cm' new_infos_idem [OF rs(2)]) (simp add: put_infos_def)
next
  case (3 cm cm')
  then obtain rs where rs: "infos_of cm = Inr (map Some rs)" "distinct (map i_ClusterId rs)"
      "refs_coherent T_ClientProfile (cp_Meta (r_clientProfile r)) (cm_Meta cm)"
    by (auto simp: good_config_map_def)
  with 3 mutate_cluster_info_eq [OF rs(1)] obtain md ch where
    t: "ToggleOwnerReference (\<not> r_cleanUp r) (cm_Meta cm) T_ClientProfile (cp_Meta (r_clientProfile r)) scheme = Inr (md, ch)"
    and cm': "cm' = put_infos (map Some (new_infos rng r rs)) (cm\<lparr>cm_Meta := md\<rparr>)"
    by (auto split: sum.splits prod.splits)
  have "distinct (map i_ClusterId (new_infos rng r rs))"
    using infos.ok_op [OF rs(2)] by (simp add: new_infos_op)
  with toggle_coherent [OF rs(3) t] show ?case by (auto simp: good_config_map_def cm')
qed

section \<open>Isolation\<close>

fun update_all ::
  "iteration \<Rightarrow> scheme \<Rightarrow> ClientProfileReconcile list \<Rightarrow> config_map \<Rightarrow> config_map result" where
  "update_all rng scheme [] cm = Inr cm"
| "update_all rng scheme (r # rs) cm =
     (case mutateCephCsiClusterInfo rng scheme r cm of
        Inl err \<Rightarrow> Inl err
      | Inr cm' \<Rightarrow> update_all rng scheme rs cm')"

lemma fmdrop_upd: "fmdrop k (fmupd k v mp) = fmdrop k mp"
  by (rule fmap_ext) simp

lemma find_map: "find P (map f xs) = map_option f (find (P \<circ> f) xs)"
  by (induction xs) simp_all

lemma update_all_fold:
  assumes "infos_of cm = Inr (map Some infos)" "update_all rng scheme rs cm = Inr cm'"
  shows "infos_of cm' = Inr (map Some (fold infos.op (map (info_op rng) rs) infos))"
    and "fmdrop CsiConfigMapConfigKey (cm_Data cm') = fmdrop CsiConfigMapConfigKey (cm_Data cm)"
  using assms
proof (induction rs arbitrary: cm infos)
  case (Cons r rs)
  case 1
  then obtain md where "update_all rng scheme rs
      (put_infos (map Some (new_infos rng r infos)) (cm\<lparr>cm_Meta := md\<rparr>)) = Inr cm'"
    by (auto simp: mutate_cluster_info_eq split: sum.splits prod.splits)
  from Cons.IH(1) [OF infos_of_put this] show ?case by (simp add: new_infos_op)
next
  case (Cons r rs)
  case 2
  then obtain md where "update_all rng scheme rs
      (put_infos (map Some (new_infos rng r infos)) (cm\<lparr>cm_Meta := md\<rparr>)) = Inr cm'"
    by (auto simp: mutate_cluster_info_eq split: sum.splits prod.splits)
  from Cons.IH(2) [OF infos_of_put this] show ?case by (simp add: put_infos_def fmdrop_upd)
qed simp_all

text \<open>
  C4. Client profiles do not disturb each other's cluster information. Whatever sequence of
  successful updates runs on the shared ConfigMap, each by some client profile that is either
  reconciled or cleaned up, the record stored for a profile at the end is the one its own last
  update asked for (none after a clean-up), and a profile that took no part keeps its record.
  The list stays free of nil entries and of duplicates, and no other key of the ConfigMap changes.
\<close>

theorem cluster_info_isolation:
  assumes "infos_of cm = Inr (map Some infos)" and "distinct (map i_ClusterId infos)"
    and "update_all rng scheme rs cm = Inr cm'"
  shows "\<exists>infos'. infos_of cm' = Inr (map Some infos') \<and> distinct (map i_ClusterId infos') \<and>
    (\<forall>name. lookup_info infos' name =
       (case find (\<lambda>r. om_Name (cp_Meta (r_clientProfile r)) = name) (rev rs) of
          None \<Rightarrow> lookup_info infos name
        | Some r \<Rightarrow> if r_cleanUp r then None else Some (compose_for rng r))) \<and>
    fmdrop CsiConfigMapConfigKey (cm_Data cm') = fmdrop CsiConfigMapConfigKey (cm_Data cm)"
proof -
  let ?ops = "map (info_op rng) rs"
  have "find (\<lambda>x. infos.op_key x = k) (rev ?ops) =
      map_option (info_op rng) (find (\<lambda>r. om_Name (cp_Meta (r_clientProfile r)) = k) (rev rs))" for k
    by (simp add: rev_map find_map comp_def)
  with update_all_fold [OF assms(1,3)] infos.history [OF assms(2), of ?ops] show ?thesis
    by (auto split: option.splits)
qed

definition example_reconcile :: "string \<Rightarrow> bool \<Rightarrow> ClientProfileReconcile" where
  "example_reconcile name cleanUp =
     \<lparr>r_clientProfile = zero_ClientProfile\<lparr>cp_Meta := (named_meta ''ns'' name)\<lparr>om_UID := name\<rparr>\<rparr>,
      r_cephConn = zero_CephConnection\<lparr>cc_Spec :=
        \<lparr>cc_Monitors = [''10.0.0.1:6789''], cc_ReadAffinity = None, cc_RbdMirrorDaemonCount = 1\<rparr>\<rparr>,
      r_clientProfileReplication = zero_ClientProfileReplication, r_cleanUp = cleanUp\<rparr>"

theorem cluster_info_isolation_witness:
  "\<exists>cm' infos'.
     update_all sorted_list_of_fmap (addKnownTypes []) [example_reconcile ''a'' False, example_reconcile ''b'' True]
       (new_config_map ''ns'' ''ceph-csi-config'') = Inr cm' \<and>
     infos_of cm' = Inr (map Some infos') \<and>
     lookup_info infos' ''a'' = Some (compose_for sorted_list_of_fmap (example_reconcile ''a'' False)) \<and>
     lookup_info infos' ''b'' = None"
proof -
  let ?cm = "new_config_map ''ns'' ''ceph-csi-config''" and ?s = "addKnownTypes []"
  let ?a = "example_reconcile ''a'' False" and ?b = "example_reconcile ''b'' True"
  have i: "infos_of ?cm = Inr (map Some [])" by (simp add: infos_of_def new_config_map_def)
  have reg: "T_ClientProfile \<in> set ?s" by (simp add: addKnownTypes_def)
  obtain ma where a: "mutateCephCsiClusterInfo sorted_list_of_fmap ?s ?a ?cm =
      Inr (put_infos (map Some (new_infos sorted_list_of_fmap ?a [])) (?cm\<lparr>cm_Meta := ma\<rparr>))"
    and ma: "om_OwnerReferences ma = [ref_for T_ClientProfile ((named_meta ''ns'' ''a'')\<lparr>om_UID := ''a''\<rparr>) None]"
    using mutate_cluster_info_eq [OF i, of sorted_list_of_fmap ?s ?a] reg
    by (auto simp: example_reconcile_def zero_ClientProfile_def ToggleOwnerReference_def IsOwnedBy_def
        SetOwnerReference_eq validateOwner_def upsertOwnerRef_def indexOwnerRef_def)
  let ?cm1 = "put_infos (map Some (new_infos sorted_list_of_fmap ?a [])) (?cm\<lparr>cm_Meta := ma\<rparr>)"
  have "\<exists>cm2. mutateCephCsiClusterInfo sorted_list_of_fmap ?s ?b ?cm1 = Inr cm2"
    using mutate_cluster_info_eq [OF infos_of_put, of sorted_list_of_fmap ?s ?b] ma
    by (simp add: ToggleOwnerReference_def IsOwnedBy_def example_reconcile_def zero_ClientProfile_def)
  with a have "\<exists>cm'. update_all sorted_list_of_fmap ?s [?a, ?b] ?cm = Inr cm'" by auto
  then obtain cm' where u: "update_all sorted_list_of_fmap ?s [?a, ?b] ?cm = Inr cm'" ..
  from cluster_info_isolation [OF i _ u] u show ?thesis
    by (force simp: example_reconcile_def zero_ClientProfile_def)
qed

end
