(* ===== verification/Client_Profile.thy ===== *)
theory Client_Profile
  imports Cluster_Info Mem_Cluster
begin

text \<open>
  The client profile controller, \<open>internal/controller/clientprofile_controller.go\<close>.

  A reconcile iteration carries the state \<open>ClientProfileReconcile\<close>; every method is a program
  that returns its error and the state. An in-place request (\<open>Get\<close>, \<open>Update\<close>) that succeeds
  replaces the object by the server's answer; one that fails leaves it as it was.

  The process-wide lock around the update of the shared ConfigMap is not modelled: the theorems
  hold for whatever happens between the read and the write.
\<close>

section \<open>Sequencing and messages\<close>

definition and_then ::
  "('w, error \<times> 's) m \<Rightarrow> ('s \<Rightarrow> ('w, error \<times> 's) m) \<Rightarrow> ('w, error \<times> 's) m" where
  "and_then p q = bind_m p (\<lambda>(err, s). case err of Some e \<Rightarrow> Ret (Some e, s) | None \<Rightarrow> q s)"

lemma run_and_then:
  "run_m (and_then p q) w =
     (case run_m p w of
        ((Some e, s), w') \<Rightarrow> ((Some e, s), w')
      | ((None, s), w') \<Rightarrow> run_m (q s) w')"
  by (simp add: and_then_def split: prod.splits option.splits)

lemma run_and_thenE:
  assumes "run_m (and_then p q) w = ((err, s), w')"
  obtains (fail) e where "run_m p w = ((Some e, s), w')" "err = Some e"
  | (ok) s1 w1 where "run_m p w = ((None, s1), w1)" "run_m (q s1) w1 = ((err, s), w')"
proof -
  obtain e s1 w1 where p: "run_m p w = ((e, s1), w1)" by (metis prod.exhaust)
  with assms fail ok show thesis by (cases e) (auto simp: run_and_then)
qed

text \<open>The text of an error; that of an API error is fixed per class.\<close>

fun error_text :: "go_error \<Rightarrow> string" where
  "error_text NotFound = ''not found''"
| "error_text Invalid = ''invalid''"
| "error_text AlreadyExists = ''already exists''"
| "error_text Conflict = ''conflict''"
| "error_text (ApiError s) = s"
| "error_text (ErrorString s) = s"
| "error_text (SyntaxError s) = s"
| "error_text (Panic s) = ''panic: '' @ s"
| "error_text (JoinError es) = strings_Join (map error_text es) [CHR 0x0A]"

text \<open>\<open>%v\<close> of a slice of strings.\<close>

definition names_text :: "string list \<Rightarrow> string" where
  "names_text names = ''['' @ strings_Join names '' '' @ '']''"

definition cleanupFinalizer :: string where
  "cleanupFinalizer = ''csi.ceph.com/cleanup''"

section \<open>Loading\<close>

definition set_phase :: "string \<Rightarrow> ClientProfileReconcile \<Rightarrow> ClientProfileReconcile" where
  "set_phase phase r =
     r\<lparr>r_clientProfile := (r_clientProfile r)\<lparr>cp_Status := (cp_Status (r_clientProfile r))\<lparr>cpt_Phase := phase\<rparr>\<rparr>\<rparr>"

definition set_message :: "string \<Rightarrow> ClientProfileReconcile \<Rightarrow> ClientProfileReconcile" where
  "set_message msg r =
     r\<lparr>r_clientProfile := (r_clientProfile r)\<lparr>cp_Status := (cp_Status (r_clientProfile r))\<lparr>cpt_Message := msg\<rparr>\<rparr>\<rparr>"

definition load_profile ::
  "'w client \<Rightarrow> ClientProfileReconcile \<Rightarrow> ('w, error \<times> ClientProfileReconcile) m" where
  "load_profile cl r =
     bind_m (call (api_Get (cl_ClientProfile cl) (ObjectKeyFromObject (cp_Meta (r_clientProfile r))))) (\<lambda>g.
     case g of
       Inl err \<Rightarrow> Ret (Some err, r)
     | Inr p \<Rightarrow>
         let r = r\<lparr>r_clientProfile := p, r_cleanUp := (om_DeletionTimestamp (cp_Meta p) \<noteq> None)\<rparr>
         in if cps_CephConnectionRef (cp_Spec p) = []
            then Ret (Some (ErrorString ''validation error''), r)
            else Ret (None, r))"

definition load_connection ::
  "'w client \<Rightarrow> ClientProfileReconcile \<Rightarrow> ('w, error \<times> ClientProfileReconcile) m" where
  "load_connection cl r =
     (let conn = (r_cephConn r)\<lparr>cc_Meta := (cc_Meta (r_cephConn r))
                   \<lparr>om_Name := cps_CephConnectionRef (cp_Spec (r_clientProfile r)),
                    om_Namespace := om_Namespace (cp_Meta (r_clientProfile r))\<rparr>\<rparr>
      in bind_m (call (api_Get (cl_CephConnection cl) (ObjectKeyFromObject (cc_Meta conn)))) (\<lambda>g.
         case g of
           Inl err \<Rightarrow> Ret (Some err, r\<lparr>r_cephConn := conn\<rparr>)
         | Inr conn' \<Rightarrow> Ret (None, r\<lparr>r_cephConn := conn'\<rparr>)))"

definition update_connection ::
  "'w client \<Rightarrow> ClientProfileReconcile \<Rightarrow> ('w, error \<times> ClientProfileReconcile) m" where
  "update_connection cl r =
     bind_m (call (api_Update (cl_CephConnection cl) (r_cephConn r))) (\<lambda>u.
     case u of
       Inl err \<Rightarrow> Ret (Some err, r)
     | Inr conn \<Rightarrow> Ret (None, r\<lparr>r_cephConn := conn\<rparr>))"

definition own_connection ::
  "'w client \<Rightarrow> scheme \<Rightarrow> ClientProfileReconcile \<Rightarrow> ('w, error \<times> ClientProfileReconcile) m" where
  "own_connection cl scheme r =
     (let conn = r_cephConn r; owner = cp_Meta (r_clientProfile r);
          cephConnHasOwnerRef = list_ex (\<lambda>ownerRef. or_UID ownerRef = om_UID owner) (om_OwnerReferences (cc_Meta conn))
      in if \<not> cephConnHasOwnerRef
         then (case SetOwnerReference T_ClientProfile owner (cc_Meta conn) scheme of
                 Inl err \<Rightarrow> Ret (Some err, r)
               | Inr md \<Rightarrow> update_connection cl (r\<lparr>r_cephConn := conn\<lparr>cc_Meta := md\<rparr>\<rparr>))
         else Ret (None, r))"

definition list_replications ::
  "'w client \<Rightarrow> ClientProfileReconcile \<Rightarrow> 'w \<Rightarrow> ClientProfileReplication list result \<times> 'w" where
  "list_replications cl r =
     api_List (cl_ClientProfileReplication cl)
       \<lparr>lo_Namespace = om_Namespace (cp_Meta (r_clientProfile r)),
        lo_MatchingField = Some (clientProfileIndexKey, om_Name (cp_Meta (r_clientProfile r)))\<rparr>"

definition load_replication ::
  "'w client \<Rightarrow> ClientProfileReconcile \<Rightarrow> ('w, error \<times> ClientProfileReconcile) m" where
  "load_replication cl r =
     bind_m (call (list_replications cl r)) (\<lambda>l.
     case l of
       Inl err \<Rightarrow> Ret (Some err, r)
     | Inr items \<Rightarrow>
         let readyCRs = filter (\<lambda>item. crt_Phase (cpr_Status item) = ClientProfileReplicationPhaseReady) items
         in if length readyCRs > 1
            then Ret (Some (ErrorString (''multiple Ready ClientProfileReplication CRs found: '' @
                              names_text (map (\<lambda>item. om_Name (cpr_Meta item)) readyCRs))), r)
            else if length readyCRs = 1
                 then Ret (None, r\<lparr>r_clientProfileReplication := readyCRs ! 0\<rparr>)
                 else Ret (None, r))"

definition loadAndValidate ::
  "'w client \<Rightarrow> scheme \<Rightarrow> ClientProfileReconcile \<Rightarrow> ('w, error \<times> ClientProfileReconcile) m" where
  "loadAndValidate cl scheme r =
     and_then (load_profile cl r) (\<lambda>r.
     and_then (load_connection cl r) (\<lambda>r.
     and_then (own_connection cl scheme r) (\<lambda>r.
     load_replication cl r)))"

section \<open>Phases\<close>

definition reconcileCephConnection ::
  "'w client \<Rightarrow> scheme \<Rightarrow> ClientProfileReconcile \<Rightarrow> ('w, error \<times> ClientProfileReconcile) m" where
  "reconcileCephConnection cl scheme r =
     (case ToggleOwnerReference (\<not> r_cleanUp r) (cc_Meta (r_cephConn r)) T_ClientProfile
             (cp_Meta (r_clientProfile r)) scheme of
        Inl err \<Rightarrow> Ret (Some err, r)
      | Inr (md, needsUpdate) \<Rightarrow>
          let r = r\<lparr>r_cephConn := (r_cephConn r)\<lparr>cc_Meta := md\<rparr>\<rparr>
          in if needsUpdate then update_connection cl r else Ret (None, r))"

text \<open>The request that follows the toggle sends the connection, not the replication.\<close>

definition toggle_replication ::
  "'w client \<Rightarrow> scheme \<Rightarrow> ClientProfileReconcile \<Rightarrow> ('w, error \<times> ClientProfileReconcile) m" where
  "toggle_replication cl scheme r =
     (if om_UID (cpr_Meta (r_clientProfileReplication r)) \<noteq> []
      then (case ToggleOwnerReference (\<not> r_cleanUp r) (cpr_Meta (r_clientProfileReplication r)) T_ClientProfile
                   (cp_Meta (r_clientProfile r)) scheme of
              Inl err \<Rightarrow> Ret (Some err, r)
            | Inr (md, needsUpdate) \<Rightarrow>
                let r = r\<lparr>r_clientProfileReplication := (r_clientProfileReplication r)\<lparr>cpr_Meta := md\<rparr>\<rparr>
                in if needsUpdate then update_connection cl r else Ret (None, r))
      else Ret (None, r))"

definition check_references ::
  "'w client \<Rightarrow> ClientProfileReconcile \<Rightarrow> ('w, error \<times> ClientProfileReconcile) m" where
  "check_references cl r =
     (if r_cleanUp r
      then bind_m (call (list_replications cl r)) (\<lambda>l.
           case l of
             Inl err \<Rightarrow> Ret (Some err, r)
           | Inr items \<Rightarrow>
               if length items > 0
               then Ret (Some (ErrorString
                      (''cannot delete: ClientProfileReplication CRs still reference this profile: '' @
                       names_text (map (\<lambda>item. om_Name (cpr_Meta item)) items))), r)
               else Ret (None, r))
      else Ret (None, r))"

definition reconcileClientProfileReplication ::
  "'w client \<Rightarrow> scheme \<Rightarrow> ClientProfileReconcile \<Rightarrow> ('w, error \<times> ClientProfileReconcile) m" where
  "reconcileClientProfileReplication cl scheme r =
     and_then (toggle_replication cl scheme r) (check_references cl)"

definition reconcileCephCsiClusterInfo ::
  "'w client \<Rightarrow> iteration \<Rightarrow> scheme \<Rightarrow> ClientProfileReconcile \<Rightarrow> ('w, error \<times> ClientProfileReconcile) m" where
  "reconcileCephCsiClusterInfo cl rng scheme r =
     bind_m
       (CreateOrUpdate cm_Meta (cl_ConfigMap cl)
          (new_config_map (om_Namespace (cp_Meta (r_clientProfile r))) (vol_Name CsiConfigVolume))
          (pure_mut (mutateCephCsiClusterInfo rng scheme r)))
       (\<lambda>(_, err, _). Ret (err, r))"

definition update_profile ::
  "'w client \<Rightarrow> ClientProfileReconcile \<Rightarrow> ('w, error \<times> ClientProfileReconcile) m" where
  "update_profile cl r =
     bind_m (call (api_Update (cl_ClientProfile cl) (r_clientProfile r))) (\<lambda>u.
     case u of
       Inl err \<Rightarrow> Ret (Some err, r)
     | Inr p \<Rightarrow> Ret (None, r\<lparr>r_clientProfile := p\<rparr>))"

text \<open>A step whose failure is recorded in the status.\<close>

definition reporting ::
  "string \<Rightarrow> ('w, error \<times> ClientProfileReconcile) m \<Rightarrow> ('w, error \<times> ClientProfileReconcile) m" where
  "reporting what p =
     bind_m p (\<lambda>(err, r).
       case err of
         None \<Rightarrow> Ret (None, r)
       | Some e \<Rightarrow>
           Ret (Some e, set_message (what @ '': '' @ error_text e) (set_phase ClientProfilePhaseFailed r)))"

definition ensure_finalizer ::
  "'w client \<Rightarrow> ClientProfileReconcile \<Rightarrow> ('w, error \<times> ClientProfileReconcile) m" where
  "ensure_finalizer cl r =
     (if \<not> r_cleanUp r
      then let (md, added) = AddFinalizer (cp_Meta (r_clientProfile r)) cleanupFinalizer
           in if added
              then update_profile cl (r\<lparr>r_clientProfile := (r_clientProfile r)\<lparr>cp_Meta := md\<rparr>\<rparr>)
              else Ret (None, r)
      else Ret (None, r))"

definition finish_phases ::
  "'w client \<Rightarrow> ClientProfileReconcile \<Rightarrow> ('w, error \<times> ClientProfileReconcile) m" where
  "finish_phases cl r =
     (if r_cleanUp r
      then reporting ''failed to remove finalizer''
             (update_profile cl (r\<lparr>r_clientProfile := (r_clientProfile r)
                \<lparr>cp_Meta := fst (RemoveFinalizer (cp_Meta (r_clientProfile r)) cleanupFinalizer)\<rparr>\<rparr>))
      else Ret (None, set_message ''ClientProfile reconciled successfully''
                        (set_phase ClientProfilePhaseReady r)))"

definition reconcilePhases_profile ::
  "'w client \<Rightarrow> iteration \<Rightarrow> scheme \<Rightarrow> ClientProfileReconcile \<Rightarrow> ('w, error \<times> ClientProfileReconcile) m" where
  "reconcilePhases_profile cl rng scheme r =
     and_then (ensure_finalizer cl (set_phase ClientProfilePhasePending r)) (\<lambda>r.
     and_then (reporting ''failed to reconcile CephConnection'' (reconcileCephConnection cl scheme r)) (\<lambda>r.
     and_then (reporting ''failed to reconcile ClientProfileReplication''
                 (reconcileClientProfileReplication cl scheme r)) (\<lambda>r.
     and_then (reporting ''failed to reconcile ConfigMap'' (reconcileCephCsiClusterInfo cl rng scheme r)) (\<lambda>r.
     finish_phases cl r))))"

definition reconcile_profile ::
  "'w client \<Rightarrow> iteration \<Rightarrow> scheme \<Rightarrow> ClientProfileReconcile \<Rightarrow> ('w, error) m" where
  "reconcile_profile cl rng scheme r =
     bind_m (loadAndValidate cl scheme r) (\<lambda>(loadErr, r).
     case loadErr of
       Some err \<Rightarrow> Ret (Some err)
     | None \<Rightarrow>
         bind_m (reconcilePhases_profile cl rng scheme r) (\<lambda>(reconcileErr, r).
         bind_m (call (api_StatusUpdate (cl_ClientProfile cl) (r_clientProfile r))) (\<lambda>s.
         Ret (case reconcileErr of
                Some err \<Rightarrow> Some err
              | None \<Rightarrow> (case s of Inl statusErr \<Rightarrow> Some statusErr | Inr _ \<Rightarrow> None)))))"

definition Reconcile_profile :: "'w client \<Rightarrow> iteration \<Rightarrow> scheme \<Rightarrow> object_key \<Rightarrow> ('w, error) m" where
  "Reconcile_profile cl rng scheme req =
     reconcile_profile cl rng scheme
       \<lparr>r_clientProfile = zero_ClientProfile\<lparr>cp_Meta := named_meta (fst req) (snd req)\<rparr>,
        r_cephConn = zero_CephConnection,
        r_clientProfileReplication = zero_ClientProfileReplication,
        r_cleanUp = False\<rparr>"

section \<open>What a step leaves alone\<close>

lemmas step_splits = sum.splits option.splits prod.splits if_splits

lemma set_phase_simps [simp]:
  "r_cleanUp (set_phase ph r) = r_cleanUp r" "r_cleanUp (set_message msg r) = r_cleanUp r"
  "r_cephConn (set_phase ph r) = r_cephConn r"
  "r_clientProfileReplication (set_phase ph r) = r_clientProfileReplication r"
  "cpt_Phase (cp_Status (r_clientProfile (set_phase ph r))) = ph"
  "cpt_Phase (cp_Status (r_clientProfile (set_message msg r))) = cpt_Phase (cp_Status (r_clientProfile r))"
  "cpt_Message (cp_Status (r_clientProfile (set_message msg r))) = msg"
  "cp_Meta (r_clientProfile (set_phase ph r)) = cp_Meta (r_clientProfile r)"
  "cp_Meta (r_clientProfile (set_message msg r)) = cp_Meta (r_clientProfile r)"
  "cp_Spec (r_clientProfile (set_phase ph r)) = cp_Spec (r_clientProfile r)"
  by (simp_all add: set_phase_def set_message_def)

definition same_profile :: "ClientProfileReconcile \<Rightarrow> ClientProfileReconcile \<Rightarrow> bool" where
  "same_profile r r' \<longleftrightarrow> r_clientProfile r' = r_clientProfile r \<and> r_cleanUp r' = r_cleanUp r"

lemma same_profile_simps [simp]:
  "same_profile r r" "same_profile r (r\<lparr>r_cephConn := c\<rparr>)"
  "same_profile r (r\<lparr>r_clientProfileReplication := p\<rparr>)"
  "same_profile (r\<lparr>r_cephConn := c\<rparr>) r' = same_profile r r'"
  "same_profile (r\<lparr>r_clientProfileReplication := p\<rparr>) r' = same_profile r r'"
  by (simp_all add: same_profile_def)

lemma update_connection_frame:
  assumes "run_m (update_connection cl r) w = ((err, r'), w')"
  shows "same_profile r r'"
proof -
  obtain u w1 where "api_Update (cl_CephConnection cl) (r_cephConn r) w = (u, w1)" by fastforce
  with assms show ?thesis by (cases u) (auto simp: update_connection_def)
qed

lemma reconcileCephConnection_frame:
  assumes "run_m (reconcileCephConnection cl scheme r) w = ((err, r'), w')"
  shows "same_profile r r'"
proof (cases "ToggleOwnerReference (\<not> r_cleanUp r) (cc_Meta (r_cephConn r)) T_ClientProfile
    (cp_Meta (r_clientProfile r)) scheme")
  case (Inr a)
  obtain md ch where "a = (md, ch)" by fastforce
  with Inr assms show ?thesis
    by (cases ch) (auto simp: reconcileCephConnection_def dest: update_connection_frame)
qed (use assms in \<open>simp add: reconcileCephConnection_def\<close>)

lemma toggle_replication_frame:
  assumes "run_m (toggle_replication cl scheme r) w = ((err, r'), w')"
  shows "same_profile r r'"
proof (cases "om_UID (cpr_Meta (r_clientProfileReplication r)) = []")
  case False
  show ?thesis
  proof (cases "ToggleOwnerReference (\<not> r_cleanUp r) (cpr_Meta (r_clientProfileReplication r)) T_ClientProfile
      (cp_Meta (r_clientProfile r)) scheme")
    case (Inr a)
    obtain md ch where "a = (md, ch)" by fastforce
    with Inr False assms show ?thesis
      by (cases ch) (auto simp: toggle_replication_def dest: update_connection_frame)
  qed (use assms False in \<open>simp add: toggle_replication_def\<close>)
qed (use assms in \<open>simp add: toggle_replication_def\<close>)

lemma check_references_frame:
  "run_m (check_references cl r) w = ((err, r'), w') \<Longrightarrow> r' = r"
  by (auto simp: check_references_def split: step_splits)

lemma reconcileClientProfileReplication_frame:
  "run_m (reconcileClientProfileReplication cl scheme r) w = ((err, r'), w') \<Longrightarrow> same_profile r r'"
  unfolding reconcileClientProfileReplication_def
  by (erule run_and_thenE) (blast dest: toggle_replication_frame check_references_frame)+

lemma reconcileCephCsiClusterInfo_frame:
  "run_m (reconcileCephCsiClusterInfo cl rng scheme r) w = ((err, r'), w') \<Longrightarrow> r' = r"
  by (auto simp: reconcileCephCsiClusterInfo_def split: step_splits)

lemma ensure_finalizer_frame:
  "run_m (ensure_finalizer cl r) w = ((err, r'), w') \<Longrightarrow> r_cleanUp r' = r_cleanUp r"
  by (auto simp: ensure_finalizer_def update_profile_def split: step_splits)

lemma run_reporting:
  "run_m (reporting what p) w =
     (case run_m p w of
        ((None, r), w') \<Rightarrow> ((None, r), w')
      | ((Some e, r), w') \<Rightarrow>
          ((Some e, set_message (what @ '': '' @ error_text e) (set_phase ClientProfilePhaseFailed r)), w'))"
  by (simp add: reporting_def split: prod.splits option.splits)

lemma run_reportingE:
  assumes "run_m (reporting what p) w = ((err, r'), w')"
  obtains (ok) "run_m p w = ((None, r'), w')" "err = None"
  | (fail) e r1 where "run_m p w = ((Some e, r1), w')" "err = Some e"
      "r' = set_message (what @ '': '' @ error_text e) (set_phase ClientProfilePhaseFailed r1)"
proof -
  obtain e r1 w1 where p: "run_m p w = ((e, r1), w1)" by (metis prod.exhaust)
  with assms ok fail show thesis by (cases e) (auto simp: run_reporting)
qed

lemma keeps_and_then: "keeps P p \<Longrightarrow> (\<And>r. keeps P (q r)) \<Longrightarrow> keeps P (and_then p q)"
  unfolding and_then_def by (rule keeps_bind) (auto split: option.splits)

lemma keeps_reporting: "keeps P p \<Longrightarrow> keeps P (reporting what p)"
  unfolding reporting_def by (rule keeps_bind) (auto split: option.splits)

lemma keeps_update_connection:
  "(\<And>obj w. P w \<Longrightarrow> P (snd (api_Update (cl_CephConnection cl) obj w))) \<Longrightarrow> keeps P (update_connection cl r)"
  unfolding update_connection_def by (intro keeps_bind) (auto split: sum.splits)

lemma keeps_connection_steps:
  assumes "\<And>obj w. P w \<Longrightarrow> P (snd (api_Update (cl_CephConnection cl) obj w))"
    and "\<And>opts w. P w \<Longrightarrow> P (snd (api_List (cl_ClientProfileReplication cl) opts w))"
  shows "keeps P (reconcileCephConnection cl scheme r)"
    and "keeps P (reconcileClientProfileReplication cl scheme r)"
proof -
  note up = keeps_update_connection [of P cl, OF assms(1)]
  have t: "keeps P (toggle_replication cl scheme r)" for r
    using up by (simp add: toggle_replication_def split: sum.split prod.split)
  have c: "keeps P (check_references cl r)" for r
    using assms(2) by (simp add: check_references_def list_replications_def del: bind_call)
      (intro impI keeps_bind, auto split: sum.splits)
  show "keeps P (reconcileCephConnection cl scheme r)"
    using up by (simp add: reconcileCephConnection_def split: sum.split prod.split)
  show "keeps P (reconcileClientProfileReplication cl scheme r)"
    unfolding reconcileClientProfileReplication_def by (intro keeps_and_then t c)
qed

section \<open>Properties\<close>

text \<open>The in-memory cluster with a replication list that always answers one item.\<close>

definition one_replication :: ClientProfileReplication where
  "one_replication = zero_ClientProfileReplication
     \<lparr>cpr_Meta := (named_meta ''ns'' ''repl'')\<lparr>om_UID := ''u9''\<rparr>,
      cpr_Spec := \<lparr>crs_LocalClientProfile = ''a'', crs_RemoteClientProfile = ''remote-a'', crs_RBD = None\<rparr>,
      cpr_Status := \<lparr>crt_Phase = ClientProfileReplicationPhaseReady, crt_Message = ''accepted''\<rparr>\<rparr>"

definition replicated_client :: "cluster client" where
  "replicated_client = mem_client\<lparr>cl_ClientProfileReplication :=
     mem_ClientProfileReplication\<lparr>api_List := \<lambda>opts w. (Inr [one_replication], w)\<rparr>\<rparr>"

lemma replicated_client_simps [simp]:
  "cl_CephConnection replicated_client = mem_CephConnection"
  "list_replications replicated_client r w = (Inr [one_replication], w)"
  "api_List (cl_ClientProfileReplication replicated_client) opts w = (Inr [one_replication], w)"
  by (simp_all add: replicated_client_def list_replications_def)

lemma phases_cleanup:
  assumes "r_cleanUp r"
  shows "reconcilePhases_profile cl rng scheme r =
    (let r = set_phase ClientProfilePhasePending r in
     and_then (reporting ''failed to reconcile CephConnection'' (reconcileCephConnection cl scheme r)) (\<lambda>r.
     and_then (reporting ''failed to reconcile ClientProfileReplication''
                 (reconcileClientProfileReplication cl scheme r)) (\<lambda>r.
     and_then (reporting ''failed to reconcile ConfigMap'' (reconcileCephCsiClusterInfo cl rng scheme r)) (\<lambda>r.
     finish_phases cl r))))"
  using assms by (simp add: reconcilePhases_profile_def ensure_finalizer_def and_then_def)

text \<open>While replications refer to the profile, the second step fails.\<close>

lemma references_block:
  assumes "r_cleanUp r" and "\<And>w. fst (list_replications cl r w) \<noteq> Inr []"
    and "run_m (reconcileClientProfileReplication cl scheme r) w = ((err, r'), w')"
  shows "err \<noteq> None"
proof (rule ccontr)
  assume "\<not> err \<noteq> None"
  with assms(3) obtain r1 w1 where t: "run_m (toggle_replication cl scheme r) w = ((None, r1), w1)"
    and c: "run_m (check_references cl r1) w1 = ((None, r'), w')"
    unfolding reconcileClientProfileReplication_def by (auto elim: run_and_thenE)
  from toggle_replication_frame [OF t] assms(1,2)
  have "r_cleanUp r1" "fst (list_replications cl r1 w1) \<noteq> Inr []"
    by (simp_all add: same_profile_def list_replications_def)
  with c show False
    by (cases "list_replications cl r1 w1") (auto simp: check_references_def split: sum.splits if_splits)
qed

text \<open>
  C10. A client profile that is being deleted keeps its finalizer and its cluster information as
  long as ClientProfileReplications refer to it: the clean-up fails, the failure is recorded in
  the status, and the only requests made are updates of the CephConnection and lists of
  replications, so whatever those requests preserve (every ClientProfile and every ConfigMap)
  is preserved.
\<close>

theorem deletion_blocked_by_replications:
  fixes cl :: "'w client"
  assumes "r_cleanUp r" and "\<And>w. fst (list_replications cl r w) \<noteq> Inr []"
    and conn: "\<And>obj w. P w \<Longrightarrow> P (snd (api_Update (cl_CephConnection cl) obj w))"
    and lst: "\<And>opts w. P w \<Longrightarrow> P (snd (api_List (cl_ClientProfileReplication cl) opts w))"
    and "P w" and run: "run_m (reconcilePhases_profile cl rng scheme r) w = ((err, r'), w')"
  shows "err \<noteq> None \<and> cpt_Phase (cp_Status (r_clientProfile r')) = ClientProfilePhaseFailed \<and> P w'"
proof -
  let ?r = "set_phase ClientProfilePhasePending r"
  note k1 = keeps_connection_steps(1) [of P cl, OF conn lst]
  note k4 = keeps_connection_steps(2) [of P cl, OF conn lst]
  obtain e1 r1 w1 where s1: "run_m (reconcileCephConnection cl scheme ?r) w = ((e1, r1), w1)"
    by (metis prod.exhaust)
  obtain e2 r2 w2 where s2: "run_m (reconcileClientProfileReplication cl scheme r1) w1 = ((e2, r2), w2)"
    by (metis prod.exhaust)
  have P1: "P w1" using keeps_run [OF k1 \<open>P w\<close>, of scheme ?r] s1 by simp
  have P2: "P w2" using keeps_run [OF k4 P1, of scheme r1] s2 by simp
  from reconcileCephConnection_frame [OF s1] assms(1,2) have
    c1: "r_cleanUp r1" "\<And>w. fst (list_replications cl r1 w) \<noteq> Inr []"
    by (simp_all add: same_profile_def list_replications_def)
  show ?thesis
  proof (cases e1)
    case (Some e)
    with run s1 P1 show ?thesis
      by (auto simp: phases_cleanup [OF assms(1)] run_and_then run_reporting)
  next
    case None
    with run s1 s2 P2 references_block [OF c1 s2] show ?thesis
      by (auto simp: phases_cleanup [OF assms(1)] run_and_then run_reporting)
  qed
qed

theorem deletion_blocked_by_replications_witness:
  "case run_m (reconcilePhases_profile replicated_client sorted_list_of_fmap (addKnownTypes [])
           (example_reconcile ''a'' True)) empty_cluster of
     ((err, r'), w') \<Rightarrow> err \<noteq> None \<and> mc_ConfigMap w' = empty_mem \<and> mc_ClientProfile w' = empty_mem"
proof -
  let ?P = "\<lambda>w. mc_ConfigMap w = empty_mem \<and> mc_ClientProfile w = empty_mem"
  let ?r = "example_reconcile ''a'' True"
  obtain err r' w' where run: "run_m (reconcilePhases_profile replicated_client sorted_list_of_fmap
      (addKnownTypes []) ?r) empty_cluster = ((err, r'), w')" by (metis prod.exhaust)
  have upd: "?P w \<Longrightarrow> ?P (snd (api_Update (cl_CephConnection replicated_client) obj w))" for obj w
    by (simp add: mem_api_def mem_request_def split: list.split option.split)
  have "?P empty_cluster" by (simp add: empty_cluster_def)
  moreover have "r_cleanUp ?r" by (simp add: example_reconcile_def)
  ultimately show ?thesis
    using deletion_blocked_by_replications [where P = ?P, OF _ _ upd _ _ run] run by simp
qed



text \<open>
  C35. The controller never writes a ClientProfileReplication: a reconcile iteration is the same
  program whatever the API server would do with an update of one. (The owner reference that
  \<open>reconcileClientProfileReplication\<close> toggles on the replication therefore stays in memory;
  the update that follows sends the CephConnection.)
\<close>

theorem replication_never_updated:
  "Reconcile_profile (cl\<lparr>cl_ClientProfileReplication :=
       (cl_ClientProfileReplication cl)\<lparr>api_Update := upd, api_StatusUpdate := st, api_Create := cr,
          api_Delete := del\<rparr>\<rparr>) rng scheme req
   = Reconcile_profile cl rng scheme req"
proof -
  let ?cl = "cl\<lparr>cl_ClientProfileReplication :=
       (cl_ClientProfileReplication cl)\<lparr>api_Update := upd, api_StatusUpdate := st, api_Create := cr,
          api_Delete := del\<rparr>\<rparr>"
  have u: "update_connection ?cl = update_connection cl" "update_profile ?cl = update_profile cl"
    "list_replications ?cl = list_replications cl"
    by (simp_all add: fun_eq_iff update_connection_def update_profile_def list_replications_def)
  have l: "loadAndValidate ?cl scheme r = loadAndValidate cl scheme r" for r
    unfolding loadAndValidate_def load_profile_def load_connection_def own_connection_def
      load_replication_def u
    by simp
  have p: "reconcilePhases_profile ?cl rng scheme r = reconcilePhases_profile cl rng scheme r" for r
    unfolding reconcilePhases_profile_def ensure_finalizer_def finish_phases_def
      reconcileCephConnection_def reconcileClientProfileReplication_def toggle_replication_def
      check_references_def reconcileCephCsiClusterInfo_def u
    by simp
  have c: "cl_ClientProfile ?cl = cl_ClientProfile cl" by simp
  show ?thesis unfolding Reconcile_profile_def reconcile_profile_def l p c by (rule refl)
qed



section \<open>Clean-up on a server\<close>

lemma mutate_cluster_info_alive:
  "mutateCephCsiClusterInfo rng scheme r cm = Inr cm' \<Longrightarrow>
     om_DeletionTimestamp (cm_Meta cm') = om_DeletionTimestamp (cm_Meta cm)"
  by (auto simp: mutateCephCsiClusterInfo_def toggle_frame split: sum.splits prod.splits)

lemma cluster_info_on_api:
  assumes "kube_api api cm_Meta view content"
  shows "mutator_on_api api cm_Meta view content (mutateCephCsiClusterInfo rng scheme r) (good_config_map r)"
  by (intro mutator_on_api.intro assms cluster_info.mutator_axioms mutator_on_api_axioms.intro)
    (rule mutate_cluster_info_alive)

interpretation cluster_info_mem: mutator_on_api mem_ConfigMap cm_Meta
  "\<lambda>w k. mem_find cm_Meta k (mc_ConfigMap w)" "\<lambda>obj. (cm_Data obj, om_OwnerReferences (cm_Meta obj))"
  "mutateCephCsiClusterInfo rng scheme r" "good_config_map r" for rng scheme r
  by (rule cluster_info_on_api) (rule ConfigMap_store.kube_api_axioms)

text \<open>What a successful update of the cluster information leaves on the server.\<close>

lemma reconcileCephCsiClusterInfo_ok:
  assumes server: "kube_api (cl_ConfigMap cl) cm_Meta view (\<lambda>cm. (cm_Data cm, om_OwnerReferences (cm_Meta cm)))"
    and stored: "view w (om_Namespace (cp_Meta (r_clientProfile r)), vol_Name CsiConfigVolume) = Some cm"
    and infos: "infos_of cm = Inr (map Some infos)" "om_DeletionTimestamp (cm_Meta cm) = None"
    and run: "run_m (reconcileCephCsiClusterInfo cl rng scheme r) w = ((None, r'), w')"
  shows "\<exists>cm'. view w' (om_Namespace (cp_Meta (r_clientProfile r)), vol_Name CsiConfigVolume) = Some cm' \<and>
           infos_of cm' = Inr (map Some (new_infos rng r infos))"
proof -
  let ?mut = "mutateCephCsiClusterInfo rng scheme r"
  let ?cm0 = "new_config_map (om_Namespace (cp_Meta (r_clientProfile r))) (vol_Name CsiConfigVolume)"
  let ?k = "(om_Namespace (cp_Meta (r_clientProfile r)), vol_Name CsiConfigVolume)"
  have k: "ObjectKeyFromObject (cm_Meta ?cm0) = ?k" by (simp add: ObjectKeyFromObject_def)
  note on_api = cluster_info_on_api [OF server, of rng scheme r]
  have b: "mutator_on_api.before cm_Meta view w ?cm0 = cm"
    using stored k by (simp add: mutator_on_api.before_def [OF on_api])
  from run obtain res obj where
    "run_m (CreateOrUpdate cm_Meta (cl_ConfigMap cl) ?cm0 (pure_mut ?mut)) w = ((res, None, obj), w')"
    by (auto simp: reconcileCephCsiClusterInfo_def split: prod.splits)
  from mutator_on_api.apply_ok [OF on_api this] b infos(2) obtain sent where
    m: "?mut cm = Inr sent" "cm_Data obj = cm_Data sent" and v: "view w' ?k = Some obj"
    using k by auto
  from m(1) mutate_cluster_info_eq [OF infos(1), of rng scheme r]
  have "infos_of sent = Inr (map Some (new_infos rng r infos))"
    by (auto split: sum.splits prod.splits)
  moreover have "infos_of obj = infos_of sent" using m(2) by (simp add: infos_of_def)
  ultimately show ?thesis using v by simp
qed

text \<open>
  C31. When the clean-up of a client profile succeeds, its record is gone from the stored
  ConfigMap and the records of all other profiles are still there. The server is any that keeps the
  documented contract; requests to other kinds do not change ConfigMaps.
\<close>

theorem cleanup_removes_record:
  fixes view :: "'w \<Rightarrow> object_key \<Rightarrow> config_map option"
  assumes server: "kube_api (cl_ConfigMap cl) cm_Meta view (\<lambda>cm. (cm_Data cm, om_OwnerReferences (cm_Meta cm)))"
    and conn: "\<And>obj w. view (snd (api_Update (cl_CephConnection cl) obj w)) = view w"
    and lst: "\<And>opts w. view (snd (api_List (cl_ClientProfileReplication cl) opts w)) = view w"
    and prof: "\<And>obj w. view (snd (api_Update (cl_ClientProfile cl) obj w)) = view w"
    and del: "r_cleanUp r"
    and stored: "view w (om_Namespace (cp_Meta (r_clientProfile r)), vol_Name CsiConfigVolume) = Some cm"
    and infos: "infos_of cm = Inr (map Some infos)" "distinct (map i_ClusterId infos)"
    and alive: "om_DeletionTimestamp (cm_Meta cm) = None"
    and run: "run_m (reconcilePhases_profile cl rng scheme r) w = ((None, r'), w')"
  shows "\<exists>cm' infos'. view w' (om_Namespace (cp_Meta (r_clientProfile r)), vol_Name CsiConfigVolume) = Some cm' \<and>
    infos_of cm' = Inr (map Some infos') \<and>
    (\<forall>name. lookup_info infos' name =
       (if name = om_Name (cp_Meta (r_clientProfile r)) then None else lookup_info infos name))"
proof -
  let ?r = "set_phase ClientProfilePhasePending r"
  note keep = keeps_connection_steps [of "\<lambda>x. view x = view w" cl, OF _ _]
  from run [unfolded phases_cleanup [OF del] Let_def] obtain r1 w1 where
    s1: "run_m (reconcileCephConnection cl scheme ?r) w = ((None, r1), w1)"
    and run1: "run_m (and_then (reporting ''failed to reconcile ClientProfileReplication''
                 (reconcileClientProfileReplication cl scheme r1)) (\<lambda>r.
       and_then (reporting ''failed to reconcile ConfigMap'' (reconcileCephCsiClusterInfo cl rng scheme r)) (\<lambda>r.
       finish_phases cl r))) w1 = ((None, r'), w')"
    by (auto elim!: run_and_thenE [where p = "reporting ''failed to reconcile CephConnection'' p'" for p'] run_reportingE)
  from run1 obtain r2 w2 where
    s2: "run_m (reconcileClientProfileReplication cl scheme r1) w1 = ((None, r2), w2)"
    and run2: "run_m (and_then (reporting ''failed to reconcile ConfigMap'' (reconcileCephCsiClusterInfo cl rng scheme r2)) (\<lambda>r.
       finish_phases cl r)) w2 = ((None, r'), w')"
    by (auto elim!: run_and_thenE [where p = "reporting ''failed to reconcile ClientProfileReplication'' p'" for p'] run_reportingE)
  from run2 obtain r3 w3 where
    s3: "run_m (reconcileCephCsiClusterInfo cl rng scheme r2) w2 = ((None, r3), w3)"
    and run3: "run_m (finish_phases cl r3) w3 = ((None, r'), w')"
    by (auto elim!: run_and_thenE run_reportingE)
  have v1: "view w1 = view w"
    using keeps_run [OF keep(1), of w scheme ?r] s1 conn lst by simp
  have v2: "view w2 = view w"
    using keeps_run [OF keep(2), of w1 scheme r1] s2 v1 conn lst by simp
  have "same_profile ?r r2"
    using reconcileCephConnection_frame [OF s1] reconcileClientProfileReplication_frame [OF s2]
    by (simp add: same_profile_def)
  then have same: "cp_Meta (r_clientProfile r2) = cp_Meta (r_clientProfile r)" "r_cleanUp r2"
    using del by (simp_all add: same_profile_def)
  from reconcileCephCsiClusterInfo_ok [OF server _ infos(1) alive s3] stored v2 same(1)
  obtain cm' where c: "view w3 (om_Namespace (cp_Meta (r_clientProfile r)), vol_Name CsiConfigVolume) = Some cm'"
    "infos_of cm' = Inr (map Some (new_infos rng r2 infos))" by auto
  have "keeps (\<lambda>x. view x = view w3) (finish_phases cl r3)"
    using prof unfolding finish_phases_def update_profile_def
    by (auto intro!: keeps_reporting keeps_bind simp del: bind_call split: sum.splits)
  from keeps_run [OF this, of w3] run3 have "view w' = view w3" by simp
  moreover have "lookup_info (new_infos rng r2 infos) name =
      (if name = om_Name (cp_Meta (r_clientProfile r)) then None else lookup_info infos name)" for name
    using infos.lookup_op [OF infos(2), of "info_op rng r2" name] same by (simp add: new_infos_op)
  ultimately show ?thesis using c by auto
qed

definition cleanup_cluster :: cluster where
  "cleanup_cluster =
     (let r = example_reconcile ''a'' False;
          cm = put_infos [Some (compose_for sorted_list_of_fmap r),
                          Some (compose_for sorted_list_of_fmap (example_reconcile ''b'' False))]
                 ((new_config_map ''ns'' ''ceph-csi-config'')
                    \<lparr>cm_Meta := (named_meta ''ns'' ''ceph-csi-config'')\<lparr>om_ResourceVersion := ''1''\<rparr>\<rparr>)
      in empty_cluster\<lparr>mc_ConfigMap := empty_mem\<lparr>mem_objs := [cm]\<rparr>,
           mc_ClientProfile := empty_mem\<lparr>mem_objs := [r_clientProfile r]\<rparr>\<rparr>)"

theorem cleanup_removes_record_witness:
  "case run_m (reconcilePhases_profile mem_client sorted_list_of_fmap (addKnownTypes [])
           (example_reconcile ''a'' True)) cleanup_cluster of
     ((err, r'), w') \<Rightarrow>
       err = None \<and>
       (\<exists>cm' infos'. mem_find cm_Meta (''ns'', ''ceph-csi-config'') (mc_ConfigMap w') = Some cm' \<and>
          infos_of cm' = Inr (map Some infos') \<and>
          lookup_info infos' ''a'' = None \<and>
          lookup_info infos' ''b'' = Some (compose_for sorted_list_of_fmap (example_reconcile ''b'' False)))"
proof -
  let ?r = "example_reconcile ''a'' True"
  let ?view = "\<lambda>w k. mem_find cm_Meta k (mc_ConfigMap w)"
  let ?a = "compose_for sorted_list_of_fmap (example_reconcile ''a'' False)"
  let ?b = "compose_for sorted_list_of_fmap (example_reconcile ''b'' False)"
  let ?cm = "put_infos [Some ?a, Some ?b] ((new_config_map ''ns'' ''ceph-csi-config'')
                    \<lparr>cm_Meta := (named_meta ''ns'' ''ceph-csi-config'')\<lparr>om_ResourceVersion := ''1''\<rparr>\<rparr>)"
  obtain err r' w' where run: "run_m (reconcilePhases_profile mem_client sorted_list_of_fmap
      (addKnownTypes []) ?r) cleanup_cluster = ((err, r'), w')" by (metis prod.exhaust)
  have r: "r_cleanUp ?r" "cp_Meta (r_clientProfile ?r) = (named_meta ''ns'' ''a'')\<lparr>om_UID := ''a''\<rparr>"
    by (simp_all add: example_reconcile_def zero_ClientProfile_def)
  have cm: "?view cleanup_cluster (''ns'', ''ceph-csi-config'') = Some ?cm"
    by (simp add: cleanup_cluster_def mem_find_def ObjectKeyFromObject_def)
  have i: "infos_of ?cm = Inr (map Some [?a, ?b])" by simp
  have frames:
    "?view (snd (api_Update (cl_CephConnection mem_client) conn w)) = ?view w"
    "?view (snd (api_List (cl_ClientProfileReplication mem_client) opts w)) = ?view w"
    "?view (snd (api_Update (cl_ClientProfile mem_client) prof w)) = ?view w" for conn opts prof w
    by (auto simp: mem_api_def mem_request_def split: list.split option.split)
  let ?p = "set_phase ClientProfilePhasePending ?r"
  let ?cm' = "put_infos (map Some (new_infos sorted_list_of_fmap ?p [?a, ?b])) ?cm"
  have p: "cp_Meta (r_clientProfile ?p) = (named_meta ''ns'' ''a'')\<lparr>om_UID := ''a''\<rparr>"
    "r_cleanUp ?p" "r_cephConn ?p = r_cephConn ?r" "r_clientProfileReplication ?p = zero_ClientProfileReplication"
    using r by (simp_all add: example_reconcile_def)
  have s1: "run_m (reconcileCephConnection mem_client (addKnownTypes []) ?p) cleanup_cluster =
      ((None, ?p), cleanup_cluster)"
    by (simp add: reconcileCephConnection_def ToggleOwnerReference_def IsOwnedBy_def set_phase_def
        example_reconcile_def zero_CephConnection_def zero_meta_def)
  have s2: "run_m (reconcileClientProfileReplication mem_client (addKnownTypes []) ?p) cleanup_cluster =
      ((None, ?p), cleanup_cluster)"
    using p by (simp add: reconcileClientProfileReplication_def run_and_then toggle_replication_def
        check_references_def list_replications_def zero_ClientProfileReplication_def zero_meta_def
        mem_api_def mem_request_def cleanup_cluster_def empty_cluster_def empty_mem_def)
  have self: "?cm\<lparr>cm_Meta := (named_meta ''ns'' ''ceph-csi-config'')\<lparr>om_ResourceVersion := ''1''\<rparr>\<rparr> = ?cm"
    by (simp add: put_infos_def)
  have mut: "mutateCephCsiClusterInfo sorted_list_of_fmap (addKnownTypes []) ?p ?cm = Inr ?cm'"
    using mutate_cluster_info_eq [OF i, of sorted_list_of_fmap "addKnownTypes []" ?p] p
    by (simp add: ToggleOwnerReference_def IsOwnedBy_def self)
  let ?new = "new_config_map ''ns'' (vol_Name CsiConfigVolume)"
  have get: "api_Get mem_ConfigMap (ObjectKeyFromObject (cm_Meta ?new)) cleanup_cluster = (Inr ?cm, cleanup_cluster)"
    using cm by (simp add: mem_api_def mem_request_def ObjectKeyFromObject_def cleanup_cluster_def empty_mem_def)
  have key: "ObjectKeyFromObject (cm_Meta ?cm) = ObjectKeyFromObject (cm_Meta ?new)"
    by (simp add: ObjectKeyFromObject_def)
  have s3: "\<exists>w3. run_m (reconcileCephCsiClusterInfo mem_client sorted_list_of_fmap (addKnownTypes []) ?p) cleanup_cluster =
      ((None, ?p), w3) \<and> mc_ClientProfile w3 = mc_ClientProfile cleanup_cluster"
  proof (cases "?cm = ?cm'")
    case True
    with cluster_info.unchanged [OF get _ key] mut p show ?thesis
      by (simp add: reconcileCephCsiClusterInfo_def)
  next
    case False
    with cluster_info.updating [OF get mut False key] p cm show ?thesis
      by (simp add: reconcileCephCsiClusterInfo_def)
        (simp add: mem_api_def mem_request_def cleanup_cluster_def empty_mem_def ObjectKeyFromObject_def)
  qed
  then obtain w3 where s3: "run_m (reconcileCephCsiClusterInfo mem_client sorted_list_of_fmap (addKnownTypes []) ?p)
      cleanup_cluster = ((None, ?p), w3)" "mc_ClientProfile w3 = mc_ClientProfile cleanup_cluster" by blast
  have s4: "fst (fst (run_m (finish_phases mem_client ?p) w3)) = None"
    using s3(2) p by (simp add: finish_phases_def run_reporting update_profile_def mem_api_def mem_request_def
        RemoveFinalizer_def cleanup_cluster_def empty_mem_def mem_find_def ObjectKeyFromObject_def
        example_reconcile_def zero_ClientProfile_def)
  have "err = None"
    using run s4 by (simp add: phases_cleanup [OF r(1)] run_and_then run_reporting s1 s2 s3(1))
  with run have run0: "run_m (reconcilePhases_profile mem_client sorted_list_of_fmap
      (addKnownTypes []) ?r) cleanup_cluster = ((None, r'), w')" by simp
  have server: "kube_api (cl_ConfigMap mem_client) cm_Meta ?view (\<lambda>cm. (cm_Data cm, om_OwnerReferences (cm_Meta cm)))"
    using ConfigMap_store.kube_api_axioms by simp
  have stored: "?view cleanup_cluster (om_Namespace (cp_Meta (r_clientProfile ?r)), vol_Name CsiConfigVolume) = Some ?cm"
    using cm r by simp
  have ids: "distinct (map i_ClusterId [?a, ?b])" "om_DeletionTimestamp (cm_Meta ?cm) = None"
    by (simp_all add: example_reconcile_def zero_ClientProfile_def)
  have l: "lookup_info [?a, ?b] ''b'' = Some ?b"
    by (simp add: lookup_info_def) (simp add: example_reconcile_def zero_ClientProfile_def)
  from cleanup_removes_record [OF server frames r(1) stored i ids run0] r
  obtain cm' infos' where "?view w' (''ns'', ''ceph-csi-config'') = Some cm'" "infos_of cm' = Inr (map Some infos')"
    "lookup_info infos' ''a'' = None" "lookup_info infos' ''b'' = Some ?b"
    using l by auto
  with \<open>err = None\<close> run show ?thesis by simp
qed

end
