(* ===== verification/Client_Profile_Mapping.thy ===== *)
theory Client_Profile_Mapping
  imports Client_Profile
begin

text \<open>
  The client profile mapping controller, \<open>internal/controller/clientprofilemapping_controller.go\<close>:
  every reconcile rebuilds the whole list of cluster mappings from all mapping resources of the
  namespace. The two lookup maps of the loop are finite maps, the nested loops are recursions
  over the items, their mappings and their id pairs; a pair with fewer than two elements
  panics.

  Shown here: the loop computes the grouping by profile pair, in order of first occurrence, with
  duplicates removed; the mutation is idempotent; the mapping and the cluster information live
  side by side in one ConfigMap without touching each other.
\<close>

section \<open>The loop\<close>

record csiClusterMappingRecord =
  cmr_ClusterIdMapping :: string_map
  cmr_RbdPoolIdMapping :: "string_map list"

type_synonym mappingKey = "string \<times> string"
type_synonym duplicationKey = "string \<times> string \<times> string \<times> string"

record mapping_state =
  st_indexByPair :: "(mappingKey, nat) fmap"
  st_csiClusterMappingsList :: "csiClusterMappingRecord list"
  st_alreadySeen :: "(duplicationKey, bool) fmap"

definition seen :: "(duplicationKey, bool) fmap \<Rightarrow> duplicationKey \<Rightarrow> bool" where
  "seen alreadySeen dupKey = (fmlookup alreadySeen dupKey = Some True)"

fun add_pairs ::
  "mappingKey \<Rightarrow> BlockPoolIdPair list \<Rightarrow> string_map list \<Rightarrow> (duplicationKey, bool) fmap \<Rightarrow>
   (string_map list \<times> (duplicationKey, bool) fmap) result" where
  "add_pairs key [] rbdPoolIdMapping alreadySeen = Inr (rbdPoolIdMapping, alreadySeen)"
| "add_pairs key (pair # pairs) rbdPoolIdMapping alreadySeen =
     (if length pair < 2 then Inl (Panic ''index out of range'')
      else let dupKey = (fst key, snd key, pair ! 0, pair ! 1)
           in if \<not> seen alreadySeen dupKey
              then add_pairs key pairs (rbdPoolIdMapping @ [fmupd (pair ! 0) (pair ! 1) fmempty])
                     (fmupd dupKey True alreadySeen)
              else add_pairs key pairs rbdPoolIdMapping alreadySeen)"

definition mapping_key :: "MappingsSpec \<Rightarrow> mappingKey" where
  "mapping_key mapping = (ms_LocalClientProfile mapping, ms_RemoteClientProfile mapping)"

text \<open>The index of the record of a pair of profiles; a new pair gets a record at the end.\<close>

definition index_for :: "mappingKey \<Rightarrow> mapping_state \<Rightarrow> nat \<times> mapping_state" where
  "index_for key st =
     (case fmlookup (st_indexByPair st) key of
        Some index \<Rightarrow> (index, st)
      | None \<Rightarrow>
          let index = length (st_csiClusterMappingsList st)
          in (index, st\<lparr>st_indexByPair := fmupd key index (st_indexByPair st),
                st_csiClusterMappingsList := st_csiClusterMappingsList st @
                  [\<lparr>cmr_ClusterIdMapping = fmupd (fst key) (snd key) fmempty,
                    cmr_RbdPoolIdMapping = []\<rparr>]\<rparr>))"

definition add_mapping :: "MappingsSpec \<Rightarrow> mapping_state \<Rightarrow> mapping_state result" where
  "add_mapping mapping st =
     (let key = mapping_key mapping;
          (index, st) = index_for key st
      in case add_pairs key (ms_BlockPoolIdMapping mapping)
                (cmr_RbdPoolIdMapping (st_csiClusterMappingsList st ! index)) (st_alreadySeen st) of
           Inl err \<Rightarrow> Inl err
         | Inr (rbdPoolIdMapping, alreadySeen) \<Rightarrow>
             Inr (st\<lparr>st_csiClusterMappingsList := (st_csiClusterMappingsList st)
                       [index := (st_csiClusterMappingsList st ! index)\<lparr>cmr_RbdPoolIdMapping := rbdPoolIdMapping\<rparr>],
                     st_alreadySeen := alreadySeen\<rparr>))"

fun add_mappings :: "MappingsSpec list \<Rightarrow> mapping_state \<Rightarrow> mapping_state result" where
  "add_mappings [] st = Inr st"
| "add_mappings (mapping # mappings) st =
     (case add_mapping mapping st of Inl err \<Rightarrow> Inl err | Inr st' \<Rightarrow> add_mappings mappings st')"

fun scan_items :: "ClientProfileMapping list \<Rightarrow> mapping_state \<Rightarrow> mapping_state result" where
  "scan_items [] st = Inr st"
| "scan_items (item # items) st =
     (case add_mappings (cpm_Mappings item) st of Inl err \<Rightarrow> Inl err | Inr st' \<Rightarrow> scan_items items st')"

definition empty_state :: mapping_state where
  "empty_state = \<lparr>st_indexByPair = fmempty, st_csiClusterMappingsList = [], st_alreadySeen = fmempty\<rparr>"

definition csi_mappings :: "ClientProfileMapping list \<Rightarrow> csiClusterMappingRecord list result" where
  "csi_mappings items = map_sum id st_csiClusterMappingsList (scan_items items empty_state)"

section \<open>The ConfigMap\<close>

definition enc_string_map :: "string_map encoder" where
  "enc_string_map = enc_map JStr"

definition enc_mapping_record :: "csiClusterMappingRecord encoder" where
  "enc_mapping_record x = JObj (
     omitempty (cmr_ClusterIdMapping x = fmempty) ''clusterIdMapping'' (enc_string_map (cmr_ClusterIdMapping x)) @
     omitempty (cmr_RbdPoolIdMapping x = []) ''RBDPoolIDMapping''
       (enc_slice enc_string_map (cmr_RbdPoolIdMapping x)))"

definition marshal_mappings :: "csiClusterMappingRecord list \<Rightarrow> string" where
  "marshal_mappings = Marshal (enc_slice enc_mapping_record)"

definition mapping_owner :: "object_key \<Rightarrow> ClientProfileMapping list \<Rightarrow> ClientProfileMapping option" where
  "mapping_owner req items =
     find (\<lambda>item. om_Name (cpm_Meta item) = snd req \<and> om_Namespace (cpm_Meta item) = fst req) items"

definition mutateCephCsiBlockPoolMapping ::
  "scheme \<Rightarrow> object_key \<Rightarrow> ClientProfileMapping list \<Rightarrow> config_map \<Rightarrow> config_map result" where
  "mutateCephCsiBlockPoolMapping scheme req items csiConfigMap =
     (case (case mapping_owner req items of
              None \<Rightarrow> Inr (cm_Meta csiConfigMap)
            | Some owner \<Rightarrow>
                map_sum id fst (ToggleOwnerReference True (cm_Meta csiConfigMap) T_ClientProfileMapping
                                  (cpm_Meta owner) scheme)) of
        Inl err \<Rightarrow> Inl err
      | Inr md \<Rightarrow>
          (case csi_mappings items of
             Inl err \<Rightarrow> Inl err
           | Inr csiClusterMappingsList \<Rightarrow>
               Inr (csiConfigMap\<lparr>cm_Meta := md,
                      cm_Data := fmupd CsiConfigMapMappingKey (marshal_mappings csiClusterMappingsList)
                                   (cm_Data csiConfigMap)\<rparr>)))"

definition reconcileCephCsiBlockPoolMapping ::
  "'w client \<Rightarrow> scheme \<Rightarrow> object_key \<Rightarrow> ClientProfileMapping list \<Rightarrow> ('w, error) m" where
  "reconcileCephCsiBlockPoolMapping cl scheme req items =
     bind_m
       (CreateOrUpdate cm_Meta (cl_ConfigMap cl) (new_config_map (fst req) (vol_Name CsiConfigVolume))
          (pure_mut (mutateCephCsiBlockPoolMapping scheme req items)))
       (\<lambda>(_, err, _). Ret err)"

definition reconcile_mapping :: "'w client \<Rightarrow> scheme \<Rightarrow> object_key \<Rightarrow> ('w, error) m" where
  "reconcile_mapping cl scheme req =
     bind_m (call (api_List (cl_ClientProfileMapping cl) \<lparr>lo_Namespace = fst req, lo_MatchingField = None\<rparr>)) (\<lambda>l.
     case l of
       Inl err \<Rightarrow> Ret (Some err)
     | Inr items \<Rightarrow> reconcileCephCsiBlockPoolMapping cl scheme req items)"

definition Reconcile_mapping :: "'w client \<Rightarrow> scheme \<Rightarrow> object_key \<Rightarrow> ('w, error) m" where
  "Reconcile_mapping cl scheme req = reconcile_mapping cl scheme req"

section \<open>What the loop computes\<close>

definition add_new :: "'a list \<Rightarrow> 'a \<Rightarrow> 'a list" where
  "add_new acc x = (if x \<in> set acc then acc else acc @ [x])"

text \<open>The distinct elements in order of first occurrence.\<close>

definition nub :: "'a list \<Rightarrow> 'a list" where
  "nub xs = foldl add_new [] xs"

definition id_pair :: "BlockPoolIdPair \<Rightarrow> string \<times> string" where
  "id_pair pair = (pair ! 0, pair ! 1)"

definition singleton_map :: "string \<times> string \<Rightarrow> string_map" where
  "singleton_map p = fmupd (fst p) (snd p) fmempty"

text \<open>All id pairs given for a pair of profiles, in order, and the record for it.\<close>

definition pairs_for :: "MappingsSpec list \<Rightarrow> mappingKey \<Rightarrow> (string \<times> string) list" where
  "pairs_for ms key =
     concat (map (\<lambda>m. map id_pair (ms_BlockPoolIdMapping m)) (filter (\<lambda>m. mapping_key m = key) ms))"

definition record_for :: "MappingsSpec list \<Rightarrow> mappingKey \<Rightarrow> csiClusterMappingRecord" where
  "record_for ms key =
     \<lparr>cmr_ClusterIdMapping = singleton_map key,
      cmr_RbdPoolIdMapping = map singleton_map (nub (pairs_for ms key))\<rparr>"

definition grouped_mappings :: "MappingsSpec list \<Rightarrow> csiClusterMappingRecord list" where
  "grouped_mappings ms = map (record_for ms) (nub (map mapping_key ms))"

lemma set_foldl_add_new: "set (foldl add_new acc xs) = set acc \<union> set xs"
  by (induction xs arbitrary: acc) (auto simp: add_new_def)

lemma nub_append: "nub (xs @ ys) = foldl add_new (nub xs) ys"
  by (simp add: nub_def)

lemma set_nub [simp]: "set (nub xs) = set xs"
  by (simp add: nub_def set_foldl_add_new)

lemma nub_Nil: "nub [] = []"
  by (simp add: nub_def)

lemma distinct_add_new: "distinct acc \<Longrightarrow> distinct (foldl add_new acc xs)"
  by (induction xs arbitrary: acc) (auto simp: add_new_def)

lemma distinct_nub [simp]: "distinct (nub xs)"
  by (simp add: nub_def distinct_add_new)

text \<open>The inner loop extends the pool list of one pair of profiles.\<close>

lemma add_pairs_spec:
  assumes "\<forall>p \<in> set ps. 2 \<le> length p"
    and "\<forall>a b. seen sn (fst key, snd key, a, b) \<longleftrightarrow> (a, b) \<in> set acc"
  shows "\<exists>sn'. add_pairs key ps (map singleton_map acc) sn =
             Inr (map singleton_map (foldl add_new acc (map id_pair ps)), sn') \<and>
           (\<forall>k a b. seen sn' (fst k, snd k, a, b) \<longleftrightarrow>
              seen sn (fst k, snd k, a, b) \<or> (k = key \<and> (a, b) \<in> id_pair ` set ps))"
  using assms
proof (induction ps arbitrary: acc sn)
  case (Cons p ps)
  let ?d = "(fst key, snd key, p ! 0, p ! 1)"
  have len: "\<not> length p < 2" using Cons.prems(1) by auto
  show ?case
  proof (cases "seen sn ?d")
    case True
    with Cons.prems have "id_pair p \<in> set acc" by (simp add: id_pair_def)
    with Cons.IH [of sn acc] Cons.prems len True show ?thesis
      by (auto simp: add_new_def id_pair_def)
  next
    case False
    let ?sn = "fmupd ?d True sn"
    have "id_pair p \<notin> set acc" using False Cons.prems(2) by (simp add: id_pair_def)
    then have acc: "add_new acc (id_pair p) = acc @ [id_pair p]" by (simp add: add_new_def)
    have "\<forall>a b. seen ?sn (fst key, snd key, a, b) \<longleftrightarrow> (a, b) \<in> set (acc @ [id_pair p])"
      using Cons.prems(2) by (auto simp: seen_def id_pair_def)
    from Cons.IH [OF _ this] Cons.prems(1) obtain sn' where
      s: "add_pairs key ps (map singleton_map (acc @ [id_pair p])) ?sn =
        Inr (map singleton_map (foldl add_new (acc @ [id_pair p]) (map id_pair ps)), sn')"
      "\<forall>k a b. seen sn' (fst k, snd k, a, b) \<longleftrightarrow>
         seen ?sn (fst k, snd k, a, b) \<or> (k = key \<and> (a, b) \<in> id_pair ` set ps)" by auto
    have "\<forall>k a b. seen ?sn (fst k, snd k, a, b) \<longleftrightarrow>
        seen sn (fst k, snd k, a, b) \<or> (k = key \<and> (a, b) = id_pair p)"
      by (auto simp: seen_def id_pair_def prod_eq_iff)
    moreover have "add_pairs key (p # ps) (map singleton_map acc) sn =
        add_pairs key ps (map singleton_map (acc @ [id_pair p])) ?sn"
      using len False by (simp add: id_pair_def singleton_map_def)
    ultimately show ?thesis
      using s acc by (intro exI [of _ sn']) auto
  qed
qed simp

text \<open>The state after the mappings \<open>ms\<close>.\<close>

definition scanned :: "MappingsSpec list \<Rightarrow> mapping_state \<Rightarrow> bool" where
  "scanned ms st \<longleftrightarrow>
     st_csiClusterMappingsList st = grouped_mappings ms \<and>
     (\<forall>k. fmlookup (st_indexByPair st) k = IndexFunc (nub (map mapping_key ms)) (\<lambda>k'. k' = k)) \<and>
     (\<forall>k a b. seen (st_alreadySeen st) (fst k, snd k, a, b) \<longleftrightarrow> (a, b) \<in> set (pairs_for ms k))"

lemma pairs_for_snoc:
  "pairs_for (ms @ [m]) k =
     pairs_for ms k @ (if mapping_key m = k then map id_pair (ms_BlockPoolIdMapping m) else [])"
  by (simp add: pairs_for_def)

lemma IndexFunc_distinct:
  "distinct xs \<Longrightarrow> i < length xs \<Longrightarrow> IndexFunc xs (\<lambda>x. x = xs ! i) = Some i"
proof (induction xs arbitrary: i)
  case (Cons x xs)
  show ?case
  proof (cases i)
    case (Suc j)
    with Cons.prems have "x \<noteq> xs ! j" by auto
    with Suc Cons show ?thesis by simp
  qed simp
qed simp

lemma pairs_for_unseen: "key \<notin> mapping_key ` set ms \<Longrightarrow> pairs_for ms key = []"
  by (auto simp: pairs_for_def)

lemma index_for_spec:
  assumes "scanned ms st"
  shows "\<exists>index st'. index_for key st = (index, st') \<and>
    st_csiClusterMappingsList st' = map (record_for ms) (add_new (nub (map mapping_key ms)) key) \<and>
    (\<forall>k. fmlookup (st_indexByPair st') k =
       IndexFunc (add_new (nub (map mapping_key ms)) key) (\<lambda>k'. k' = k)) \<and>
    st_alreadySeen st' = st_alreadySeen st \<and>
    index < length (add_new (nub (map mapping_key ms)) key) \<and>
    add_new (nub (map mapping_key ms)) key ! index = key"
proof -
  let ?ks = "nub (map mapping_key ms)"
  have st: "st_csiClusterMappingsList st = map (record_for ms) ?ks"
    using assms by (simp add: scanned_def grouped_mappings_def)
  have ix: "fmlookup (st_indexByPair st) k = IndexFunc ?ks (\<lambda>k'. k' = k)" for k
    using assms unfolding scanned_def by blast
  show ?thesis
  proof (cases "key \<in> set ?ks")
    case True
    then obtain i where i: "IndexFunc ?ks (\<lambda>k'. k' = key) = Some i"
      using IndexFunc_None_iff [of ?ks "\<lambda>k'. k' = key"] by (cases "IndexFunc ?ks (\<lambda>k'. k' = key)") auto
    with st ix True IndexFunc_SomeD [OF i] show ?thesis by (simp add: index_for_def add_new_def)
  next
    case False
    then have none: "IndexFunc ?ks (\<lambda>k'. k' = key) = None" by (auto simp: IndexFunc_None_iff)
    have "record_for ms key = \<lparr>cmr_ClusterIdMapping = fmupd (fst key) (snd key) fmempty, cmr_RbdPoolIdMapping = []\<rparr>"
      using pairs_for_unseen [of key ms] False by (simp add: record_for_def singleton_map_def nub_Nil)
    moreover have "IndexFunc (?ks @ [key]) (\<lambda>k'. k' = k) =
        (if k = key then Some (length ?ks) else IndexFunc ?ks (\<lambda>k'. k' = k))" for k
      using none by (auto simp: IndexFunc_append split: option.splits)
    ultimately show ?thesis using st ix none False by (simp add: index_for_def add_new_def)
  qed
qed

lemma record_for_other:
  "k \<noteq> mapping_key m \<Longrightarrow> record_for (ms @ [m]) k = record_for ms k"
  by (simp add: record_for_def pairs_for_snoc)

lemma add_mapping_scanned:
  assumes st: "scanned ms st" and ok: "\<forall>p \<in> set (ms_BlockPoolIdMapping m). 2 \<le> length p"
  shows "\<exists>st'. add_mapping m st = Inr st' \<and> scanned (ms @ [m]) st'"
proof -
  let ?key = "mapping_key m" and ?ps = "ms_BlockPoolIdMapping m"
  define ks where "ks = add_new (nub (map mapping_key ms)) ?key"
  have ks: "ks = nub (map mapping_key (ms @ [m]))" "distinct ks"
  proof -
    show "ks = nub (map mapping_key (ms @ [m]))" unfolding ks_def by (simp add: nub_append)
    then show "distinct ks" by (metis distinct_nub)
  qed
  from index_for_spec [OF st, of ?key] obtain index st1 where
    i: "index_for ?key st = (index, st1)" "st_csiClusterMappingsList st1 = map (record_for ms) ks"
    "\<And>k. fmlookup (st_indexByPair st1) k = IndexFunc ks (\<lambda>k'. k' = k)"
    "st_alreadySeen st1 = st_alreadySeen st" "index < length ks" "ks ! index = ?key"
    unfolding ks_def by blast
  have "\<forall>a b. seen (st_alreadySeen st1) (fst ?key, snd ?key, a, b) \<longleftrightarrow> (a, b) \<in> set (nub (pairs_for ms ?key))"
    using st i(4) by (simp add: scanned_def)
  from add_pairs_spec [OF ok this] obtain sn where
    p: "add_pairs ?key ?ps (map singleton_map (nub (pairs_for ms ?key))) (st_alreadySeen st1) =
      Inr (map singleton_map (foldl add_new (nub (pairs_for ms ?key)) (map id_pair ?ps)), sn)"
    "\<forall>k a b. seen sn (fst k, snd k, a, b) \<longleftrightarrow>
       seen (st_alreadySeen st1) (fst k, snd k, a, b) \<or> (k = ?key \<and> (a, b) \<in> id_pair ` set ?ps)"
    by blast
  let ?rec = "record_for (ms @ [m]) ?key"
  have rec: "(record_for ms ?key)\<lparr>cmr_RbdPoolIdMapping :=
      map singleton_map (foldl add_new (nub (pairs_for ms ?key)) (map id_pair ?ps))\<rparr> = ?rec"
    by (simp add: record_for_def pairs_for_snoc nub_append)
  have upd: "(map (record_for ms) ks)[index := ?rec] = map (record_for (ms @ [m])) ks"
  proof (rule nth_equalityI)
    fix j assume "j < length ((map (record_for ms) ks)[index := ?rec])"
    then show "(map (record_for ms) ks)[index := ?rec] ! j = map (record_for (ms @ [m])) ks ! j"
      using i(5,6) nth_eq_iff_index_eq [OF ks(2), of j index]
      by (cases "j = index") (simp_all add: record_for_other)
  qed simp
  have "record_for ms ?key = map (record_for ms) ks ! index" using i(5,6) by simp
  then have "add_mapping m st = Inr (st1\<lparr>st_csiClusterMappingsList := map (record_for (ms @ [m])) ks,
      st_alreadySeen := sn\<rparr>)"
    using i p(1) rec upd by (simp add: add_mapping_def record_for_def)
  moreover have "scanned (ms @ [m]) (st1\<lparr>st_csiClusterMappingsList := map (record_for (ms @ [m])) ks,
      st_alreadySeen := sn\<rparr>)"
    using i(3,4) p(2) st ks(1) by (auto simp: scanned_def grouped_mappings_def pairs_for_snoc)
  ultimately show ?thesis by blast
qed

lemma add_mappings_scanned:
  "scanned ms st \<Longrightarrow> \<forall>m \<in> set new. \<forall>p \<in> set (ms_BlockPoolIdMapping m). 2 \<le> length p \<Longrightarrow>
     \<exists>st'. add_mappings new st = Inr st' \<and> scanned (ms @ new) st'"
proof (induction new arbitrary: ms st)
  case (Cons m new)
  from Cons.prems add_mapping_scanned [of ms st m] obtain st1 where
    "add_mapping m st = Inr st1" "scanned (ms @ [m]) st1" by auto
  with Cons.IH [of "ms @ [m]" st1] Cons.prems show ?case by simp
qed simp

lemma scan_items_scanned:
  "scanned ms st \<Longrightarrow> \<forall>it \<in> set items. \<forall>m \<in> set (cpm_Mappings it). \<forall>p \<in> set (ms_BlockPoolIdMapping m). 2 \<le> length p \<Longrightarrow>
     \<exists>st'. scan_items items st = Inr st' \<and> scanned (ms @ concat (map cpm_Mappings items)) st'"
proof (induction items arbitrary: ms st)
  case (Cons it items)
  from Cons.prems add_mappings_scanned [of ms st "cpm_Mappings it"] obtain st1 where
    "add_mappings (cpm_Mappings it) st = Inr st1" "scanned (ms @ cpm_Mappings it) st1" by auto
  with Cons.IH [of "ms @ cpm_Mappings it" st1] Cons.prems show ?case by simp
qed simp

lemma scanned_empty: "scanned [] empty_state"
  by (simp add: scanned_def empty_state_def grouped_mappings_def nub_def pairs_for_def seen_def)

text \<open>
  C24. On mapping resources whose id pairs have two elements (which the custom resource definition
  enforces) the mapping loop succeeds and computes the grouping of all mappings by pair of
  profiles: one record per pair, in the order in which the pairs first occur, holding each of the
  pair's id pairs once, again in the order of first occurrence.
\<close>

theorem csi_mappings_grouped:
  assumes "\<forall>item \<in> set items. \<forall>m \<in> set (cpm_Mappings item).
    \<forall>pair \<in> set (ms_BlockPoolIdMapping m). BlockPoolIdPair_valid pair"
  shows "csi_mappings items = Inr (grouped_mappings (concat (map cpm_Mappings items)))"
proof -
  from assms have "\<forall>it \<in> set items. \<forall>m \<in> set (cpm_Mappings it). \<forall>p \<in> set (ms_BlockPoolIdMapping m). 2 \<le> length p"
    by (auto simp: BlockPoolIdPair_valid_def)
  from scan_items_scanned [OF scanned_empty this] show ?thesis
    by (auto simp: csi_mappings_def scanned_def)
qed

theorem csi_mappings_grouped_witness:
  "csi_mappings [\<lparr>cpm_Meta = named_meta ''ns'' ''m'', cpm_Mappings =
       [\<lparr>ms_LocalClientProfile = ''a'', ms_RemoteClientProfile = ''b'', ms_BlockPoolIdMapping = [[''1'', ''2''], [''1'', ''2'']]\<rparr>,
        \<lparr>ms_LocalClientProfile = ''c'', ms_RemoteClientProfile = ''d'', ms_BlockPoolIdMapping = []\<rparr>,
        \<lparr>ms_LocalClientProfile = ''a'', ms_RemoteClientProfile = ''b'', ms_BlockPoolIdMapping = [[''3'', ''4'']]\<rparr>]\<rparr>] =
   Inr [\<lparr>cmr_ClusterIdMapping = singleton_map (''a'', ''b''),
         cmr_RbdPoolIdMapping = [singleton_map (''1'', ''2''), singleton_map (''3'', ''4'')]\<rparr>,
        \<lparr>cmr_ClusterIdMapping = singleton_map (''c'', ''d''), cmr_RbdPoolIdMapping = []\<rparr>]"
  by (subst csi_mappings_grouped)
    (simp_all add: BlockPoolIdPair_valid_def grouped_mappings_def nub_def add_new_def mapping_key_def
      record_for_def pairs_for_def id_pair_def)

section \<open>The mutation\<close>

lemma map_sum_eq_Inr: "map_sum f g x = Inr y \<longleftrightarrow> (\<exists>z. x = Inr z \<and> y = g z)"
  by (cases x) auto

interpretation mapping_mutation:
  mutator cm_Meta "mutateCephCsiBlockPoolMapping scheme req items" "\<lambda>_. True" for scheme req items
proof (unfold_locales, goal_cases)
  case (1 cm cm')
  then show ?case
    by (auto simp: mutateCephCsiBlockPoolMapping_def toggle_frame(1) map_sum_eq_Inr
        split: sum.splits option.splits)
next
  case (2 cm cm')
  show ?case
  proof (cases "mapping_owner req items")
    case None
    with 2 show ?thesis by (auto simp: mutateCephCsiBlockPoolMapping_def split: sum.splits)
  next
    case (Some owner)
    with 2(2) obtain md ch where
      t: "ToggleOwnerReference True (cm_Meta cm) T_ClientProfileMapping (cpm_Meta owner) scheme = Inr (md, ch)"
      by (auto simp: mutateCephCsiBlockPoolMapping_def map_sum_eq_Inr split: sum.splits)
    with toggle_on_idem(2) [OF t] Some 2(2) show ?thesis
      by (auto simp: mutateCephCsiBlockPoolMapping_def split: sum.splits)
  qed
qed simp

text \<open>
  The two writers of the shared ConfigMap do not interfere: rebuilding the mapping changes no
  cluster information, and updating the cluster information changes no mapping.
\<close>

theorem config_map_keys_disjoint:
  "(mutateCephCsiBlockPoolMapping scheme req items cm = Inr cm1 \<longrightarrow> infos_of cm1 = infos_of cm) \<and>
   (mutateCephCsiClusterInfo rng scheme r cm = Inr cm2 \<longrightarrow>
      fmlookup (cm_Data cm2) CsiConfigMapMappingKey = fmlookup (cm_Data cm) CsiConfigMapMappingKey)"
proof -
  have keys: "CsiConfigMapConfigKey \<noteq> CsiConfigMapMappingKey"
    by (simp add: CsiConfigMapConfigKey_def CsiConfigMapMappingKey_def)
  then show ?thesis
    by (auto simp: mutateCephCsiBlockPoolMapping_def mutateCephCsiClusterInfo_def infos_of_def put_infos_def
        split: sum.splits prod.splits)
qed

theorem config_map_keys_disjoint_witness:
  "\<exists>cm1 cm2.
     mutateCephCsiBlockPoolMapping (addKnownTypes []) (''ns'', ''m'') [] (new_config_map ''ns'' ''ceph-csi-config'') = Inr cm1 \<and>
     infos_of cm1 = Inr [] \<and>
     mutateCephCsiClusterInfo sorted_list_of_fmap (addKnownTypes []) (example_reconcile ''a'' True)
       (new_config_map ''ns'' ''ceph-csi-config'') = Inr cm2 \<and>
     fmlookup (cm_Data cm2) CsiConfigMapMappingKey = None"
proof -
  let ?cm = "new_config_map ''ns'' ''ceph-csi-config''" and ?s = "addKnownTypes []"
  have i: "infos_of ?cm = Inr (map Some [])" by (simp add: infos_of_def new_config_map_def)
  obtain cm1 where 1: "mutateCephCsiBlockPoolMapping ?s (''ns'', ''m'') [] ?cm = Inr cm1"
    by (simp add: mutateCephCsiBlockPoolMapping_def mapping_owner_def csi_mappings_def)
  obtain cm2 where 2: "mutateCephCsiClusterInfo sorted_list_of_fmap ?s (example_reconcile ''a'' True) ?cm = Inr cm2"
    using mutate_cluster_info_eq [OF i, of sorted_list_of_fmap ?s "example_reconcile ''a'' True"]
    by (auto simp: ToggleOwnerReference_def IsOwnedBy_def example_reconcile_def)
  from config_map_keys_disjoint [of ?s "(''ns'', ''m'')" "[]" ?cm cm1 sorted_list_of_fmap
      "example_reconcile ''a'' True" cm2] 1 2 i show ?thesis
    by (simp add: new_config_map_def)
qed

end
