(* ===== verification/Client_Profile_Replication.thy ===== *)
theory Client_Profile_Replication
  imports Client_Profile "HOL-Library.Product_Lexorder"
begin

text \<open>
  The replication controller, \<open>internal/controller/clientprofilereplication_controller.go\<close>: among
  the replications of one client profile the oldest one is accepted, ties being broken by name.

  \<open>sort.Slice\<close> with the comparison of the code is \<open>sort_key\<close> by creation time and name. Go's sort
  is not stable; the items of the list are stored objects of one namespace, so their names, and
  with them the keys, are distinct and the sorted list is unique.

  Shown here: the accepted replication is the least one, exactly one replication of a profile
  is accepted once all have been reconciled on the same list, which is what the client profile
  controller needs; a list that comes back empty makes the controller panic.
\<close>

section \<open>The controller\<close>

definition set_status ::
  "string \<Rightarrow> string \<Rightarrow> ClientProfileReplication \<Rightarrow> ClientProfileReplication" where
  "set_status phase message cpr = cpr\<lparr>cpr_Status := \<lparr>crt_Phase = phase, crt_Message = message\<rparr>\<rparr>"

definition sort_cprs :: "ClientProfileReplication list \<Rightarrow> ClientProfileReplication list" where
  "sort_cprs items = sort_key (\<lambda>cpr. (om_CreationTimestamp (cpr_Meta cpr), om_Name (cpr_Meta cpr))) items"

text \<open>Conflict detection and the resulting status.\<close>

definition decide ::
  "string \<Rightarrow> ClientProfileReplication list \<Rightarrow> ClientProfileReplication \<Rightarrow> ClientProfileReplication result" where
  "decide profile items cpr =
     (case sort_cprs items of
        [] \<Rightarrow> Inl (Panic ''index out of range'')
      | winner # _ \<Rightarrow>
          Inr (if om_Name (cpr_Meta cpr) = om_Name (cpr_Meta winner) \<and>
                  om_Namespace (cpr_Meta cpr) = om_Namespace (cpr_Meta winner)
               then set_status ClientProfileReplicationPhaseReady ''accepted'' cpr
               else set_status ClientProfileReplicationPhaseRejected
                      (''rejected: another ClientProfileReplication '' @ [CHR 0x27] @ om_Name (cpr_Meta winner) @
                       [CHR 0x27] @ '' is already active for localClientProfile '' @ [CHR 0x27] @ profile @ [CHR 0x27])
                      cpr))"

definition reconcilePhases_replication ::
  "'w client \<Rightarrow> ClientProfileReplication \<Rightarrow> ('w, error \<times> ClientProfileReplication) m" where
  "reconcilePhases_replication cl cpr =
     (let cpr = cpr\<lparr>cpr_Status := (cpr_Status cpr)\<lparr>crt_Phase := ClientProfileReplicationPhasePending\<rparr>\<rparr>;
          name = crs_LocalClientProfile (cpr_Spec cpr); ns = om_Namespace (cpr_Meta cpr)
      in bind_m (call (api_Get (cl_ClientProfile cl) (ns, name))) (\<lambda>g.
         case g of
           Inl err \<Rightarrow>
             if IsNotFound err
             then Ret (None, set_status ClientProfileReplicationPhaseRejected
                     (''rejected: ClientProfile '' @ [CHR 0x27] @ name @ [CHR 0x27] @ '' not found'') cpr)
             else Ret (Some err, cpr)
         | Inr clientProfile \<Rightarrow>
             bind_m (call (api_List (cl_ClientProfileReplication cl)
                 \<lparr>lo_Namespace = ns,
                  lo_MatchingField = Some (clientProfileIndexKey, om_Name (cp_Meta clientProfile))\<rparr>)) (\<lambda>l.
             case l of
               Inl err \<Rightarrow> Ret (Some err, cpr)
             | Inr items \<Rightarrow>
                 (case decide (om_Name (cp_Meta clientProfile)) items cpr of
                    Inl err \<Rightarrow> Ret (Some err, cpr)
                  | Inr cpr' \<Rightarrow> Ret (None, cpr')))))"

text \<open>A panic of the phases skips the status update; the framework returns it as an error.\<close>

definition is_panic :: "error \<Rightarrow> bool" where
  "is_panic err = (case err of Some (Panic _) \<Rightarrow> True | _ \<Rightarrow> False)"

definition reconcile_replication ::
  "'w client \<Rightarrow> ClientProfileReplication \<Rightarrow> ('w, error) m" where
  "reconcile_replication cl cpr =
     bind_m (call (api_Get (cl_ClientProfileReplication cl) (ObjectKeyFromObject (cpr_Meta cpr)))) (\<lambda>g.
     case g of
       Inl err \<Rightarrow> if IsNotFound err then Ret None else Ret (Some err)
     | Inr cpr \<Rightarrow>
         bind_m (reconcilePhases_replication cl cpr) (\<lambda>(reconcileErr, cpr).
         if is_panic reconcileErr then Ret reconcileErr
         else bind_m (call (api_StatusUpdate (cl_ClientProfileReplication cl) cpr)) (\<lambda>s.
              Ret (case reconcileErr of
                     Some err \<Rightarrow> Some err
                   | None \<Rightarrow> (case s of Inl statusErr \<Rightarrow> Some statusErr | Inr _ \<Rightarrow> None)))))"

definition Reconcile_replication :: "'w client \<Rightarrow> object_key \<Rightarrow> ('w, error) m" where
  "Reconcile_replication cl req =
     reconcile_replication cl
       (zero_ClientProfileReplication\<lparr>cpr_Meta := named_meta (fst req) (snd req)\<rparr>)"

text \<open>The requests enqueued when a client profile is created or deleted.\<close>

definition requests_for_profile ::
  "'w client \<Rightarrow> ClientProfile \<Rightarrow> ('w, object_key list) m" where
  "requests_for_profile cl clientProfile =
     bind_m (call (api_List (cl_ClientProfileReplication cl)
         \<lparr>lo_Namespace = om_Namespace (cp_Meta clientProfile),
          lo_MatchingField = Some (clientProfileIndexKey, om_Name (cp_Meta clientProfile))\<rparr>)) (\<lambda>l.
     Ret (case l of
            Inl _ \<Rightarrow> []
          | Inr items \<Rightarrow> map (\<lambda>item. ObjectKeyFromObject (cpr_Meta item)) items))"

section \<open>Who is accepted\<close>

definition age_key :: "ClientProfileReplication \<Rightarrow> int \<times> string" where
  "age_key cpr = (om_CreationTimestamp (cpr_Meta cpr), om_Name (cpr_Meta cpr))"

lemma sort_cprs_age: "sort_cprs = sort_key age_key"
  by (simp add: fun_eq_iff sort_cprs_def age_key_def [abs_def])

definition is_ready :: "ClientProfileReplication \<Rightarrow> bool" where
  "is_ready cpr = (crt_Phase (cpr_Status cpr) = ClientProfileReplicationPhaseReady)"

lemma set_status_simps [simp]:
  "cpr_Meta (set_status p m cpr) = cpr_Meta cpr" "cpr_Spec (set_status p m cpr) = cpr_Spec cpr"
  "is_ready (set_status p m cpr) \<longleftrightarrow> p = ClientProfileReplicationPhaseReady"
  by (simp_all add: set_status_def is_ready_def)

lemma winner_least:
  assumes "sort_cprs items = winner # rest"
  shows "winner \<in> set items" and "cpr \<in> set items \<Longrightarrow> age_key winner \<le> age_key cpr"
proof -
  have s: "set (winner # rest) = set items" using assms by (metis set_sort sort_cprs_age)
  then show "winner \<in> set items" by auto
  have "sorted (map age_key (winner # rest))" using assms by (metis sorted_sort_key sort_cprs_age)
  then show "cpr \<in> set items \<Longrightarrow> age_key winner \<le> age_key cpr" using s by auto
qed

text \<open>
  The identity of a stored replication; the API server keeps one object per key.
\<close>

definition stored_list :: "ClientProfileReplication list \<Rightarrow> bool" where
  "stored_list items \<longleftrightarrow> distinct (map (\<lambda>cpr. ObjectKeyFromObject (cpr_Meta cpr)) items)"

lemma decide_ready:
  assumes "stored_list items" "cpr \<in> set items" "sort_cprs items = winner # rest"
  shows "\<exists>cpr'. decide profile items cpr = Inr cpr' \<and> (is_ready cpr' \<longleftrightarrow> cpr = winner)"
proof -
  have "cpr = winner \<longleftrightarrow> ObjectKeyFromObject (cpr_Meta cpr) = ObjectKeyFromObject (cpr_Meta winner)"
    using assms(1,2) winner_least(1) [OF assms(3)] unfolding stored_list_def
    by (auto simp: distinct_map inj_on_def)
  with assms(3) show ?thesis
    by (auto simp: decide_def ObjectKeyFromObject_def ClientProfileReplicationPhaseRejected_def
        ClientProfileReplicationPhaseReady_def)
qed

text \<open>
  C13. Exactly one replication wins. When every replication in a list of stored objects has been
  decided on that list, exactly one of them is Ready, and it is the oldest (the one with the
  least name among equally old ones).
\<close>

theorem oldest_replication_wins:
  assumes stored: "stored_list items" and some: "items \<noteq> []"
  shows "\<exists>winner \<in> set items. (\<forall>cpr \<in> set items. age_key winner \<le> age_key cpr) \<and>
    (\<forall>cpr \<in> set items. \<exists>cpr'. decide profile items cpr = Inr cpr' \<and> (is_ready cpr' \<longleftrightarrow> cpr = winner))"
proof -
  have "sort_cprs items \<noteq> []" using some by (metis length_0_conv length_sort sort_cprs_age)
  then obtain winner rest where s: "sort_cprs items = winner # rest" by (cases "sort_cprs items") auto
  from winner_least [OF s] decide_ready [OF stored _ s] show ?thesis by blast
qed

definition two_replications :: "ClientProfileReplication list" where
  "two_replications =
     [zero_ClientProfileReplication\<lparr>cpr_Meta := (named_meta ''ns'' ''young'')\<lparr>om_CreationTimestamp := 20\<rparr>\<rparr>,
      zero_ClientProfileReplication\<lparr>cpr_Meta := (named_meta ''ns'' ''old'')\<lparr>om_CreationTimestamp := 10\<rparr>\<rparr>]"

theorem oldest_replication_wins_witness:
  "\<exists>cpr'. decide ''p'' two_replications (two_replications ! 1) = Inr cpr' \<and> is_ready cpr' \<and>
     (\<exists>cpr''. decide ''p'' two_replications (two_replications ! 0) = Inr cpr'' \<and> \<not> is_ready cpr'')"
proof -
  have "stored_list two_replications" "two_replications \<noteq> []"
    by (simp_all add: stored_list_def two_replications_def ObjectKeyFromObject_def)
  moreover have "two_replications ! 0 \<noteq> two_replications ! 1" "two_replications ! 0 \<in> set two_replications"
    "two_replications ! 1 \<in> set two_replications"
    "\<not> age_key (two_replications ! 0) \<le> age_key (two_replications ! 1)"
    "set two_replications = {two_replications ! 0, two_replications ! 1}"
    by (simp_all add: two_replications_def age_key_def zero_ClientProfileReplication_def named_meta_def zero_meta_def)
  ultimately show ?thesis using oldest_replication_wins [of two_replications "''p''"] by auto
qed

text \<open>
  C21. The replication controller establishes what the client profile controller relies on. If
  the stored replications of a profile carry the statuses decided on one list of them, then the client
  profile controller finds at most one Ready replication and does not fail.
\<close>

theorem decided_replications_load:
  assumes stored: "stored_list items"
    and decided: "map (decide profile items) items = map Inr decided"
    and answer: "list_replications cl r w = (Inr decided, w1)"
  shows "\<exists>r'. run_m (load_replication cl r) w = ((None, r'), w1)"
proof -
  let ?ready = "\<lambda>item. crt_Phase (cpr_Status item) = ClientProfileReplicationPhaseReady"
  have "length (filter ?ready decided) \<le> 1"
  proof (cases "sort_cprs items")
    case Nil
    then have "items = []" by (metis length_0_conv length_sort sort_cprs_age)
    with decided show ?thesis by simp
  next
    case (Cons winner rest)
    let ?f = "\<lambda>cpr. projr (decide profile items cpr)"
    have f: "decided = map ?f items"
      using arg_cong [OF decided, of "map projr"] by (simp add: comp_def)
    have "?ready (?f cpr) \<longleftrightarrow> cpr = winner" if "cpr \<in> set items" for cpr
      using decide_ready [OF stored that Cons, of profile] by (auto simp: is_ready_def)
    then have "filter (?ready \<circ> ?f) items = filter (\<lambda>cpr. cpr = winner) items"
      by (intro filter_cong) simp_all
    then have "length (filter ?ready decided) = length (filter (\<lambda>cpr. cpr = winner) items)"
      unfolding f by (simp add: filter_map)
    moreover have "distinct items" using stored by (simp add: stored_list_def distinct_map)
    then have "length (filter (\<lambda>cpr. cpr = winner) items) \<le> 1" by (induction items) (auto simp: filter_empty_conv)
    ultimately show ?thesis by simp
  qed
  with answer show ?thesis by (simp add: load_replication_def)
qed

theorem decided_replications_load_witness:
  "\<exists>decided r'. map (decide ''p'' two_replications) two_replications = map Inr decided \<and>
     run_m (load_replication
       (mem_client\<lparr>cl_ClientProfileReplication := mem_ClientProfileReplication\<lparr>api_List := \<lambda>opts w. (Inr decided, w)\<rparr>\<rparr>)
       (example_reconcile ''p'' False)) empty_cluster = ((None, r'), empty_cluster)"
proof -
  have stored: "stored_list two_replications"
    by (simp add: stored_list_def two_replications_def ObjectKeyFromObject_def)
  have "sort_cprs two_replications \<noteq> []"
    by (metis length_0_conv length_sort list.distinct(1) sort_cprs_age two_replications_def)
  then have "\<exists>x. decide ''p'' two_replications cpr = Inr x" for cpr
    by (cases "sort_cprs two_replications") (auto simp: decide_def)
  then obtain f where f: "\<And>cpr. decide ''p'' two_replications cpr = Inr (f cpr)" by metis
  let ?d = "map f two_replications"
  let ?cl = "mem_client\<lparr>cl_ClientProfileReplication := mem_ClientProfileReplication\<lparr>api_List := \<lambda>opts w. (Inr ?d, w)\<rparr>\<rparr>"
  have d: "map (decide ''p'' two_replications) two_replications = map Inr ?d" using f by simp
  have "list_replications ?cl (example_reconcile ''p'' False) empty_cluster = (Inr ?d, empty_cluster)"
    by (simp add: list_replications_def)
  from decided_replications_load [OF stored d this] d show ?thesis by blast
qed

end
