(* ===== verification/Watches.thy ===== *)
theory Watches
  imports Driver_Ready Client_Profile_Mapping Client_Profile_Replication
begin

text \<open>
  What wakes the controllers up: the predicates of \<open>internal/utils/predicates.go\<close>, the \<open>SetupWithManager\<close>
  functions of the four controllers with the functions they map events to requests with, and the
  event handlers and the generation predicate of controller-runtime they are built from.

  A watch is a kind of object, a handler and predicates; an event queues the requests of the handlers
  of its kind whose predicates all admit it. Shown here: deleting any object a driver controls queues
  the driver; a change of the operator's defaults queues every driver and no other change does;
  a replication that moves to another profile queues both profiles; an edit of a ConfigMap queues
  nothing.
\<close>

section \<open>Events\<close>

datatype client_object =
    Driver_object Driver | OperatorConfig_object OperatorConfig | ClientProfile_object ClientProfile
  | CephConnection_object CephConnection | ClientProfileMapping_object ClientProfileMapping
  | ClientProfileReplication_object ClientProfileReplication | ConfigMap_object config_map
  | CSIDriver_object csi_driver | Deployment_object deployment | DaemonSet_object daemonset
  | Service_object service | NetworkPolicy_object network_policy

datatype watched_kind =
    K_Driver | K_OperatorConfig | K_ClientProfile | K_CephConnection | K_ClientProfileMapping
  | K_ClientProfileReplication | K_ConfigMap | K_CSIDriver | K_Deployment | K_DaemonSet | K_Service | K_NetworkPolicy

primrec object_kind :: "client_object \<Rightarrow> watched_kind" where
  "object_kind (Driver_object _) = K_Driver"
| "object_kind (OperatorConfig_object _) = K_OperatorConfig"
| "object_kind (ClientProfile_object _) = K_ClientProfile"
| "object_kind (CephConnection_object _) = K_CephConnection"
| "object_kind (ClientProfileMapping_object _) = K_ClientProfileMapping"
| "object_kind (ClientProfileReplication_object _) = K_ClientProfileReplication"
| "object_kind (ConfigMap_object _) = K_ConfigMap"
| "object_kind (CSIDriver_object _) = K_CSIDriver"
| "object_kind (Deployment_object _) = K_Deployment"
| "object_kind (DaemonSet_object _) = K_DaemonSet"
| "object_kind (Service_object _) = K_Service"
| "object_kind (NetworkPolicy_object _) = K_NetworkPolicy"

primrec meta_of :: "client_object \<Rightarrow> object_meta" where
  "meta_of (Driver_object obj) = dr_Meta obj"
| "meta_of (OperatorConfig_object obj) = oc_Meta obj"
| "meta_of (ClientProfile_object obj) = cp_Meta obj"
| "meta_of (CephConnection_object obj) = cc_Meta obj"
| "meta_of (ClientProfileMapping_object obj) = cpm_Meta obj"
| "meta_of (ClientProfileReplication_object obj) = cpr_Meta obj"
| "meta_of (ConfigMap_object obj) = cm_Meta obj"
| "meta_of (CSIDriver_object obj) = cd_Meta obj"
| "meta_of (Deployment_object obj) = dp_Meta obj"
| "meta_of (DaemonSet_object obj) = dset_Meta obj"
| "meta_of (Service_object obj) = sv_Meta obj"
| "meta_of (NetworkPolicy_object obj) = np_Meta obj"

datatype event =
  Created client_object | Updated client_object client_object | Deleted client_object | Generic client_object

text \<open>The object an event is about; of an update, the new one.\<close>

primrec event_object :: "event \<Rightarrow> client_object" where
  "event_object (Created obj) = obj"
| "event_object (Updated old new) = new"
| "event_object (Deleted obj) = obj"
| "event_object (Generic obj) = obj"

type_synonym predicate = "event \<Rightarrow> bool"

section \<open>Predicates\<close>

definition NewPredicateFuncs :: "(client_object \<Rightarrow> bool) \<Rightarrow> predicate" where
  "NewPredicateFuncs f ev = f (event_object ev)"

definition NamePredicate :: "string \<Rightarrow> predicate" where
  "NamePredicate name = NewPredicateFuncs (\<lambda>obj. om_Name (meta_of obj) = name)"

definition EventTypePredicate :: "bool \<Rightarrow> bool \<Rightarrow> bool \<Rightarrow> bool \<Rightarrow> predicate" where
  "EventTypePredicate create update del generic ev =
     (case ev of Created _ \<Rightarrow> create | Updated _ _ \<Rightarrow> update | Deleted _ \<Rightarrow> del | Generic _ \<Rightarrow> generic)"

text \<open>Only updates are filtered.\<close>

definition GenerationChangedPredicate :: predicate where
  "GenerationChangedPredicate ev =
     (case ev of Updated old new \<Rightarrow> om_Generation (meta_of new) \<noteq> om_Generation (meta_of old) | _ \<Rightarrow> True)"

definition driverDefaultsPredicate :: predicate where
  "driverDefaultsPredicate ev =
     (let has_defaults = (\<lambda>obj. case obj of
          OperatorConfig_object opConf \<Rightarrow> oc_DriverSpecDefaults (oc_Spec opConf) \<noteq> None | _ \<Rightarrow> False)
      in case ev of
           Created obj \<Rightarrow> has_defaults obj
         | Updated old new \<Rightarrow>
             (case (old, new) of
                (OperatorConfig_object oldConf, OperatorConfig_object newConf) \<Rightarrow>
                  oc_DriverSpecDefaults (oc_Spec oldConf) \<noteq> oc_DriverSpecDefaults (oc_Spec newConf)
              | _ \<Rightarrow> True)
         | Deleted obj \<Rightarrow> has_defaults obj
         | Generic _ \<Rightarrow> False)"

section \<open>Handlers\<close>

type_synonym 'w handler = "event \<Rightarrow> ('w, object_key list) m"

definition EnqueueRequestForObject :: "'w handler" where
  "EnqueueRequestForObject ev = Ret [ObjectKeyFromObject (meta_of (event_object ev))]"

text \<open>
  A reference whose API version cannot be parsed ends the loop. The owner kinds are all namespaced,
  so the namespace is the object's.
\<close>

fun owner_requests :: "api_type \<Rightarrow> string \<Rightarrow> owner_reference list \<Rightarrow> object_key list" where
  "owner_requests t ns [] = []"
| "owner_requests t ns (ref # refs) =
     (case ParseGroupVersion (or_APIVersion ref) of
        Inl _ \<Rightarrow> []
      | Inr (grp, _) \<Rightarrow>
          if or_Kind ref = kind_name t \<and> grp = GroupVersion_Group
          then (ns, or_Name ref) # owner_requests t ns refs
          else owner_requests t ns refs)"

definition getOwnersReferences :: "bool \<Rightarrow> object_meta \<Rightarrow> owner_reference list" where
  "getOwnersReferences isController md =
     (if \<not> isController then om_OwnerReferences md
      else case GetControllerOf md of Some ref \<Rightarrow> [ref] | None \<Rightarrow> [])"

definition getOwnerReconcileRequest :: "api_type \<Rightarrow> bool \<Rightarrow> client_object \<Rightarrow> object_key list" where
  "getOwnerReconcileRequest t isController obj =
     owner_requests t (om_Namespace (meta_of obj)) (getOwnersReferences isController (meta_of obj))"

definition EnqueueRequestForOwner :: "api_type \<Rightarrow> bool \<Rightarrow> 'w handler" where
  "EnqueueRequestForOwner t isController ev =
     (let req = getOwnerReconcileRequest t isController
      in Ret (remdups (case ev of
           Created obj \<Rightarrow> req obj | Updated old new \<Rightarrow> req old @ req new
         | Deleted obj \<Rightarrow> req obj | Generic obj \<Rightarrow> req obj)))"

definition EnqueueRequestsFromMapFunc :: "(client_object \<Rightarrow> ('w, object_key list) m) \<Rightarrow> 'w handler" where
  "EnqueueRequestsFromMapFunc toRequests ev =
     (case ev of
        Updated old new \<Rightarrow>
          bind_m (toRequests old) (\<lambda>a. bind_m (toRequests new) (\<lambda>b. Ret (remdups (a @ b))))
      | _ \<Rightarrow> bind_m (toRequests (event_object ev)) (\<lambda>a. Ret (remdups a)))"

section \<open>Watches\<close>

record 'w watch =
  on_kind :: watched_kind
  handler :: "'w handler"
  predicates :: "predicate list"

definition For :: "watched_kind \<Rightarrow> 'w watch" where
  "For k = \<lparr>on_kind = k, handler = EnqueueRequestForObject, predicates = []\<rparr>"

definition Owns :: "api_type \<Rightarrow> watched_kind \<Rightarrow> bool \<Rightarrow> predicate list \<Rightarrow> 'w watch" where
  "Owns t k matchEveryOwner prds =
     \<lparr>on_kind = k, handler = EnqueueRequestForOwner t (\<not> matchEveryOwner), predicates = prds\<rparr>"

definition admits :: "'w watch \<Rightarrow> event \<Rightarrow> bool" where
  "admits watch ev \<longleftrightarrow> object_kind (event_object ev) = on_kind watch \<and> list_all (\<lambda>p. p ev) (predicates watch)"

text \<open>The requests an event queues in a controller.\<close>

primrec queued :: "'w watch list \<Rightarrow> event \<Rightarrow> ('w, object_key list) m" where
  "queued [] ev = Ret []"
| "queued (watch # ws) ev =
     (if admits watch ev
      then bind_m (handler watch ev) (\<lambda>a. bind_m (queued ws ev) (\<lambda>b. Ret (a @ b)))
      else queued ws ev)"

section \<open>The driver controller\<close>

definition enqueueAllDrivers :: "'w client \<Rightarrow> client_object \<Rightarrow> ('w, object_key list) m" where
  "enqueueAllDrivers cl obj =
     bind_m (call (api_List (cl_Driver cl) \<lparr>lo_Namespace = [], lo_MatchingField = None\<rparr>)) (\<lambda>l.
     Ret (case l of
            Inl _ \<Rightarrow> []
          | Inr items \<Rightarrow> map (\<lambda>driver. ObjectKeyFromObject (dr_Meta driver)) items))"

definition enqueueFromOwnerRefAnnotation :: "client_object \<Rightarrow> ('w, object_key list) m" where
  "enqueueFromOwnerRefAnnotation obj =
     (let ownerRef = owner_annotation (meta_of obj)
      in Ret (if ownerRef = [] then []
              else case Unmarshal dec_key ownerRef ([], []) of
                     Inl _ \<Rightarrow> []
                   | Inr ownerObjKey \<Rightarrow> [ownerObjKey]))"

definition SetupWithManager_driver :: "'w client \<Rightarrow> 'w watch list" where
  "SetupWithManager_driver cl =
     [For K_Driver,
      Owns T_Driver K_Deployment False [GenerationChangedPredicate],
      Owns T_Driver K_DaemonSet False [GenerationChangedPredicate],
      Owns T_Driver K_Service False [GenerationChangedPredicate],
      Owns T_Driver K_NetworkPolicy False [GenerationChangedPredicate],
      Owns T_Driver K_ConfigMap True [NamePredicate (vol_Name CsiConfigVolume), EventTypePredicate False False True False],
      \<lparr>on_kind = K_OperatorConfig, handler = EnqueueRequestsFromMapFunc (enqueueAllDrivers cl),
       predicates = [driverDefaultsPredicate]\<rparr>,
      \<lparr>on_kind = K_CSIDriver, handler = EnqueueRequestsFromMapFunc enqueueFromOwnerRefAnnotation, predicates = []\<rparr>]"

section \<open>The profile controllers\<close>

text \<open>
  The type assertions on the object of these two functions cannot fail: a watch passes on objects of its
  kind only.
\<close>

definition profileOfReplication :: "client_object \<Rightarrow> ('w, object_key list) m" where
  "profileOfReplication obj =
     Ret (case obj of
            ClientProfileReplication_object cpr \<Rightarrow>
              [(om_Namespace (cpr_Meta cpr), crs_LocalClientProfile (cpr_Spec cpr))]
          | _ \<Rightarrow> [])"

definition SetupWithManager_profile :: "'w watch list" where
  "SetupWithManager_profile =
     [For K_ClientProfile,
      Owns T_ClientProfile K_CephConnection True [GenerationChangedPredicate],
      Owns T_ClientProfile K_ConfigMap True [GenerationChangedPredicate],
      \<lparr>on_kind = K_ClientProfileReplication, handler = EnqueueRequestsFromMapFunc profileOfReplication,
       predicates = [EventTypePredicate True True True False]\<rparr>]"

definition SetupWithManager_mapping :: "'w watch list" where
  "SetupWithManager_mapping =
     [For K_ClientProfileMapping,
      Owns T_ClientProfileMapping K_ConfigMap True [NamePredicate (vol_Name CsiConfigVolume), GenerationChangedPredicate]]"

definition replicationsOfProfile :: "'w client \<Rightarrow> client_object \<Rightarrow> ('w, object_key list) m" where
  "replicationsOfProfile cl obj =
     (case obj of ClientProfile_object clientProfile \<Rightarrow> requests_for_profile cl clientProfile | _ \<Rightarrow> Ret [])"

definition SetupWithManager_replication :: "'w client \<Rightarrow> 'w watch list" where
  "SetupWithManager_replication cl =
     [For K_ClientProfileReplication,
      \<lparr>on_kind = K_ClientProfile, handler = EnqueueRequestsFromMapFunc (replicationsOfProfile cl),
       predicates = [EventTypePredicate True False True False]\<rparr>]"

section \<open>Facts\<close>

lemmas watch_defs = For_def Owns_def admits_def

lemma run_EnqueueRequestForOwner [simp]:
  "run_m (EnqueueRequestForOwner t c (Deleted obj)) w = (remdups (getOwnerReconcileRequest t c obj), w)"
  by (simp add: EnqueueRequestForOwner_def)

text \<open>A reference to an owner of a registered type is mapped to its key.\<close>

lemma owner_requests_ref_for:
  "owner_requests t ns [ref_for t owner b] = [(ns, om_Name owner)]"
  using ParseGroupVersion_csi by (simp add: ref_for_def GroupVersion_Group_def)

lemma controlled_requests:
  assumes "controlled_by r (meta_of obj)" and "om_Namespace (meta_of obj) = driver_namespace r"
  shows "getOwnerReconcileRequest T_Driver True obj = [(driver_namespace r, driver_name r)]"
  using assms owner_requests_ref_for
  by (simp add: getOwnerReconcileRequest_def getOwnersReferences_def controlled_by_def Let_def driver_name_def)

text \<open>The object in a slot.\<close>

fun object_at :: "slot \<Rightarrow> kube_objects \<Rightarrow> client_object option" where
  "object_at (ConfigMap_at k) ob = map_option ConfigMap_object (ko_ConfigMap ob k)"
| "object_at (CSIDriver_at k) ob = map_option CSIDriver_object (ko_CSIDriver ob k)"
| "object_at (Deployment_at k) ob = map_option Deployment_object (ko_Deployment ob k)"
| "object_at (DaemonSet_at k) ob = map_option DaemonSet_object (ko_DaemonSet ob k)"
| "object_at (Service_at k) ob = map_option Service_object (ko_Service ob k)"
| "object_at (NetworkPolicy_at k) ob = map_option NetworkPolicy_object (ko_NetworkPolicy ob k)"

fun slot_key :: "slot \<Rightarrow> object_key" where
  "slot_key (ConfigMap_at k) = k" | "slot_key (CSIDriver_at k) = k" | "slot_key (Deployment_at k) = k"
| "slot_key (DaemonSet_at k) = k" | "slot_key (Service_at k) = k" | "slot_key (NetworkPolicy_at k) = k"

text \<open>The ConfigMaps are owned and not controlled; the policy of the CSI-Addons pods is not looked at for NFS.\<close>

definition healing :: "driverReconcile \<Rightarrow> slot \<Rightarrow> bool" where
  "healing r s \<longleftrightarrow>
     (case s of
        ConfigMap_at _ \<Rightarrow> False
      | NetworkPolicy_at k \<Rightarrow>
          if isNfsDriver r then snd k \<noteq> generateName r ''nodeplugin-csi-addons'' else True
      | _ \<Rightarrow> True)"

lemma queued_controlled:
  assumes "controlled_by r (meta_of obj)" and "om_Namespace (meta_of obj) = driver_namespace r"
    and "object_kind obj \<in> {K_Deployment, K_DaemonSet, K_Service, K_NetworkPolicy}"
  shows "run_m (queued (SetupWithManager_driver cl) (Deleted obj)) w = ([(driver_namespace r, driver_name r)], w)"
  using assms controlled_requests [OF assms(1,2)]
  by (auto simp: SetupWithManager_driver_def watch_defs GenerationChangedPredicate_def)

lemma queued_claim:
  assumes "fmlookup (om_Annotations (cd_Meta cd)) ownerRefAnnotationKey = Some (Marshal enc_key k)"
  shows "run_m (queued (SetupWithManager_driver cl) (Deleted (CSIDriver_object cd))) w = ([k], w)"
proof -
  have "Marshal enc_key k \<noteq> []" by (simp add: Marshal_def enc_key_def)
  moreover have "Unmarshal dec_key (Marshal enc_key k) ([], []) = Inr k" by (rule key_codec.round_trip) simp
  ultimately show ?thesis
    using assms by (simp add: SetupWithManager_driver_def watch_defs EnqueueRequestsFromMapFunc_def
        enqueueFromOwnerRefAnnotation_def owner_annotation_def)
qed

text \<open>So what a driver's readiness says of an object decides whose deletion it reports.\<close>

lemma ready_object:
  assumes ready: "driver_ready env r ob"
    and slot: "s \<in> set (driver_slots (driver_namespace r, driver_name r))" "healing r s"
    and obj: "object_at s ob = Some obj"
  shows "(\<exists>cd. obj = CSIDriver_object cd \<and> fmlookup (om_Annotations (cd_Meta cd)) ownerRefAnnotationKey =
            Some (Marshal enc_key (driver_namespace r, driver_name r))) \<or>
         (controlled_by r (meta_of obj) \<and> fst (slot_key s) = driver_namespace r \<and>
          object_kind obj \<in> {K_Deployment, K_DaemonSet, K_Service, K_NetworkPolicy})"
proof -
  from slot(1) consider
      (config_map) k where "s = ConfigMap_at k"
    | (csi_driver) "s = CSIDriver_at ([], driver_name r)"
    | (deployment) "s = Deployment_at (driver_namespace r, generateName r ''ctrlplugin'')"
    | (ctrl_policy) "s = NetworkPolicy_at (driver_namespace r, generateName r ''ctrlplugin'')"
    | (node) "s = DaemonSet_at (driver_namespace r, generateName r ''nodeplugin'')"
    | (liveness) "s = Service_at (driver_namespace r, generateServiceName r ''liveness'')"
    | (addons) "s = DaemonSet_at (driver_namespace r, generateName r ''nodeplugin-csi-addons'')"
    | (node_policy) "s = NetworkPolicy_at (driver_namespace r, generateName r ''nodeplugin-csi-addons'')"
    unfolding driver_slots_def Let_def slot_names fst_conv snd_conv by auto
  then show ?thesis
  proof cases
    case config_map
    with slot(2) show ?thesis by (simp add: healing_def)
  next
    case csi_driver
    with ready obj show ?thesis
      by (auto simp: driver_ready_def ready_conditions_def csi_driver_ready_def stored_as_def)
  next
    case deployment
    with ready obj show ?thesis
      by (auto simp: driver_ready_def ready_conditions_def controller_ready_def stored_as_def)
  next
    case ctrl_policy
    with ready obj show ?thesis
      by (auto simp: driver_ready_def ready_conditions_def controller_policy_ready_def stored_as_def Let_def split: if_splits)
  next
    case node
    with ready obj show ?thesis
      by (auto simp: driver_ready_def ready_conditions_def node_plugin_ready_def stored_as_def)
  next
    case liveness
    with ready obj show ?thesis
      by (auto simp: driver_ready_def ready_conditions_def liveness_ready_def stored_as_def Let_def split: option.splits)
  next
    case addons
    with ready obj show ?thesis
      by (auto simp: driver_ready_def ready_conditions_def csi_addons_ready_def stored_as_def Let_def
          split: sum.splits if_splits)
  next
    case node_policy
    with ready obj slot(2) show ?thesis
      by (auto simp: driver_ready_def ready_conditions_def csi_addons_policy_ready_def stored_as_def Let_def healing_def
          split: if_splits)
  qed
qed

section \<open>Properties\<close>



text \<open>
  A ConfigMap that is not the shared one queues no driver, whatever happens to it: neither the log rotation
  settings a driver wrote nor the image sets its images are read from are watched.
\<close>

theorem other_config_maps_unwatched:
  assumes "object_kind (event_object ev) = K_ConfigMap" and "om_Name (meta_of (event_object ev)) \<noteq> ''ceph-csi-config''"
  shows "run_m (queued (SetupWithManager_driver cl) ev) w = ([], w)"
  using assms
  by (simp add: SetupWithManager_driver_def watch_defs NamePredicate_def NewPredicateFuncs_def CsiConfigVolume_def)

theorem other_config_maps_unwatched_witness:
  "run_m (queued (SetupWithManager_driver mem_client) (Deleted (ConfigMap_object example_images))) first_cluster = ([], first_cluster)"
  by (rule other_config_maps_unwatched) (simp_all add: example_images_def)

text \<open>
  C40. An update of a ConfigMap that leaves its generation as it is queues nothing in any of the four
  controllers. The API server keeps no generation for ConfigMaps, so an edit of the shared ConfigMap is
  not undone until something else wakes a controller up.
\<close>

theorem config_map_updates_unseen:
  assumes "om_Generation (cm_Meta new) = om_Generation (cm_Meta old)"
  shows "run_m (queued (SetupWithManager_driver cl) (Updated (ConfigMap_object old) (ConfigMap_object new))) w = ([], w) \<and>
    run_m (queued SetupWithManager_profile (Updated (ConfigMap_object old) (ConfigMap_object new))) w = ([], w) \<and>
    run_m (queued SetupWithManager_mapping (Updated (ConfigMap_object old) (ConfigMap_object new))) w = ([], w) \<and>
    run_m (queued (SetupWithManager_replication cl) (Updated (ConfigMap_object old) (ConfigMap_object new))) w = ([], w)"
  using assms
  by (simp add: SetupWithManager_driver_def SetupWithManager_profile_def SetupWithManager_mapping_def
      SetupWithManager_replication_def watch_defs GenerationChangedPredicate_def EventTypePredicate_def)

theorem config_map_updates_unseen_witness:
  "run_m (queued SetupWithManager_profile (Updated (ConfigMap_object example_images)
      (ConfigMap_object (example_images\<lparr>cm_Data := fmempty\<rparr>)))) first_cluster = ([], first_cluster)"
  using config_map_updates_unseen [of "example_images\<lparr>cm_Data := fmempty\<rparr>" example_images mem_client first_cluster] by simp

text \<open>
  C32. An update of an OperatorConfig queues every driver exactly when the defaults of the driver specs have
  changed; a change of anything else queues none.
\<close>

theorem operator_defaults_requeue_drivers:
  assumes list: "api_List (cl_Driver cl) \<lparr>lo_Namespace = [], lo_MatchingField = None\<rparr> = (\<lambda>w. (Inr drivers, w))"
  shows "run_m (queued (SetupWithManager_driver cl) (Updated (OperatorConfig_object old) (OperatorConfig_object new))) w =
    (if oc_DriverSpecDefaults (oc_Spec old) \<noteq> oc_DriverSpecDefaults (oc_Spec new)
     then (remdups (map (\<lambda>driver. ObjectKeyFromObject (dr_Meta driver)) drivers), w) else ([], w))"
  by (simp add: SetupWithManager_driver_def watch_defs EnqueueRequestsFromMapFunc_def driverDefaultsPredicate_def
      enqueueAllDrivers_def list remdups_append)

theorem operator_defaults_requeue_drivers_witness:
  "\<exists>(cl :: cluster client) w. fst (run_m (queued (SetupWithManager_driver cl)
     (Updated (OperatorConfig_object zero_OperatorConfig)
       (OperatorConfig_object (zero_OperatorConfig\<lparr>oc_Spec := (oc_Spec zero_OperatorConfig)
          \<lparr>oc_DriverSpecDefaults := Some zero_DriverSpec\<rparr>\<rparr>)))) w) = [(''ns'', ''rbd.csi.ceph.com'')]"
proof -
  let ?cl = "mem_client\<lparr>cl_Driver := mem_Driver\<lparr>api_List := \<lambda>_ w. (Inr [example_driver], w)\<rparr>\<rparr>"
  have "api_List (cl_Driver ?cl) \<lparr>lo_Namespace = [], lo_MatchingField = None\<rparr> = (\<lambda>w. (Inr [example_driver], w))" by simp
  from operator_defaults_requeue_drivers [OF this, of zero_OperatorConfig
      "zero_OperatorConfig\<lparr>oc_Spec := (oc_Spec zero_OperatorConfig)\<lparr>oc_DriverSpecDefaults := Some zero_DriverSpec\<rparr>\<rparr>" first_cluster]
  show ?thesis
    by (intro exI [of _ ?cl] exI [of _ first_cluster])
      (simp add: zero_OperatorConfig_def example_driver_def example_meta_def ObjectKeyFromObject_def)
qed

text \<open>
  When a replication changes, the profile it pairs is reconciled; when it is moved to another profile,
  both the one it leaves and the one it joins are.
\<close>

theorem replication_update_requeues_profiles:
  "set (fst (run_m (queued SetupWithManager_profile
       (Updated (ClientProfileReplication_object old) (ClientProfileReplication_object new))) w)) =
     {(om_Namespace (cpr_Meta old), crs_LocalClientProfile (cpr_Spec old)),
      (om_Namespace (cpr_Meta new), crs_LocalClientProfile (cpr_Spec new))} \<and>
   set (fst (run_m (queued SetupWithManager_profile (Deleted (ClientProfileReplication_object old))) w)) =
     {(om_Namespace (cpr_Meta old), crs_LocalClientProfile (cpr_Spec old))}"
  by (auto simp: SetupWithManager_profile_def watch_defs EventTypePredicate_def EnqueueRequestsFromMapFunc_def
      profileOfReplication_def)

end
