(* ===== verification/Manager.thy ===== *)
theory Manager
  imports Utils_Core
begin

text \<open>
  The process entry point, \<open>cmd/main.go\<close>: flags, the TLS and metrics settings, the namespaces whose objects
  are cached, and the order in which the manager is built, the four controllers and the checks are
  registered, and the manager is started; any failure exits with status 1.

  Controller-runtime is a parameter: a record of the calls that can fail. Shown here: which namespaces
  are watched (the listed ones and always the operator's own; a stray comma means all of them), that
  HTTP/2 is off and the metrics are protected unless asked otherwise, and that the manager starts only
  after everything is registered.
\<close>

section \<open>Flags and options\<close>

record flags =
  metricsAddr :: string
  probeAddr :: string
  enableLeaderElection :: bool
  secureMetrics :: bool
  metricsCertPath :: string
  metricsCertName :: string
  metricsCertKey :: string
  enableHTTP2 :: bool

definition default_flags :: flags where
  "default_flags = \<lparr>metricsAddr = ''0'', probeAddr = '':8081'', enableLeaderElection = False, secureMetrics = True,
     metricsCertPath = [], metricsCertName = ''tls.crt'', metricsCertKey = ''tls.key'', enableHTTP2 = False\<rparr>"

record tls_config =
  NextProtos :: "string list"
  WatchedCertificate :: bool   \<comment> \<open>\<open>GetCertificate\<close> is the certificate watcher's\<close>

definition disableHTTP2 :: "tls_config \<Rightarrow> tls_config" where
  "disableHTTP2 c = c\<lparr>NextProtos := [''http/1.1'']\<rparr>"

record metrics_options =
  BindAddress :: string
  SecureServing :: bool
  TLSOpts :: "(tls_config \<Rightarrow> tls_config) list"
  AuthFilter :: bool           \<comment> \<open>\<open>FilterProvider\<close> is set\<close>

definition metricsServerOptions :: "flags \<Rightarrow> metrics_options" where
  "metricsServerOptions fl =
     \<lparr>BindAddress = metricsAddr fl,
      SecureServing = secureMetrics fl,
      TLSOpts = (if \<not> enableHTTP2 fl then [disableHTTP2] else []) @
                (if metricsCertPath fl \<noteq> [] then [\<lambda>config. config\<lparr>WatchedCertificate := True\<rparr>] else []),
      AuthFilter = secureMetrics fl\<rparr>"

section \<open>Namespaces\<close>

fun strings_Split :: "string \<Rightarrow> char \<Rightarrow> string list" where
  "strings_Split [] sep = [[]]"
| "strings_Split (c # cs) sep =
     (if c = sep then [] # strings_Split cs sep
      else case strings_Split cs sep of [] \<Rightarrow> [[c]] | part # parts \<Rightarrow> (c # part) # parts)"

definition getWatchNamespace :: "environ \<Rightarrow> string result" where
  "getWatchNamespace env =
     (let ns = Getenv env ''WATCH_NAMESPACE''
      in if ns = [] then Inl (ErrorString ''WATCH_NAMESPACE must be set'') else Inr ns)"

text \<open>The keys of the map; the error of \<open>getWatchNamespace\<close> is logged only.\<close>

definition defaultNamespaces :: "environ \<Rightarrow> string list result" where
  "defaultNamespaces env =
     (case GetOperatorNamespace env of
        Inl err \<Rightarrow> Inl err
      | Inr operatorNamespace \<Rightarrow>
          Inr (remdups (operatorNamespace #
            (case getWatchNamespace env of
               Inl _ \<Rightarrow> []
             | Inr watchNamespace \<Rightarrow> strings_Split watchNamespace (CHR '','')))))"

record manager_options =
  Metrics :: metrics_options
  HealthProbeBindAddress :: string
  LeaderElection :: bool
  LeaderElectionID :: string
  DefaultNamespaces :: "string list"

definition managerOptions :: "flags \<Rightarrow> string list \<Rightarrow> manager_options" where
  "managerOptions fl namespaces =
     \<lparr>Metrics = metricsServerOptions fl, HealthProbeBindAddress = probeAddr fl,
      LeaderElection = enableLeaderElection fl, LeaderElectionID = ''0a62cc8a.ceph.io'',
      DefaultNamespaces = namespaces\<rparr>"

section \<open>Starting\<close>

text \<open>The calls into controller-runtime; \<open>rt_Setup\<close> is \<open>SetupWithManager\<close> of the named controller.\<close>

record 'w runtime =
  rt_CertWatcher :: "string \<Rightarrow> string \<Rightarrow> string \<Rightarrow> 'w \<Rightarrow> error \<times> 'w"
  rt_NewManager :: "manager_options \<Rightarrow> 'w \<Rightarrow> error \<times> 'w"
  rt_Setup :: "string \<Rightarrow> 'w \<Rightarrow> error \<times> 'w"
  rt_AddCertWatcher :: "'w \<Rightarrow> error \<times> 'w"
  rt_AddHealthzCheck :: "'w \<Rightarrow> error \<times> 'w"
  rt_AddReadyzCheck :: "'w \<Rightarrow> error \<times> 'w"
  rt_Start :: "'w \<Rightarrow> error \<times> 'w"

datatype outcome = Exit1 | Finished

definition or_exit :: "('w \<Rightarrow> error \<times> 'w) \<Rightarrow> ('w, outcome) m \<Rightarrow> ('w, outcome) m" where
  "or_exit f k = bind_m (call f) (\<lambda>err. if err \<noteq> None then Ret Exit1 else k)"

definition controllers :: "string list" where
  "controllers = [''Driver'', ''ClientProfile'', ''ClientProfileMapping'', ''ClientProfileReplication'']"

primrec setup_controllers :: "'w runtime \<Rightarrow> string list \<Rightarrow> ('w, outcome) m \<Rightarrow> ('w, outcome) m" where
  "setup_controllers rt [] k = k"
| "setup_controllers rt (c # cs) k = or_exit (rt_Setup rt c) (setup_controllers rt cs k)"

definition main :: "environ \<Rightarrow> flags \<Rightarrow> 'w runtime \<Rightarrow> ('w, outcome) m" where
  "main env fl rt =
     (let watched = metricsCertPath fl \<noteq> [];
          when_watched = (\<lambda>f k. if watched then or_exit f k else k)
      in when_watched (rt_CertWatcher rt (metricsCertPath fl) (metricsCertName fl) (metricsCertKey fl))
         (case defaultNamespaces env of
            Inl err \<Rightarrow> Ret Exit1
          | Inr namespaces \<Rightarrow>
              or_exit (rt_NewManager rt (managerOptions fl namespaces))
              (setup_controllers rt controllers
              (when_watched (rt_AddCertWatcher rt)
              (or_exit (rt_AddHealthzCheck rt)
              (or_exit (rt_AddReadyzCheck rt)
              (or_exit (rt_Start rt) (Ret Finished))))))))"

section \<open>Facts\<close>

lemma Split_nonempty [simp]: "strings_Split s sep \<noteq> []"
  by (cases s) (auto split: list.split)

lemma Split_no_sep: "sep \<notin> set s \<Longrightarrow> strings_Split s sep = [s]"
  by (induction s) auto

lemma Split_append_sep: "sep \<notin> set s \<Longrightarrow> strings_Split (s @ sep # t) sep = s # strings_Split t sep"
  by (induction s) auto

lemma Split_Join:
  "nss \<noteq> [] \<Longrightarrow> \<forall>ns \<in> set nss. sep \<notin> set ns \<Longrightarrow> strings_Split (strings_Join nss [sep]) sep = nss"
  by (induction nss "[sep]" rule: strings_Join.induct) (auto simp: Split_no_sep Split_append_sep)

text \<open>Without the flag every TLS configuration ends up with HTTP/1.1 only, whatever it held before.\<close>

lemma http2_disabled:
  "\<not> enableHTTP2 fl \<Longrightarrow> NextProtos (fold (\<lambda>f c. f c) (TLSOpts (metricsServerOptions fl)) c) = [''http/1.1'']"
  by (simp add: metricsServerOptions_def disableHTTP2_def)

lemma metrics_protected: "AuthFilter (metricsServerOptions fl) = SecureServing (metricsServerOptions fl)"
  "SecureServing (metricsServerOptions default_flags)"
  by (simp_all add: metricsServerOptions_def default_flags_def)

text \<open>A runtime that writes down the calls it gets; \<open>fails\<close> says which of them fail.\<close>

definition spy_call :: "(string \<Rightarrow> error) \<Rightarrow> string \<Rightarrow> string list \<Rightarrow> error \<times> string list" where
  "spy_call fails name log = (fails name, log @ [name])"

definition spy :: "(string \<Rightarrow> error) \<Rightarrow> string list runtime" where
  "spy fails =
     \<lparr>rt_CertWatcher = (\<lambda>_ _ _. spy_call fails ''certwatcher.New''), rt_NewManager = (\<lambda>_. spy_call fails ''NewManager''),
      rt_Setup = spy_call fails, rt_AddCertWatcher = spy_call fails ''Add'',
      rt_AddHealthzCheck = spy_call fails ''AddHealthzCheck'', rt_AddReadyzCheck = spy_call fails ''AddReadyzCheck'',
      rt_Start = spy_call fails ''Start''\<rparr>"

definition start_sequence :: "flags \<Rightarrow> string list" where
  "start_sequence fl =
     (if metricsCertPath fl \<noteq> [] then [''certwatcher.New''] else []) @ [''NewManager''] @ controllers @
     (if metricsCertPath fl \<noteq> [] then [''Add''] else []) @ [''AddHealthzCheck'', ''AddReadyzCheck'', ''Start'']"

text \<open>The specification: go through the calls in order and stop at the first that fails.\<close>

fun attempt :: "(string \<Rightarrow> error) \<Rightarrow> string list \<Rightarrow> string list \<Rightarrow> outcome \<times> string list" where
  "attempt fails [] log = (Finished, log)"
| "attempt fails (c # cs) log = (if fails c \<noteq> None then (Exit1, log @ [c]) else attempt fails cs (log @ [c]))"

lemma attempt_prefix:
  "attempt fails cs log = (out, log') \<Longrightarrow>
     \<exists>tried rest. cs = tried @ rest \<and> log' = log @ tried \<and>
       (if out = Finished then rest = [] \<and> (\<forall>c \<in> set cs. fails c = None)
        else tried \<noteq> [] \<and> fails (last tried) \<noteq> None \<and> (\<forall>c \<in> set (butlast tried). fails c = None))"
proof (induction cs arbitrary: log)
  case (Cons c cs)
  show ?case
  proof (cases "fails c")
    case (Some e)
    with Cons.prems show ?thesis by (intro exI [of _ "[c]"] exI [of _ cs]) auto
  next
    case None
    with Cons.prems have "attempt fails cs (log @ [c]) = (out, log')" by simp
    from Cons.IH [OF this] obtain tried rest where "cs = tried @ rest" "log' = (log @ [c]) @ tried"
      "if out = Finished then rest = [] \<and> (\<forall>c \<in> set cs. fails c = None)
       else tried \<noteq> [] \<and> fails (last tried) \<noteq> None \<and> (\<forall>c \<in> set (butlast tried). fails c = None)" by blast
    with None show ?thesis by (intro exI [of _ "c # tried"] exI [of _ rest]) (auto split: if_splits)
  qed
qed simp

lemma run_or_exit:
  "run_m (or_exit (spy_call fails c) k) log =
     (if fails c \<noteq> None then (Exit1, log @ [c]) else run_m k (log @ [c]))"
  by (simp add: or_exit_def spy_call_def)

lemma main_attempt:
  assumes "defaultNamespaces env = Inr namespaces"
  shows "run_m (main env fl (spy fails)) log = attempt fails (start_sequence fl) log"
  using assms by (simp add: main_def spy_def start_sequence_def controllers_def run_or_exit)

section \<open>Properties\<close>

text \<open>
  C27. The namespaces the operator watches: those listed in \<open>WATCH_NAMESPACE\<close>, separated by commas, and its own
  in any case; without a list only its own.
\<close>

theorem watched_namespaces:
  assumes operator: "GetOperatorNamespace env = Inr ns"
    and list: "\<forall>n \<in> set nss. CHR '','' \<notin> set n"
    and watch: "Getenv env ''WATCH_NAMESPACE'' = strings_Join nss '',''"
  shows "\<exists>namespaces. defaultNamespaces env = Inr namespaces \<and> distinct namespaces \<and>
    set namespaces = insert ns (if strings_Join nss '','' = [] then {} else set nss)"
proof (cases "strings_Join nss '','' = []")
  case True
  with operator watch show ?thesis by (simp add: defaultNamespaces_def getWatchNamespace_def)
next
  case False
  then have "nss \<noteq> []" by auto
  from Split_Join [OF this list] False operator watch show ?thesis
    by (simp add: defaultNamespaces_def getWatchNamespace_def Let_def insert_absorb)
qed

theorem watched_namespaces_witness:
  "defaultNamespaces (fmap_of_list [(''OPERATOR_NAMESPACE'', ''ceph''), (''WATCH_NAMESPACE'', ''a,b'')]) = Inr [''ceph'', ''a'', ''b''] \<and>
   (\<exists>namespaces. defaultNamespaces (fmap_of_list [(''OPERATOR_NAMESPACE'', ''ceph''), (''WATCH_NAMESPACE'', ''a,b'')]) = Inr namespaces \<and>
     set namespaces = {''ceph'', ''a'', ''b''})"
  using watched_namespaces [of "fmap_of_list [(''OPERATOR_NAMESPACE'', ''ceph''), (''WATCH_NAMESPACE'', ''a,b'')]" "''ceph''" "[''a'', ''b'']"]
  by (simp add: GetOperatorNamespace_def Getenv_def defaultNamespaces_def getWatchNamespace_def)

text \<open>
  A comma at the end of the list adds the empty namespace, which to the cache means every namespace.
\<close>

lemma trailing_comma_watches_all:
  assumes "GetOperatorNamespace env = Inr ns" and "Getenv env ''WATCH_NAMESPACE'' = strings_Join nss '','' @ '',''"
  shows "\<exists>namespaces. defaultNamespaces env = Inr namespaces \<and> [] \<in> set namespaces"
proof -
  have "strings_Split (s @ '','') (CHR '','') = strings_Split s (CHR '','') @ [[]]" for s
    by (induction s) (auto split: list.split)
  with assms show ?thesis by (simp add: defaultNamespaces_def getWatchNamespace_def Let_def)
qed

text \<open>
  C28. Start-up order: the manager is built, the four controllers are set up, the certificate watcher and the
  two checks are registered and only then it starts; the first call that fails is the last one made and
  the process exits with status 1, and it ends normally only when every call succeeded.
\<close>

theorem manager_starts_last:
  assumes "defaultNamespaces env = Inr namespaces" and "run_m (main env fl (spy fails)) [] = (out, log)"
  shows "\<exists>rest. start_sequence fl = log @ rest \<and>
    (if out = Finished then rest = [] \<and> (\<forall>c \<in> set log. fails c = None)
     else log \<noteq> [] \<and> fails (last log) \<noteq> None \<and> (\<forall>c \<in> set (butlast log). fails c = None))"
  using attempt_prefix [of fails "start_sequence fl" "[]" out log] assms(2) main_attempt [OF assms(1), of fl fails "[]"]
  by (auto split: if_splits)

theorem manager_starts_last_witness:
  "\<exists>env namespaces rest log. defaultNamespaces env = Inr namespaces \<and>
     run_m (main env default_flags (spy (\<lambda>c. if c = ''ClientProfile'' then Some Invalid else None))) [] = (Exit1, log) \<and>
     log = [''NewManager'', ''Driver'', ''ClientProfile''] \<and> start_sequence default_flags = log @ rest"
proof -
  let ?env = "fmap_of_list [(''OPERATOR_NAMESPACE'', ''ceph'')] :: environ"
  let ?fails = "\<lambda>c. if c = ''ClientProfile'' then Some Invalid else None"
  have ns: "defaultNamespaces ?env = Inr [''ceph'']"
    by (simp add: defaultNamespaces_def GetOperatorNamespace_def getWatchNamespace_def Getenv_def)
  have run: "run_m (main ?env default_flags (spy ?fails)) [] = (Exit1, [''NewManager'', ''Driver'', ''ClientProfile''])"
    unfolding main_attempt [OF ns] by (simp add: start_sequence_def controllers_def default_flags_def)
  from manager_starts_last [OF ns run] ns run show ?thesis by auto
qed

end
