(* ===== verification/Go_Memory.thy ===== *)
theory Go_Memory
  imports Prelude "HOL-Library.AList"
begin

text \<open>
  A memory with Go's pointers, slices and maps, for the code whose point is sharing: the
  generated deep copies and the merging of driver specs.

  \<^item> An address names one allocated block: a variable (\<open>new(T)\<close>), the array behind a slice
    (\<open>Arr\<close>) or a map (\<open>Dict\<close>). Blocks are allocated at \<open>mem_top\<close>, which only grows.
  \<^item> A location is an address and a path of field and index selectors, so that \<open>&in.Spec\<close> and
    \<open>&(*out)[i]\<close> are locations. \<open>load\<close> and \<open>store\<close> fail (\<open>None\<close>, a run-time panic) where the
    location does not exist.
  \<^item> \<open>go_type\<close> describes the shape of a Go type; \<open>tree_of P m T v\<close> reads the value \<open>v\<close> as a value
    of type \<open>T\<close> and gives the tree of everything reachable from it, provided that every address
    it follows satisfies \<open>P\<close>. It is \<open>None\<close> for a value that is not of that type.
  \<^item> \<open>fills Q T s\<close> is the contract of a statement that copies deeply: run on a source and a
    destination, it leaves in the destination a value with the tree of the source, reachable
    through fresh addresses only, and changes nothing else. The rules that follow derive it for
    every form of statement that the generator of deep copies emits.

  Maps are association lists: the order of a list is the order in which this run of the program
  happens to range over the map. Capacities of slices are not modelled, since the code appends to
  no slice of its own.
\<close>

named_theorems copy_rules \<open>the contract of every form of copying statement\<close>

section \<open>Values, types and memory\<close>

datatype sel = Fld string | Idx nat

type_synonym loc = "nat \<times> sel list"

datatype go_val =
    Str string
  | Num int
  | Flag bool
  | Ptr "loc option"
  | Slice "(nat \<times> nat \<times> nat) option"     \<comment> \<open>array, offset, length\<close>
  | Map_ref "nat option"
  | Struct "(string \<times> go_val) list"
  | Arr "go_val list"                   \<comment> \<open>only as the contents of a block\<close>
  | Dict "(string \<times> go_val) list"       \<comment> \<open>only as the contents of a block\<close>

datatype go_type =
    TStr | TInt | TBool
  | TPtr go_type
  | TSlice go_type
  | TMap go_type
  | TStruct "(string \<times> go_type) list"

datatype tree =
    LStr string | LNum int | LFlag bool
  | Absent
  | Pointee tree
  | Elems "tree list"
  | Entries "(string \<times> tree) list"
  | Fields "(string \<times> tree) list"

record mem =
  cell :: "nat \<Rightarrow> go_val option"
  mem_top :: nat

primrec zero_val :: "go_type \<Rightarrow> go_val" where
  "zero_val TStr = Str []"
| "zero_val TInt = Num 0"
| "zero_val TBool = Flag False"
| "zero_val (TPtr T) = Ptr None"
| "zero_val (TSlice T) = Slice None"
| "zero_val (TMap T) = Map_ref None"
| "zero_val (TStruct fs) = Struct (map (map_prod id zero_val) fs)"

definition is_nil :: "go_val \<Rightarrow> bool" where
  "is_nil v = (v \<in> {Ptr None, Slice None, Map_ref None})"

section \<open>Paths\<close>

fun get_at :: "sel list \<Rightarrow> go_val \<Rightarrow> go_val option" where
  "get_at [] v = Some v"
| "get_at (Fld f # p) (Struct fs) = Option.bind (map_of fs f) (get_at p)"
| "get_at (Idx i # p) (Arr vs) = (if i < length vs then get_at p (vs ! i) else None)"
| "get_at (s # p) v = None"

fun put_at :: "sel list \<Rightarrow> go_val \<Rightarrow> go_val \<Rightarrow> go_val option" where
  "put_at [] w v = Some w"
| "put_at (Fld f # p) w (Struct fs) =
     Option.bind (map_of fs f) (\<lambda>v. map_option (\<lambda>v'. Struct (AList.update f v' fs)) (put_at p w v))"
| "put_at (Idx i # p) w (Arr vs) =
     (if i < length vs then map_option (\<lambda>v'. Arr (vs[i := v'])) (put_at p w (vs ! i)) else None)"
| "put_at (s # p) w v = None"

lemma get_at_append: "get_at (p @ q) c = Option.bind (get_at p c) (get_at q)"
  by (induction p c rule: get_at.induct) (auto split: Option.bind_splits)

lemma put_at_some: "get_at p c = Some v \<Longrightarrow> \<exists>c'. put_at p w c = Some c'"
  by (induction p c rule: get_at.induct) (auto split: Option.bind_splits if_splits)

lemma get_put_at: "put_at p w c = Some c' \<Longrightarrow> get_at p c' = Some w"
  by (induction p w c arbitrary: c' rule: put_at.induct)
     (auto split: Option.bind_splits if_splits simp: update_conv')

lemma put_put_at: "put_at p w c = Some c' \<Longrightarrow> put_at p w' c' = put_at p w' c"
  by (induction p w c arbitrary: c' rule: put_at.induct)
     (auto split: Option.bind_splits if_splits simp: update_conv'
       intro!: arg_cong [where f = "map_option _"])

lemma put_at_append:
  "get_at p c = Some v \<Longrightarrow> put_at (p @ q) w c = Option.bind (put_at q w v) (\<lambda>v'. put_at p v' c)"
  by (induction p c rule: get_at.induct) (auto split: Option.bind_splits if_splits)

section \<open>Loads, stores and allocation\<close>

definition load :: "mem \<Rightarrow> loc \<Rightarrow> go_val option" where
  "load m l = Option.bind (cell m (fst l)) (get_at (snd l))"

definition store :: "loc \<Rightarrow> go_val \<Rightarrow> mem \<Rightarrow> mem option" where
  "store l w m =
     Option.bind (cell m (fst l)) (\<lambda>c.
       map_option (\<lambda>c'. m\<lparr>cell := (cell m)(fst l \<mapsto> c')\<rparr>) (put_at (snd l) w c))"

definition alloc :: "go_val \<Rightarrow> mem \<Rightarrow> nat \<times> mem" where
  "alloc v m = (mem_top m, m\<lparr>cell := (cell m)(mem_top m \<mapsto> v), mem_top := Suc (mem_top m)\<rparr>)"

text \<open>\<open>&p.f\<close>, \<open>*p\<close> for a pointer stored at a location, and \<open>&(*p)[i]\<close> for a slice stored there.\<close>

definition sub :: "loc \<Rightarrow> string \<Rightarrow> loc" where
  "sub l f = (fst l, snd l @ [Fld f])"

definition deref :: "mem \<Rightarrow> loc \<Rightarrow> loc option" where
  "deref m l = (case load m l of Some (Ptr (Some p)) \<Rightarrow> Some p | _ \<Rightarrow> None)"

definition item :: "mem \<Rightarrow> loc \<Rightarrow> nat \<Rightarrow> loc option" where
  "item m l i = (case load m l of
     Some (Slice (Some (a, off, n))) \<Rightarrow> if i < n then Some (a, [Idx (off + i)]) else None
   | _ \<Rightarrow> None)"

definition slice_len :: "mem \<Rightarrow> loc \<Rightarrow> nat option" where
  "slice_len m l = (case load m l of
     Some (Slice (Some (a, off, n))) \<Rightarrow> Some n
   | Some (Slice None) \<Rightarrow> Some 0
   | _ \<Rightarrow> None)"

section \<open>Reading a value as a tree\<close>

fun struct_tree :: "(string \<times> (go_val \<Rightarrow> tree option)) list \<Rightarrow> go_val \<Rightarrow> tree option" where
  "struct_tree rs (Struct vs) =
     (if map fst vs = map fst rs
      then map_option Fields (those (map (\<lambda>(f, r).
             Option.bind (map_of vs f) (\<lambda>v. map_option (Pair f) (r v))) rs))
      else None)"
| "struct_tree rs v = None"

fun slice_tree :: "(nat \<Rightarrow> bool) \<Rightarrow> mem \<Rightarrow> (go_val \<Rightarrow> tree option) \<Rightarrow> go_val \<Rightarrow> tree option" where
  "slice_tree P m r (Slice None) = Some Absent"
| "slice_tree P m r (Slice (Some (a, off, n))) =
     (if P a then
        (case cell m a of
           Some (Arr vs) \<Rightarrow>
             if off + n \<le> length vs
             then map_option Elems (those (map r (take n (drop off vs)))) else None
         | _ \<Rightarrow> None)
      else None)"
| "slice_tree P m r v = None"

fun map_tree :: "(nat \<Rightarrow> bool) \<Rightarrow> mem \<Rightarrow> (go_val \<Rightarrow> tree option) \<Rightarrow> go_val \<Rightarrow> tree option" where
  "map_tree P m r (Map_ref None) = Some Absent"
| "map_tree P m r (Map_ref (Some a)) =
     (if P a then
        (case cell m a of
           Some (Dict kvs) \<Rightarrow>
             if distinct (map fst kvs)
             then map_option Entries (those (map (\<lambda>(k, v). map_option (Pair k) (r v)) kvs)) else None
         | _ \<Rightarrow> None)
      else None)"
| "map_tree P m r v = None"

fun ptr_tree :: "(nat \<Rightarrow> bool) \<Rightarrow> mem \<Rightarrow> (go_val \<Rightarrow> tree option) \<Rightarrow> go_val \<Rightarrow> tree option" where
  "ptr_tree P m r (Ptr None) = Some Absent"
| "ptr_tree P m r (Ptr (Some l)) =
     (if P (fst l) then Option.bind (load m l) (\<lambda>v. map_option Pointee (r v)) else None)"
| "ptr_tree P m r v = None"

primrec tree_of :: "(nat \<Rightarrow> bool) \<Rightarrow> mem \<Rightarrow> go_type \<Rightarrow> go_val \<Rightarrow> tree option" where
  "tree_of P m TStr = (\<lambda>v. case v of Str s \<Rightarrow> Some (LStr s) | _ \<Rightarrow> None)"
| "tree_of P m TInt = (\<lambda>v. case v of Num i \<Rightarrow> Some (LNum i) | _ \<Rightarrow> None)"
| "tree_of P m TBool = (\<lambda>v. case v of Flag b \<Rightarrow> Some (LFlag b) | _ \<Rightarrow> None)"
| "tree_of P m (TPtr T) = ptr_tree P m (tree_of P m T)"
| "tree_of P m (TSlice T) = slice_tree P m (tree_of P m T)"
| "tree_of P m (TMap T) = map_tree P m (tree_of P m T)"
| "tree_of P m (TStruct fs) = struct_tree (map (map_prod id (tree_of P m)) fs)"

text \<open>Types whose values hold no pointer, slice or map.\<close>

primrec flat :: "go_type \<Rightarrow> bool" where
  "flat TStr = True" | "flat TInt = True" | "flat TBool = True"
| "flat (TPtr T) = False" | "flat (TSlice T) = False" | "flat (TMap T) = False"
| "flat (TStruct fs) = list_all snd (map (map_prod id flat) fs)"

lemma those_map_Some_iff: "those (map r xs) = Some ys \<longleftrightarrow> list_all2 (\<lambda>x y. r x = Some y) xs ys"
proof (induction xs arbitrary: ys)
  case (Cons x xs)
  then show ?case by (cases ys) (auto split: option.splits)
qed auto

lemma bind_pair_Some_iff:
  "(case x of (f, r) \<Rightarrow> Option.bind (map_of vs f) (\<lambda>v. map_option (Pair f) (r v))) = Some y \<longleftrightarrow>
   fst x = fst y \<and> Option.bind (map_of vs (fst x)) (snd x) = Some (snd y)"
  by (cases x; cases y; cases "map_of vs (fst x)") auto

lemma pair_Some_iff:
  "(case x of (k, v) \<Rightarrow> map_option (Pair k) (r v)) = Some y \<longleftrightarrow>
   fst x = fst y \<and> r (snd x) = Some (snd y)"
  by (cases x; cases y) auto

lemma struct_tree_Some_iff:
  "struct_tree rs v = Some t \<longleftrightarrow>
     (\<exists>vs ts. v = Struct vs \<and> t = Fields ts \<and> map fst vs = map fst rs \<and>
        list_all2 (\<lambda>x y. fst x = fst y \<and> Option.bind (map_of vs (fst x)) (snd x) = Some (snd y)) rs ts)"
  by (cases v) (auto simp: those_map_Some_iff bind_pair_Some_iff)

lemma slice_tree_Some_iff:
  "slice_tree P m r v = Some t \<longleftrightarrow>
     v = Slice None \<and> t = Absent \<or>
     (\<exists>a off n vs ts. v = Slice (Some (a, off, n)) \<and> P a \<and> cell m a = Some (Arr vs) \<and>
        off + n \<le> length vs \<and> t = Elems ts \<and>
        list_all2 (\<lambda>x y. r x = Some y) (take n (drop off vs)) ts)"
  by (cases "(P, m, r, v)" rule: slice_tree.cases)
     (auto simp: those_map_Some_iff split: option.splits go_val.splits)

lemma map_tree_Some_iff:
  "map_tree P m r v = Some t \<longleftrightarrow>
     v = Map_ref None \<and> t = Absent \<or>
     (\<exists>a kvs kts. v = Map_ref (Some a) \<and> P a \<and> cell m a = Some (Dict kvs) \<and>
        distinct (map fst kvs) \<and> t = Entries kts \<and>
        list_all2 (\<lambda>x y. fst x = fst y \<and> r (snd x) = Some (snd y)) kvs kts)"
  by (cases "(P, m, r, v)" rule: map_tree.cases)
     (auto simp: those_map_Some_iff pair_Some_iff split: option.splits go_val.splits)

lemma ptr_tree_Some_iff:
  "ptr_tree P m r v = Some t \<longleftrightarrow>
     v = Ptr None \<and> t = Absent \<or>
     (\<exists>l w t'. v = Ptr (Some l) \<and> P (fst l) \<and> load m l = Some w \<and> r w = Some t' \<and> t = Pointee t')"
  by (cases "(P, m, r, v)" rule: ptr_tree.cases) (auto split: Option.bind_splits)

lemmas tree_Some_iff =
  struct_tree_Some_iff slice_tree_Some_iff map_tree_Some_iff ptr_tree_Some_iff

lemma tree_frame:
  assumes "tree_of P m T v = Some t" "\<And>a. P a \<Longrightarrow> P' a \<and> cell m' a = cell m a"
  shows "tree_of P' m' T v = Some t"
  using assms(1)
proof (induction T arbitrary: v t)
  case (TPtr T)
  then show ?case
    using assms(2) by (auto simp: ptr_tree_Some_iff load_def)
next
  case (TSlice T)
  have "list_all2 (\<lambda>x y. tree_of P m T x = Some y) vs ts \<Longrightarrow>
      list_all2 (\<lambda>x y. tree_of P' m' T x = Some y) vs ts" for vs ts
    by (auto elim: list.rel_mono_strong intro: TSlice.IH)
  with TSlice.prems show ?case
    using assms(2) by (fastforce simp: slice_tree_Some_iff)
next
  case (TMap T)
  have "list_all2 (\<lambda>x y. fst x = fst y \<and> tree_of P m T (snd x) = Some (snd y)) vs ts \<Longrightarrow>
      list_all2 (\<lambda>x y. fst x = fst y \<and> tree_of P' m' T (snd x) = Some (snd y)) vs ts" for vs ts
    by (auto elim: list.rel_mono_strong intro: TMap.IH)
  with TMap.prems show ?case
    using assms(2) by (fastforce simp: map_tree_Some_iff)
next
  case (TStruct fs)
  have IH: "tree_of P m T v = Some t \<Longrightarrow> tree_of P' m' T v = Some t" if "(f, T) \<in> set fs" for f T v t
    using TStruct.IH [of "(f, T)" T] that by simp
  have "list_all2 (\<lambda>x y. fst x = fst y \<and>
        Option.bind (map_of vs (fst x)) (tree_of P m (snd x)) = Some (snd y)) fs ts \<Longrightarrow>
      list_all2 (\<lambda>x y. fst x = fst y \<and>
        Option.bind (map_of vs (fst x)) (tree_of P' m' (snd x)) = Some (snd y)) fs ts" for vs ts
    by (erule list.rel_mono_strong) (auto simp: bind_eq_Some_conv intro: IH)
  with TStruct.prems show ?case
    by (auto simp: struct_tree_Some_iff list.rel_map)
qed auto

lemma flat_tree: "flat T \<Longrightarrow> tree_of P m T v = tree_of P' m' T v"
proof (induction T arbitrary: v)
  case (TStruct fs)
  have "map (map_prod id (tree_of P m)) fs = map (map_prod id (tree_of P' m')) fs"
    using TStruct by (fastforce simp: list_all_iff fun_eq_iff)
  then show ?case by (simp only: tree_of.simps)
qed auto

section \<open>The statements of a deep copy\<close>

text \<open>
  A copying statement gets the locations that \<open>in\<close> and \<open>out\<close> point to. \<open>None\<close> is a panic.
\<close>

type_synonym stmt = "loc \<Rightarrow> loc \<Rightarrow> mem \<Rightarrow> mem option"

primrec block :: "(mem \<Rightarrow> mem option) list \<Rightarrow> mem \<Rightarrow> mem option" where
  "block [] m = Some m"
| "block (s # ss) m = Option.bind (s m) (block ss)"

text \<open>\<open>*out = *in\<close>\<close>

definition assign :: stmt where
  "assign src out m = Option.bind (load m src) (\<lambda>v. store out v m)"

text \<open>\<open>*out = *in\<close>, followed by statements on the fields \<open>&in.f\<close> and \<open>&out.f\<close>\<close>

definition copy_fields :: "(string \<times> stmt) list \<Rightarrow> stmt" where
  "copy_fields ss src out = block (assign src out # map (\<lambda>(f, s). s (sub src f) (sub out f)) ss)"

text \<open>\<open>if in.F != nil { in, out := &in.F, &out.F; ... }\<close>\<close>

definition if_set :: "stmt \<Rightarrow> stmt" where
  "if_set s src out m =
     Option.bind (load m src) (\<lambda>v. if is_nil v then Some m else s src out m)"

text \<open>\<open>*out = new(T); **out = **in\<close> and \<open>*out = new(T); (*in).DeepCopyInto(*out)\<close>\<close>

definition new_into :: "go_type \<Rightarrow> stmt" where
  "new_into T src out m = (let (a, m1) = alloc (zero_val T) m in store out (Ptr (Some (a, []))) m1)"

definition through :: "stmt \<Rightarrow> stmt" where
  "through s src out m =
     Option.bind (deref m src) (\<lambda>p. Option.bind (deref m out) (\<lambda>q. s p q m))"

definition pointee :: "go_type \<Rightarrow> stmt \<Rightarrow> stmt" where
  "pointee T s src out = block [new_into T src out, through s src out]"

text \<open>\<open>*out = make([]T, len(*in))\<close>, then \<open>copy(*out, *in)\<close> or a loop over the indexes\<close>

definition make_slice :: "go_type \<Rightarrow> stmt" where
  "make_slice T src out m =
     Option.bind (slice_len m src) (\<lambda>n.
       let (a, m1) = alloc (Arr (replicate n (zero_val T))) m
       in store out (Slice (Some (a, 0, n))) m1)"

definition copy_elems :: stmt where
  "copy_elems src out m =
     (case (load m src, load m out) of
        (Some (Slice None), Some (Slice _)) \<Rightarrow> Some m
      | (Some (Slice (Some _)), Some (Slice None)) \<Rightarrow> Some m
      | (Some (Slice (Some (a, i, n))), Some (Slice (Some (b, j, k)))) \<Rightarrow>
          (case (cell m a, cell m b) of
             (Some (Arr vs), Some (Arr ws)) \<Rightarrow>
               Some (m\<lparr>cell := (cell m)(b \<mapsto>
                 Arr (take j ws @ take (min n k) (drop i vs) @ drop (j + min n k) ws))\<rparr>)
           | _ \<Rightarrow> None)
      | _ \<Rightarrow> None)"

definition values_of :: "go_type \<Rightarrow> stmt" where
  "values_of T src out = block [make_slice T src out, copy_elems src out]"

definition for_items :: "stmt \<Rightarrow> stmt" where
  "for_items s src out m =
     Option.bind (slice_len m src) (\<lambda>n.
       block (map (\<lambda>i m. Option.bind (item m src i) (\<lambda>p.
                          Option.bind (item m out i) (\<lambda>q. s p q m))) [0..<n]) m)"

definition each :: "go_type \<Rightarrow> stmt \<Rightarrow> stmt" where
  "each T s src out = block [make_slice T src out, for_items s src out]"

text \<open>\<open>*out = make(map[string]T, len(*in))\<close> and \<open>for key, val := range *in\<close>\<close>

definition make_map :: stmt where
  "make_map src out m = (let (a, m1) = alloc (Dict []) m in store out (Map_ref (Some a)) m1)"

definition put_entry :: "loc \<Rightarrow> string \<Rightarrow> go_val \<Rightarrow> mem \<Rightarrow> mem option" where
  "put_entry out k v m =
     (case load m out of
        Some (Map_ref (Some a)) \<Rightarrow>
          (case cell m a of
             Some (Dict kvs) \<Rightarrow> Some (m\<lparr>cell := (cell m)(a \<mapsto> Dict (AList.update k v kvs))\<rparr>)
           | _ \<Rightarrow> None)
      | _ \<Rightarrow> None)"

definition entries :: "mem \<Rightarrow> loc \<Rightarrow> (string \<times> go_val) list option" where
  "entries m src =
     (case load m src of
        Some (Map_ref None) \<Rightarrow> Some []
      | Some (Map_ref (Some a)) \<Rightarrow> (case cell m a of Some (Dict kvs) \<Rightarrow> Some kvs | _ \<Rightarrow> None)
      | _ \<Rightarrow> None)"

definition for_entries :: "(string \<Rightarrow> go_val \<Rightarrow> stmt) \<Rightarrow> stmt" where
  "for_entries body src out m =
     Option.bind (entries m src) (\<lambda>kvs. block (map (\<lambda>(k, v). body k v src out) kvs) m)"

definition map_of_values :: stmt where
  "map_of_values src out =
     block [make_map src out, for_entries (\<lambda>key val src out. put_entry out key val) src out]"

text \<open>
  The body of the loop over a map of slices: the variables \<open>outVal\<close> and \<open>inVal\<close> live in blocks
  of their own, because the code takes their addresses.
\<close>

definition copy_entry :: "go_type \<Rightarrow> string \<Rightarrow> go_val \<Rightarrow> stmt" where
  "copy_entry T key val src out m =
     (let (outVal, m1) = alloc (Slice None) m in
      Option.bind
        (if is_nil val then put_entry out key (Slice None) m1
         else Option.bind (entries m1 src) (\<lambda>kvs.
           let (inVal, m2) = alloc (case map_of kvs key of Some v \<Rightarrow> v | None \<Rightarrow> Slice None) m1
           in values_of T (inVal, []) (outVal, []) m2)) (\<lambda>m3.
      Option.bind (load m3 (outVal, [])) (\<lambda>v. put_entry out key v m3)))"

definition map_of_slices :: "go_type \<Rightarrow> stmt" where
  "map_of_slices T src out = block [make_map src out, for_entries (copy_entry T) src out]"

text \<open>\<open>DeepCopy\<close> and \<open>DeepCopyObject\<close>: the receiver and the result are pointers that may be nil.\<close>

definition deep_copy :: "go_type \<Rightarrow> stmt \<Rightarrow> loc option \<Rightarrow> mem \<Rightarrow> (loc option \<times> mem) option" where
  "deep_copy T into src m =
     (case src of
        None \<Rightarrow> Some (None, m)
      | Some p \<Rightarrow>
          let (a, m1) = alloc (zero_val T) m
          in map_option (Pair (Some (a, []))) (into p (a, []) m1))"

text \<open>A \<open>runtime.Object\<close>: the dynamic type and the pointer, or a nil interface.\<close>

type_synonym iface = "(string \<times> loc option) option"

definition deep_copy_object ::
    "string \<Rightarrow> (loc option \<Rightarrow> mem \<Rightarrow> (loc option \<times> mem) option) \<Rightarrow>
     loc option \<Rightarrow> mem \<Rightarrow> (iface \<times> mem) option" where
  "deep_copy_object name copy src m =
     map_option (\<lambda>(c, m'). (if c \<noteq> None then Some (name, c) else None, m')) (copy src m)"

section \<open>The contract of a copying statement\<close>

definition wrote :: "loc \<Rightarrow> go_val \<Rightarrow> mem \<Rightarrow> mem \<Rightarrow> bool" where
  "wrote l w m m' \<longleftrightarrow>
     mem_top m \<le> mem_top m' \<and>
     (\<forall>a<mem_top m. a \<noteq> fst l \<longrightarrow> cell m' a = cell m a) \<and>
     (\<exists>c c'. cell m (fst l) = Some c \<and> put_at (snd l) w c = Some c' \<and> cell m' (fst l) = Some c')"

definition elsewhere :: "mem \<Rightarrow> loc \<Rightarrow> nat \<Rightarrow> bool" where
  "elsewhere m l a \<longleftrightarrow> a < mem_top m \<and> a \<noteq> fst l"

definition fresh :: "mem \<Rightarrow> mem \<Rightarrow> nat \<Rightarrow> bool" where
  "fresh m m' a \<longleftrightarrow> mem_top m \<le> a \<and> a < mem_top m'"

definition readable :: "(go_val \<Rightarrow> go_val \<Rightarrow> bool) \<Rightarrow> go_type \<Rightarrow> loc \<Rightarrow> loc \<Rightarrow> mem \<Rightarrow> tree \<Rightarrow> bool" where
  "readable Q T src out m t \<longleftrightarrow>
     fst src \<noteq> fst out \<and> fst src < mem_top m \<and> fst out < mem_top m \<and>
     (\<exists>v u. load m src = Some v \<and> load m out = Some u \<and> Q v u \<and>
        tree_of (elsewhere m out) m T v = Some t)"

definition fills :: "(go_val \<Rightarrow> go_val \<Rightarrow> bool) \<Rightarrow> go_type \<Rightarrow> stmt \<Rightarrow> bool" where
  "fills Q T s \<longleftrightarrow>
     (\<forall>m src out t. readable Q T src out m t \<longrightarrow>
        (\<exists>m' w. s src out m = Some m' \<and> wrote out w m m' \<and>
           tree_of (fresh m m') m' T w = Some t))"

abbreviation copies :: "go_type \<Rightarrow> stmt \<Rightarrow> bool" where
  "copies T s \<equiv> fills (\<lambda>v u. True) T s"

lemma fillsI:
  assumes "\<And>m src out t v u. \<lbrakk>fst src \<noteq> fst out; fst src < mem_top m; fst out < mem_top m;
      load m src = Some v; load m out = Some u; Q v u; tree_of (elsewhere m out) m T v = Some t\<rbrakk>
    \<Longrightarrow> \<exists>m' w. s src out m = Some m' \<and> wrote out w m m' \<and> tree_of (fresh m m') m' T w = Some t"
  shows "fills Q T s"
  using assms unfolding fills_def readable_def by blast

lemma fillsD:
  assumes "fills Q T s" "fst src \<noteq> fst out" "fst src < mem_top m" "fst out < mem_top m"
    "load m src = Some v" "load m out = Some u" "Q v u" "tree_of (elsewhere m out) m T v = Some t"
  obtains m' w where "s src out m = Some m'" "wrote out w m m'" "tree_of (fresh m m') m' T w = Some t"
  using assms unfolding fills_def readable_def by blast

lemma fills_weaken: "fills Q T s \<Longrightarrow> (\<And>v u. Q' v u \<Longrightarrow> Q v u) \<Longrightarrow> fills Q' T s"
  unfolding fills_def readable_def by blast

subsection \<open>Writes\<close>

lemma wroteD:
  assumes "wrote l w m m'"
  shows "mem_top m \<le> mem_top m'" "load m' l = Some w"
    "a < mem_top m \<Longrightarrow> a \<noteq> fst l \<Longrightarrow> cell m' a = cell m a"
    "fst l' < mem_top m \<Longrightarrow> fst l' \<noteq> fst l \<Longrightarrow> load m' l' = load m l'"
  using assms by (auto simp: wrote_def load_def get_put_at)

lemma wrote_trans:
  assumes "wrote l v m m1" "wrote l w m1 m2"
  shows "wrote l w m m2"
proof -
  from assms obtain c c1 c2 where "cell m (fst l) = Some c" "put_at (snd l) v c = Some c1"
    "cell m1 (fst l) = Some c1" "put_at (snd l) w c1 = Some c2" "cell m2 (fst l) = Some c2"
    by (auto simp: wrote_def)
  with put_put_at [of "snd l" v c c1 w] assms show ?thesis
    by (auto simp: wrote_def)
qed

lemma store_wrote:
  assumes "load m l = Some u" "fst l < mem_top m"
  obtains m' where "store l w m = Some m'" "wrote l w m m'" "mem_top m' = mem_top m"
    "\<forall>a. a \<noteq> fst l \<longrightarrow> cell m' a = cell m a"
proof -
  from assms obtain c where c: "cell m (fst l) = Some c" "get_at (snd l) c = Some u"
    by (auto simp: load_def bind_eq_Some_conv)
  with put_at_some obtain c' where "put_at (snd l) w c = Some c'" by blast
  with c that show thesis by (auto simp: store_def wrote_def)
qed

lemma put_get_at: "get_at p c = Some v \<Longrightarrow> put_at p v c = Some c"
  by (induction p c rule: get_at.induct) (auto split: Option.bind_splits if_splits simp: update_triv)

lemma wrote_refl: "load m l = Some u \<Longrightarrow> wrote l u m m"
  by (auto simp: wrote_def load_def bind_eq_Some_conv put_get_at)

lemma load_sub: "load m l = Some (Struct us) \<Longrightarrow> load m (sub l f) = map_of us f"
  by (cases "map_of us f") (auto simp: load_def sub_def bind_eq_Some_conv get_at_append)

lemma wrote_sub:
  assumes "wrote (sub l f) w m m'" "load m l = Some (Struct us)"
  shows "wrote l (Struct (AList.update f w us)) m m'"
proof -
  from assms(2) obtain c where "cell m (fst l) = Some c" "get_at (snd l) c = Some (Struct us)"
    by (auto simp: load_def bind_eq_Some_conv)
  with assms(1) put_at_append [of "snd l" c "Struct us" "[Fld f]" w] show ?thesis
    by (auto simp: wrote_def sub_def bind_eq_Some_conv split: Option.bind_splits)
qed

lemma wrote_then:
  assumes "wrote l w m m1" "mem_top m1 \<le> mem_top m2" "\<And>a. a < mem_top m \<Longrightarrow> cell m2 a = cell m1 a"
    "fst l < mem_top m"
  shows "wrote l w m m2"
  using assms by (auto simp: wrote_def)

lemma alloc_store:
  assumes "load m l = Some u" "fst l < mem_top m" "alloc v m = (a, m1)"
  obtains m2 where "store l w m1 = Some m2" "wrote l w m m2" "a = mem_top m"
    "mem_top m2 = Suc (mem_top m)" "cell m2 (mem_top m) = Some v"
    "\<forall>b < mem_top m. b \<noteq> fst l \<longrightarrow> cell m2 b = cell m b"
proof -
  from assms have m1: "a = mem_top m" "m1 = m\<lparr>cell := (cell m)(mem_top m \<mapsto> v), mem_top := Suc (mem_top m)\<rparr>"
    by (auto simp: alloc_def)
  with assms have "load m1 l = Some u" "fst l < mem_top m1" by (auto simp: load_def)
  then obtain m2 where m2: "store l w m1 = Some m2" "wrote l w m1 m2" "mem_top m2 = mem_top m1"
    "\<forall>a. a \<noteq> fst l \<longrightarrow> cell m2 a = cell m1 a"
    by (rule store_wrote [where w = w])
  with m1 assms(2) that show thesis by (auto simp: wrote_def)
qed

subsection \<open>Assignments and pointers\<close>

lemma copies_assign: "flat T \<Longrightarrow> copies T assign"
proof (rule fillsI)
  fix m src out t v u
  assume *: "flat T" "fst out < mem_top m" "load m src = Some v" "load m out = Some u"
    "tree_of (elsewhere m out) m T v = Some t"
  then obtain m' where "store out v m = Some m'" "wrote out v m m'" by (auto elim: store_wrote)
  with * flat_tree [of T "elsewhere m out" m v "fresh m m'" m']
  show "\<exists>m' w. assign src out m = Some m' \<and> wrote out w m m' \<and> tree_of (fresh m m') m' T w = Some t"
    by (auto simp: assign_def)
qed

lemma nil_tree: "is_nil v \<Longrightarrow> tree_of P m T v = Some t \<Longrightarrow> tree_of P' m' T v = Some t"
  by (cases T) (auto simp: is_nil_def tree_Some_iff)

lemma nil_zero_val: "is_nil v \<Longrightarrow> tree_of P m T v = Some t \<Longrightarrow> v = zero_val T"
  by (cases T) (auto simp: is_nil_def tree_Some_iff)

lemma fills_if_set:
  assumes "fills (\<lambda>v u. \<not> is_nil v) T s"
    "\<And>P m v u t. tree_of P m T v = Some t \<Longrightarrow> Q v u \<Longrightarrow> is_nil v \<Longrightarrow> u = v"
  shows "fills Q T (if_set s)"
proof (rule fillsI)
  fix m src out t v u
  assume *: "fst src \<noteq> fst out" "fst src < mem_top m" "fst out < mem_top m"
    "load m src = Some v" "load m out = Some u" "Q v u" "tree_of (elsewhere m out) m T v = Some t"
  show "\<exists>m' w. if_set s src out m = Some m' \<and> wrote out w m m' \<and> tree_of (fresh m m') m' T w = Some t"
  proof (cases "is_nil v")
    case True
    have "tree_of (fresh m m) m T v = Some t" by (rule nil_tree [OF True *(7)])
    with True * assms(2) wrote_refl [of m out v] show ?thesis by (auto simp: if_set_def)
  next
    case False
    obtain m' w where "s src out m = Some m'" "wrote out w m m'" "tree_of (fresh m m') m' T w = Some t"
      by (rule fillsD [OF assms(1) *(1-5) False *(7)])
    with False * show ?thesis by (auto simp: if_set_def)
  qed
qed

lemma fills_if_set_field: "fills (\<lambda>v u. \<not> is_nil v) T s \<Longrightarrow> fills (\<lambda>v u. u = v) T (if_set s)"
  by (rule fills_if_set)

lemma fills_if_set_zero:
  "fills (\<lambda>v u. \<not> is_nil v) T s \<Longrightarrow> fills (\<lambda>v u. u = zero_val T) T (if_set s)"
  by (rule fills_if_set) (auto dest: nil_zero_val)

lemma copies_fills: "copies T s \<Longrightarrow> fills Q T s"
  by (erule fills_weaken) simp

lemma fills_pointee:
  assumes "copies T s"
  shows "fills (\<lambda>v u. \<not> is_nil v) (TPtr T) (pointee T s)"
proof (rule fillsI)
  fix m src out t v u
  assume *: "fst src \<noteq> fst out" "fst src < mem_top m" "fst out < mem_top m" "load m src = Some v"
    "load m out = Some u" "\<not> is_nil v" "tree_of (elsewhere m out) m (TPtr T) v = Some t"
  then obtain p w t' where p: "v = Ptr (Some p)" "elsewhere m out (fst p)" "load m p = Some w"
    "tree_of (elsewhere m out) m T w = Some t'" "t = Pointee t'"
    unfolding tree_of.simps ptr_tree_Some_iff is_nil_def by blast
  let ?a = "mem_top m"
  obtain m1 where m1: "alloc (zero_val T) m = (?a, m1)" by (simp add: alloc_def)
  obtain m2 where m2: "store out (Ptr (Some (?a, []))) m1 = Some m2"
    "wrote out (Ptr (Some (?a, []))) m m2" "mem_top m2 = Suc ?a" "cell m2 ?a = Some (zero_val T)"
    "\<forall>b < mem_top m. b \<noteq> fst out \<longrightarrow> cell m2 b = cell m b"
    by (rule alloc_store [OF *(5,3) m1, where w = "Ptr (Some (?a, []))"])
  have "tree_of (elsewhere m2 (?a, [])) m2 T w = Some t'"
    using p(4) by (rule tree_frame) (auto simp: elsewhere_def m2)
  moreover have "load m2 p = Some w" using p m2(5) by (simp add: load_def elsewhere_def)
  moreover have "load m2 (?a, []) = Some (zero_val T)" using m2 by (simp add: load_def)
  ultimately obtain m3 w' where m3: "s p (?a, []) m2 = Some m3" "wrote (?a, []) w' m2 m3"
    "tree_of (fresh m2 m3) m3 T w' = Some t'"
    using assms p m2(3) by (elim fillsD [of _ T s p "(?a, [])" m2]) (auto simp: elsewhere_def)
  have "pointee T s src out m = Some m3"
    using m1 m2 m3 * p by (simp add: pointee_def new_into_def through_def deref_def wroteD)
  moreover have "wrote out (Ptr (Some (?a, []))) m m3"
    using m2(2) by (rule wrote_then) (use wroteD(1,3) [OF m3(2)] m2(3) *(3) in auto)
  moreover have "tree_of (fresh m m3) m3 T w' = Some t'"
    using m3(3) by (rule tree_frame) (auto simp: fresh_def m2)
  ultimately show "\<exists>m' w. pointee T s src out m = Some m' \<and> wrote out w m m' \<and>
      tree_of (fresh m m') m' (TPtr T) w = Some t"
    using p wroteD(1,2) [OF m3(2)] m2(3) by (auto simp: ptr_tree_Some_iff fresh_def)
qed

subsection \<open>Slices\<close>

lemma block_append: "block (xs @ ys) m = Option.bind (block xs m) (block ys)"
  by (induction xs arbitrary: m) (auto split: Option.bind_splits)

lemma slice_source:
  assumes "tree_of P m (TSlice T) v = Some t" "\<not> is_nil v"
  obtains a off n vs ts where "v = Slice (Some (a, off, n))" "P a" "cell m a = Some (Arr vs)"
    "off + n \<le> length vs" "t = Elems ts" "length ts = n"
    "\<forall>i<n. tree_of P m T (vs ! (off + i)) = Some (ts ! i)"
proof -
  from assms obtain a off n vs ts where v: "v = Slice (Some (a, off, n))" "P a"
    "cell m a = Some (Arr vs)" "off + n \<le> length vs" "t = Elems ts"
    "list_all2 (\<lambda>x y. tree_of P m T x = Some y) (take n (drop off vs)) ts"
    unfolding tree_of.simps slice_tree_Some_iff is_nil_def by blast
  show thesis
    by (rule that [OF v(1-5)]) (use v(4,6) in \<open>auto simp: list_all2_conv_all_nth\<close>)
qed

lemma make_slice_ok:
  assumes "fst out < mem_top m" "load m out = Some u" "slice_len m src = Some n"
  obtains m' where "make_slice T src out m = Some m'"
    "wrote out (Slice (Some (mem_top m, 0, n))) m m'" "mem_top m' = Suc (mem_top m)"
    "cell m' (mem_top m) = Some (Arr (replicate n (zero_val T)))"
    "\<forall>b<mem_top m. b \<noteq> fst out \<longrightarrow> cell m' b = cell m b"
proof -
  obtain a m1 where m1: "alloc (Arr (replicate n (zero_val T))) m = (a, m1)" by fastforce
  show thesis
    by (rule alloc_store [OF assms(2,1) m1, where w = "Slice (Some (mem_top m, 0, n))"])
       (use assms m1 in \<open>auto simp: make_slice_def alloc_def intro: that\<close>)
qed

lemma fills_values_of:
  assumes "flat T"
  shows "fills (\<lambda>v u. \<not> is_nil v) (TSlice T) (values_of T)"
proof (rule fillsI)
  fix m src out t v u
  assume *: "fst src \<noteq> fst out" "fst src < mem_top m" "fst out < mem_top m" "load m src = Some v"
    "load m out = Some u" "\<not> is_nil v" "tree_of (elsewhere m out) m (TSlice T) v = Some t"
  obtain a off n vs ts where v: "v = Slice (Some (a, off, n))" "elsewhere m out a"
    "cell m a = Some (Arr vs)" "off + n \<le> length vs" "t = Elems ts" "length ts = n"
    "\<forall>i<n. tree_of (elsewhere m out) m T (vs ! (off + i)) = Some (ts ! i)"
    by (rule slice_source [OF *(7,6)])
  let ?b = "mem_top m"
  have "slice_len m src = Some n" using * v by (simp add: slice_len_def)
  then obtain m1 where m1: "make_slice T src out m = Some m1"
    "wrote out (Slice (Some (?b, 0, n))) m m1" "mem_top m1 = Suc ?b"
    "cell m1 ?b = Some (Arr (replicate n (zero_val T)))"
    "\<forall>b<mem_top m. b \<noteq> fst out \<longrightarrow> cell m1 b = cell m b"
    by (rule make_slice_ok [OF *(3,5), where T = T])
  let ?m2 = "m1\<lparr>cell := (cell m1)(?b \<mapsto> Arr (take n (drop off vs)))\<rparr>"
  have src: "load m1 src = Some v" using * wroteD(4) [OF m1(2)] by auto
  have out: "load m1 out = Some (Slice (Some (?b, 0, n)))" using wroteD(2) [OF m1(2)] .
  have "values_of T src out m = Some ?m2"
    using m1 src out v by (simp add: values_of_def copy_elems_def elsewhere_def)
  moreover have "wrote out (Slice (Some (?b, 0, n))) m ?m2"
    using m1(2) by (rule wrote_then) (use *(3) in auto)
  moreover have "tree_of (fresh m ?m2) ?m2 T (vs ! (off + i)) = Some (ts ! i)" if "i < n" for i
    using v(7) that flat_tree [OF assms] by metis
  then have "tree_of (fresh m ?m2) ?m2 (TSlice T) (Slice (Some (?b, 0, n))) = Some t"
    using v m1(3) by (auto simp: those_map_Some_iff fresh_def list_all2_conv_all_nth)
  ultimately show "\<exists>m' w. values_of T src out m = Some m' \<and> wrote out w m m' \<and>
      tree_of (fresh m m') m' (TSlice T) w = Some t"
    by blast
qed

lemma wrote_item:
  assumes "wrote (b, [Idx i]) w m m'" "cell m b = Some (Arr ws)"
  shows "cell m' b = Some (Arr (ws[i := w]))" "i < length ws"
  using assms by (auto simp: wrote_def split: if_splits)

text \<open>
  The loop of \<open>each\<close>: after \<open>k\<close> rounds the first \<open>k\<close> items of the new array \<open>b\<close> are copied and the
  others are still zero; nothing below \<open>b\<close> has changed since the loop began in \<open>m1\<close>.
\<close>

definition copied_upto :: "go_type \<Rightarrow> tree list \<Rightarrow> nat \<Rightarrow> mem \<Rightarrow> nat \<Rightarrow> mem \<Rightarrow> bool" where
  "copied_upto T ts b m1 k m \<longleftrightarrow>
     mem_top m1 \<le> mem_top m \<and> (\<forall>a<b. cell m a = cell m1 a) \<and>
     (\<exists>ws. cell m b = Some (Arr ws) \<and> length ws = length ts \<and>
        (\<forall>i<length ts. if i < k then tree_of (\<lambda>a. b < a \<and> a < mem_top m) m T (ws ! i) = Some (ts ! i)
                      else ws ! i = zero_val T))"

lemma copied_upto_step:
  assumes inv: "copied_upto T ts b m1 k m" and k: "k < length ts"
    and s: "fills (\<lambda>v u. u = zero_val T) T s"
    and p: "fst p < b" "load m1 p = Some v" "tree_of P m1 T v = Some (ts ! k)" "\<And>a. P a \<Longrightarrow> a < b"
    and b: "mem_top m1 = Suc b"
  shows "\<exists>m'. s p (b, [Idx k]) m = Some m' \<and> copied_upto T ts b m1 (Suc k) m'"
proof -
  from inv obtain ws where ws: "mem_top m1 \<le> mem_top m" "\<forall>a<b. cell m a = cell m1 a"
    "cell m b = Some (Arr ws)" "length ws = length ts"
    "\<forall>i<length ts. if i < k then tree_of (\<lambda>a. b < a \<and> a < mem_top m) m T (ws ! i) = Some (ts ! i)
       else ws ! i = zero_val T"
    by (auto simp: copied_upto_def)
  have "tree_of (elsewhere m (b, [Idx k])) m T v = Some (ts ! k)"
    using p(3) by (rule tree_frame) (use p(4) ws b in \<open>fastforce simp: elsewhere_def\<close>)
  moreover have "load m p = Some v" "load m (b, [Idx k]) = Some (zero_val T)"
    using p ws k by (auto simp: load_def)
  moreover have "fst p \<noteq> fst (b, [Idx k])" "fst p < mem_top m" "fst (b, [Idx k]) < mem_top m"
    using p ws b by auto
  ultimately obtain m' w where m': "s p (b, [Idx k]) m = Some m'"
    "wrote (b, [Idx k]) w m m'" "tree_of (fresh m m') m' T w = Some (ts ! k)"
    by (elim fillsD [OF s, of p "(b, [Idx k])" m]) auto
  have new: "tree_of (\<lambda>a. b < a \<and> a < mem_top m') m' T w = Some (ts ! k)"
    using m'(3) by (rule tree_frame) (use ws b in \<open>auto simp: fresh_def\<close>)
  have kept: "tree_of (\<lambda>a. b < a \<and> a < mem_top m') m' T (ws ! i) = Some (ts ! i)" if "i < k" for i
  proof -
    from ws(5) that k have "tree_of (\<lambda>a. b < a \<and> a < mem_top m) m T (ws ! i) = Some (ts ! i)" by simp
    then show ?thesis by (rule tree_frame) (use wroteD(1,3) [OF m'(2)] in auto)
  qed
  have "copied_upto T ts b m1 (Suc k) m'"
    unfolding copied_upto_def
    using wroteD(1,3) [OF m'(2)] wrote_item [OF m'(2) ws(3)] ws b new kept
    by (auto simp: nth_list_update less_Suc_eq intro!: exI [of _ "ws[k := w]"])
  with m'(1) show ?thesis by blast
qed

lemma for_items_ok:
  assumes s: "fills (\<lambda>v u. u = zero_val T) T s"
    and src: "load m1 src = Some (Slice (Some (a, off, n)))" "fst src < b" "a < b"
      "cell m1 a = Some (Arr vs)" "off + n \<le> length vs"
    and trees: "length ts = n" "\<forall>i<n. tree_of P m1 T (vs ! (off + i)) = Some (ts ! i)"
      "\<And>a. P a \<Longrightarrow> a < b"
    and out: "load m1 out = Some (Slice (Some (b, 0, n)))" "fst out < b"
    and b: "mem_top m1 = Suc b" "cell m1 b = Some (Arr (replicate n (zero_val T)))"
  shows "\<exists>m'. for_items s src out m1 = Some m' \<and> copied_upto T ts b m1 n m'"
proof -
  let ?body = "\<lambda>i m. Option.bind (item m src i) (\<lambda>p. Option.bind (item m out i) (\<lambda>q. s p q m))"
  have "\<exists>m'. block (map ?body [0..<k]) m1 = Some m' \<and> copied_upto T ts b m1 k m'" if "k \<le> n" for k
    using that
  proof (induction k)
    case 0
    show ?case using b trees by (simp add: copied_upto_def)
  next
    case (Suc k)
    then obtain m where m: "block (map ?body [0..<k]) m1 = Some m" "copied_upto T ts b m1 k m" by auto
    then have "item m src k = Some (a, [Idx (off + k)])" "item m out k = Some (b, [Idx k])"
      using src out Suc.prems by (auto simp: item_def load_def copied_upto_def)
    moreover have "\<exists>m'. s (a, [Idx (off + k)]) (b, [Idx k]) m = Some m' \<and> copied_upto T ts b m1 (Suc k) m'"
      by (rule copied_upto_step [OF m(2) _ s, where P = P and v = "vs ! (off + k)"])
         (use src trees b Suc.prems in \<open>auto simp: load_def\<close>)
    ultimately show ?case using m(1) by (auto simp: block_append)
  qed
  from this [of n] src show ?thesis by (simp add: for_items_def slice_len_def)
qed

lemma fills_each:
  assumes "fills (\<lambda>v u. u = zero_val T) T s"
  shows "fills (\<lambda>v u. \<not> is_nil v) (TSlice T) (each T s)"
proof (rule fillsI)
  fix m src out t v u
  assume *: "fst src \<noteq> fst out" "fst src < mem_top m" "fst out < mem_top m" "load m src = Some v"
    "load m out = Some u" "\<not> is_nil v" "tree_of (elsewhere m out) m (TSlice T) v = Some t"
  obtain a off n vs ts where v: "v = Slice (Some (a, off, n))" "elsewhere m out a"
    "cell m a = Some (Arr vs)" "off + n \<le> length vs" "t = Elems ts" "length ts = n"
    "\<forall>i<n. tree_of (elsewhere m out) m T (vs ! (off + i)) = Some (ts ! i)"
    by (rule slice_source [OF *(7,6)])
  let ?b = "mem_top m"
  have len: "slice_len m src = Some n" using * v by (simp add: slice_len_def)
  obtain m1 where m1: "make_slice T src out m = Some m1"
    "wrote out (Slice (Some (?b, 0, n))) m m1" "mem_top m1 = Suc ?b"
    "cell m1 ?b = Some (Arr (replicate n (zero_val T)))"
    "\<forall>b<mem_top m. b \<noteq> fst out \<longrightarrow> cell m1 b = cell m b"
    by (rule make_slice_ok [OF *(3,5) len, where T = T])
  have "tree_of (elsewhere m out) m1 T (vs ! (off + i)) = Some (ts ! i)" if "i < n" for i
    by (rule tree_frame [OF v(7) [rule_format, OF that]]) (use m1(5) in \<open>auto simp: elsewhere_def\<close>)
  moreover have "load m1 src = Some (Slice (Some (a, off, n)))" "cell m1 a = Some (Arr vs)"
    using wroteD(4) [OF m1(2) *(2,1)] *(4) v m1(5) by (simp_all add: elsewhere_def)
  ultimately have "\<exists>m'. for_items s src out m1 = Some m' \<and> copied_upto T ts ?b m1 n m'"
    using v * m1(3,4) wroteD(2) [OF m1(2)]
    by (intro for_items_ok [OF assms, where P = "elsewhere m out" and vs = vs])
       (auto simp: elsewhere_def)
  then obtain m' where m': "for_items s src out m1 = Some m'" "copied_upto T ts ?b m1 n m'" by blast
  from m'(2) obtain ws where ws: "mem_top m1 \<le> mem_top m'" "\<forall>a<?b. cell m' a = cell m1 a"
    "cell m' ?b = Some (Arr ws)" "length ws = n"
    "\<forall>i<n. tree_of (\<lambda>a. ?b < a \<and> a < mem_top m') m' T (ws ! i) = Some (ts ! i)"
    using v(6) by (auto simp: copied_upto_def)
  have "tree_of (fresh m m') m' T (ws ! i) = Some (ts ! i)" if "i < n" for i
    by (rule tree_frame [OF ws(5) [rule_format, OF that]]) (auto simp: fresh_def)
  then have "tree_of (fresh m m') m' (TSlice T) (Slice (Some (?b, 0, n))) = Some t"
    using v ws m1(3) by (auto simp: those_map_Some_iff fresh_def list_all2_conv_all_nth)
  moreover have "wrote out (Slice (Some (?b, 0, n))) m m'"
    using m1(2) by (rule wrote_then) (use ws *(3) in auto)
  moreover have "each T s src out m = Some m'" using m1(1) m'(1) by (simp add: each_def)
  ultimately show "\<exists>m' w. each T s src out m = Some m' \<and> wrote out w m m' \<and>
      tree_of (fresh m m') m' (TSlice T) w = Some t"
    by blast
qed

subsection \<open>Maps\<close>

text \<open>
  The contract of the body of a loop over a map: it puts a copy of the value under the same key
  into the map \<open>b\<close> that \<open>out\<close> holds.
\<close>

definition puts :: "go_type \<Rightarrow> (string \<Rightarrow> go_val \<Rightarrow> stmt) \<Rightarrow> bool" where
  "puts T body \<longleftrightarrow>
     (\<forall>m src out b es kvs k v t P.
        load m out = Some (Map_ref (Some b)) \<and> cell m b = Some (Dict es) \<and> b < mem_top m \<and>
        fst out < b \<and> fst src < b \<and> entries m src = Some kvs \<and> map_of kvs k = Some v \<and>
        (\<forall>a. load m src = Some (Map_ref (Some a)) \<longrightarrow> a < b) \<and>
        tree_of P m T v = Some t \<and> (\<forall>a. P a \<longrightarrow> a < b) \<longrightarrow>
        (\<exists>m' w. body k v src out m = Some m' \<and> mem_top m \<le> mem_top m' \<and>
           (\<forall>a<mem_top m. a \<noteq> b \<longrightarrow> cell m' a = cell m a) \<and>
           cell m' b = Some (Dict (AList.update k w es)) \<and>
           tree_of (fresh m m') m' T w = Some t))"

lemma puts_values:
  assumes "flat T"
  shows "puts T (\<lambda>key val src out. put_entry out key val)"
  unfolding puts_def
proof (intro allI impI, elim conjE)
  fix m src out b es kvs k v t P
  assume *: "load m out = Some (Map_ref (Some b))" "cell m b = Some (Dict es)" "tree_of P m T v = Some t"
  let ?m' = "m\<lparr>cell := (cell m)(b \<mapsto> Dict (AList.update k v es))\<rparr>"
  show "\<exists>m' w. put_entry out k v m = Some m' \<and> mem_top m \<le> mem_top m' \<and>
      (\<forall>a<mem_top m. a \<noteq> b \<longrightarrow> cell m' a = cell m a) \<and>
      cell m' b = Some (Dict (AList.update k w es)) \<and> tree_of (fresh m m') m' T w = Some t"
    by (rule exI [of _ ?m'], rule exI [of _ v])
       (use * flat_tree [OF assms, of "fresh m ?m'" ?m' v P m] in \<open>simp add: put_entry_def\<close>)
qed

lemma put_entry_ok:
  "load m out = Some (Map_ref (Some b)) \<Longrightarrow> cell m b = Some (Dict es) \<Longrightarrow>
   put_entry out k v m = Some (m\<lparr>cell := (cell m)(b \<mapsto> Dict (AList.update k v es))\<rparr>)"
  by (simp add: put_entry_def)

lemma alloc_ok:
  obtains m1 where "alloc v m = (mem_top m, m1)" "cell m1 = (cell m)(mem_top m \<mapsto> v)"
    "mem_top m1 = Suc (mem_top m)" "\<forall>l. fst l < mem_top m \<longrightarrow> load m1 l = load m l"
  by (rule that [of "snd (alloc v m)"]) (auto simp: alloc_def load_def)

lemma puts_slices:
  assumes "flat T"
  shows "puts (TSlice T) (copy_entry T)"
  unfolding puts_def
proof (intro allI impI, elim conjE)
  fix m src out b es kvs k v t P
  assume *: "load m out = Some (Map_ref (Some b))" "cell m b = Some (Dict es)" "b < mem_top m"
    "fst out < b" "fst src < b" "entries m src = Some kvs" "map_of kvs k = Some v"
    "\<forall>a. load m src = Some (Map_ref (Some a)) \<longrightarrow> a < b"
    "tree_of P m (TSlice T) v = Some t" "\<forall>a. P a \<longrightarrow> a < b"
  let ?o = "mem_top m" and ?i = "Suc (mem_top m)"
  obtain m1 where m1: "alloc (Slice None) m = (?o, m1)" "cell m1 = (cell m)(?o \<mapsto> Slice None)"
    "mem_top m1 = ?i" "\<forall>l. fst l < mem_top m \<longrightarrow> load m1 l = load m l"
    by (rule alloc_ok [where v = "Slice None"])
  have old1: "load m1 l = load m l" if "fst l < mem_top m" for l using m1(4) that by blast
  have out1: "load m1 out = Some (Map_ref (Some b))" "cell m1 b = Some (Dict es)"
    using * m1(2) by (simp_all add: old1)
  show "\<exists>m' w. copy_entry T k v src out m = Some m' \<and> mem_top m \<le> mem_top m' \<and>
      (\<forall>a<mem_top m. a \<noteq> b \<longrightarrow> cell m' a = cell m a) \<and>
      cell m' b = Some (Dict (AList.update k w es)) \<and> tree_of (fresh m m') m' (TSlice T) w = Some t"
  proof (cases "is_nil v")
    case True
    with *(9) have v: "v = Slice None" "t = Absent" by (auto simp: slice_tree_Some_iff is_nil_def)
    let ?m' = "m1\<lparr>cell := (cell m1)(b \<mapsto> Dict (AList.update k (Slice None) es))\<rparr>"
    have "put_entry out k (Slice None) m1 = Some ?m'" by (rule put_entry_ok [OF out1])
    moreover have "load ?m' (?o, []) = Some (Slice None)" using * m1(2) by (simp add: load_def)
    moreover have "load ?m' out = Some (Map_ref (Some b))" using * out1 by (simp add: load_def)
    ultimately have "copy_entry T k v src out m = Some ?m'"
      using True m1(1) by (simp add: copy_entry_def put_entry_def)
    with * m1 v show ?thesis by (intro exI [of _ ?m'] exI [of _ "Slice None"]) auto
  next
    case False
    obtain m2 where "alloc v m1 = (mem_top m1, m2)" "cell m2 = (cell m1)(mem_top m1 \<mapsto> v)"
      "mem_top m2 = Suc (mem_top m1)" by (rule alloc_ok [where v = v])
    then have m2: "alloc v m1 = (?i, m2)" "cell m2 = (cell m)(?o \<mapsto> Slice None, ?i \<mapsto> v)"
      "mem_top m2 = Suc ?i" using m1 by simp_all
    have tree: "tree_of (elsewhere m2 (?o, [])) m2 (TSlice T) v = Some t"
      using *(9) by (rule tree_frame) (use * m2 in \<open>auto simp: elsewhere_def less_Suc_eq\<close>)
    obtain m3 w where m3: "values_of T (?i, []) (?o, []) m2 = Some m3" "wrote (?o, []) w m2 m3"
      "tree_of (fresh m2 m3) m3 (TSlice T) w = Some t"
      by (rule fillsD [OF fills_values_of [OF assms], of "(?i, [])" "(?o, [])" m2 v "Slice None" t])
         (use m2 tree False in \<open>auto simp: load_def\<close>)
    have old3: "cell m3 a = cell m a" if "a < mem_top m" for a
      using wroteD(3) [OF m3(2), of a] that m2 by simp
    have es: "entries m1 src = Some kvs"
      using *(3,5,6,8) m1(2) by (fastforce simp: entries_def old1 split: option.splits go_val.splits)
    have "load m3 out = Some (Map_ref (Some b))" "cell m3 b = Some (Dict es)"
      using * old3 by (simp_all add: load_def)
    moreover have "load m3 (?o, []) = Some w" using wroteD(2) [OF m3(2)] .
    ultimately have "copy_entry T k v src out m =
        Some (m3\<lparr>cell := (cell m3)(b \<mapsto> Dict (AList.update k w es))\<rparr>)" (is "_ = Some ?m'")
      using False m1(1) m2(1) m3(1) es *(7) by (simp add: copy_entry_def put_entry_def)
    moreover have "tree_of (fresh m ?m') ?m' (TSlice T) w = Some t"
      using m3(3) by (rule tree_frame) (use * m2(3) in \<open>auto simp: fresh_def\<close>)
    ultimately show ?thesis
      using wroteD(1) [OF m3(2)] m2(3) old3 by (intro exI [of _ ?m'] exI [of _ w]) auto
  qed
qed

abbreviation entry_trees :: "(nat \<Rightarrow> bool) \<Rightarrow> mem \<Rightarrow> go_type \<Rightarrow> (string \<times> go_val) list \<Rightarrow> (string \<times> tree) list \<Rightarrow> bool" where
  "entry_trees P m T \<equiv>
     list_all2 (\<lambda>x y. fst x = fst y \<and> tree_of P m T (snd x) = Some (snd y))"

lemma update_new: "k \<notin> fst ` set es \<Longrightarrow> AList.update k w es = es @ [(k, w)]"
  by (induction es) auto

lemma for_entries_ok:
  assumes body: "puts T body"
    and src: "load m1 src = Some (Map_ref (Some a))" "cell m1 a = Some (Dict kvs)" "a < b" "fst src < b"
      "distinct (map fst kvs)" "\<And>a. P a \<Longrightarrow> a < b"
    and out: "load m1 out = Some (Map_ref (Some b))" "fst out < b"
  shows "\<lbrakk>entry_trees P m1 T rest ts; set rest \<subseteq> set kvs; distinct (map fst es @ map fst rest);
      b < mem_top m; \<forall>a<b. cell m a = cell m1 a; cell m b = Some (Dict es)\<rbrakk> \<Longrightarrow>
    \<exists>m' ws. block (map (\<lambda>(k, v). body k v src out) rest) m = Some m' \<and> mem_top m \<le> mem_top m' \<and>
      (\<forall>a<mem_top m. a \<noteq> b \<longrightarrow> cell m' a = cell m a) \<and> cell m' b = Some (Dict (es @ ws)) \<and>
      entry_trees (\<lambda>a. b < a \<and> a < mem_top m') m' T ws ts"
proof (induction rest arbitrary: m es ts)
  case Nil
  then show ?case by auto
next
  case (Cons e rest)
  obtain k v where e: "e = (k, v)" by fastforce
  from Cons.prems(1) e obtain t ts' where ts: "ts = (k, t) # ts'" "tree_of P m1 T v = Some t"
    "entry_trees P m1 T rest ts'" by (auto simp: list_all2_Cons1)
  have "load m src = load m1 src" "load m out = load m1 out" "cell m a = cell m1 a"
    using Cons.prems(5) src out by (auto simp: load_def)
  then have at: "load m src = Some (Map_ref (Some a))" "load m out = Some (Map_ref (Some b))"
    "entries m src = Some kvs" using src out by (simp_all add: entries_def)
  have "tree_of P m T v = Some t"
    using ts(2) by (rule tree_frame) (use src(6) Cons.prems(5) in auto)
  moreover have "map_of kvs k = Some v"
    using Cons.prems(2) e src(5) by (auto intro: map_of_is_SomeI)
  ultimately have "\<exists>m2 w. body k v src out m = Some m2 \<and> mem_top m \<le> mem_top m2 \<and>
      (\<forall>a<mem_top m. a \<noteq> b \<longrightarrow> cell m2 a = cell m a) \<and>
      cell m2 b = Some (Dict (AList.update k w es)) \<and> tree_of (fresh m m2) m2 T w = Some t"
    using at src out Cons.prems(4,6)
    by (intro body [unfolded puts_def, rule_format, where b = b and kvs = kvs and P = P]) auto
  then obtain m2 w where m2: "body k v src out m = Some m2" "mem_top m \<le> mem_top m2"
    "\<forall>a<mem_top m. a \<noteq> b \<longrightarrow> cell m2 a = cell m a"
    "cell m2 b = Some (Dict (es @ [(k, w)]))" "tree_of (fresh m m2) m2 T w = Some t"
    using Cons.prems(3) e by (auto simp: update_new)
  have "\<exists>m' ws. block (map (\<lambda>(k, v). body k v src out) rest) m2 = Some m' \<and> mem_top m2 \<le> mem_top m' \<and>
      (\<forall>a<mem_top m2. a \<noteq> b \<longrightarrow> cell m' a = cell m2 a) \<and>
      cell m' b = Some (Dict ((es @ [(k, w)]) @ ws)) \<and>
      entry_trees (\<lambda>a. b < a \<and> a < mem_top m') m' T ws ts'"
    by (rule Cons.IH) (use ts(3) Cons.prems e m2 in auto)
  then obtain m' ws where m': "block (map (\<lambda>(k, v). body k v src out) rest) m2 = Some m'"
    "mem_top m2 \<le> mem_top m'" "\<forall>a<mem_top m2. a \<noteq> b \<longrightarrow> cell m' a = cell m2 a"
    "cell m' b = Some (Dict (es @ (k, w) # ws))"
    "entry_trees (\<lambda>a. b < a \<and> a < mem_top m') m' T ws ts'" by auto
  have "tree_of (\<lambda>a. b < a \<and> a < mem_top m') m' T w = Some t"
    using m2(5) by (rule tree_frame) (use m' m2 Cons.prems(4) in \<open>auto simp: fresh_def\<close>)
  then show ?case
    using e ts m2 m' by (intro exI [of _ m'] exI [of _ "(k, w) # ws"]) auto
qed

lemma fills_map:
  assumes "puts T body"
  shows "fills (\<lambda>v u. \<not> is_nil v) (TMap T) (\<lambda>src out. block [make_map src out, for_entries body src out])"
proof (rule fillsI)
  fix m src out t v u
  assume *: "fst src \<noteq> fst out" "fst src < mem_top m" "fst out < mem_top m" "load m src = Some v"
    "load m out = Some u" "\<not> is_nil v" "tree_of (elsewhere m out) m (TMap T) v = Some t"
  then obtain a kvs ts where v: "v = Map_ref (Some a)" "elsewhere m out a" "cell m a = Some (Dict kvs)"
    "distinct (map fst kvs)" "t = Entries ts" "entry_trees (elsewhere m out) m T kvs ts"
    unfolding tree_of.simps map_tree_Some_iff is_nil_def by blast
  let ?b = "mem_top m"
  obtain m0 where m0: "alloc (Dict []) m = (?b, m0)" by (simp add: alloc_def)
  obtain m1 where m1: "store out (Map_ref (Some ?b)) m0 = Some m1" "wrote out (Map_ref (Some ?b)) m m1"
    "mem_top m1 = Suc ?b" "cell m1 ?b = Some (Dict [])"
    "\<forall>b<mem_top m. b \<noteq> fst out \<longrightarrow> cell m1 b = cell m b"
    by (rule alloc_store [OF *(5,3) m0, where w = "Map_ref (Some ?b)"])
  have src: "load m1 src = Some (Map_ref (Some a))" "cell m1 a = Some (Dict kvs)"
    using wroteD(4) [OF m1(2) *(2,1)] *(4) v m1(5) by (simp_all add: elsewhere_def)
  have "entry_trees (elsewhere m out) m1 T kvs ts"
    using v(6) by (rule list.rel_mono_strong)
      (use m1(5) in \<open>auto simp: elsewhere_def intro: tree_frame [of "elsewhere m out" m]\<close>)
  then have "\<exists>m' ws. block (map (\<lambda>(k, v). body k v src out) kvs) m1 = Some m' \<and> mem_top m1 \<le> mem_top m' \<and>
      (\<forall>a<mem_top m1. a \<noteq> ?b \<longrightarrow> cell m' a = cell m1 a) \<and> cell m' ?b = Some (Dict ([] @ ws)) \<and>
      entry_trees (\<lambda>a. ?b < a \<and> a < mem_top m') m' T ws ts"
    using src v *(2,3) m1(3,4) wroteD(2) [OF m1(2)]
    by (intro for_entries_ok [OF assms, where P = "elsewhere m out" and kvs = kvs and a = a])
       (auto simp: elsewhere_def)
  then obtain m' ws where m': "block (map (\<lambda>(k, v). body k v src out) kvs) m1 = Some m'"
    "mem_top m1 \<le> mem_top m'" "\<forall>a<mem_top m1. a \<noteq> ?b \<longrightarrow> cell m' a = cell m1 a"
    "cell m' ?b = Some (Dict ws)" "entry_trees (\<lambda>a. ?b < a \<and> a < mem_top m') m' T ws ts" by auto
  have "entry_trees (fresh m m') m' T ws ts"
    using m'(5) by (rule list.rel_mono_strong) (auto simp: fresh_def intro: tree_frame)
  moreover have "map fst ws = map fst kvs"
    using v(6) m'(5) by (auto simp: list_all2_conv_all_nth intro!: nth_equalityI)
  ultimately have "tree_of (fresh m m') m' (TMap T) (Map_ref (Some ?b)) = Some t"
    using v m'(2,4) m1(3) unfolding tree_of.simps map_tree_Some_iff by (auto simp: fresh_def)
  moreover have "wrote out (Map_ref (Some ?b)) m m'"
    using m1(2) by (rule wrote_then) (use m' m1(3) *(3) in auto)
  moreover have "block [make_map src out, for_entries body src out] m = Some m'"
    using m0 m1(1) m'(1) src by (simp add: make_map_def for_entries_def entries_def)
  ultimately show "\<exists>m' w. block [make_map src out, for_entries body src out] m = Some m' \<and>
      wrote out w m m' \<and> tree_of (fresh m m') m' (TMap T) w = Some t"
    by blast
qed

lemma fills_map_of_values: "flat T \<Longrightarrow> fills (\<lambda>v u. \<not> is_nil v) (TMap T) map_of_values"
  using fills_map [OF puts_values, of T] by (simp add: map_of_values_def [abs_def])

lemma fills_map_of_slices: "flat T \<Longrightarrow> fills (\<lambda>v u. \<not> is_nil v) (TMap (TSlice T)) (map_of_slices T)"
  using fills_map [OF puts_slices, of T] by (simp add: map_of_slices_def [abs_def])

subsection \<open>Structs\<close>

text \<open>
  \<open>covers fs ss\<close>: after \<open>*out = *in\<close> the statements \<open>ss\<close> copy every field of \<open>fs\<close> that holds a
  pointer, a slice or a map.
\<close>

inductive covers :: "(string \<times> go_type) list \<Rightarrow> (string \<times> stmt) list \<Rightarrow> bool" where
  covers_nil: "covers [] []"
| covers_stmt: "fills (\<lambda>v u. u = v) T s \<Longrightarrow> covers fs ss \<Longrightarrow> covers ((f, T) # fs) ((f, s) # ss)"
| covers_flat: "flat T \<Longrightarrow> covers fs ss \<Longrightarrow> covers ((f, T) # fs) ss"

lemma covers_names: "covers fs ss \<Longrightarrow> fst ` set ss \<subseteq> fst ` set fs"
  by (induction rule: covers.induct) auto

lemma covers_distinct: "covers fs ss \<Longrightarrow> distinct (map fst fs) \<Longrightarrow> distinct (map fst ss)"
  by (induction rule: covers.induct) (auto dest: covers_names)

lemma covers_stmtD:
  "covers fs ss \<Longrightarrow> distinct (map fst fs) \<Longrightarrow> (f, s) \<in> set ss \<Longrightarrow>
   \<exists>T. map_of fs f = Some T \<and> fills (\<lambda>v u. u = v) T s"
proof (induction rule: covers.induct)
  case (covers_stmt T s' fs ss g)
  then show ?case using covers_names [OF covers_stmt(2)] by force
next
  case (covers_flat T fs ss g)
  then show ?case using covers_names [OF covers_flat(2)] by force
qed simp

lemma covers_flatD: "covers fs ss \<Longrightarrow> (f, T) \<in> set fs \<Longrightarrow> f \<notin> fst ` set ss \<Longrightarrow> flat T"
  by (induction rule: covers.induct) auto

text \<open>
  The state of a struct copy: \<open>out\<close> holds the fields \<open>us\<close>; those named in \<open>D\<close> are deep copies, the
  others still the shallow copies of \<open>vs\<close>.
\<close>

definition struct_state :: "(string \<times> go_type) list \<Rightarrow> (string \<times> go_val) list \<Rightarrow> (string \<Rightarrow> tree) \<Rightarrow>
    loc \<Rightarrow> mem \<Rightarrow> string set \<Rightarrow> mem \<Rightarrow> (string \<times> go_val) list \<Rightarrow> bool" where
  "struct_state fs vs tr out m0 D m us \<longleftrightarrow>
     wrote out (Struct us) m0 m \<and> map fst us = map fst fs \<and>
     (\<forall>f T. map_of fs f = Some T \<longrightarrow>
        (if f \<in> D then \<exists>w. map_of us f = Some w \<and> tree_of (fresh m0 m) m T w = Some (tr f)
         else map_of us f = map_of vs f))"

lemma struct_state_step:
  assumes st: "struct_state fs vs tr out m0 D m us"
    and s: "fills (\<lambda>v u. u = v) T s" "map_of fs f = Some T" "f \<notin> D"
    and src: "fst src \<noteq> fst out" "fst src < mem_top m0" "load m0 src = Some (Struct vs)"
      "map_of vs f = Some v" "tree_of (elsewhere m0 out) m0 T v = Some (tr f)" "fst out < mem_top m0"
  shows "\<exists>m' us'. s (sub src f) (sub out f) m = Some m' \<and>
    struct_state fs vs tr out m0 (insert f D) m' us'"
proof -
  from st have w: "wrote out (Struct us) m0 m" "map fst us = map fst fs" "map_of us f = Some v"
    and prev: "\<And>g S. map_of fs g = Some S \<Longrightarrow> if g \<in> D
      then \<exists>w. map_of us g = Some w \<and> tree_of (fresh m0 m) m S w = Some (tr g)
      else map_of us g = map_of vs g"
    using s src by (auto simp: struct_state_def)
  have 1: "load m (sub src f) = Some v"
    using wroteD(4) [OF w(1) src(2,1)] src load_sub by metis
  have 2: "load m (sub out f) = Some v"
    using load_sub [OF wroteD(2) [OF w(1)]] w by simp
  have 3: "tree_of (elsewhere m (sub out f)) m T v = Some (tr f)"
    using src(5) by (rule tree_frame)
      (use wroteD(1,3) [OF w(1)] in \<open>auto simp: elsewhere_def sub_def\<close>)
  obtain m' w' where m': "s (sub src f) (sub out f) m = Some m'"
    "wrote (sub out f) w' m m'" "tree_of (fresh m m') m' T w' = Some (tr f)"
    by (rule fillsD [OF s(1) _ _ _ 1 2 refl 3])
       (use src wroteD(1) [OF w(1)] in \<open>auto simp: sub_def\<close>)
  let ?us = "AList.update f w' us"
  have "wrote out (Struct ?us) m m'" by (rule wrote_sub [OF m'(2) wroteD(2) [OF w(1)]])
  then have "wrote out (Struct ?us) m0 m'" using w(1) by (blast intro: wrote_trans)
  moreover have "map fst ?us = map fst fs"
    using w(2) map_of_SomeD [OF s(2)] by (force simp: update_keys)
  moreover have new: "tree_of (fresh m0 m') m' T w' = Some (tr f)"
    using m'(3) by (rule tree_frame) (use wroteD(1) [OF w(1)] in \<open>auto simp: fresh_def\<close>)
  moreover have "tree_of (fresh m0 m') m' S w = Some t" if "tree_of (fresh m0 m) m S w = Some t" for S w t
    using that by (rule tree_frame)
      (use wroteD(1,3) [OF m'(2)] src(6) in \<open>auto simp: fresh_def sub_def\<close>)
  ultimately have "struct_state fs vs tr out m0 (insert f D) m' ?us"
    using prev s(2) unfolding struct_state_def by (fastforce simp: update_conv')
  with m'(1) show ?thesis by blast
qed

lemma struct_state_block:
  assumes src: "fst src \<noteq> fst out" "fst src < mem_top m0" "load m0 src = Some (Struct vs)"
      "fst out < mem_top m0"
    and trees: "\<And>f T. map_of fs f = Some T \<Longrightarrow>
      \<exists>v. map_of vs f = Some v \<and> tree_of (elsewhere m0 out) m0 T v = Some (tr f)"
  shows "\<lbrakk>struct_state fs vs tr out m0 D m us; \<forall>(f, s) \<in> set ss.
      f \<notin> D \<and> (\<exists>T. map_of fs f = Some T \<and> fills (\<lambda>v u. u = v) T s); distinct (map fst ss)\<rbrakk> \<Longrightarrow>
    \<exists>m' us'. block (map (\<lambda>(f, s). s (sub src f) (sub out f)) ss) m = Some m' \<and>
      struct_state fs vs tr out m0 (D \<union> fst ` set ss) m' us'"
proof (induction ss arbitrary: D m us)
  case Nil
  then show ?case by auto
next
  case (Cons fstm ss)
  obtain f s where fs: "fstm = (f, s)" by fastforce
  with Cons.prems(2) obtain T where T: "map_of fs f = Some T" "fills (\<lambda>v u. u = v) T s" "f \<notin> D" by auto
  from trees [OF T(1)] obtain v where v: "map_of vs f = Some v"
    "tree_of (elsewhere m0 out) m0 T v = Some (tr f)" by blast
  from struct_state_step [OF Cons.prems(1) T(2,1,3) src(1-3) v src(4)] obtain m1 us1 where
    m1: "s (sub src f) (sub out f) m = Some m1" "struct_state fs vs tr out m0 (insert f D) m1 us1" by blast
  have "\<exists>m' us'. block (map (\<lambda>(f, s). s (sub src f) (sub out f)) ss) m1 = Some m' \<and>
      struct_state fs vs tr out m0 (insert f D \<union> fst ` set ss) m' us'"
    by (rule Cons.IH [OF m1(2)]) (use Cons.prems(2,3) fs in force)+
  with fs m1(1) show ?case by auto
qed

lemma struct_tree_fields:
  assumes "distinct (map fst fs)"
  shows "tree_of P m (TStruct fs) v = Some t \<longleftrightarrow>
    (\<exists>vs tr. v = Struct vs \<and> map fst vs = map fst fs \<and> t = Fields (map (\<lambda>(f, T). (f, tr f)) fs) \<and>
       (\<forall>f T. map_of fs f = Some T \<longrightarrow> (\<exists>v. map_of vs f = Some v \<and> tree_of P m T v = Some (tr f))))"
    (is "?L \<longleftrightarrow> ?R")
proof
  assume ?L
  then obtain vs ts where v: "v = Struct vs" "t = Fields ts" "map fst vs = map fst fs"
    "list_all2 (\<lambda>x y. fst x = fst y \<and>
       Option.bind (map_of vs (fst x)) (tree_of P m (snd x)) = Some (snd y)) fs ts"
    by (auto simp: struct_tree_Some_iff list.rel_map)
  let ?tr = "\<lambda>f. the (map_of ts f)"
  have keys: "map fst ts = map fst fs"
    using v(4) by (auto simp: list_all2_conv_all_nth intro!: nth_equalityI)
  have nth: "fs ! i = (f, T) \<Longrightarrow> i < length fs \<Longrightarrow> ts ! i = (f, ?tr f) \<and>
      (\<exists>v. map_of vs f = Some v \<and> tree_of P m T v = Some (?tr f))" for i f T
  proof -
    assume i: "fs ! i = (f, T)" "i < length fs"
    with v(4) have f: "ts ! i = (f, snd (ts ! i))" "i < length ts"
      "Option.bind (map_of vs f) (tree_of P m T) = Some (snd (ts ! i))"
      by (auto simp: list_all2_conv_all_nth prod_eq_iff)
    then have "(f, snd (ts ! i)) \<in> set ts" by (metis nth_mem)
    with keys assms have "map_of ts f = Some (snd (ts ! i))" by simp
    with f show ?thesis by (auto simp: bind_eq_Some_conv)
  qed
  have ts: "ts = map (\<lambda>(f, T). (f, ?tr f)) fs"
  proof (rule nth_equalityI)
    show len: "length ts = length (map (\<lambda>(f, T). (f, ?tr f)) fs)"
      using map_eq_imp_length_eq [OF keys] by simp
    show "ts ! i = map (\<lambda>(f, T). (f, ?tr f)) fs ! i" if "i < length ts" for i
      using nth [of i "fst (fs ! i)" "snd (fs ! i)"] that len by (simp add: case_prod_unfold)
  qed
  have "\<exists>v. map_of vs f = Some v \<and> tree_of P m T v = Some (?tr f)" if "map_of fs f = Some T" for f T
  proof -
    from map_of_SomeD [OF that] obtain i where "i < length fs" "fs ! i = (f, T)"
      by (auto simp: in_set_conv_nth)
    then show ?thesis using nth by blast
  qed
  with v(1-3) ts show ?R by (intro exI [of _ vs] exI [of _ ?tr]) metis
next
  assume ?R
  then obtain vs tr where v: "v = Struct vs" "map fst vs = map fst fs"
    "t = Fields (map (\<lambda>(f, T). (f, tr f)) fs)" and
    trees: "\<And>f T. map_of fs f = Some T \<Longrightarrow> \<exists>v. map_of vs f = Some v \<and> tree_of P m T v = Some (tr f)"
    by blast
  have "Option.bind (map_of vs f) (tree_of P m T) = Some (tr f)" if "(f, T) \<in> set fs" for f T
    using trees [of f T] that assms by (auto simp: map_of_is_SomeI)
  with v show ?L
    unfolding tree_of.simps struct_tree_Some_iff
    by (auto simp: list.rel_map list_all2_same)
qed

lemma copies_struct:
  assumes cover: "covers fs ss" and names: "distinct (map fst fs)"
  shows "copies (TStruct fs) (copy_fields ss)"
proof (rule fillsI)
  fix m src out t v u
  assume *: "fst src \<noteq> fst out" "fst src < mem_top m" "fst out < mem_top m" "load m src = Some v"
    "load m out = Some u" "tree_of (elsewhere m out) m (TStruct fs) v = Some t"
  then obtain vs tr where v: "v = Struct vs" "map fst vs = map fst fs"
    "t = Fields (map (\<lambda>(f, T). (f, tr f)) fs)"
    and trees: "\<And>f T. map_of fs f = Some T \<Longrightarrow>
      \<exists>v. map_of vs f = Some v \<and> tree_of (elsewhere m out) m T v = Some (tr f)"
    by (auto simp del: tree_of.simps simp: struct_tree_fields [OF names])
  obtain m0 where m0: "store out v m = Some m0" "wrote out v m m0" "mem_top m0 = mem_top m"
    by (rule store_wrote [OF *(5,3), where w = v])
  have "struct_state fs vs tr out m {} m0 vs" using m0 v by (simp add: struct_state_def)
  from struct_state_block [OF *(1,2) _ *(3) trees this, of ss] *(4) v(1)
    covers_stmtD [OF cover names] covers_distinct [OF cover names]
  obtain m' us where m': "block (map (\<lambda>(f, s). s (sub src f) (sub out f)) ss) m0 = Some m'"
    "struct_state fs vs tr out m (fst ` set ss) m' us" by fastforce
  have "\<exists>w. map_of us f = Some w \<and> tree_of (fresh m m') m' T w = Some (tr f)"
    if f: "map_of fs f = Some T" for f T
  proof (cases "f \<in> fst ` set ss")
    case True
    with m'(2) f show ?thesis by (auto simp: struct_state_def)
  next
    case False
    then have "flat T" using covers_flatD [OF cover map_of_SomeD [OF f]] by simp
    moreover have "map_of us f = map_of vs f" using m'(2) f False by (auto simp: struct_state_def)
    ultimately show ?thesis using trees [OF f] flat_tree by metis
  qed
  then have "tree_of (fresh m m') m' (TStruct fs) (Struct us) = Some t"
    using v m'(2) unfolding struct_tree_fields [OF names] by (auto simp: struct_state_def)
  moreover have "copy_fields ss src out m = Some m'"
    using * m0 m'(1) by (simp add: copy_fields_def assign_def)
  ultimately show "\<exists>m' w. copy_fields ss src out m = Some m' \<and> wrote out w m m' \<and>
      tree_of (fresh m m') m' (TStruct fs) w = Some t"
    using m'(2) by (auto simp: struct_state_def)
qed

lemmas [copy_rules] =
  covers_nil covers_stmt covers_flat fills_if_set_field fills_if_set_zero fills_pointee
  fills_values_of fills_each fills_map_of_values fills_map_of_slices

lemma fills_assign [copy_rules]: "flat T \<Longrightarrow> fills Q T assign"
  by (rule copies_fills) (rule copies_assign)

lemma fills_struct:
  "covers fs ss \<Longrightarrow> distinct (map fst fs) \<Longrightarrow> fills Q (TStruct fs) (copy_fields ss)"
  by (rule copies_fills) (rule copies_struct)

subsection \<open>Copies into a new block\<close>

lemma deep_copy_nil: "deep_copy T into None m = Some (None, m)"
  by (simp add: deep_copy_def)

lemma deep_copy_ok:
  assumes "copies T into" "fst p < mem_top m" "load m p = Some v"
    "tree_of (\<lambda>a. a < mem_top m) m T v = Some t"
  obtains q m' where "deep_copy T into (Some p) m = Some (Some q, m')" "mem_top m \<le> mem_top m'"
    "\<forall>a<mem_top m. cell m' a = cell m a"
    "tree_of (fresh m m') m' (TPtr T) (Ptr (Some q)) = Some (Pointee t)"
proof -
  let ?a = "mem_top m"
  obtain m1 where m1: "alloc (zero_val T) m = (?a, m1)" "cell m1 = (cell m)(?a \<mapsto> zero_val T)"
    "mem_top m1 = Suc ?a" by (rule alloc_ok [where v = "zero_val T"])
  have "tree_of (elsewhere m1 (?a, [])) m1 T v = Some t"
    using assms(4) by (rule tree_frame) (use m1 in \<open>auto simp: elsewhere_def\<close>)
  moreover have "load m1 p = Some v" "load m1 (?a, []) = Some (zero_val T)"
    using m1 assms by (auto simp: load_def)
  ultimately obtain m2 w where m2: "into p (?a, []) m1 = Some m2" "wrote (?a, []) w m1 m2"
    "tree_of (fresh m1 m2) m2 T w = Some t"
    using fillsD [OF assms(1), of p "(?a, [])" m1 v "zero_val T" t] assms(2) m1(3) by auto
  have "tree_of (fresh m m2) m2 T w = Some t"
    using m2(3) by (rule tree_frame) (use m1 in \<open>auto simp: fresh_def\<close>)
  then have "tree_of (fresh m m2) m2 (TPtr T) (Ptr (Some (?a, []))) = Some (Pointee t)"
    using wroteD(1,2) [OF m2(2)] m1(3) by (auto simp: ptr_tree_Some_iff fresh_def)
  moreover have "\<forall>a<mem_top m. cell m2 a = cell m a"
    using wroteD(3) [OF m2(2)] m1 by auto
  ultimately show thesis
    using that m1 m2(1) wroteD(1) [OF m2(2)] by (auto simp: deep_copy_def)
qed

end
