(* ===== verification/Deep_Copy.thy ===== *)
theory Deep_Copy
  imports Go_Memory
begin

text \<open>
  The generated deep copies of \<open>api/v1/zz_generated.deepcopy.go\<close>, one group per type: the shape of
  the struct as its declaration in \<open>api/v1/*_types.go\<close> gives it (\<open>X_type\<close>), and the functions
  \<open>DeepCopyInto\<close>, \<open>DeepCopy\<close> and, for the kinds of the API, \<open>DeepCopyObject\<close>. A struct is copied by
  \<open>copy_fields\<close>: \<open>*out = *in\<close> and then one statement per entry of the list, in the order of the
  code. An embedded struct is a field with the name of its type.

  Types of other modules are parameters: \<open>ty n\<close> is the shape of the external type \<open>n\<close> and \<open>ext n\<close>
  its \<open>DeepCopyInto\<close> (for \<open>Quantity\<close> the assignment of the result of its \<open>DeepCopy\<close>). The three
  external structs that hold strings only, which the code copies by assignment, are written out.
  That \<open>ext n\<close> copies deeply (\<open>external_copies\<close>) is what these functions document.

  The lemmas \<open>copies_X\<close> compare each function with the declared type: a field with a pointer, a
  slice or a map that has no statement, or one of the wrong form, has no derivation.
\<close>

definition external_copies :: "(string \<Rightarrow> go_type) \<Rightarrow> (string \<Rightarrow> stmt) \<Rightarrow> bool" where
  "external_copies ty ext \<longleftrightarrow> (\<forall>n. copies (ty n) (ext n))"

lemma fills_external: "external_copies ty ext \<Longrightarrow> fills Q (ty n) (ext n)"
  by (simp add: external_copies_def copies_fills)

definition TypeMeta_type :: go_type where
  "TypeMeta_type = TStruct [(''Kind'', TStr), (''APIVersion'', TStr)]"

definition SecretReference_type :: go_type where
  "SecretReference_type = TStruct [(''Name'', TStr), (''Namespace'', TStr)]"

definition LocalObjectReference_type :: go_type where
  "LocalObjectReference_type = TStruct [(''Name'', TStr)]"

lemma flat_external [simp]:
  "flat TypeMeta_type" "flat SecretReference_type" "flat LocalObjectReference_type"
  by (simp_all add: TypeMeta_type_def SecretReference_type_def LocalObjectReference_type_def)

section \<open>Ceph connections\<close>

definition ReadAffinitySpec_type :: go_type where
  "ReadAffinitySpec_type = TStruct [
     (''CrushLocationLabels'', TSlice TStr)]"

definition ReadAffinitySpec_DeepCopyInto :: stmt where
  "ReadAffinitySpec_DeepCopyInto = copy_fields [
     (''CrushLocationLabels'', if_set (values_of TStr))]"

definition ReadAffinitySpec_DeepCopy :: "loc option \<Rightarrow> mem \<Rightarrow> (loc option \<times> mem) option" where
  "ReadAffinitySpec_DeepCopy = deep_copy ReadAffinitySpec_type ReadAffinitySpec_DeepCopyInto"

lemma copies_ReadAffinitySpec [copy_rules]:
  "fills Q ReadAffinitySpec_type ReadAffinitySpec_DeepCopyInto"
  unfolding ReadAffinitySpec_type_def ReadAffinitySpec_DeepCopyInto_def
  by (rule fills_struct; (rule copy_rules | simp)+)

definition CephConnectionSpec_type :: go_type where
  "CephConnectionSpec_type = TStruct [
     (''Monitors'', TSlice TStr),
     (''ReadAffinity'', TPtr ReadAffinitySpec_type),
     (''RbdMirrorDaemonCount'', TInt)]"

definition CephConnectionSpec_DeepCopyInto :: stmt where
  "CephConnectionSpec_DeepCopyInto = copy_fields [
     (''Monitors'', if_set (values_of TStr)),
     (''ReadAffinity'', if_set (pointee ReadAffinitySpec_type ReadAffinitySpec_DeepCopyInto))]"

definition CephConnectionSpec_DeepCopy :: "loc option \<Rightarrow> mem \<Rightarrow> (loc option \<times> mem) option" where
  "CephConnectionSpec_DeepCopy = deep_copy CephConnectionSpec_type CephConnectionSpec_DeepCopyInto"

lemma copies_CephConnectionSpec [copy_rules]:
  "fills Q CephConnectionSpec_type CephConnectionSpec_DeepCopyInto"
  unfolding CephConnectionSpec_type_def CephConnectionSpec_DeepCopyInto_def
  by (rule fills_struct; (rule copy_rules | simp)+)

definition CephConnectionStatus_type :: go_type where
  "CephConnectionStatus_type = TStruct []"

definition CephConnectionStatus_DeepCopyInto :: stmt where
  "CephConnectionStatus_DeepCopyInto = copy_fields []"

definition CephConnectionStatus_DeepCopy :: "loc option \<Rightarrow> mem \<Rightarrow> (loc option \<times> mem) option" where
  "CephConnectionStatus_DeepCopy = deep_copy CephConnectionStatus_type CephConnectionStatus_DeepCopyInto"

lemma flat_CephConnectionStatus [simp]: "flat CephConnectionStatus_type"
  by (simp add: CephConnectionStatus_type_def)

lemma copies_CephConnectionStatus [copy_rules]:
  "fills Q CephConnectionStatus_type CephConnectionStatus_DeepCopyInto"
  unfolding CephConnectionStatus_type_def CephConnectionStatus_DeepCopyInto_def
  by (rule fills_struct) (auto intro: covers_nil)

definition CephConnection_type :: "(string \<Rightarrow> go_type) \<Rightarrow> go_type" where
  "CephConnection_type ty = TStruct [
     (''TypeMeta'', TypeMeta_type),
     (''ObjectMeta'', ty ''ObjectMeta''),
     (''Spec'', CephConnectionSpec_type),
     (''Status'', CephConnectionStatus_type)]"

definition CephConnection_DeepCopyInto :: "(string \<Rightarrow> go_type) \<Rightarrow> (string \<Rightarrow> stmt) \<Rightarrow> stmt" where
  "CephConnection_DeepCopyInto ty ext = copy_fields [
     (''TypeMeta'', assign),
     (''ObjectMeta'', ext ''ObjectMeta''),
     (''Spec'', CephConnectionSpec_DeepCopyInto),
     (''Status'', assign)]"

definition CephConnection_DeepCopy :: "(string \<Rightarrow> go_type) \<Rightarrow> (string \<Rightarrow> stmt) \<Rightarrow> loc option \<Rightarrow> mem \<Rightarrow> (loc option \<times> mem) option" where
  "CephConnection_DeepCopy ty ext = deep_copy (CephConnection_type ty) (CephConnection_DeepCopyInto ty ext)"

definition CephConnection_DeepCopyObject :: "(string \<Rightarrow> go_type) \<Rightarrow> (string \<Rightarrow> stmt) \<Rightarrow> loc option \<Rightarrow> mem \<Rightarrow> (iface \<times> mem) option" where
  "CephConnection_DeepCopyObject ty ext = deep_copy_object ''CephConnection'' (CephConnection_DeepCopy ty ext)"

lemma copies_CephConnection [copy_rules]:
  "external_copies ty ext \<Longrightarrow> fills Q (CephConnection_type ty) (CephConnection_DeepCopyInto ty ext)"
  unfolding CephConnection_type_def CephConnection_DeepCopyInto_def
  by (rule fills_struct; (rule copy_rules | (rule fills_external, assumption) | simp)+)

definition CephConnectionList_type :: "(string \<Rightarrow> go_type) \<Rightarrow> go_type" where
  "CephConnectionList_type ty = TStruct [
     (''TypeMeta'', TypeMeta_type),
     (''ListMeta'', ty ''ListMeta''),
     (''Items'', TSlice (CephConnection_type ty))]"

definition CephConnectionList_DeepCopyInto :: "(string \<Rightarrow> go_type) \<Rightarrow> (string \<Rightarrow> stmt) \<Rightarrow> stmt" where
  "CephConnectionList_DeepCopyInto ty ext = copy_fields [
     (''TypeMeta'', assign),
     (''ListMeta'', ext ''ListMeta''),
     (''Items'', if_set (each (CephConnection_type ty) (CephConnection_DeepCopyInto ty ext)))]"

definition CephConnectionList_DeepCopy :: "(string \<Rightarrow> go_type) \<Rightarrow> (string \<Rightarrow> stmt) \<Rightarrow> loc option \<Rightarrow> mem \<Rightarrow> (loc option \<times> mem) option" where
  "CephConnectionList_DeepCopy ty ext = deep_copy (CephConnectionList_type ty) (CephConnectionList_DeepCopyInto ty ext)"

definition CephConnectionList_DeepCopyObject :: "(string \<Rightarrow> go_type) \<Rightarrow> (string \<Rightarrow> stmt) \<Rightarrow> loc option \<Rightarrow> mem \<Rightarrow> (iface \<times> mem) option" where
  "CephConnectionList_DeepCopyObject ty ext = deep_copy_object ''CephConnectionList'' (CephConnectionList_DeepCopy ty ext)"

lemma copies_CephConnectionList [copy_rules]:
  "external_copies ty ext \<Longrightarrow> fills Q (CephConnectionList_type ty) (CephConnectionList_DeepCopyInto ty ext)"
  unfolding CephConnectionList_type_def CephConnectionList_DeepCopyInto_def
  by (rule fills_struct; (rule copy_rules | (rule fills_external, assumption) | simp)+)

section \<open>Client profiles\<close>

definition CephCsiSecretsSpec_type :: go_type where
  "CephCsiSecretsSpec_type = TStruct [
     (''ControllerPublishSecret'', SecretReference_type),
     (''NodePublishSecret'', SecretReference_type)]"

definition CephCsiSecretsSpec_DeepCopyInto :: stmt where
  "CephCsiSecretsSpec_DeepCopyInto = copy_fields [
     (''ControllerPublishSecret'', assign),
     (''NodePublishSecret'', assign)]"

definition CephCsiSecretsSpec_DeepCopy :: "loc option \<Rightarrow> mem \<Rightarrow> (loc option \<times> mem) option" where
  "CephCsiSecretsSpec_DeepCopy = deep_copy CephCsiSecretsSpec_type CephCsiSecretsSpec_DeepCopyInto"

lemma flat_CephCsiSecretsSpec [simp]: "flat CephCsiSecretsSpec_type"
  by (simp add: CephCsiSecretsSpec_type_def)

lemma copies_CephCsiSecretsSpec [copy_rules]:
  "fills Q CephCsiSecretsSpec_type CephCsiSecretsSpec_DeepCopyInto"
  unfolding CephCsiSecretsSpec_type_def CephCsiSecretsSpec_DeepCopyInto_def
  by (rule fills_struct; (rule copy_rules | simp)+)

definition CephFsConfigSpec_type :: go_type where
  "CephFsConfigSpec_type = TStruct [
     (''SubVolumeGroup'', TStr),
     (''KernelMountOptions'', TMap TStr),
     (''FuseMountOptions'', TMap TStr),
     (''RadosNamespace'', TPtr TStr),
     (''CephCsiSecrets'', TPtr CephCsiSecretsSpec_type)]"

definition CephFsConfigSpec_DeepCopyInto :: stmt where
  "CephFsConfigSpec_DeepCopyInto = copy_fields [
     (''KernelMountOptions'', if_set map_of_values),
     (''FuseMountOptions'', if_set map_of_values),
     (''RadosNamespace'', if_set (pointee TStr assign)),
     (''CephCsiSecrets'', if_set (pointee CephCsiSecretsSpec_type assign))]"

definition CephFsConfigSpec_DeepCopy :: "loc option \<Rightarrow> mem \<Rightarrow> (loc option \<times> mem) option" where
  "CephFsConfigSpec_DeepCopy = deep_copy CephFsConfigSpec_type CephFsConfigSpec_DeepCopyInto"

lemma copies_CephFsConfigSpec [copy_rules]:
  "fills Q CephFsConfigSpec_type CephFsConfigSpec_DeepCopyInto"
  unfolding CephFsConfigSpec_type_def CephFsConfigSpec_DeepCopyInto_def
  by (rule fills_struct; (rule copy_rules | simp)+)

definition RbdConfigSpec_type :: go_type where
  "RbdConfigSpec_type = TStruct [
     (''RadosNamespace'', TStr),
     (''CephCsiSecrets'', TPtr CephCsiSecretsSpec_type)]"

definition RbdConfigSpec_DeepCopyInto :: stmt where
  "RbdConfigSpec_DeepCopyInto = copy_fields [
     (''CephCsiSecrets'', if_set (pointee CephCsiSecretsSpec_type assign))]"

definition RbdConfigSpec_DeepCopy :: "loc option \<Rightarrow> mem \<Rightarrow> (loc option \<times> mem) option" where
  "RbdConfigSpec_DeepCopy = deep_copy RbdConfigSpec_type RbdConfigSpec_DeepCopyInto"

lemma copies_RbdConfigSpec [copy_rules]:
  "fills Q RbdConfigSpec_type RbdConfigSpec_DeepCopyInto"
  unfolding RbdConfigSpec_type_def RbdConfigSpec_DeepCopyInto_def
  by (rule fills_struct; (rule copy_rules | simp)+)

definition NfsConfigSpec_type :: go_type where
  "NfsConfigSpec_type = TStruct []"

definition NfsConfigSpec_DeepCopyInto :: stmt where
  "NfsConfigSpec_DeepCopyInto = copy_fields []"

definition NfsConfigSpec_DeepCopy :: "loc option \<Rightarrow> mem \<Rightarrow> (loc option \<times> mem) option" where
  "NfsConfigSpec_DeepCopy = deep_copy NfsConfigSpec_type NfsConfigSpec_DeepCopyInto"

lemma flat_NfsConfigSpec [simp]: "flat NfsConfigSpec_type"
  by (simp add: NfsConfigSpec_type_def)

lemma copies_NfsConfigSpec [copy_rules]:
  "fills Q NfsConfigSpec_type NfsConfigSpec_DeepCopyInto"
  unfolding NfsConfigSpec_type_def NfsConfigSpec_DeepCopyInto_def
  by (rule fills_struct) (auto intro: covers_nil)

definition NvmeofConfigSpec_type :: go_type where
  "NvmeofConfigSpec_type = TStruct [
     (''RadosNamespace'', TStr),
     (''CephCsiSecrets'', TPtr CephCsiSecretsSpec_type)]"

definition NvmeofConfigSpec_DeepCopyInto :: stmt where
  "NvmeofConfigSpec_DeepCopyInto = copy_fields [
     (''CephCsiSecrets'', if_set (pointee CephCsiSecretsSpec_type assign))]"

definition NvmeofConfigSpec_DeepCopy :: "loc option \<Rightarrow> mem \<Rightarrow> (loc option \<times> mem) option" where
  "NvmeofConfigSpec_DeepCopy = deep_copy NvmeofConfigSpec_type NvmeofConfigSpec_DeepCopyInto"

lemma copies_NvmeofConfigSpec [copy_rules]:
  "fills Q NvmeofConfigSpec_type NvmeofConfigSpec_DeepCopyInto"
  unfolding NvmeofConfigSpec_type_def NvmeofConfigSpec_DeepCopyInto_def
  by (rule fills_struct; (rule copy_rules | simp)+)

definition ClientProfileSpec_type :: go_type where
  "ClientProfileSpec_type = TStruct [
     (''CephConnectionRef'', LocalObjectReference_type),
     (''CephFs'', TPtr CephFsConfigSpec_type),
     (''Rbd'', TPtr RbdConfigSpec_type),
     (''Nfs'', TPtr NfsConfigSpec_type),
     (''Nvmeof'', TPtr NvmeofConfigSpec_type)]"

definition ClientProfileSpec_DeepCopyInto :: stmt where
  "ClientProfileSpec_DeepCopyInto = copy_fields [
     (''CephConnectionRef'', assign),
     (''CephFs'', if_set (pointee CephFsConfigSpec_type CephFsConfigSpec_DeepCopyInto)),
     (''Rbd'', if_set (pointee RbdConfigSpec_type RbdConfigSpec_DeepCopyInto)),
     (''Nfs'', if_set (pointee NfsConfigSpec_type assign)),
     (''Nvmeof'', if_set (pointee NvmeofConfigSpec_type NvmeofConfigSpec_DeepCopyInto))]"

definition ClientProfileSpec_DeepCopy :: "loc option \<Rightarrow> mem \<Rightarrow> (loc option \<times> mem) option" where
  "ClientProfileSpec_DeepCopy = deep_copy ClientProfileSpec_type ClientProfileSpec_DeepCopyInto"

lemma copies_ClientProfileSpec [copy_rules]:
  "fills Q ClientProfileSpec_type ClientProfileSpec_DeepCopyInto"
  unfolding ClientProfileSpec_type_def ClientProfileSpec_DeepCopyInto_def
  by (rule fills_struct; (rule copy_rules | simp)+)

definition ClientProfileStatus_type :: go_type where
  "ClientProfileStatus_type = TStruct [
     (''Phase'', TStr),
     (''Message'', TStr)]"

definition ClientProfileStatus_DeepCopyInto :: stmt where
  "ClientProfileStatus_DeepCopyInto = copy_fields []"

definition ClientProfileStatus_DeepCopy :: "loc option \<Rightarrow> mem \<Rightarrow> (loc option \<times> mem) option" where
  "ClientProfileStatus_DeepCopy = deep_copy ClientProfileStatus_type ClientProfileStatus_DeepCopyInto"

lemma flat_ClientProfileStatus [simp]: "flat ClientProfileStatus_type"
  by (simp add: ClientProfileStatus_type_def)

lemma copies_ClientProfileStatus [copy_rules]:
  "fills Q ClientProfileStatus_type ClientProfileStatus_DeepCopyInto"
  unfolding ClientProfileStatus_type_def ClientProfileStatus_DeepCopyInto_def
  by (rule fills_struct; (rule copy_rules | simp)+)

definition ClientProfile_type :: "(string \<Rightarrow> go_type) \<Rightarrow> go_type" where
  "ClientProfile_type ty = TStruct [
     (''TypeMeta'', TypeMeta_type),
     (''ObjectMeta'', ty ''ObjectMeta''),
     (''Spec'', ClientProfileSpec_type),
     (''Status'', ClientProfileStatus_type)]"

definition ClientProfile_DeepCopyInto :: "(string \<Rightarrow> go_type) \<Rightarrow> (string \<Rightarrow> stmt) \<Rightarrow> stmt" where
  "ClientProfile_DeepCopyInto ty ext = copy_fields [
     (''TypeMeta'', assign),
     (''ObjectMeta'', ext ''ObjectMeta''),
     (''Spec'', ClientProfileSpec_DeepCopyInto),
     (''Status'', assign)]"

definition ClientProfile_DeepCopy :: "(string \<Rightarrow> go_type) \<Rightarrow> (string \<Rightarrow> stmt) \<Rightarrow> loc option \<Rightarrow> mem \<Rightarrow> (loc option \<times> mem) option" where
  "ClientProfile_DeepCopy ty ext = deep_copy (ClientProfile_type ty) (ClientProfile_DeepCopyInto ty ext)"

definition ClientProfile_DeepCopyObject :: "(string \<Rightarrow> go_type) \<Rightarrow> (string \<Rightarrow> stmt) \<Rightarrow> loc option \<Rightarrow> mem \<Rightarrow> (iface \<times> mem) option" where
  "ClientProfile_DeepCopyObject ty ext = deep_copy_object ''ClientProfile'' (ClientProfile_DeepCopy ty ext)"

lemma copies_ClientProfile [copy_rules]:
  "external_copies ty ext \<Longrightarrow> fills Q (ClientProfile_type ty) (ClientProfile_DeepCopyInto ty ext)"
  unfolding ClientProfile_type_def ClientProfile_DeepCopyInto_def
  by (rule fills_struct; (rule copy_rules | (rule fills_external, assumption) | simp)+)

definition ClientProfileList_type :: "(string \<Rightarrow> go_type) \<Rightarrow> go_type" where
  "ClientProfileList_type ty = TStruct [
     (''TypeMeta'', TypeMeta_type),
     (''ListMeta'', ty ''ListMeta''),
     (''Items'', TSlice (ClientProfile_type ty))]"

definition ClientProfileList_DeepCopyInto :: "(string \<Rightarrow> go_type) \<Rightarrow> (string \<Rightarrow> stmt) \<Rightarrow> stmt" where
  "ClientProfileList_DeepCopyInto ty ext = copy_fields [
     (''TypeMeta'', assign),
     (''ListMeta'', ext ''ListMeta''),
     (''Items'', if_set (each (ClientProfile_type ty) (ClientProfile_DeepCopyInto ty ext)))]"

definition ClientProfileList_DeepCopy :: "(string \<Rightarrow> go_type) \<Rightarrow> (string \<Rightarrow> stmt) \<Rightarrow> loc option \<Rightarrow> mem \<Rightarrow> (loc option \<times> mem) option" where
  "ClientProfileList_DeepCopy ty ext = deep_copy (ClientProfileList_type ty) (ClientProfileList_DeepCopyInto ty ext)"

definition ClientProfileList_DeepCopyObject :: "(string \<Rightarrow> go_type) \<Rightarrow> (string \<Rightarrow> stmt) \<Rightarrow> loc option \<Rightarrow> mem \<Rightarrow> (iface \<times> mem) option" where
  "ClientProfileList_DeepCopyObject ty ext = deep_copy_object ''ClientProfileList'' (ClientProfileList_DeepCopy ty ext)"

lemma copies_ClientProfileList [copy_rules]:
  "external_copies ty ext \<Longrightarrow> fills Q (ClientProfileList_type ty) (ClientProfileList_DeepCopyInto ty ext)"
  unfolding ClientProfileList_type_def ClientProfileList_DeepCopyInto_def
  by (rule fills_struct; (rule copy_rules | (rule fills_external, assumption) | simp)+)

section \<open>Client profile mappings\<close>

definition BlockPoolIdPair_type :: go_type where
  "BlockPoolIdPair_type = TSlice TStr"

text \<open>The receiver is the slice itself; \<open>in := &in\<close> is a variable of the function.\<close>

definition BlockPoolIdPair_DeepCopyInto :: "go_val \<Rightarrow> loc \<Rightarrow> mem \<Rightarrow> mem option" where
  "BlockPoolIdPair_DeepCopyInto v out m = (let (a, m1) = alloc v m in values_of TStr (a, []) out m1)"

definition BlockPoolIdPair_DeepCopy :: "go_val \<Rightarrow> mem \<Rightarrow> (go_val \<times> mem) option" where
  "BlockPoolIdPair_DeepCopy v m =
     (if is_nil v then Some (Slice None, m)
      else let (a, m1) = alloc (zero_val BlockPoolIdPair_type) m in
        Option.bind (BlockPoolIdPair_DeepCopyInto v (a, []) m1) (\<lambda>m2.
          map_option (\<lambda>w. (w, m2)) (load m2 (a, []))))"

lemma fills_BlockPoolIdPair [copy_rules]: "fills (\<lambda>v u. \<not> is_nil v) BlockPoolIdPair_type (values_of TStr)"
  by (simp add: BlockPoolIdPair_type_def fills_values_of)

definition MappingsSpec_type :: go_type where
  "MappingsSpec_type = TStruct [
     (''LocalClientProfile'', TStr),
     (''RemoteClientProfile'', TStr),
     (''BlockPoolIdMapping'', TSlice BlockPoolIdPair_type)]"

definition MappingsSpec_DeepCopyInto :: stmt where
  "MappingsSpec_DeepCopyInto = copy_fields [
     (''BlockPoolIdMapping'', if_set (each BlockPoolIdPair_type (if_set (values_of TStr))))]"

definition MappingsSpec_DeepCopy :: "loc option \<Rightarrow> mem \<Rightarrow> (loc option \<times> mem) option" where
  "MappingsSpec_DeepCopy = deep_copy MappingsSpec_type MappingsSpec_DeepCopyInto"

lemma copies_MappingsSpec [copy_rules]:
  "fills Q MappingsSpec_type MappingsSpec_DeepCopyInto"
  unfolding MappingsSpec_type_def MappingsSpec_DeepCopyInto_def
  by (rule fills_struct; (rule copy_rules | simp)+)

definition ClientProfileMappingSpec_type :: go_type where
  "ClientProfileMappingSpec_type = TStruct [
     (''Mappings'', TSlice MappingsSpec_type)]"

definition ClientProfileMappingSpec_DeepCopyInto :: stmt where
  "ClientProfileMappingSpec_DeepCopyInto = copy_fields [
     (''Mappings'', if_set (each MappingsSpec_type MappingsSpec_DeepCopyInto))]"

definition ClientProfileMappingSpec_DeepCopy :: "loc option \<Rightarrow> mem \<Rightarrow> (loc option \<times> mem) option" where
  "ClientProfileMappingSpec_DeepCopy = deep_copy ClientProfileMappingSpec_type ClientProfileMappingSpec_DeepCopyInto"

lemma copies_ClientProfileMappingSpec [copy_rules]:
  "fills Q ClientProfileMappingSpec_type ClientProfileMappingSpec_DeepCopyInto"
  unfolding ClientProfileMappingSpec_type_def ClientProfileMappingSpec_DeepCopyInto_def
  by (rule fills_struct; (rule copy_rules | simp)+)

definition ClientProfileMappingStatus_type :: go_type where
  "ClientProfileMappingStatus_type = TStruct []"

definition ClientProfileMappingStatus_DeepCopyInto :: stmt where
  "ClientProfileMappingStatus_DeepCopyInto = copy_fields []"

definition ClientProfileMappingStatus_DeepCopy :: "loc option \<Rightarrow> mem \<Rightarrow> (loc option \<times> mem) option" where
  "ClientProfileMappingStatus_DeepCopy = deep_copy ClientProfileMappingStatus_type ClientProfileMappingStatus_DeepCopyInto"

lemma flat_ClientProfileMappingStatus [simp]: "flat ClientProfileMappingStatus_type"
  by (simp add: ClientProfileMappingStatus_type_def)

lemma copies_ClientProfileMappingStatus [copy_rules]:
  "fills Q ClientProfileMappingStatus_type ClientProfileMappingStatus_DeepCopyInto"
  unfolding ClientProfileMappingStatus_type_def ClientProfileMappingStatus_DeepCopyInto_def
  by (rule fills_struct) (auto intro: covers_nil)

definition ClientProfileMapping_type :: "(string \<Rightarrow> go_type) \<Rightarrow> go_type" where
  "ClientProfileMapping_type ty = TStruct [
     (''TypeMeta'', TypeMeta_type),
     (''ObjectMeta'', ty ''ObjectMeta''),
     (''Spec'', ClientProfileMappingSpec_type),
     (''Status'', ClientProfileMappingStatus_type)]"

definition ClientProfileMapping_DeepCopyInto :: "(string \<Rightarrow> go_type) \<Rightarrow> (string \<Rightarrow> stmt) \<Rightarrow> stmt" where
  "ClientProfileMapping_DeepCopyInto ty ext = copy_fields [
     (''TypeMeta'', assign),
     (''ObjectMeta'', ext ''ObjectMeta''),
     (''Spec'', ClientProfileMappingSpec_DeepCopyInto),
     (''Status'', assign)]"

definition ClientProfileMapping_DeepCopy :: "(string \<Rightarrow> go_type) \<Rightarrow> (string \<Rightarrow> stmt) \<Rightarrow> loc option \<Rightarrow> mem \<Rightarrow> (loc option \<times> mem) option" where
  "ClientProfileMapping_DeepCopy ty ext = deep_copy (ClientProfileMapping_type ty) (ClientProfileMapping_DeepCopyInto ty ext)"

definition ClientProfileMapping_DeepCopyObject :: "(string \<Rightarrow> go_type) \<Rightarrow> (string \<Rightarrow> stmt) \<Rightarrow> loc option \<Rightarrow> mem \<Rightarrow> (iface \<times> mem) option" where
  "ClientProfileMapping_DeepCopyObject ty ext = deep_copy_object ''ClientProfileMapping'' (ClientProfileMapping_DeepCopy ty ext)"

lemma copies_ClientProfileMapping [copy_rules]:
  "external_copies ty ext \<Longrightarrow> fills Q (ClientProfileMapping_type ty) (ClientProfileMapping_DeepCopyInto ty ext)"
  unfolding ClientProfileMapping_type_def ClientProfileMapping_DeepCopyInto_def
  by (rule fills_struct; (rule copy_rules | (rule fills_external, assumption) | simp)+)

definition ClientProfileMappingList_type :: "(string \<Rightarrow> go_type) \<Rightarrow> go_type" where
  "ClientProfileMappingList_type ty = TStruct [
     (''TypeMeta'', TypeMeta_type),
     (''ListMeta'', ty ''ListMeta''),
     (''Items'', TSlice (ClientProfileMapping_type ty))]"

definition ClientProfileMappingList_DeepCopyInto :: "(string \<Rightarrow> go_type) \<Rightarrow> (string \<Rightarrow> stmt) \<Rightarrow> stmt" where
  "ClientProfileMappingList_DeepCopyInto ty ext = copy_fields [
     (''TypeMeta'', assign),
     (''ListMeta'', ext ''ListMeta''),
     (''Items'', if_set (each (ClientProfileMapping_type ty) (ClientProfileMapping_DeepCopyInto ty ext)))]"

definition ClientProfileMappingList_DeepCopy :: "(string \<Rightarrow> go_type) \<Rightarrow> (string \<Rightarrow> stmt) \<Rightarrow> loc option \<Rightarrow> mem \<Rightarrow> (loc option \<times> mem) option" where
  "ClientProfileMappingList_DeepCopy ty ext = deep_copy (ClientProfileMappingList_type ty) (ClientProfileMappingList_DeepCopyInto ty ext)"

definition ClientProfileMappingList_DeepCopyObject :: "(string \<Rightarrow> go_type) \<Rightarrow> (string \<Rightarrow> stmt) \<Rightarrow> loc option \<Rightarrow> mem \<Rightarrow> (iface \<times> mem) option" where
  "ClientProfileMappingList_DeepCopyObject ty ext = deep_copy_object ''ClientProfileMappingList'' (ClientProfileMappingList_DeepCopy ty ext)"

lemma copies_ClientProfileMappingList [copy_rules]:
  "external_copies ty ext \<Longrightarrow> fills Q (ClientProfileMappingList_type ty) (ClientProfileMappingList_DeepCopyInto ty ext)"
  unfolding ClientProfileMappingList_type_def ClientProfileMappingList_DeepCopyInto_def
  by (rule fills_struct; (rule copy_rules | (rule fills_external, assumption) | simp)+)

section \<open>Client profile replications\<close>

definition PoolMappingSpec_type :: go_type where
  "PoolMappingSpec_type = TStruct [
     (''Name'', TStr),
     (''RemoteID'', TStr)]"

definition PoolMappingSpec_DeepCopyInto :: stmt where
  "PoolMappingSpec_DeepCopyInto = copy_fields []"

definition PoolMappingSpec_DeepCopy :: "loc option \<Rightarrow> mem \<Rightarrow> (loc option \<times> mem) option" where
  "PoolMappingSpec_DeepCopy = deep_copy PoolMappingSpec_type PoolMappingSpec_DeepCopyInto"

lemma flat_PoolMappingSpec [simp]: "flat PoolMappingSpec_type"
  by (simp add: PoolMappingSpec_type_def)

lemma copies_PoolMappingSpec [copy_rules]:
  "fills Q PoolMappingSpec_type PoolMappingSpec_DeepCopyInto"
  unfolding PoolMappingSpec_type_def PoolMappingSpec_DeepCopyInto_def
  by (rule fills_struct; (rule copy_rules | simp)+)

definition RBDReplicationSpec_type :: go_type where
  "RBDReplicationSpec_type = TStruct [
     (''PoolMapping'', TSlice PoolMappingSpec_type)]"

definition RBDReplicationSpec_DeepCopyInto :: stmt where
  "RBDReplicationSpec_DeepCopyInto = copy_fields [
     (''PoolMapping'', if_set (values_of PoolMappingSpec_type))]"

definition RBDReplicationSpec_DeepCopy :: "loc option \<Rightarrow> mem \<Rightarrow> (loc option \<times> mem) option" where
  "RBDReplicationSpec_DeepCopy = deep_copy RBDReplicationSpec_type RBDReplicationSpec_DeepCopyInto"

lemma copies_RBDReplicationSpec [copy_rules]:
  "fills Q RBDReplicationSpec_type RBDReplicationSpec_DeepCopyInto"
  unfolding RBDReplicationSpec_type_def RBDReplicationSpec_DeepCopyInto_def
  by (rule fills_struct; (rule copy_rules | simp)+)

definition ClientProfileReplicationSpec_type :: go_type where
  "ClientProfileReplicationSpec_type = TStruct [
     (''LocalClientProfile'', TStr),
     (''RemoteClientProfile'', TStr),
     (''RBD'', TPtr RBDReplicationSpec_type)]"

definition ClientProfileReplicationSpec_DeepCopyInto :: stmt where
  "ClientProfileReplicationSpec_DeepCopyInto = copy_fields [
     (''RBD'', if_set (pointee RBDReplicationSpec_type RBDReplicationSpec_DeepCopyInto))]"

definition ClientProfileReplicationSpec_DeepCopy :: "loc option \<Rightarrow> mem \<Rightarrow> (loc option \<times> mem) option" where
  "ClientProfileReplicationSpec_DeepCopy = deep_copy ClientProfileReplicationSpec_type ClientProfileReplicationSpec_DeepCopyInto"

lemma copies_ClientProfileReplicationSpec [copy_rules]:
  "fills Q ClientProfileReplicationSpec_type ClientProfileReplicationSpec_DeepCopyInto"
  unfolding ClientProfileReplicationSpec_type_def ClientProfileReplicationSpec_DeepCopyInto_def
  by (rule fills_struct; (rule copy_rules | simp)+)

definition ClientProfileReplicationStatus_type :: go_type where
  "ClientProfileReplicationStatus_type = TStruct [
     (''Phase'', TStr),
     (''Message'', TStr)]"

definition ClientProfileReplicationStatus_DeepCopyInto :: stmt where
  "ClientProfileReplicationStatus_DeepCopyInto = copy_fields []"

definition ClientProfileReplicationStatus_DeepCopy :: "loc option \<Rightarrow> mem \<Rightarrow> (loc option \<times> mem) option" where
  "ClientProfileReplicationStatus_DeepCopy = deep_copy ClientProfileReplicationStatus_type ClientProfileReplicationStatus_DeepCopyInto"

lemma flat_ClientProfileReplicationStatus [simp]: "flat ClientProfileReplicationStatus_type"
  by (simp add: ClientProfileReplicationStatus_type_def)

lemma copies_ClientProfileReplicationStatus [copy_rules]:
  "fills Q ClientProfileReplicationStatus_type ClientProfileReplicationStatus_DeepCopyInto"
  unfolding ClientProfileReplicationStatus_type_def ClientProfileReplicationStatus_DeepCopyInto_def
  by (rule fills_struct; (rule copy_rules | simp)+)

definition ClientProfileReplication_type :: "(string \<Rightarrow> go_type) \<Rightarrow> go_type" where
  "ClientProfileReplication_type ty = TStruct [
     (''TypeMeta'', TypeMeta_type),
     (''ObjectMeta'', ty ''ObjectMeta''),
     (''Spec'', ClientProfileReplicationSpec_type),
     (''Status'', ClientProfileReplicationStatus_type)]"

definition ClientProfileReplication_DeepCopyInto :: "(string \<Rightarrow> go_type) \<Rightarrow> (string \<Rightarrow> stmt) \<Rightarrow> stmt" where
  "ClientProfileReplication_DeepCopyInto ty ext = copy_fields [
     (''TypeMeta'', assign),
     (''ObjectMeta'', ext ''ObjectMeta''),
     (''Spec'', ClientProfileReplicationSpec_DeepCopyInto),
     (''Status'', assign)]"

definition ClientProfileReplication_DeepCopy :: "(string \<Rightarrow> go_type) \<Rightarrow> (string \<Rightarrow> stmt) \<Rightarrow> loc option \<Rightarrow> mem \<Rightarrow> (loc option \<times> mem) option" where
  "ClientProfileReplication_DeepCopy ty ext = deep_copy (ClientProfileReplication_type ty) (ClientProfileReplication_DeepCopyInto ty ext)"

definition ClientProfileReplication_DeepCopyObject :: "(string \<Rightarrow> go_type) \<Rightarrow> (string \<Rightarrow> stmt) \<Rightarrow> loc option \<Rightarrow> mem \<Rightarrow> (iface \<times> mem) option" where
  "ClientProfileReplication_DeepCopyObject ty ext = deep_copy_object ''ClientProfileReplication'' (ClientProfileReplication_DeepCopy ty ext)"

lemma copies_ClientProfileReplication [copy_rules]:
  "external_copies ty ext \<Longrightarrow> fills Q (ClientProfileReplication_type ty) (ClientProfileReplication_DeepCopyInto ty ext)"
  unfolding ClientProfileReplication_type_def ClientProfileReplication_DeepCopyInto_def
  by (rule fills_struct; (rule copy_rules | (rule fills_external, assumption) | simp)+)

definition ClientProfileReplicationList_type :: "(string \<Rightarrow> go_type) \<Rightarrow> go_type" where
  "ClientProfileReplicationList_type ty = TStruct [
     (''TypeMeta'', TypeMeta_type),
     (''ListMeta'', ty ''ListMeta''),
     (''Items'', TSlice (ClientProfileReplication_type ty))]"

definition ClientProfileReplicationList_DeepCopyInto :: "(string \<Rightarrow> go_type) \<Rightarrow> (string \<Rightarrow> stmt) \<Rightarrow> stmt" where
  "ClientProfileReplicationList_DeepCopyInto ty ext = copy_fields [
     (''TypeMeta'', assign),
     (''ListMeta'', ext ''ListMeta''),
     (''Items'', if_set (each (ClientProfileReplication_type ty) (ClientProfileReplication_DeepCopyInto ty ext)))]"

definition ClientProfileReplicationList_DeepCopy :: "(string \<Rightarrow> go_type) \<Rightarrow> (string \<Rightarrow> stmt) \<Rightarrow> loc option \<Rightarrow> mem \<Rightarrow> (loc option \<times> mem) option" where
  "ClientProfileReplicationList_DeepCopy ty ext = deep_copy (ClientProfileReplicationList_type ty) (ClientProfileReplicationList_DeepCopyInto ty ext)"

definition ClientProfileReplicationList_DeepCopyObject :: "(string \<Rightarrow> go_type) \<Rightarrow> (string \<Rightarrow> stmt) \<Rightarrow> loc option \<Rightarrow> mem \<Rightarrow> (iface \<times> mem) option" where
  "ClientProfileReplicationList_DeepCopyObject ty ext = deep_copy_object ''ClientProfileReplicationList'' (ClientProfileReplicationList_DeepCopy ty ext)"

lemma copies_ClientProfileReplicationList [copy_rules]:
  "external_copies ty ext \<Longrightarrow> fills Q (ClientProfileReplicationList_type ty) (ClientProfileReplicationList_DeepCopyInto ty ext)"
  unfolding ClientProfileReplicationList_type_def ClientProfileReplicationList_DeepCopyInto_def
  by (rule fills_struct; (rule copy_rules | (rule fills_external, assumption) | simp)+)

section \<open>Drivers\<close>

definition LogRotationSpec_type :: "(string \<Rightarrow> go_type) \<Rightarrow> go_type" where
  "LogRotationSpec_type ty = TStruct [
     (''MaxFiles'', TInt),
     (''MaxLogSize'', ty ''Quantity''),
     (''Periodicity'', TStr),
     (''LogHostPath'', TStr)]"

definition LogRotationSpec_DeepCopyInto :: "(string \<Rightarrow> go_type) \<Rightarrow> (string \<Rightarrow> stmt) \<Rightarrow> stmt" where
  "LogRotationSpec_DeepCopyInto ty ext = copy_fields [
     (''MaxLogSize'', ext ''Quantity'')]"

definition LogRotationSpec_DeepCopy :: "(string \<Rightarrow> go_type) \<Rightarrow> (string \<Rightarrow> stmt) \<Rightarrow> loc option \<Rightarrow> mem \<Rightarrow> (loc option \<times> mem) option" where
  "LogRotationSpec_DeepCopy ty ext = deep_copy (LogRotationSpec_type ty) (LogRotationSpec_DeepCopyInto ty ext)"

lemma copies_LogRotationSpec [copy_rules]:
  "external_copies ty ext \<Longrightarrow> fills Q (LogRotationSpec_type ty) (LogRotationSpec_DeepCopyInto ty ext)"
  unfolding LogRotationSpec_type_def LogRotationSpec_DeepCopyInto_def
  by (rule fills_struct; (rule copy_rules | (rule fills_external, assumption) | simp)+)

definition LogSpec_type :: "(string \<Rightarrow> go_type) \<Rightarrow> go_type" where
  "LogSpec_type ty = TStruct [
     (''Verbosity'', TInt),
     (''Rotation'', TPtr (LogRotationSpec_type ty))]"

definition LogSpec_DeepCopyInto :: "(string \<Rightarrow> go_type) \<Rightarrow> (string \<Rightarrow> stmt) \<Rightarrow> stmt" where
  "LogSpec_DeepCopyInto ty ext = copy_fields [
     (''Rotation'', if_set (pointee (LogRotationSpec_type ty) (LogRotationSpec_DeepCopyInto ty ext)))]"

definition LogSpec_DeepCopy :: "(string \<Rightarrow> go_type) \<Rightarrow> (string \<Rightarrow> stmt) \<Rightarrow> loc option \<Rightarrow> mem \<Rightarrow> (loc option \<times> mem) option" where
  "LogSpec_DeepCopy ty ext = deep_copy (LogSpec_type ty) (LogSpec_DeepCopyInto ty ext)"

lemma copies_LogSpec [copy_rules]:
  "external_copies ty ext \<Longrightarrow> fills Q (LogSpec_type ty) (LogSpec_DeepCopyInto ty ext)"
  unfolding LogSpec_type_def LogSpec_DeepCopyInto_def
  by (rule fills_struct; (rule copy_rules | (rule fills_external, assumption) | simp)+)

definition EncryptionSpec_type :: go_type where
  "EncryptionSpec_type = TStruct [
     (''ConfigMapRef'', LocalObjectReference_type)]"

definition EncryptionSpec_DeepCopyInto :: stmt where
  "EncryptionSpec_DeepCopyInto = copy_fields [
     (''ConfigMapRef'', assign)]"

definition EncryptionSpec_DeepCopy :: "loc option \<Rightarrow> mem \<Rightarrow> (loc option \<times> mem) option" where
  "EncryptionSpec_DeepCopy = deep_copy EncryptionSpec_type EncryptionSpec_DeepCopyInto"

lemma flat_EncryptionSpec [simp]: "flat EncryptionSpec_type"
  by (simp add: EncryptionSpec_type_def)

lemma copies_EncryptionSpec [copy_rules]:
  "fills Q EncryptionSpec_type EncryptionSpec_DeepCopyInto"
  unfolding EncryptionSpec_type_def EncryptionSpec_DeepCopyInto_def
  by (rule fills_struct; (rule copy_rules | simp)+)

definition VolumeSpec_type :: "(string \<Rightarrow> go_type) \<Rightarrow> go_type" where
  "VolumeSpec_type ty = TStruct [
     (''Volume'', ty ''Volume''),
     (''Mount'', ty ''VolumeMount'')]"

definition VolumeSpec_DeepCopyInto :: "(string \<Rightarrow> go_type) \<Rightarrow> (string \<Rightarrow> stmt) \<Rightarrow> stmt" where
  "VolumeSpec_DeepCopyInto ty ext = copy_fields [
     (''Volume'', ext ''Volume''),
     (''Mount'', ext ''VolumeMount'')]"

definition VolumeSpec_DeepCopy :: "(string \<Rightarrow> go_type) \<Rightarrow> (string \<Rightarrow> stmt) \<Rightarrow> loc option \<Rightarrow> mem \<Rightarrow> (loc option \<times> mem) option" where
  "VolumeSpec_DeepCopy ty ext = deep_copy (VolumeSpec_type ty) (VolumeSpec_DeepCopyInto ty ext)"

lemma copies_VolumeSpec [copy_rules]:
  "external_copies ty ext \<Longrightarrow> fills Q (VolumeSpec_type ty) (VolumeSpec_DeepCopyInto ty ext)"
  unfolding VolumeSpec_type_def VolumeSpec_DeepCopyInto_def
  by (rule fills_struct; (rule copy_rules | (rule fills_external, assumption) | simp)+)

definition PodCommonSpec_type :: "(string \<Rightarrow> go_type) \<Rightarrow> go_type" where
  "PodCommonSpec_type ty = TStruct [
     (''ServiceAccountName'', TPtr TStr),
     (''PrioritylClassName'', TPtr TStr),
     (''Labels'', TMap TStr),
     (''Annotations'', TMap TStr),
     (''Affinity'', TPtr (ty ''Affinity'')),
     (''Tolerations'', TSlice (ty ''Toleration'')),
     (''Volumes'', TSlice (VolumeSpec_type ty)),
     (''ImagePullPolicy'', TStr)]"

definition PodCommonSpec_DeepCopyInto :: "(string \<Rightarrow> go_type) \<Rightarrow> (string \<Rightarrow> stmt) \<Rightarrow> stmt" where
  "PodCommonSpec_DeepCopyInto ty ext = copy_fields [
     (''ServiceAccountName'', if_set (pointee TStr assign)),
     (''PrioritylClassName'', if_set (pointee TStr assign)),
     (''Labels'', if_set map_of_values),
     (''Annotations'', if_set map_of_values),
     (''Affinity'', if_set (pointee (ty ''Affinity'') (ext ''Affinity''))),
     (''Tolerations'', if_set (each (ty ''Toleration'') (ext ''Toleration''))),
     (''Volumes'', if_set (each (VolumeSpec_type ty) (VolumeSpec_DeepCopyInto ty ext)))]"

definition PodCommonSpec_DeepCopy :: "(string \<Rightarrow> go_type) \<Rightarrow> (string \<Rightarrow> stmt) \<Rightarrow> loc option \<Rightarrow> mem \<Rightarrow> (loc option \<times> mem) option" where
  "PodCommonSpec_DeepCopy ty ext = deep_copy (PodCommonSpec_type ty) (PodCommonSpec_DeepCopyInto ty ext)"

lemma copies_PodCommonSpec [copy_rules]:
  "external_copies ty ext \<Longrightarrow> fills Q (PodCommonSpec_type ty) (PodCommonSpec_DeepCopyInto ty ext)"
  unfolding PodCommonSpec_type_def PodCommonSpec_DeepCopyInto_def
  by (rule fills_struct; (rule copy_rules | (rule fills_external, assumption) | simp)+)

definition NodePluginResourcesSpec_type :: "(string \<Rightarrow> go_type) \<Rightarrow> go_type" where
  "NodePluginResourcesSpec_type ty = TStruct [
     (''Registrar'', TPtr (ty ''ResourceRequirements'')),
     (''Liveness'', TPtr (ty ''ResourceRequirements'')),
     (''Addons'', TPtr (ty ''ResourceRequirements'')),
     (''LogRotator'', TPtr (ty ''ResourceRequirements'')),
     (''Plugin'', TPtr (ty ''ResourceRequirements''))]"

definition NodePluginResourcesSpec_DeepCopyInto :: "(string \<Rightarrow> go_type) \<Rightarrow> (string \<Rightarrow> stmt) \<Rightarrow> stmt" where
  "NodePluginResourcesSpec_DeepCopyInto ty ext = copy_fields [
     (''Registrar'', if_set (pointee (ty ''ResourceRequirements'') (ext ''ResourceRequirements''))),
     (''Liveness'', if_set (pointee (ty ''ResourceRequirements'') (ext ''ResourceRequirements''))),
     (''Addons'', if_set (pointee (ty ''ResourceRequirements'') (ext ''ResourceRequirements''))),
     (''LogRotator'', if_set (pointee (ty ''ResourceRequirements'') (ext ''ResourceRequirements''))),
     (''Plugin'', if_set (pointee (ty ''ResourceRequirements'') (ext ''ResourceRequirements'')))]"

definition NodePluginResourcesSpec_DeepCopy :: "(string \<Rightarrow> go_type) \<Rightarrow> (string \<Rightarrow> stmt) \<Rightarrow> loc option \<Rightarrow> mem \<Rightarrow> (loc option \<times> mem) option" where
  "NodePluginResourcesSpec_DeepCopy ty ext = deep_copy (NodePluginResourcesSpec_type ty) (NodePluginResourcesSpec_DeepCopyInto ty ext)"

lemma copies_NodePluginResourcesSpec [copy_rules]:
  "external_copies ty ext \<Longrightarrow> fills Q (NodePluginResourcesSpec_type ty) (NodePluginResourcesSpec_DeepCopyInto ty ext)"
  unfolding NodePluginResourcesSpec_type_def NodePluginResourcesSpec_DeepCopyInto_def
  by (rule fills_struct; (rule copy_rules | (rule fills_external, assumption) | simp)+)

definition TopologySpec_type :: go_type where
  "TopologySpec_type = TStruct [
     (''DomainLabels'', TSlice TStr)]"

definition TopologySpec_DeepCopyInto :: stmt where
  "TopologySpec_DeepCopyInto = copy_fields [
     (''DomainLabels'', if_set (values_of TStr))]"

definition TopologySpec_DeepCopy :: "loc option \<Rightarrow> mem \<Rightarrow> (loc option \<times> mem) option" where
  "TopologySpec_DeepCopy = deep_copy TopologySpec_type TopologySpec_DeepCopyInto"

lemma copies_TopologySpec [copy_rules]:
  "fills Q TopologySpec_type TopologySpec_DeepCopyInto"
  unfolding TopologySpec_type_def TopologySpec_DeepCopyInto_def
  by (rule fills_struct; (rule copy_rules | simp)+)

definition NodePluginSpec_type :: "(string \<Rightarrow> go_type) \<Rightarrow> go_type" where
  "NodePluginSpec_type ty = TStruct [
     (''PodCommonSpec'', PodCommonSpec_type ty),
     (''UpdateStrategy'', TPtr (ty ''DaemonSetUpdateStrategy'')),
     (''Resources'', NodePluginResourcesSpec_type ty),
     (''KubeletDirPath'', TStr),
     (''EnableSeLinuxHostMount'', TPtr TBool),
     (''Topology'', TPtr TopologySpec_type),
     (''ContainerExtraArgs'', TMap (TSlice TStr))]"

definition NodePluginSpec_DeepCopyInto :: "(string \<Rightarrow> go_type) \<Rightarrow> (string \<Rightarrow> stmt) \<Rightarrow> stmt" where
  "NodePluginSpec_DeepCopyInto ty ext = copy_fields [
     (''PodCommonSpec'', PodCommonSpec_DeepCopyInto ty ext),
     (''UpdateStrategy'', if_set (pointee (ty ''DaemonSetUpdateStrategy'') (ext ''DaemonSetUpdateStrategy''))),
     (''Resources'', NodePluginResourcesSpec_DeepCopyInto ty ext),
     (''EnableSeLinuxHostMount'', if_set (pointee TBool assign)),
     (''Topology'', if_set (pointee TopologySpec_type TopologySpec_DeepCopyInto)),
     (''ContainerExtraArgs'', if_set (map_of_slices TStr))]"

definition NodePluginSpec_DeepCopy :: "(string \<Rightarrow> go_type) \<Rightarrow> (string \<Rightarrow> stmt) \<Rightarrow> loc option \<Rightarrow> mem \<Rightarrow> (loc option \<times> mem) option" where
  "NodePluginSpec_DeepCopy ty ext = deep_copy (NodePluginSpec_type ty) (NodePluginSpec_DeepCopyInto ty ext)"

lemma copies_NodePluginSpec [copy_rules]:
  "external_copies ty ext \<Longrightarrow> fills Q (NodePluginSpec_type ty) (NodePluginSpec_DeepCopyInto ty ext)"
  unfolding NodePluginSpec_type_def NodePluginSpec_DeepCopyInto_def
  by (rule fills_struct; (rule copy_rules | (rule fills_external, assumption) | simp)+)

definition ControllerPluginResourcesSpec_type :: "(string \<Rightarrow> go_type) \<Rightarrow> go_type" where
  "ControllerPluginResourcesSpec_type ty = TStruct [
     (''Attacher'', TPtr (ty ''ResourceRequirements'')),
     (''Snapshotter'', TPtr (ty ''ResourceRequirements'')),
     (''Resizer'', TPtr (ty ''ResourceRequirements'')),
     (''Provisioner'', TPtr (ty ''ResourceRequirements'')),
     (''OMapGenerator'', TPtr (ty ''ResourceRequirements'')),
     (''Liveness'', TPtr (ty ''ResourceRequirements'')),
     (''Addons'', TPtr (ty ''ResourceRequirements'')),
     (''LogRotator'', TPtr (ty ''ResourceRequirements'')),
     (''Plugin'', TPtr (ty ''ResourceRequirements''))]"

definition ControllerPluginResourcesSpec_DeepCopyInto :: "(string \<Rightarrow> go_type) \<Rightarrow> (string \<Rightarrow> stmt) \<Rightarrow> stmt" where
  "ControllerPluginResourcesSpec_DeepCopyInto ty ext = copy_fields [
     (''Attacher'', if_set (pointee (ty ''ResourceRequirements'') (ext ''ResourceRequirements''))),
     (''Snapshotter'', if_set (pointee (ty ''ResourceRequirements'') (ext ''ResourceRequirements''))),
     (''Resizer'', if_set (pointee (ty ''ResourceRequirements'') (ext ''ResourceRequirements''))),
     (''Provisioner'', if_set (pointee (ty ''ResourceRequirements'') (ext ''ResourceRequirements''))),
     (''OMapGenerator'', if_set (pointee (ty ''ResourceRequirements'') (ext ''ResourceRequirements''))),
     (''Liveness'', if_set (pointee (ty ''ResourceRequirements'') (ext ''ResourceRequirements''))),
     (''Addons'', if_set (pointee (ty ''ResourceRequirements'') (ext ''ResourceRequirements''))),
     (''LogRotator'', if_set (pointee (ty ''ResourceRequirements'') (ext ''ResourceRequirements''))),
     (''Plugin'', if_set (pointee (ty ''ResourceRequirements'') (ext ''ResourceRequirements'')))]"

definition ControllerPluginResourcesSpec_DeepCopy :: "(string \<Rightarrow> go_type) \<Rightarrow> (string \<Rightarrow> stmt) \<Rightarrow> loc option \<Rightarrow> mem \<Rightarrow> (loc option \<times> mem) option" where
  "ControllerPluginResourcesSpec_DeepCopy ty ext = deep_copy (ControllerPluginResourcesSpec_type ty) (ControllerPluginResourcesSpec_DeepCopyInto ty ext)"

lemma copies_ControllerPluginResourcesSpec [copy_rules]:
  "external_copies ty ext \<Longrightarrow> fills Q (ControllerPluginResourcesSpec_type ty) (ControllerPluginResourcesSpec_DeepCopyInto ty ext)"
  unfolding ControllerPluginResourcesSpec_type_def ControllerPluginResourcesSpec_DeepCopyInto_def
  by (rule fills_struct; (rule copy_rules | (rule fills_external, assumption) | simp)+)

definition ControllerPluginSpec_type :: "(string \<Rightarrow> go_type) \<Rightarrow> go_type" where
  "ControllerPluginSpec_type ty = TStruct [
     (''HostNetwork'', TPtr TBool),
     (''PodCommonSpec'', PodCommonSpec_type ty),
     (''DeploymentStrategy'', TPtr (ty ''DeploymentStrategy'')),
     (''Replicas'', TPtr TInt),
     (''Resources'', ControllerPluginResourcesSpec_type ty),
     (''Privileged'', TPtr TBool),
     (''ContainerExtraArgs'', TMap (TSlice TStr))]"

definition ControllerPluginSpec_DeepCopyInto :: "(string \<Rightarrow> go_type) \<Rightarrow> (string \<Rightarrow> stmt) \<Rightarrow> stmt" where
  "ControllerPluginSpec_DeepCopyInto ty ext = copy_fields [
     (''HostNetwork'', if_set (pointee TBool assign)),
     (''PodCommonSpec'', PodCommonSpec_DeepCopyInto ty ext),
     (''DeploymentStrategy'', if_set (pointee (ty ''DeploymentStrategy'') (ext ''DeploymentStrategy''))),
     (''Replicas'', if_set (pointee TInt assign)),
     (''Resources'', ControllerPluginResourcesSpec_DeepCopyInto ty ext),
     (''Privileged'', if_set (pointee TBool assign)),
     (''ContainerExtraArgs'', if_set (map_of_slices TStr))]"

definition ControllerPluginSpec_DeepCopy :: "(string \<Rightarrow> go_type) \<Rightarrow> (string \<Rightarrow> stmt) \<Rightarrow> loc option \<Rightarrow> mem \<Rightarrow> (loc option \<times> mem) option" where
  "ControllerPluginSpec_DeepCopy ty ext = deep_copy (ControllerPluginSpec_type ty) (ControllerPluginSpec_DeepCopyInto ty ext)"

lemma copies_ControllerPluginSpec [copy_rules]:
  "external_copies ty ext \<Longrightarrow> fills Q (ControllerPluginSpec_type ty) (ControllerPluginSpec_DeepCopyInto ty ext)"
  unfolding ControllerPluginSpec_type_def ControllerPluginSpec_DeepCopyInto_def
  by (rule fills_struct; (rule copy_rules | (rule fills_external, assumption) | simp)+)

definition LivenessSpec_type :: go_type where
  "LivenessSpec_type = TStruct [
     (''MetricsPort'', TInt)]"

definition LivenessSpec_DeepCopyInto :: stmt where
  "LivenessSpec_DeepCopyInto = copy_fields []"

definition LivenessSpec_DeepCopy :: "loc option \<Rightarrow> mem \<Rightarrow> (loc option \<times> mem) option" where
  "LivenessSpec_DeepCopy = deep_copy LivenessSpec_type LivenessSpec_DeepCopyInto"

lemma flat_LivenessSpec [simp]: "flat LivenessSpec_type"
  by (simp add: LivenessSpec_type_def)

lemma copies_LivenessSpec [copy_rules]:
  "fills Q LivenessSpec_type LivenessSpec_DeepCopyInto"
  unfolding LivenessSpec_type_def LivenessSpec_DeepCopyInto_def
  by (rule fills_struct; (rule copy_rules | simp)+)

definition LeaderElectionSpec_type :: go_type where
  "LeaderElectionSpec_type = TStruct [
     (''LeaseDuration'', TInt),
     (''RenewDeadline'', TInt),
     (''RetryPeriod'', TInt)]"

definition LeaderElectionSpec_DeepCopyInto :: stmt where
  "LeaderElectionSpec_DeepCopyInto = copy_fields []"

definition LeaderElectionSpec_DeepCopy :: "loc option \<Rightarrow> mem \<Rightarrow> (loc option \<times> mem) option" where
  "LeaderElectionSpec_DeepCopy = deep_copy LeaderElectionSpec_type LeaderElectionSpec_DeepCopyInto"

lemma flat_LeaderElectionSpec [simp]: "flat LeaderElectionSpec_type"
  by (simp add: LeaderElectionSpec_type_def)

lemma copies_LeaderElectionSpec [copy_rules]:
  "fills Q LeaderElectionSpec_type LeaderElectionSpec_DeepCopyInto"
  unfolding LeaderElectionSpec_type_def LeaderElectionSpec_DeepCopyInto_def
  by (rule fills_struct; (rule copy_rules | simp)+)

definition DriverSpec_type :: "(string \<Rightarrow> go_type) \<Rightarrow> go_type" where
  "DriverSpec_type ty = TStruct [
     (''Log'', TPtr (LogSpec_type ty)),
     (''ImageSet'', TPtr LocalObjectReference_type),
     (''ClusterName'', TPtr TStr),
     (''EnableMetadata'', TPtr TBool),
     (''EnableFencing'', TPtr TBool),
     (''GRpcTimeout'', TInt),
     (''SnapshotPolicy'', TStr),
     (''GenerateOMapInfo'', TPtr TBool),
     (''FsGroupPolicy'', TStr),
     (''Encryption'', TPtr EncryptionSpec_type),
     (''NodePlugin'', TPtr (NodePluginSpec_type ty)),
     (''ControllerPlugin'', TPtr (ControllerPluginSpec_type ty)),
     (''AttachRequired'', TPtr TBool),
     (''Liveness'', TPtr LivenessSpec_type),
     (''LeaderElection'', TPtr LeaderElectionSpec_type),
     (''DeployCsiAddons'', TPtr TBool),
     (''CephFsClientType'', TStr),
     (''KernelMountOptions'', TMap TStr),
     (''FuseMountOptions'', TMap TStr)]"

definition DriverSpec_DeepCopyInto :: "(string \<Rightarrow> go_type) \<Rightarrow> (string \<Rightarrow> stmt) \<Rightarrow> stmt" where
  "DriverSpec_DeepCopyInto ty ext = copy_fields [
     (''Log'', if_set (pointee (LogSpec_type ty) (LogSpec_DeepCopyInto ty ext))),
     (''ImageSet'', if_set (pointee LocalObjectReference_type assign)),
     (''ClusterName'', if_set (pointee TStr assign)),
     (''EnableMetadata'', if_set (pointee TBool assign)),
     (''EnableFencing'', if_set (pointee TBool assign)),
     (''GenerateOMapInfo'', if_set (pointee TBool assign)),
     (''Encryption'', if_set (pointee EncryptionSpec_type assign)),
     (''NodePlugin'', if_set (pointee (NodePluginSpec_type ty) (NodePluginSpec_DeepCopyInto ty ext))),
     (''ControllerPlugin'', if_set (pointee (ControllerPluginSpec_type ty) (ControllerPluginSpec_DeepCopyInto ty ext))),
     (''AttachRequired'', if_set (pointee TBool assign)),
     (''Liveness'', if_set (pointee LivenessSpec_type assign)),
     (''LeaderElection'', if_set (pointee LeaderElectionSpec_type assign)),
     (''DeployCsiAddons'', if_set (pointee TBool assign)),
     (''KernelMountOptions'', if_set map_of_values),
     (''FuseMountOptions'', if_set map_of_values)]"

definition DriverSpec_DeepCopy :: "(string \<Rightarrow> go_type) \<Rightarrow> (string \<Rightarrow> stmt) \<Rightarrow> loc option \<Rightarrow> mem \<Rightarrow> (loc option \<times> mem) option" where
  "DriverSpec_DeepCopy ty ext = deep_copy (DriverSpec_type ty) (DriverSpec_DeepCopyInto ty ext)"

lemma copies_DriverSpec [copy_rules]:
  "external_copies ty ext \<Longrightarrow> fills Q (DriverSpec_type ty) (DriverSpec_DeepCopyInto ty ext)"
  unfolding DriverSpec_type_def DriverSpec_DeepCopyInto_def
  by (rule fills_struct; (rule copy_rules | (rule fills_external, assumption) | simp)+)

definition DriverStatus_type :: go_type where
  "DriverStatus_type = TStruct []"

definition DriverStatus_DeepCopyInto :: stmt where
  "DriverStatus_DeepCopyInto = copy_fields []"

definition DriverStatus_DeepCopy :: "loc option \<Rightarrow> mem \<Rightarrow> (loc option \<times> mem) option" where
  "DriverStatus_DeepCopy = deep_copy DriverStatus_type DriverStatus_DeepCopyInto"

lemma flat_DriverStatus [simp]: "flat DriverStatus_type"
  by (simp add: DriverStatus_type_def)

lemma copies_DriverStatus [copy_rules]:
  "fills Q DriverStatus_type DriverStatus_DeepCopyInto"
  unfolding DriverStatus_type_def DriverStatus_DeepCopyInto_def
  by (rule fills_struct) (auto intro: covers_nil)

definition Driver_type :: "(string \<Rightarrow> go_type) \<Rightarrow> go_type" where
  "Driver_type ty = TStruct [
     (''TypeMeta'', TypeMeta_type),
     (''ObjectMeta'', ty ''ObjectMeta''),
     (''Spec'', DriverSpec_type ty),
     (''Status'', DriverStatus_type)]"

definition Driver_DeepCopyInto :: "(string \<Rightarrow> go_type) \<Rightarrow> (string \<Rightarrow> stmt) \<Rightarrow> stmt" where
  "Driver_DeepCopyInto ty ext = copy_fields [
     (''TypeMeta'', assign),
     (''ObjectMeta'', ext ''ObjectMeta''),
     (''Spec'', DriverSpec_DeepCopyInto ty ext),
     (''Status'', assign)]"

definition Driver_DeepCopy :: "(string \<Rightarrow> go_type) \<Rightarrow> (string \<Rightarrow> stmt) \<Rightarrow> loc option \<Rightarrow> mem \<Rightarrow> (loc option \<times> mem) option" where
  "Driver_DeepCopy ty ext = deep_copy (Driver_type ty) (Driver_DeepCopyInto ty ext)"

definition Driver_DeepCopyObject :: "(string \<Rightarrow> go_type) \<Rightarrow> (string \<Rightarrow> stmt) \<Rightarrow> loc option \<Rightarrow> mem \<Rightarrow> (iface \<times> mem) option" where
  "Driver_DeepCopyObject ty ext = deep_copy_object ''Driver'' (Driver_DeepCopy ty ext)"

lemma copies_Driver [copy_rules]:
  "external_copies ty ext \<Longrightarrow> fills Q (Driver_type ty) (Driver_DeepCopyInto ty ext)"
  unfolding Driver_type_def Driver_DeepCopyInto_def
  by (rule fills_struct; (rule copy_rules | (rule fills_external, assumption) | simp)+)

definition DriverList_type :: "(string \<Rightarrow> go_type) \<Rightarrow> go_type" where
  "DriverList_type ty = TStruct [
     (''TypeMeta'', TypeMeta_type),
     (''ListMeta'', ty ''ListMeta''),
     (''Items'', TSlice (Driver_type ty))]"

definition DriverList_DeepCopyInto :: "(string \<Rightarrow> go_type) \<Rightarrow> (string \<Rightarrow> stmt) \<Rightarrow> stmt" where
  "DriverList_DeepCopyInto ty ext = copy_fields [
     (''TypeMeta'', assign),
     (''ListMeta'', ext ''ListMeta''),
     (''Items'', if_set (each (Driver_type ty) (Driver_DeepCopyInto ty ext)))]"

definition DriverList_DeepCopy :: "(string \<Rightarrow> go_type) \<Rightarrow> (string \<Rightarrow> stmt) \<Rightarrow> loc option \<Rightarrow> mem \<Rightarrow> (loc option \<times> mem) option" where
  "DriverList_DeepCopy ty ext = deep_copy (DriverList_type ty) (DriverList_DeepCopyInto ty ext)"

definition DriverList_DeepCopyObject :: "(string \<Rightarrow> go_type) \<Rightarrow> (string \<Rightarrow> stmt) \<Rightarrow> loc option \<Rightarrow> mem \<Rightarrow> (iface \<times> mem) option" where
  "DriverList_DeepCopyObject ty ext = deep_copy_object ''DriverList'' (DriverList_DeepCopy ty ext)"

lemma copies_DriverList [copy_rules]:
  "external_copies ty ext \<Longrightarrow> fills Q (DriverList_type ty) (DriverList_DeepCopyInto ty ext)"
  unfolding DriverList_type_def DriverList_DeepCopyInto_def
  by (rule fills_struct; (rule copy_rules | (rule fills_external, assumption) | simp)+)

section \<open>Operator configuration\<close>

definition OperatorLogSpec_type :: go_type where
  "OperatorLogSpec_type = TStruct [
     (''Verbosity'', TInt)]"

definition OperatorLogSpec_DeepCopyInto :: stmt where
  "OperatorLogSpec_DeepCopyInto = copy_fields []"

definition OperatorLogSpec_DeepCopy :: "loc option \<Rightarrow> mem \<Rightarrow> (loc option \<times> mem) option" where
  "OperatorLogSpec_DeepCopy = deep_copy OperatorLogSpec_type OperatorLogSpec_DeepCopyInto"

lemma flat_OperatorLogSpec [simp]: "flat OperatorLogSpec_type"
  by (simp add: OperatorLogSpec_type_def)

lemma copies_OperatorLogSpec [copy_rules]:
  "fills Q OperatorLogSpec_type OperatorLogSpec_DeepCopyInto"
  unfolding OperatorLogSpec_type_def OperatorLogSpec_DeepCopyInto_def
  by (rule fills_struct; (rule copy_rules | simp)+)

definition OperatorConfigSpec_type :: "(string \<Rightarrow> go_type) \<Rightarrow> go_type" where
  "OperatorConfigSpec_type ty = TStruct [
     (''Log'', TPtr OperatorLogSpec_type),
     (''DriverSpecDefaults'', TPtr (DriverSpec_type ty))]"

definition OperatorConfigSpec_DeepCopyInto :: "(string \<Rightarrow> go_type) \<Rightarrow> (string \<Rightarrow> stmt) \<Rightarrow> stmt" where
  "OperatorConfigSpec_DeepCopyInto ty ext = copy_fields [
     (''Log'', if_set (pointee OperatorLogSpec_type assign)),
     (''DriverSpecDefaults'', if_set (pointee (DriverSpec_type ty) (DriverSpec_DeepCopyInto ty ext)))]"

definition OperatorConfigSpec_DeepCopy :: "(string \<Rightarrow> go_type) \<Rightarrow> (string \<Rightarrow> stmt) \<Rightarrow> loc option \<Rightarrow> mem \<Rightarrow> (loc option \<times> mem) option" where
  "OperatorConfigSpec_DeepCopy ty ext = deep_copy (OperatorConfigSpec_type ty) (OperatorConfigSpec_DeepCopyInto ty ext)"

lemma copies_OperatorConfigSpec [copy_rules]:
  "external_copies ty ext \<Longrightarrow> fills Q (OperatorConfigSpec_type ty) (OperatorConfigSpec_DeepCopyInto ty ext)"
  unfolding OperatorConfigSpec_type_def OperatorConfigSpec_DeepCopyInto_def
  by (rule fills_struct; (rule copy_rules | (rule fills_external, assumption) | simp)+)

definition OperatorConfigStatus_type :: go_type where
  "OperatorConfigStatus_type = TStruct []"

definition OperatorConfigStatus_DeepCopyInto :: stmt where
  "OperatorConfigStatus_DeepCopyInto = copy_fields []"

definition OperatorConfigStatus_DeepCopy :: "loc option \<Rightarrow> mem \<Rightarrow> (loc option \<times> mem) option" where
  "OperatorConfigStatus_DeepCopy = deep_copy OperatorConfigStatus_type OperatorConfigStatus_DeepCopyInto"

lemma flat_OperatorConfigStatus [simp]: "flat OperatorConfigStatus_type"
  by (simp add: OperatorConfigStatus_type_def)

lemma copies_OperatorConfigStatus [copy_rules]:
  "fills Q OperatorConfigStatus_type OperatorConfigStatus_DeepCopyInto"
  unfolding OperatorConfigStatus_type_def OperatorConfigStatus_DeepCopyInto_def
  by (rule fills_struct) (auto intro: covers_nil)

definition OperatorConfig_type :: "(string \<Rightarrow> go_type) \<Rightarrow> go_type" where
  "OperatorConfig_type ty = TStruct [
     (''TypeMeta'', TypeMeta_type),
     (''ObjectMeta'', ty ''ObjectMeta''),
     (''Spec'', OperatorConfigSpec_type ty),
     (''Status'', OperatorConfigStatus_type)]"

definition OperatorConfig_DeepCopyInto :: "(string \<Rightarrow> go_type) \<Rightarrow> (string \<Rightarrow> stmt) \<Rightarrow> stmt" where
  "OperatorConfig_DeepCopyInto ty ext = copy_fields [
     (''TypeMeta'', assign),
     (''ObjectMeta'', ext ''ObjectMeta''),
     (''Spec'', OperatorConfigSpec_DeepCopyInto ty ext),
     (''Status'', assign)]"

definition OperatorConfig_DeepCopy :: "(string \<Rightarrow> go_type) \<Rightarrow> (string \<Rightarrow> stmt) \<Rightarrow> loc option \<Rightarrow> mem \<Rightarrow> (loc option \<times> mem) option" where
  "OperatorConfig_DeepCopy ty ext = deep_copy (OperatorConfig_type ty) (OperatorConfig_DeepCopyInto ty ext)"

definition OperatorConfig_DeepCopyObject :: "(string \<Rightarrow> go_type) \<Rightarrow> (string \<Rightarrow> stmt) \<Rightarrow> loc option \<Rightarrow> mem \<Rightarrow> (iface \<times> mem) option" where
  "OperatorConfig_DeepCopyObject ty ext = deep_copy_object ''OperatorConfig'' (OperatorConfig_DeepCopy ty ext)"

lemma copies_OperatorConfig [copy_rules]:
  "external_copies ty ext \<Longrightarrow> fills Q (OperatorConfig_type ty) (OperatorConfig_DeepCopyInto ty ext)"
  unfolding OperatorConfig_type_def OperatorConfig_DeepCopyInto_def
  by (rule fills_struct; (rule copy_rules | (rule fills_external, assumption) | simp)+)

definition OperatorConfigList_type :: "(string \<Rightarrow> go_type) \<Rightarrow> go_type" where
  "OperatorConfigList_type ty = TStruct [
     (''TypeMeta'', TypeMeta_type),
     (''ListMeta'', ty ''ListMeta''),
     (''Items'', TSlice (OperatorConfig_type ty))]"

definition OperatorConfigList_DeepCopyInto :: "(string \<Rightarrow> go_type) \<Rightarrow> (string \<Rightarrow> stmt) \<Rightarrow> stmt" where
  "OperatorConfigList_DeepCopyInto ty ext = copy_fields [
     (''TypeMeta'', assign),
     (''ListMeta'', ext ''ListMeta''),
     (''Items'', if_set (each (OperatorConfig_type ty) (OperatorConfig_DeepCopyInto ty ext)))]"

definition OperatorConfigList_DeepCopy :: "(string \<Rightarrow> go_type) \<Rightarrow> (string \<Rightarrow> stmt) \<Rightarrow> loc option \<Rightarrow> mem \<Rightarrow> (loc option \<times> mem) option" where
  "OperatorConfigList_DeepCopy ty ext = deep_copy (OperatorConfigList_type ty) (OperatorConfigList_DeepCopyInto ty ext)"

definition OperatorConfigList_DeepCopyObject :: "(string \<Rightarrow> go_type) \<Rightarrow> (string \<Rightarrow> stmt) \<Rightarrow> loc option \<Rightarrow> mem \<Rightarrow> (iface \<times> mem) option" where
  "OperatorConfigList_DeepCopyObject ty ext = deep_copy_object ''OperatorConfigList'' (OperatorConfigList_DeepCopy ty ext)"

lemma copies_OperatorConfigList [copy_rules]:
  "external_copies ty ext \<Longrightarrow> fills Q (OperatorConfigList_type ty) (OperatorConfigList_DeepCopyInto ty ext)"
  unfolding OperatorConfigList_type_def OperatorConfigList_DeepCopyInto_def
  by (rule fills_struct; (rule copy_rules | (rule fills_external, assumption) | simp)+)

section \<open>All of them\<close>

definition deep_copies ::
    "(string \<Rightarrow> go_type) \<Rightarrow> (string \<Rightarrow> stmt) \<Rightarrow>
     (go_type \<times> (loc option \<Rightarrow> mem \<Rightarrow> (loc option \<times> mem) option)) list" where
  "deep_copies ty ext = [
     (ReadAffinitySpec_type, ReadAffinitySpec_DeepCopy),
     (CephConnectionSpec_type, CephConnectionSpec_DeepCopy),
     (CephConnectionStatus_type, CephConnectionStatus_DeepCopy),
     (CephConnection_type ty, CephConnection_DeepCopy ty ext),
     (CephConnectionList_type ty, CephConnectionList_DeepCopy ty ext),
     (CephCsiSecretsSpec_type, CephCsiSecretsSpec_DeepCopy),
     (CephFsConfigSpec_type, CephFsConfigSpec_DeepCopy),
     (RbdConfigSpec_type, RbdConfigSpec_DeepCopy),
     (NfsConfigSpec_type, NfsConfigSpec_DeepCopy),
     (NvmeofConfigSpec_type, NvmeofConfigSpec_DeepCopy),
     (ClientProfileSpec_type, ClientProfileSpec_DeepCopy),
     (ClientProfileStatus_type, ClientProfileStatus_DeepCopy),
     (ClientProfile_type ty, ClientProfile_DeepCopy ty ext),
     (ClientProfileList_type ty, ClientProfileList_DeepCopy ty ext),
     (MappingsSpec_type, MappingsSpec_DeepCopy),
     (ClientProfileMappingSpec_type, ClientProfileMappingSpec_DeepCopy),
     (ClientProfileMappingStatus_type, ClientProfileMappingStatus_DeepCopy),
     (ClientProfileMapping_type ty, ClientProfileMapping_DeepCopy ty ext),
     (ClientProfileMappingList_type ty, ClientProfileMappingList_DeepCopy ty ext),
     (PoolMappingSpec_type, PoolMappingSpec_DeepCopy),
     (RBDReplicationSpec_type, RBDReplicationSpec_DeepCopy),
     (ClientProfileReplicationSpec_type, ClientProfileReplicationSpec_DeepCopy),
     (ClientProfileReplicationStatus_type, ClientProfileReplicationStatus_DeepCopy),
     (ClientProfileReplication_type ty, ClientProfileReplication_DeepCopy ty ext),
     (ClientProfileReplicationList_type ty, ClientProfileReplicationList_DeepCopy ty ext),
     (LogRotationSpec_type ty, LogRotationSpec_DeepCopy ty ext),
     (LogSpec_type ty, LogSpec_DeepCopy ty ext),
     (EncryptionSpec_type, EncryptionSpec_DeepCopy),
     (VolumeSpec_type ty, VolumeSpec_DeepCopy ty ext),
     (PodCommonSpec_type ty, PodCommonSpec_DeepCopy ty ext),
     (NodePluginResourcesSpec_type ty, NodePluginResourcesSpec_DeepCopy ty ext),
     (TopologySpec_type, TopologySpec_DeepCopy),
     (NodePluginSpec_type ty, NodePluginSpec_DeepCopy ty ext),
     (ControllerPluginResourcesSpec_type ty, ControllerPluginResourcesSpec_DeepCopy ty ext),
     (ControllerPluginSpec_type ty, ControllerPluginSpec_DeepCopy ty ext),
     (LivenessSpec_type, LivenessSpec_DeepCopy),
     (LeaderElectionSpec_type, LeaderElectionSpec_DeepCopy),
     (DriverSpec_type ty, DriverSpec_DeepCopy ty ext),
     (DriverStatus_type, DriverStatus_DeepCopy),
     (Driver_type ty, Driver_DeepCopy ty ext),
     (DriverList_type ty, DriverList_DeepCopy ty ext),
     (OperatorLogSpec_type, OperatorLogSpec_DeepCopy),
     (OperatorConfigSpec_type ty, OperatorConfigSpec_DeepCopy ty ext),
     (OperatorConfigStatus_type, OperatorConfigStatus_DeepCopy),
     (OperatorConfig_type ty, OperatorConfig_DeepCopy ty ext),
     (OperatorConfigList_type ty, OperatorConfigList_DeepCopy ty ext)]"

definition deep_copy_objects ::
    "(string \<Rightarrow> go_type) \<Rightarrow> (string \<Rightarrow> stmt) \<Rightarrow>
     (string \<times> go_type \<times> (loc option \<Rightarrow> mem \<Rightarrow> (iface \<times> mem) option)) list" where
  "deep_copy_objects ty ext = [
     (''CephConnection'', CephConnection_type ty, CephConnection_DeepCopyObject ty ext),
     (''CephConnectionList'', CephConnectionList_type ty, CephConnectionList_DeepCopyObject ty ext),
     (''ClientProfile'', ClientProfile_type ty, ClientProfile_DeepCopyObject ty ext),
     (''ClientProfileList'', ClientProfileList_type ty, ClientProfileList_DeepCopyObject ty ext),
     (''ClientProfileMapping'', ClientProfileMapping_type ty, ClientProfileMapping_DeepCopyObject ty ext),
     (''ClientProfileMappingList'', ClientProfileMappingList_type ty, ClientProfileMappingList_DeepCopyObject ty ext),
     (''ClientProfileReplication'', ClientProfileReplication_type ty, ClientProfileReplication_DeepCopyObject ty ext),
     (''ClientProfileReplicationList'', ClientProfileReplicationList_type ty, ClientProfileReplicationList_DeepCopyObject ty ext),
     (''Driver'', Driver_type ty, Driver_DeepCopyObject ty ext),
     (''DriverList'', DriverList_type ty, DriverList_DeepCopyObject ty ext),
     (''OperatorConfig'', OperatorConfig_type ty, OperatorConfig_DeepCopyObject ty ext),
     (''OperatorConfigList'', OperatorConfigList_type ty, OperatorConfigList_DeepCopyObject ty ext)]"

definition shares_nothing :: "go_type \<Rightarrow> mem \<Rightarrow> loc \<Rightarrow> mem \<Rightarrow> loc \<Rightarrow> tree \<Rightarrow> bool" where
  "shares_nothing T m p m' q t \<longleftrightarrow>
     (\<forall>a<mem_top m. cell m' a = cell m a) \<and>
     tree_of (\<lambda>a. a < mem_top m) m' (TPtr T) (Ptr (Some p)) = Some (Pointee t) \<and>
     tree_of (\<lambda>a. mem_top m \<le> a \<and> a < mem_top m') m' (TPtr T) (Ptr (Some q)) = Some (Pointee t)"

lemmas copy_defs =
  ReadAffinitySpec_DeepCopy_def
  CephConnectionSpec_DeepCopy_def
  CephConnectionStatus_DeepCopy_def
  CephConnection_DeepCopy_def
  CephConnectionList_DeepCopy_def
  CephCsiSecretsSpec_DeepCopy_def
  CephFsConfigSpec_DeepCopy_def
  RbdConfigSpec_DeepCopy_def
  NfsConfigSpec_DeepCopy_def
  NvmeofConfigSpec_DeepCopy_def
  ClientProfileSpec_DeepCopy_def
  ClientProfileStatus_DeepCopy_def
  ClientProfile_DeepCopy_def
  ClientProfileList_DeepCopy_def
  MappingsSpec_DeepCopy_def
  ClientProfileMappingSpec_DeepCopy_def
  ClientProfileMappingStatus_DeepCopy_def
  ClientProfileMapping_DeepCopy_def
  ClientProfileMappingList_DeepCopy_def
  PoolMappingSpec_DeepCopy_def
  RBDReplicationSpec_DeepCopy_def
  ClientProfileReplicationSpec_DeepCopy_def
  ClientProfileReplicationStatus_DeepCopy_def
  ClientProfileReplication_DeepCopy_def
  ClientProfileReplicationList_DeepCopy_def
  LogRotationSpec_DeepCopy_def
  LogSpec_DeepCopy_def
  EncryptionSpec_DeepCopy_def
  VolumeSpec_DeepCopy_def
  PodCommonSpec_DeepCopy_def
  NodePluginResourcesSpec_DeepCopy_def
  TopologySpec_DeepCopy_def
  NodePluginSpec_DeepCopy_def
  ControllerPluginResourcesSpec_DeepCopy_def
  ControllerPluginSpec_DeepCopy_def
  LivenessSpec_DeepCopy_def
  LeaderElectionSpec_DeepCopy_def
  DriverSpec_DeepCopy_def
  DriverStatus_DeepCopy_def
  Driver_DeepCopy_def
  DriverList_DeepCopy_def
  OperatorLogSpec_DeepCopy_def
  OperatorConfigSpec_DeepCopy_def
  OperatorConfigStatus_DeepCopy_def
  OperatorConfig_DeepCopy_def
  OperatorConfigList_DeepCopy_def

lemma deep_copyI:
  "copy = deep_copy T into \<Longrightarrow> copies T into \<Longrightarrow> \<exists>into. copy = deep_copy T into \<and> copies T into"
  by blast

lemma deep_copies_sound:
  assumes "external_copies ty ext"
  shows "list_all (\<lambda>(T, copy). \<exists>into. copy = deep_copy T into \<and> copies T into) (deep_copies ty ext)"
  unfolding deep_copies_def list.pred_inject prod.case
  by (intro conjI list.pred_inject(1)) (rule deep_copyI, rule copy_defs, rule copy_rules, (rule assms)?)+

lemma deep_copy_shares_nothing:
  assumes "copies T into" "fst p < mem_top m"
    "tree_of (\<lambda>a. a < mem_top m) m (TPtr T) (Ptr (Some p)) = Some (Pointee t)"
  shows "\<exists>q m'. deep_copy T into (Some p) m = Some (Some q, m') \<and> shares_nothing T m p m' q t"
proof -
  from assms(3) obtain v where v: "load m p = Some v" "tree_of (\<lambda>a. a < mem_top m) m T v = Some t"
    by (auto split: if_splits Option.bind_splits)
  obtain q m' where q: "deep_copy T into (Some p) m = Some (Some q, m')" "mem_top m \<le> mem_top m'"
    "\<forall>a<mem_top m. cell m' a = cell m a"
    "tree_of (fresh m m') m' (TPtr T) (Ptr (Some q)) = Some (Pointee t)"
    by (rule deep_copy_ok [OF assms(1,2) v])
  have "tree_of (\<lambda>a. a < mem_top m) m' (TPtr T) (Ptr (Some p)) = Some (Pointee t)"
    using assms(3) by (rule tree_frame) (use q(3) in auto)
  with q show ?thesis by (auto simp: shares_nothing_def fresh_def [abs_def])
qed

section \<open>Properties\<close>

text \<open>
  C9. Every generated \<open>DeepCopy\<close> agrees with the declared type: on a receiver that points to a
  value of that type it does not panic, and the result points to a value of the type with the same
  contents all the way down, none of whose blocks existed before; the blocks that existed are as
  they were. On a nil receiver the result is nil.
\<close>

theorem deep_copies_faithful:
  assumes "external_copies ty ext" "(T, DeepCopy) \<in> set (deep_copies ty ext)"
    and "fst p < mem_top m" "tree_of (\<lambda>a. a < mem_top m) m (TPtr T) (Ptr (Some p)) = Some (Pointee t)"
  shows "DeepCopy None m = Some (None, m) \<and>
    (\<exists>q m'. DeepCopy (Some p) m = Some (Some q, m') \<and> shares_nothing T m p m' q t)"
proof -
  from deep_copies_sound [OF assms(1)] assms(2) obtain into where
    "DeepCopy = deep_copy T into" "copies T into" by (auto simp: list_all_iff)
  with deep_copy_shares_nothing [OF _ assms(3,4)] show ?thesis
    by (auto simp: deep_copy_nil)
qed

text \<open>An example: the cephFs part of a profile, with a map and a pointer.\<close>

definition example_memory :: mem where
  "example_memory = \<lparr>
     cell = [0 \<mapsto> Struct [(''SubVolumeGroup'', Str ''csi''), (''KernelMountOptions'', Map_ref (Some 1)),
                        (''FuseMountOptions'', Map_ref None), (''RadosNamespace'', Ptr (Some (2, []))),
                        (''CephCsiSecrets'', Ptr None)],
             1 \<mapsto> Dict [(''ms_mode'', Str ''secure'')],
             2 \<mapsto> Str ''ns''],
     mem_top = 3\<rparr>"

definition example_tree :: tree where
  "example_tree = Fields [(''SubVolumeGroup'', LStr ''csi''),
     (''KernelMountOptions'', Entries [(''ms_mode'', LStr ''secure'')]), (''FuseMountOptions'', Absent),
     (''RadosNamespace'', Pointee (LStr ''ns'')), (''CephCsiSecrets'', Absent)]"

lemma example_memory_tree:
  "tree_of (\<lambda>a. a < mem_top example_memory) example_memory (TPtr CephFsConfigSpec_type) (Ptr (Some (0, []))) =
   Some (Pointee example_tree)"
  by (simp add: example_memory_def example_tree_def load_def CephFsConfigSpec_type_def)

lemma example_external: "external_copies (\<lambda>n. TStr) (\<lambda>n. assign)"
  by (simp add: external_copies_def fills_assign)

theorem deep_copies_faithful_witness:
  "\<exists>q m'. CephFsConfigSpec_DeepCopy (Some (0, [])) example_memory = Some (Some q, m') \<and>
     shares_nothing CephFsConfigSpec_type example_memory (0, []) m' q example_tree"
  using deep_copies_faithful [OF example_external, of CephFsConfigSpec_type CephFsConfigSpec_DeepCopy
      "(0, [])" example_memory example_tree] example_memory_tree
  by (simp add: deep_copies_def example_memory_def)

lemma deep_copy_objectI:
  "f = deep_copy_object kind copy \<Longrightarrow> copy = deep_copy T into \<Longrightarrow> copies T into \<Longrightarrow>
   \<exists>into. f = deep_copy_object kind (deep_copy T into) \<and> copies T into"
  by blast

lemmas object_defs =
  CephConnection_DeepCopyObject_def
  CephConnectionList_DeepCopyObject_def
  ClientProfile_DeepCopyObject_def
  ClientProfileList_DeepCopyObject_def
  ClientProfileMapping_DeepCopyObject_def
  ClientProfileMappingList_DeepCopyObject_def
  ClientProfileReplication_DeepCopyObject_def
  ClientProfileReplicationList_DeepCopyObject_def
  Driver_DeepCopyObject_def
  DriverList_DeepCopyObject_def
  OperatorConfig_DeepCopyObject_def
  OperatorConfigList_DeepCopyObject_def

lemma deep_copy_objects_sound:
  assumes "external_copies ty ext"
  shows "list_all (\<lambda>(kind, T, f). \<exists>into. f = deep_copy_object kind (deep_copy T into) \<and> copies T into)
    (deep_copy_objects ty ext)"
  unfolding deep_copy_objects_def list.pred_inject prod.case
  by (intro conjI list.pred_inject(1))
     (rule deep_copy_objectI, rule object_defs, rule copy_defs, rule copy_rules, (rule assms)?)+

text \<open>
  C26. \<open>DeepCopyObject\<close> of the twelve kinds: a nil receiver gives the nil interface, not an interface
  that holds a nil pointer; any other receiver gives an object of its own kind that is a deep copy.
  So the cached object stays as it is whatever the holder of the copy writes through it.
\<close>

theorem deep_copy_object_separate:
  assumes "external_copies ty ext" "(kind, T, DeepCopyObject) \<in> set (deep_copy_objects ty ext)"
    and "fst p < mem_top m" "tree_of (\<lambda>a. a < mem_top m) m (TPtr T) (Ptr (Some p)) = Some (Pointee t)"
  shows "DeepCopyObject None m = Some (None, m) \<and>
    (\<exists>q m'. DeepCopyObject (Some p) m = Some (Some (kind, Some q), m') \<and> shares_nothing T m p m' q t \<and>
       (\<forall>m''. (\<forall>a. \<not> (mem_top m \<le> a \<and> a < mem_top m') \<longrightarrow> cell m'' a = cell m' a) \<longrightarrow>
          tree_of (\<lambda>a. a < mem_top m) m'' (TPtr T) (Ptr (Some p)) = Some (Pointee t)))"
proof -
  from deep_copy_objects_sound [OF assms(1)] assms(2) obtain into where
    f: "DeepCopyObject = deep_copy_object kind (deep_copy T into)" and "copies T into"
    by (auto simp: list_all_iff)
  then obtain q m' where q: "deep_copy T into (Some p) m = Some (Some q, m')" "shares_nothing T m p m' q t"
    using deep_copy_shares_nothing [OF _ assms(3,4)] by blast
  have "tree_of (\<lambda>a. a < mem_top m) m'' (TPtr T) (Ptr (Some p)) = Some (Pointee t)"
    if "\<forall>a. \<not> (mem_top m \<le> a \<and> a < mem_top m') \<longrightarrow> cell m'' a = cell m' a" for m''
  proof -
    from q(2) have "tree_of (\<lambda>a. a < mem_top m) m' (TPtr T) (Ptr (Some p)) = Some (Pointee t)"
      by (simp only: shares_nothing_def)
    then show ?thesis by (rule tree_frame) (use that in auto)
  qed
  with q show ?thesis unfolding f by (auto simp: deep_copy_object_def deep_copy_nil)
qed

definition example_profile :: mem where
  "example_profile = \<lparr>
     cell = [0 \<mapsto> Struct [(''TypeMeta'', Struct [(''Kind'', Str ''ClientProfile''), (''APIVersion'', Str ''v1'')]),
                        (''ObjectMeta'', Str ''meta''),
                        (''Spec'', Struct [(''CephConnectionRef'', Struct [(''Name'', Str ''conn'')]),
                           (''CephFs'', Ptr None), (''Rbd'', Ptr (Some (1, []))), (''Nfs'', Ptr None),
                           (''Nvmeof'', Ptr None)]),
                        (''Status'', Struct [(''Phase'', Str ''Ready''), (''Message'', Str [])])],
             1 \<mapsto> Struct [(''RadosNamespace'', Str ''ns''), (''CephCsiSecrets'', Ptr None)]],
     mem_top = 2\<rparr>"

definition example_profile_tree :: tree where
  "example_profile_tree = Fields [
     (''TypeMeta'', Fields [(''Kind'', LStr ''ClientProfile''), (''APIVersion'', LStr ''v1'')]),
     (''ObjectMeta'', LStr ''meta''),
     (''Spec'', Fields [(''CephConnectionRef'', Fields [(''Name'', LStr ''conn'')]), (''CephFs'', Absent),
        (''Rbd'', Pointee (Fields [(''RadosNamespace'', LStr ''ns''), (''CephCsiSecrets'', Absent)])),
        (''Nfs'', Absent), (''Nvmeof'', Absent)]),
     (''Status'', Fields [(''Phase'', LStr ''Ready''), (''Message'', LStr [])])]"

lemma example_profile_reads:
  "tree_of (\<lambda>a. a < mem_top example_profile) example_profile (TPtr (ClientProfile_type (\<lambda>n. TStr)))
     (Ptr (Some (0, []))) = Some (Pointee example_profile_tree)"
  by (simp add: example_profile_def example_profile_tree_def load_def ClientProfile_type_def TypeMeta_type_def
      ClientProfileSpec_type_def LocalObjectReference_type_def ClientProfileStatus_type_def RbdConfigSpec_type_def)

theorem deep_copy_object_separate_witness:
  "\<exists>q m'. ClientProfile_DeepCopyObject (\<lambda>n. TStr) (\<lambda>n. assign) (Some (0, [])) example_profile =
       Some (Some (''ClientProfile'', Some q), m') \<and>
     shares_nothing (ClientProfile_type (\<lambda>n. TStr)) example_profile (0, []) m' q example_profile_tree"
  using deep_copy_object_separate [OF example_external, of "''ClientProfile''"
      "ClientProfile_type (\<lambda>n. TStr)" "ClientProfile_DeepCopyObject (\<lambda>n. TStr) (\<lambda>n. assign)"
      "(0, [])" example_profile example_profile_tree] example_profile_reads
  by (auto simp: deep_copy_objects_def example_profile_def)

end
