(* ===== verification/Rely_Guarantee.thy ===== *)
theory Rely_Guarantee
  imports Local_Views
begin

text \<open>
  Rely and guarantee for programs that issue API requests, and the system they run in.

  \<open>abides R G Q p w\<close>: started in the world \<open>w\<close>, with steps of others in \<open>R\<close> between its requests,
  every request of \<open>p\<close> changes the world within \<open>G\<close>, and if it returns \<open>a\<close> then \<open>Q w' a\<close> holds from
  then on. The rules follow the way programs are composed.

  The system is that of the manager: workers of several controllers that run programs for the
  requests of their queues. Any job can be started at any time, any number of programs can be under way
  at once, the scheduler picks whose request is next, and other clients act in between
  (\<open>env\<close>). \<open>system_guarantee\<close> lifts what the single programs guarantee to the whole system.
\<close>

section \<open>One program among others\<close>

type_synonym 'w change = "'w \<Rightarrow> 'w \<Rightarrow> bool"

primrec abides :: "'w change \<Rightarrow> 'w change \<Rightarrow> ('w \<Rightarrow> 'a \<Rightarrow> bool) \<Rightarrow> ('w, 'a) m \<Rightarrow> 'w \<Rightarrow> bool" where
  "abides R G Q (Ret a) = (\<lambda>w. \<forall>w'. R w w' \<longrightarrow> Q w' a)"
| "abides R G Q (Act f) =
     (\<lambda>w. \<forall>w'. R w w' \<longrightarrow> (\<lambda>p. G w' (snd p) \<and> fst p (snd p)) (map_prod (abides R G Q) id (f w')))"

lemma abides_Act [simp]:
  "abides R G Q (Act f) w \<longleftrightarrow>
     (\<forall>w'. R w w' \<longrightarrow> G w' (snd (f w')) \<and> abides R G Q (fst (f w')) (snd (f w')))"
  by (simp add: split_beta)

declare abides.simps(2) [simp del]

lemma abides_call:
  "abides R G Q (call f) w \<longleftrightarrow>
     (\<forall>w'. R w w' \<longrightarrow> G w' (snd (f w')) \<and> (\<forall>w''. R (snd (f w')) w'' \<longrightarrow> Q w'' (fst (f w'))))"
  by (simp add: call_def)

lemma abides_mono:
  "abides R G Q p w \<Longrightarrow> (\<And>w a. Q w a \<Longrightarrow> Q' w a) \<Longrightarrow> (\<And>w w'. G w w' \<Longrightarrow> G' w w') \<Longrightarrow>
   abides R G' Q' p w"
  by (induction p arbitrary: w) auto

lemma abides_env: "transp R \<Longrightarrow> abides R G Q p w \<Longrightarrow> R w w' \<Longrightarrow> abides R G Q p w'"
  by (cases p) (auto elim: transpE)

lemma abides_bind:
  assumes "reflp R"
  shows "abides R G S p w \<Longrightarrow> (\<And>a w'. S w' a \<Longrightarrow> abides R G Q (k a) w') \<Longrightarrow>
    abides R G Q (bind_m p k) w"
proof (induction p arbitrary: w)
  case (Ret a)
  then show ?case using reflpD [OF assms, of w] by simp
next
  case (Act f)
  then show ?case by (simp add: split_beta)
qed

lemma abides_Ret: "(\<And>w'. Q w' a) \<Longrightarrow> abides R G Q (Ret a) w"
  by simp

text \<open>
  Worlds are confined to an invariant \<open>I\<close>. What \<open>R\<close>, \<open>G\<close> and \<open>I\<close> must satisfy for programs to be put
  together, and the rule for sequencing.
\<close>

definition relies :: "'w change \<Rightarrow> 'w change \<Rightarrow> ('w \<Rightarrow> bool) \<Rightarrow> bool" where
  "relies R G I \<longleftrightarrow> reflp R \<and> transp R \<and>
     (\<forall>w w'. I w \<longrightarrow> R w w' \<longrightarrow> I w') \<and> (\<forall>w w'. I w \<longrightarrow> G w w' \<longrightarrow> I w')"

lemma reliesD:
  assumes "relies R G I"
  shows "reflp R" "transp R" "I w \<Longrightarrow> R w w' \<Longrightarrow> I w'" "I w \<Longrightarrow> G w w' \<Longrightarrow> I w'"
proof -
  note c = assms [unfolded relies_def]
  show "reflp R" "transp R" using c by iprover+
  show "I w \<Longrightarrow> R w w' \<Longrightarrow> I w'"
    by (rule c [THEN conjunct2, THEN conjunct2, THEN conjunct1, rule_format])
  show "I w \<Longrightarrow> G w w' \<Longrightarrow> I w'"
    by (rule c [THEN conjunct2, THEN conjunct2, THEN conjunct2, rule_format])
qed

lemma abides_confined:
  assumes "relies R G I"
  shows "I w \<Longrightarrow> abides R G Q p w \<Longrightarrow> abides R G (\<lambda>w' a. I w' \<and> Q w' a) p w"
proof (induction p arbitrary: w)
  case (Ret a)
  with reliesD(3) [OF assms] show ?case by simp
next
  case (Act f)
  have "G w' (snd (f w')) \<and> abides R G (\<lambda>w' a. I w' \<and> Q w' a) (fst (f w')) (snd (f w'))" if "R w w'" for w'
  proof -
    from Act.prems(2) that have g: "G w' (snd (f w'))" "abides R G Q (fst (f w')) (snd (f w'))" by auto
    with reliesD(4) [OF assms reliesD(3) [OF assms Act.prems(1) that]] have "I (snd (f w'))" by simp
    with g Act.IH show ?thesis by simp
  qed
  then show ?case by simp
qed

lemma abides_seq:
  assumes "relies R G I" "I w" "abides R G S p w" "\<And>a w'. I w' \<Longrightarrow> S w' a \<Longrightarrow> abides R G Q (k a) w'"
  shows "abides R G Q (bind_m p k) w"
  by (rule abides_bind [OF reliesD(1) [OF assms(1)] abides_confined [OF assms(1-3)]]) (simp add: assms(4))

text \<open>Programs all of whose requests are within \<open>G\<close>, wherever they are issued.\<close>

definition within :: "'w change \<Rightarrow> ('w, 'a) m \<Rightarrow> bool" where
  "within G p \<longleftrightarrow> (\<forall>w. abides (\<lambda>_ _. True) G (\<lambda>_ _. True) p w)"

lemma within_Ret [simp]: "within G (Ret a)"
  by (simp add: within_def)

lemma within_Act: "within (G :: 'w change) (Act f) \<longleftrightarrow> (\<forall>w. G w (snd (f w)) \<and> within G (fst (f w)))"
proof -
  have "abides (\<lambda>_ _. True) G (\<lambda>_ _. True) p w \<longleftrightarrow> within G p" for p :: "('w, 'b) m" and w
    by (cases p) (simp_all add: within_def)
  note eq = this
  show ?thesis unfolding within_def [of G "Act f"] by (auto simp: eq)
qed

lemma within_call [simp]: "within G (call f) \<longleftrightarrow> (\<forall>w. G w (snd (f w)))"
  by (simp add: call_def within_Act split_beta)

lemma within_mono: "within G p \<Longrightarrow> (\<And>w w'. G w w' \<Longrightarrow> G' w w') \<Longrightarrow> within G' p"
  unfolding within_def by (blast intro: abides_mono)

lemma within_bind_yields: "within G p \<Longrightarrow> (\<And>a. yields p a \<Longrightarrow> within G (k a)) \<Longrightarrow> within G (bind_m p k)"
proof (induction p)
  case (Act f)
  have "within G (bind_m (fst (f w)) k)" for w
    using Act.IH [of w] Act.prems yields.intros(2) [of f w "fst (f w)" "snd (f w)"]
    by (auto simp: within_Act)
  with Act.prems(1) show ?case by (simp add: within_Act split_beta)
qed auto

text \<open>Framing is staying within equality of what is read.\<close>

lemma frames_within: "frames V p \<longleftrightarrow> within (\<lambda>w w'. V w' = V w) p"
  by (induction p) (auto simp: frames_Act within_Act)

lemma within_bind: "within G p \<Longrightarrow> (\<And>a. within G (k a)) \<Longrightarrow> within G (bind_m p k)"
  by (rule within_bind_yields)

lemma within_abides: "within G p \<Longrightarrow> abides R G (\<lambda>_ a. yields p a) p w"
proof (induction p arbitrary: w)
  case (Act f)
  have "abides R G (\<lambda>_ a. yields (Act f) a) (fst (f w')) (snd (f w'))" for w'
    by (rule abides_mono [OF Act.IH])
      (use Act.prems yields.intros(2) [OF surjective_pairing] in \<open>auto simp: within_Act\<close>)
  with Act.prems show ?case by (simp add: within_Act)
qed simp

text \<open>A complete execution of a program, with steps of others in \<open>R\<close> between its requests.\<close>

inductive interleaved :: "'w change \<Rightarrow> ('w, 'a) m \<Rightarrow> 'w \<Rightarrow> 'a \<Rightarrow> 'w \<Rightarrow> bool" for R where
  return: "R w w' \<Longrightarrow> interleaved R (Ret a) w a w'"
| request: "R w w1 \<Longrightarrow> f w1 = (p, w2) \<Longrightarrow> interleaved R p w2 a w' \<Longrightarrow> interleaved R (Act f) w a w'"

lemma abides_interleaved: "interleaved R p w a w' \<Longrightarrow> abides R G Q p w \<Longrightarrow> Q w' a"
  by (induction rule: interleaved.induct) force+

lemma interleaved_alone:
  assumes "reflp R"
  shows "run_m p w = (a, w') \<Longrightarrow> interleaved R p w a w'"
proof (induction p arbitrary: w)
  case (Ret a)
  then show ?case using assms by (auto intro: interleaved.return dest: reflpD)
next
  case (Act f)
  obtain q w1 where f: "f w = (q, w1)" by fastforce
  have "interleaved R (fst (f w)) w1 a w'" by (rule Act.IH) (use Act.prems f in simp)
  with f show ?case using interleaved.request [of R w w f q w1 a w'] reflpD [OF assms] by simp
qed

section \<open>The system\<close>

record ('j, 'w, 'a) sys =
  under_way :: "('j \<times> ('w, 'a) m) list"
  state :: 'w

inductive sys_step ::
    "('j \<Rightarrow> ('w, 'a) m set) \<Rightarrow> 'w change \<Rightarrow> 'j option \<Rightarrow> ('j, 'w, 'a) sys \<Rightarrow> ('j, 'w, 'a) sys \<Rightarrow> bool"
  for progs env where
  start:
    "p \<in> progs j \<Longrightarrow> sys_step progs env None s (s\<lparr>under_way := under_way s @ [(j, p)]\<rparr>)"
| request:
    "i < length (under_way s) \<Longrightarrow> under_way s ! i = (j, Act f) \<Longrightarrow> f (state s) = (p, w') \<Longrightarrow>
     sys_step progs env (Some j) s (s\<lparr>under_way := (under_way s)[i := (j, p)], state := w'\<rparr>)"
| other:
    "env (state s) w' \<Longrightarrow> sys_step progs env None s (s\<lparr>state := w'\<rparr>)"

inductive sys_reachable ::
    "('j \<Rightarrow> ('w, 'a) m set) \<Rightarrow> 'w change \<Rightarrow> 'w \<Rightarrow> ('j, 'w, 'a) sys \<Rightarrow> bool"
  for progs env w where
  initial: "sys_reachable progs env w \<lparr>under_way = [], state = w\<rparr>"
| step: "sys_reachable progs env w s \<Longrightarrow> sys_step progs env j s t \<Longrightarrow> sys_reachable progs env w t"

inductive_cases sys_stepE: "sys_step progs env j s t"

text \<open>
  Each job has a guarantee of its own; all of them, and the steps of other clients, are steps the
  programs are prepared for.
\<close>

definition well_behaved ::
    "'w change \<Rightarrow> ('j \<Rightarrow> 'w change) \<Rightarrow> ('w \<Rightarrow> bool) \<Rightarrow> ('j \<Rightarrow> ('w, 'a) m set) \<Rightarrow> 'w change \<Rightarrow> bool" where
  "well_behaved R G I progs env \<longleftrightarrow>
     (\<forall>j. relies R (G j) I) \<and> (\<forall>j w w'. G j w w' \<longrightarrow> R w w') \<and> (\<forall>w w'. env w w' \<longrightarrow> R w w') \<and>
     (\<forall>j. \<forall>p \<in> progs j. \<forall>w. I w \<longrightarrow> abides R (G j) (\<lambda>_ _. True) p w)"

definition in_order :: "'w change \<Rightarrow> ('j \<Rightarrow> 'w change) \<Rightarrow> ('w \<Rightarrow> bool) \<Rightarrow> ('j, 'w, 'a) sys \<Rightarrow> bool" where
  "in_order R G I s \<longleftrightarrow>
     I (state s) \<and> (\<forall>(j, p) \<in> set (under_way s). abides R (G j) (\<lambda>_ _. True) p (state s))"

lemma well_behavedD:
  assumes "well_behaved R G I progs env"
  shows "R w w" "transp R" "env w w' \<Longrightarrow> R w w'" "G j w w' \<Longrightarrow> R w w'" "I w \<Longrightarrow> R w w' \<Longrightarrow> I w'"
    "p \<in> progs j \<Longrightarrow> I w \<Longrightarrow> abides R (G j) (\<lambda>_ _. True) p w"
proof -
  have r: "relies R (G i) I" for i using assms unfolding well_behaved_def by iprover
  show "R w w" "transp R" using reliesD(1,2) [OF r] by (simp_all add: reflpD)
  show "I w \<Longrightarrow> R w w' \<Longrightarrow> I w'" by (rule reliesD(3) [OF r])
  note c = assms [unfolded well_behaved_def, THEN conjunct2]
  show "G j w w' \<Longrightarrow> R w w'" by (rule c [THEN conjunct1, rule_format])
  show "env w w' \<Longrightarrow> R w w'" by (rule c [THEN conjunct2, THEN conjunct1, rule_format])
  show "p \<in> progs j \<Longrightarrow> I w \<Longrightarrow> abides R (G j) (\<lambda>_ _. True) p w"
    by (rule c [THEN conjunct2, THEN conjunct2, rule_format])
qed

lemma sys_step_abides:
  assumes wb: "well_behaved R G I progs env" and "sys_step progs env j s t" and ord: "in_order R G I s"
  shows "in_order R G I t \<and> R (state s) (state t) \<and> (\<forall>i. j = Some i \<longrightarrow> G i (state s) (state t))"
  using assms(2)
proof (cases rule: sys_step.cases)
  case (start p i)
  with well_behavedD(1,6) [OF wb] ord show ?thesis by (auto simp: in_order_def)
next
  case (request i k f p w')
  then have "abides R (G k) (\<lambda>_ _. True) (Act f) (state s)"
    using ord nth_mem [OF request(3)] by (fastforce simp: in_order_def)
  with well_behavedD(1) [OF wb] request(5) have *: "G k (state s) w'" "abides R (G k) (\<lambda>_ _. True) p w'"
    unfolding abides_Act by (metis fst_conv snd_conv)+
  then have R: "R (state s) w'" using well_behavedD(4) [OF wb] by blast
  have "abides R (G k') (\<lambda>_ _. True) q w'" if "(k', q) \<in> set (under_way s)" for k' q
    using that ord R by (auto simp: in_order_def intro: abides_env [OF well_behavedD(2) [OF wb]])
  moreover have "I w'" using ord R well_behavedD(5) [OF wb] by (auto simp: in_order_def)
  ultimately show ?thesis
    using * R request by (auto simp: in_order_def dest!: set_update_subset_insert [THEN subsetD])
next
  case (other w')
  then have R: "R (state s) w'" using well_behavedD(3) [OF wb] by blast
  then have "I w'" using ord well_behavedD(5) [OF wb] by (auto simp: in_order_def)
  with R other ord show ?thesis
    by (auto simp: in_order_def intro: abides_env [OF well_behavedD(2) [OF wb]])
qed

lemma sys_reachable_abides:
  assumes "sys_reachable progs env w s" "well_behaved R G I progs env" "I w"
  shows "in_order R G I s"
  using assms(1)
proof (induction rule: sys_reachable.induct)
  case initial
  then show ?case using assms(3) by (simp add: in_order_def)
next
  case (step s j t)
  with sys_step_abides [OF assms(2) step(2)] show ?case by blast
qed

lemma system_guarantee:
  assumes "well_behaved R G I progs env" "I w" "sys_reachable progs env w s" "sys_step progs env j s t"
  shows "I (state s)" "R (state s) (state t)" "j = Some i \<Longrightarrow> G i (state s) (state t)"
  using sys_step_abides [OF assms(1,4)] sys_reachable_abides [OF assms(3,1,2)] by (auto simp: in_order_def)

text \<open>An invariant that every guarantee and every other client preserves holds in every reachable state.\<close>

lemma system_invariant:
  assumes wb: "well_behaved R G I progs env" "I w" and "sys_reachable progs env w s" and "J w"
    and "\<And>j w w'. I w \<Longrightarrow> J w \<Longrightarrow> G j w w' \<Longrightarrow> J w'" "\<And>w w'. I w \<Longrightarrow> J w \<Longrightarrow> env w w' \<Longrightarrow> J w'"
  shows "J (state s)"
  using assms(3)
proof (induction rule: sys_reachable.induct)
  case initial
  then show ?case using assms(4) by simp
next
  case (step s j t)
  note I = system_guarantee(1,3) [OF wb step(1,2)]
  show ?case
  proof (cases j)
    case (Some i)
    with I step(3) assms(5) show ?thesis by blast
  next
    case None
    with step(2) show ?thesis
      by (cases rule: sys_step.cases) (use step(3) assms(6) I(1) in auto)
  qed
qed

text \<open>A stretch of an execution, with the jobs that issued its requests.\<close>

inductive sys_run ::
    "('j \<Rightarrow> ('w, 'a) m set) \<Rightarrow> 'w change \<Rightarrow> ('j, 'w, 'a) sys \<Rightarrow> 'j option list \<Rightarrow> ('j, 'w, 'a) sys \<Rightarrow> bool"
  for progs env s where
  none: "sys_run progs env s [] s"
| more: "sys_run progs env s js t \<Longrightarrow> sys_step progs env j t u \<Longrightarrow> sys_run progs env s (js @ [j]) u"

lemma sys_run_reachable: "sys_run progs env s js t \<Longrightarrow> sys_reachable progs env w s \<Longrightarrow> sys_reachable progs env w t"
  by (induction rule: sys_run.induct) (auto intro: sys_reachable.step)

lemma sys_run_trans: "sys_run progs env t ks u \<Longrightarrow> sys_run progs env s js t \<Longrightarrow> sys_run progs env s (js @ ks) u"
proof (induction rule: sys_run.induct)
  case (more ks u k v)
  then show ?case using sys_run.more [of progs env s "js @ ks" u k v] by simp
qed simp

text \<open>A value that only the jobs in \<open>J\<close> change.\<close>

lemma sys_run_keeps:
  assumes wb: "well_behaved R G I progs env" "I w" and "sys_run progs env s js t" "sys_reachable progs env w s"
    and G: "\<And>i w w'. i \<notin> J \<Longrightarrow> P w \<Longrightarrow> G i w w' \<Longrightarrow> V w' = V w" and env: "\<And>w w'. env w w' \<Longrightarrow> V w' = V w"
    and P: "\<And>u. sys_reachable progs env w u \<Longrightarrow> P (state u)"
  shows "Some ` J \<inter> set js = {} \<Longrightarrow> V (state t) = V (state s)"
  using assms(3)
proof (induction rule: sys_run.induct)
  case (more js t j u)
  have reach: "sys_reachable progs env w t" using sys_run_reachable [OF more(1) assms(4)] .
  have "V (state u) = V (state t)"
  proof (cases j)
    case (Some i)
    with more.prems system_guarantee(3) [OF wb reach more(2)] G P [OF reach] show ?thesis by auto
  next
    case None
    from more(2) show ?thesis
      unfolding None by (cases rule: sys_step.cases) (auto simp: env)
  qed
  with more show ?case by simp
qed simp

text \<open>One program that runs alone.\<close>

lemma sys_run_alone:
  "under_way s = [(j, p)] \<Longrightarrow>
     \<exists>js. set js \<subseteq> {Some j} \<and>
       sys_run progs env s js (s\<lparr>under_way := [(j, Ret (fst (run_m p (state s))))], state := snd (run_m p (state s))\<rparr>)"
proof (induction p arbitrary: s)
  case (Ret a)
  then have "s\<lparr>under_way := [(j, Ret a)]\<rparr> = s" by (cases s) simp
  then show ?case by (auto intro!: exI [of _ "[]"] sys_run.none)
next
  case (Act f)
  obtain q w' where f: "f (state s) = (q, w')" by fastforce
  let ?t = "s\<lparr>under_way := [(j, q)], state := w'\<rparr>"
  have "sys_step progs env (Some j) s ?t" using sys_step.request [of 0 s j f q w' progs env] Act.prems f by simp
  then have 1: "sys_run progs env s [Some j] ?t" using sys_run.more [OF sys_run.none] by fastforce
  have "\<exists>js. set js \<subseteq> {Some j} \<and> sys_run progs env ?t js
      (?t\<lparr>under_way := [(j, Ret (fst (run_m (fst (f (state s))) (state ?t))))],
        state := snd (run_m (fst (f (state s))) (state ?t))\<rparr>)"
    by (rule Act.IH) (simp add: f)
  then obtain js where js: "set js \<subseteq> {Some j}" "sys_run progs env ?t js
      (?t\<lparr>under_way := [(j, Ret (fst (run_m q w')))], state := snd (run_m q w')\<rparr>)" using f by auto
  from sys_run_trans [OF js(2) 1] js(1) f show ?case
    by (auto intro!: exI [of _ "Some j # js"])
qed

lemma sys_run_changes:
  assumes "sys_run progs env s js t" "V (state s) \<noteq> V (state t)"
  shows "\<exists>j ks u v. sys_run progs env s ks u \<and> sys_step progs env j u v \<and> j \<in> set js \<and>
    V (state u) = V (state s) \<and> V (state v) \<noteq> V (state s)"
  using assms
proof (induction rule: sys_run.induct)
  case (more js t j u)
  show ?case
  proof (cases "V (state s) = V (state t)")
    case True
    with more show ?thesis by (intro exI [of _ j] exI [of _ js] exI [of _ t] exI [of _ u]) auto
  next
    case False
    from more.IH [OF False] show ?thesis by auto
  qed
qed simp

end
