(* ===== verification/Versioned_Api.thy ===== *)
theory Versioned_Api
  imports Rely_Guarantee Mem_Cluster
begin

text \<open>
  Optimistic concurrency: what the server's resource versions are good for.

  The locale \<open>versioned_api\<close> adds to \<open>kube_api\<close> that an update is refused unless the sender has seen the
  stored version, that a create is refused if there is an object, and that every write gets a version
  never used before. Its main lemma, \<open>abides_CreateOrUpdate\<close>, says that each request of a
  \<open>CreateOrUpdate\<close> leaves the object alone or applies the whole mutation to the object as it is stored at
  that moment, whatever others did since the read. The in-memory server has these laws.
\<close>

section \<open>Resource versions\<close>

definition consistent :: "('o \<Rightarrow> object_meta) \<Rightarrow> ('w \<Rightarrow> object_key \<Rightarrow> 'o option) \<Rightarrow> ('w \<Rightarrow> string set) \<Rightarrow> 'w \<Rightarrow> bool" where
  "consistent meta view used w \<longleftrightarrow>
     (\<forall>k obj. view w k = Some obj \<longrightarrow> om_ResourceVersion (meta obj) \<in> used w \<and> om_ResourceVersion (meta obj) \<noteq> [])"

text \<open>What is stored changes only to objects with new versions.\<close>

definition fresh_writes :: "('o \<Rightarrow> object_meta) \<Rightarrow> ('w \<Rightarrow> object_key \<Rightarrow> 'o option) \<Rightarrow> ('w \<Rightarrow> string set) \<Rightarrow> 'w change" where
  "fresh_writes meta view used w w' \<longleftrightarrow>
     used w \<subseteq> used w' \<and>
     (\<forall>k. view w' k = view w k \<or> view w' k = None \<or>
        (\<exists>obj. view w' k = Some obj \<and> om_ResourceVersion (meta obj) \<in> used w' - used w \<and>
           om_ResourceVersion (meta obj) \<noteq> []))"

text \<open>Requests that write nothing of the kind; versions may be used up by writes of other kinds.\<close>

definition no_writes :: "('w \<Rightarrow> object_key \<Rightarrow> 'o option) \<Rightarrow> ('w \<Rightarrow> string set) \<Rightarrow> 'w change" where
  "no_writes view used w w' \<longleftrightarrow> view w' = view w \<and> used w \<subseteq> used w'"

definition api_within :: "'w change \<Rightarrow> ('w, 'o) api \<Rightarrow> bool" where
  "api_within G api \<longleftrightarrow>
     (\<forall>k w. G w (snd (api_Get api k w))) \<and> (\<forall>opts w. G w (snd (api_List api opts w))) \<and>
     (\<forall>obj w. G w (snd (api_Create api obj w))) \<and> (\<forall>obj w. G w (snd (api_Update api obj w))) \<and>
     (\<forall>obj w. G w (snd (api_StatusUpdate api obj w))) \<and> (\<forall>obj w. G w (snd (api_Delete api obj w)))"

lemma api_withinD:
  assumes "api_within G api"
  shows "G w (snd (api_Get api k w))" "G w (snd (api_List api opts w))" "G w (snd (api_Create api obj w))"
    "G w (snd (api_Update api obj w))" "G w (snd (api_StatusUpdate api obj w))" "G w (snd (api_Delete api obj w))"
  using assms unfolding api_within_def by blast+

lemma no_writes_fresh: "no_writes view used w w' \<Longrightarrow> fresh_writes meta view used w w'"
  by (simp add: no_writes_def fresh_writes_def)

lemma reflp_fresh: "reflp (fresh_writes meta view used)"
  by (rule reflpI) (simp add: fresh_writes_def)

lemma transp_fresh: "transp (fresh_writes meta view used)"
proof (rule transpI)
  fix a b c assume ab: "fresh_writes meta view used a b" and bc: "fresh_writes meta view used b c"
  have "view c k = view a k \<or> view c k = None \<or>
      (\<exists>obj. view c k = Some obj \<and> om_ResourceVersion (meta obj) \<in> used c - used a \<and> om_ResourceVersion (meta obj) \<noteq> [])" for k
  proof -
    have k: "view c k = view b k \<or> view c k = None \<or> (\<exists>obj. view c k = Some obj \<and>
          om_ResourceVersion (meta obj) \<in> used c - used b \<and> om_ResourceVersion (meta obj) \<noteq> [])"
        "view b k = view a k \<or> view b k = None \<or> (\<exists>obj. view b k = Some obj \<and>
          om_ResourceVersion (meta obj) \<in> used b - used a \<and> om_ResourceVersion (meta obj) \<noteq> [])"
        "used a \<subseteq> used b" "used b \<subseteq> used c"
      using ab bc unfolding fresh_writes_def by blast+
    from k(1) show ?thesis
      by (elim disjE exE) (use k in auto)
  qed
  with ab bc show "fresh_writes meta view used a c" unfolding fresh_writes_def by blast
qed

lemma consistent_stable:
  assumes "consistent meta view used w" "fresh_writes meta view used w w'"
  shows "consistent meta view used w'"
  unfolding consistent_def
proof (intro allI impI)
  fix k obj assume "view w' k = Some obj"
  moreover have "view w' k = view w k \<or> view w' k = None \<or> (\<exists>obj. view w' k = Some obj \<and>
      om_ResourceVersion (meta obj) \<in> used w' - used w \<and> om_ResourceVersion (meta obj) \<noteq> [])" "used w \<subseteq> used w'"
    using assms(2) unfolding fresh_writes_def by blast+
  moreover have "view w k = Some obj \<longrightarrow> om_ResourceVersion (meta obj) \<in> used w \<and> om_ResourceVersion (meta obj) \<noteq> []"
    using assms(1) unfolding consistent_def by blast
  ultimately show "om_ResourceVersion (meta obj) \<in> used w' \<and> om_ResourceVersion (meta obj) \<noteq> []" by auto
qed

text \<open>
  One mutation, applied to what is stored (\<open>blank\<close> if nothing is). An object that is marked for deletion
  may go away with the update.
\<close>

definition mutated ::
    "('o \<Rightarrow> object_meta) \<Rightarrow> ('o \<Rightarrow> 'c) \<Rightarrow> ('o \<Rightarrow> 'o result) \<Rightarrow> 'o \<Rightarrow> 'o option \<Rightarrow> 'o option \<Rightarrow> bool" where
  "mutated meta content mut blank v v' \<longleftrightarrow>
     (\<exists>sent. mut (start_of v blank) = Inr sent \<and>
        (case v' of
           Some stored \<Rightarrow> content stored = content sent \<and>
             (om_DeletionTimestamp (meta (start_of v blank)) = None \<longrightarrow> om_DeletionTimestamp (meta stored) = None)
         | None \<Rightarrow> om_DeletionTimestamp (meta (start_of v blank)) \<noteq> None))"

text \<open>Programs whose requests are within a relation.\<close>

lemma within_mutate: "(\<And>obj. within G (f obj)) \<Longrightarrow> within G (mutate meta f key obj)"
  by (simp add: mutate_def within_bind)

lemma within_CreateOrUpdate:
  assumes "api_within G api" and "\<And>obj. within G (f obj)"
  shows "within G (CreateOrUpdate meta api obj f)"
  unfolding CreateOrUpdate_def Let_def using assms api_withinD [OF assms(1)]
  by (simp del: bind_call split: sum.split prod.split add: within_bind within_mutate)

lemma within_pure [simp]: "within G (pure_mut f obj)"
  by (simp add: pure_mut_def)

locale versioned_api = kube_api api meta view content
  for api :: "('w, 'o) api" and meta and view and content :: "'o \<Rightarrow> 'c" +
  fixes used :: "'w \<Rightarrow> string set"
  assumes writes: "api_within (fresh_writes meta view used) api"
    and create_absent:
      "api_Create api obj w = (Inr obj', w') \<Longrightarrow> view w (ObjectKeyFromObject (meta obj)) = None"
    and update_current:
      "api_Update api obj w = (Inr obj', w') \<Longrightarrow> om_ResourceVersion (meta obj) \<noteq> [] \<Longrightarrow>
         \<exists>old. view w (ObjectKeyFromObject (meta obj)) = Some old \<and>
           om_ResourceVersion (meta old) = om_ResourceVersion (meta obj)"
    and update_stored:
      "api_Update api obj w = (Inr obj', w') \<Longrightarrow>
         view w' (ObjectKeyFromObject (meta obj)) = Some obj' \<or>
         om_DeletionTimestamp (meta obj) \<noteq> None \<and> view w' (ObjectKeyFromObject (meta obj)) = None"
    and create_alive:
      "api_Create api obj w = (Inr obj', w') \<Longrightarrow> om_DeletionTimestamp (meta obj) = None \<Longrightarrow>
         om_DeletionTimestamp (meta obj') = None"
    and update_alive:
      "api_Update api obj w = (Inr obj', w') \<Longrightarrow> om_DeletionTimestamp (meta obj) = None \<Longrightarrow>
         om_DeletionTimestamp (meta obj') = None"
begin

abbreviation fresh :: "'w change" where
  "fresh \<equiv> fresh_writes meta view used"

text \<open>What a writer knows of the object it has read, for as long as it likes.\<close>

definition has_read :: "object_key \<Rightarrow> 'o \<Rightarrow> 'w \<Rightarrow> bool" where
  "has_read k ex w \<longleftrightarrow> om_ResourceVersion (meta ex) \<in> used w \<and> om_ResourceVersion (meta ex) \<noteq> [] \<and>
     (\<forall>obj. view w k = Some obj \<longrightarrow> om_ResourceVersion (meta obj) = om_ResourceVersion (meta ex) \<longrightarrow> obj = ex)"

lemma has_read_stable:
  assumes "has_read k ex w" "fresh w w'"
  shows "has_read k ex w'"
proof -
  have "view w' k = view w k \<or> view w' k = None \<or> (\<exists>obj. view w' k = Some obj \<and>
      om_ResourceVersion (meta obj) \<in> used w' - used w \<and> om_ResourceVersion (meta obj) \<noteq> [])" "used w \<subseteq> used w'"
    using assms(2) unfolding fresh_writes_def by blast+
  with assms(1) show ?thesis unfolding has_read_def by auto
qed

text \<open>The guarantee of an update of the object under \<open>k\<close> by one of the mutations \<open>muts\<close>.\<close>

definition updates :: "object_key \<Rightarrow> 'o \<Rightarrow> ('o \<Rightarrow> 'o result) set \<Rightarrow> 'w change" where
  "updates k blank muts w w' \<longleftrightarrow> fresh w w' \<and> (\<forall>k'. k' \<noteq> k \<longrightarrow> view w' k' = view w k') \<and>
     (view w' k = view w k \<or> (\<exists>mut \<in> muts. mutated meta content mut blank (view w k) (view w' k)))"

lemma no_writes_updates: "no_writes view used w w' \<Longrightarrow> updates k blank muts w w'"
  by (simp add: updates_def no_writes_fresh) (simp add: no_writes_def)

text \<open>
  In the following rules the others' steps \<open>R\<close> are among those with fresh versions, worlds are
  consistent and may be confined further (\<open>I\<close>).
\<close>

lemma relies_fresh:
  assumes "\<And>w w'. R w w' \<Longrightarrow> fresh w w'" "reflp R" "transp R" "\<And>w w'. G w w' \<Longrightarrow> fresh w w'"
  shows "relies R G (consistent meta view used)"
  unfolding relies_def using assms(2,3) by (auto intro: consistent_stable assms(1,4))

lemma abides_get:
  assumes R: "\<And>w w'. R w w' \<Longrightarrow> fresh w w'" and "consistent meta view used w"
    and S: "\<And>w ex. view w k = Some ex \<Longrightarrow> ObjectKeyFromObject (meta ex) = k \<Longrightarrow> I w \<Longrightarrow> S ex w"
      "\<And>ex w w'. S ex w \<Longrightarrow> R w w' \<Longrightarrow> S ex w'" "\<And>ex w w'. S ex w \<Longrightarrow> no_writes view used w w' \<Longrightarrow> S ex w'"
    and I: "I w" "\<And>w w'. I w \<Longrightarrow> R w w' \<Longrightarrow> I w'"
  shows "abides R (updates k blank muts)
    (\<lambda>w r. \<forall>ex. r = Inr ex \<longrightarrow> ObjectKeyFromObject (meta ex) = k \<and> has_read k ex w \<and> S ex w) (call (api_Get api k)) w"
  unfolding abides_call
proof (intro allI impI conjI)
  fix w1 assume r1: "R w w1"
  with assms(2) have c: "consistent meta view used w1" by (blast intro: consistent_stable R)
  have I1: "I w1" using I r1 by blast
  obtain r w2 where g: "api_Get api k w1 = (r, w2)" by fastforce
  have f: "fresh w1 w2" "view w2 = view w1" using api_withinD(1) [OF writes, of w1 k] get_frame [OF g] g by simp_all
  then have q: "no_writes view used w1 w2" by (simp add: no_writes_def fresh_writes_def)
  from f show "updates k blank muts w1 (snd (api_Get api k w1))" using g by (simp add: updates_def)
  fix w3 ex assume 3: "R (snd (api_Get api k w1)) w3" and r: "fst (api_Get api k w1) = Inr ex"
  with g get_found have ex: "view w1 k = Some ex" "ObjectKeyFromObject (meta ex) = k" by auto
  then have "has_read k ex w1" using c [unfolded consistent_def, rule_format, OF ex(1)] by (simp add: has_read_def)
  with f 3 g show "has_read k ex w3" by (auto intro: has_read_stable R)
  show "ObjectKeyFromObject (meta ex) = k" by (rule ex(2))
  show "S ex w3" using S(2) [OF S(3) [OF S(1) [OF ex I1] q]] 3 g by simp
qed

text \<open>\<open>S\<close> is what a write establishes.\<close>

lemma abides_create:
  assumes "mut obj = Inr sent" "ObjectKeyFromObject (meta sent) = k" "mut \<in> muts"
    and alive: "om_DeletionTimestamp (meta sent) = om_DeletionTimestamp (meta obj)"
    and S: "\<And>w w'. I w \<Longrightarrow> mutated meta content mut obj (view w k) (view w' k) \<Longrightarrow> S w'"
      "\<And>w w'. S w \<Longrightarrow> R w w' \<Longrightarrow> S w'"
    and I: "I w" "\<And>w w'. I w \<Longrightarrow> R w w' \<Longrightarrow> I w'"
  shows "abides R (updates k obj muts) (\<lambda>w r. \<forall>stored. r = Inr stored \<longrightarrow> S w) (call (api_Create api sent)) w"
  unfolding abides_call
proof (intro allI impI conjI)
  fix w1 assume "R w w1"
  with I have I1: "I w1" by blast
  obtain r w2 where c: "api_Create api sent w1 = (r, w2)" by fastforce
  have f: "fresh w1 w2" using api_withinD(3) [OF writes, of w1 sent] c by simp
  have m: "mutated meta content mut obj (view w1 k) (view w2 k)" "view w2 = (view w1)(k := view w2 k)" if "r = Inr stored" for stored
    using that create_ok [of sent w1 stored w2] create_absent [of sent w1 stored w2]
      create_alive [of sent w1 stored w2] c assms by (auto simp: mutated_def)
  show "updates k obj muts w1 (snd (api_Create api sent w1))"
  proof (cases r)
    case (Inl e)
    with c f create_fail show ?thesis by (simp add: updates_def)
  next
    case (Inr stored)
    have "view w2 k' = view w1 k'" if "k' \<noteq> k" for k' using fun_cong [OF m(2) [OF Inr], of k'] that by simp
    with m(1) [OF Inr] c f assms(3) show ?thesis by (auto simp: updates_def)
  qed
  fix w3 stored assume "R (snd (api_Create api sent w1)) w3" "fst (api_Create api sent w1) = Inr stored"
  with c S(1) [OF I1 m(1)] S(2) show "S w3" by simp
qed

lemma abides_update:
  assumes "mut ex = Inr sent" "ObjectKeyFromObject (meta ex) = k" "mut \<in> muts" "has_read k ex w"
    and sent: "ObjectKeyFromObject (meta sent) = k" "om_ResourceVersion (meta sent) = om_ResourceVersion (meta ex)"
      "om_DeletionTimestamp (meta sent) = om_DeletionTimestamp (meta ex)"
    and R: "\<And>w w'. R w w' \<Longrightarrow> fresh w w'"
    and S: "\<And>w w'. I w \<Longrightarrow> mutated meta content mut obj (view w k) (view w' k) \<Longrightarrow> S w'"
      "\<And>w w'. S w \<Longrightarrow> R w w' \<Longrightarrow> S w'"
    and I: "I w" "\<And>w w'. I w \<Longrightarrow> R w w' \<Longrightarrow> I w'"
  shows "abides R (updates k obj muts) (\<lambda>w r. \<forall>stored. r = Inr stored \<longrightarrow> S w) (call (api_Update api sent)) w"
  unfolding abides_call
proof (intro allI impI conjI)
  fix w1 assume r1: "R w w1"
  with assms(4) have read: "has_read k ex w1" by (blast intro: has_read_stable R)
  have I1: "I w1" using I r1 by blast
  obtain r w2 where u: "api_Update api sent w1 = (r, w2)" by fastforce
  have f: "fresh w1 w2" using api_withinD(4) [OF writes, of w1 sent] u by simp
  have m: "mutated meta content mut obj (view w1 k) (view w2 k)" if r: "r = Inr stored" for stored
  proof -
    have "view w1 k = Some ex"
      using update_current [of sent w1 stored w2] u r read sent by (auto simp: has_read_def)
    moreover have "content stored = content sent"
      using update_ok [of sent w1 stored w2] u r sent by auto
    moreover have "om_DeletionTimestamp (meta ex) = None \<longrightarrow> om_DeletionTimestamp (meta stored) = None"
      using update_alive [of sent w1 stored w2] u r sent by simp
    moreover have "view w2 k = Some stored \<or> om_DeletionTimestamp (meta ex) \<noteq> None \<and> view w2 k = None"
      using update_stored [of sent w1 stored w2] u r sent by simp
    ultimately show ?thesis using assms(1) by (auto simp: mutated_def simp del: split_paired_All)
  qed
  show "updates k obj muts w1 (snd (api_Update api sent w1))"
  proof (cases r)
    case (Inl e)
    with u f update_fail show ?thesis by (simp add: updates_def)
  next
    case (Inr stored)
    have "\<forall>k'. k' \<noteq> k \<longrightarrow> view w2 k' = view w1 k'" using update_ok [of sent w1 stored w2] u Inr sent by auto
    with m [OF Inr] u f assms(3) show ?thesis unfolding updates_def by auto
  qed
  fix w3 stored assume "R (snd (api_Update api sent w1)) w3" "fst (api_Update api sent w1) = Inr stored"
  with u S(1) [OF I1 m] S(2) show "S w3" by simp
qed

text \<open>
  Every request of a \<open>CreateOrUpdate\<close> leaves the object alone or applies the mutation to it. If it
  returns no error, it has done so, or found nothing to do; what that establishes (\<open>S\<close>) then holds.
\<close>

lemma abides_CreateOrUpdate:
  assumes mut: "\<And>o1 o2. mut o1 = Inr o2 \<Longrightarrow>
      ObjectKeyFromObject (meta o2) = ObjectKeyFromObject (meta o1) \<and>
      om_ResourceVersion (meta o2) = om_ResourceVersion (meta o1) \<and>
      om_DeletionTimestamp (meta o2) = om_DeletionTimestamp (meta o1)"
    and k: "ObjectKeyFromObject (meta obj) = k" and "mut \<in> muts"
    and R: "relies R (updates k obj muts) I" "\<And>w w'. R w w' \<Longrightarrow> fresh w w'"
    and I: "I w" "\<And>w. I w \<Longrightarrow> consistent meta view used w"
    and S: "\<And>w w'. I w \<Longrightarrow> mutated meta content mut obj (view w k) (view w' k) \<Longrightarrow> S w'"
      "\<And>w ex. I w \<Longrightarrow> view w k = Some ex \<Longrightarrow> mut ex = Inr ex \<Longrightarrow> S w"
      "\<And>w w'. S w \<Longrightarrow> R w w' \<Longrightarrow> S w'" "\<And>w w'. S w \<Longrightarrow> no_writes view used w w' \<Longrightarrow> S w'"
  shows "abides R (updates k obj muts) (\<lambda>w (res, err, obj'). err = None \<longrightarrow> S w) (CreateOrUpdate meta api obj (pure_mut mut)) w"
proof -
  have m: "mutate meta (pure_mut mut) k o1 = Ret (mut o1)" if "ObjectKeyFromObject (meta o1) = k" for o1
    using that mut [of o1] by (auto simp: mutate_def pure_mut_def Let_def split: sum.splits)
  note I_stable = reliesD(3) [OF R(1)]
  let ?S = "\<lambda>ex w. mut ex = Inr ex \<longrightarrow> S w"
  have get: "abides R (updates k obj muts)
      (\<lambda>w r. \<forall>ex. r = Inr ex \<longrightarrow> ObjectKeyFromObject (meta ex) = k \<and> has_read k ex w \<and> ?S ex w) (call (api_Get api k)) w"
    by (rule abides_get [where I = I, OF R(2) I(2) [OF I(1)] _ _ _ I(1) I_stable]) (use S in blast)+
  note finish = abides_seq [OF R(1), where S = "\<lambda>w r. \<forall>stored. r = Inr stored \<longrightarrow> S w"]
  show ?thesis
    unfolding CreateOrUpdate_def Let_def k
  proof (rule abides_seq [OF R(1) I(1) get], goal_cases)
    case (1 r w1)
    show ?case
    proof (cases r)
      case (Inl e)
      have "abides R (updates k obj muts) (\<lambda>w r. \<forall>stored. r = Inr stored \<longrightarrow> S w) (call (api_Create api sent)) w1"
        if "mut obj = Inr sent" for sent
        using mut [OF that] k
        by (intro abides_create [where I = I, OF that _ assms(3) _ S(1) S(3) 1(1) I_stable]) simp_all
      with 1(1) show ?thesis
        by (auto simp: Inl m [OF k] simp del: bind_call split: sum.split intro!: finish intro: S(3))
    next
      case (Inr ex)
      with 1(2) have ex: "ObjectKeyFromObject (meta ex) = k" "has_read k ex w1" "?S ex w1" by simp_all
      have up: "abides R (updates k obj muts) (\<lambda>w r. \<forall>stored. r = Inr stored \<longrightarrow> S w) (call (api_Update api sent)) w1"
        if "mut ex = Inr sent" for sent
        using mut [OF that] ex(1)
        by (intro abides_update [where I = I, OF that ex(1) assms(3) ex(2) _ _ _ R(2) S(1) S(3) 1(1) I_stable]) simp_all
      have kept: "S w2" if "mut ex = Inr ex" "R w1 w2" for w2 using ex(3) that S(3) by blast
      from up kept 1(1) show ?thesis
        by (auto simp: Inr m [OF ex(1)] simp del: bind_call split: sum.split intro!: finish intro: S(3))
    qed
  qed
qed

end

section \<open>The in-memory server hands out versions\<close>

definition mem_used :: "'o mem \<Rightarrow> string set" where
  "mem_used s = nat_to_string ` {..<mem_next s}"

context mem_store
begin

abbreviation mem_fresh :: "'o mem change" where
  "mem_fresh \<equiv> fresh_writes meta (\<lambda>s k. mem_find meta k s) mem_used"

lemma next_simps: "mem_next (mem_put meta obj s) = Suc (mem_next s)" "mem_next (mem_drop meta k s) = mem_next s"
  by (simp_all add: mem_put_def mem_drop_def)

lemma mem_fresh_same: "mem_objs s' = mem_objs s \<Longrightarrow> mem_next s' = mem_next s \<Longrightarrow> mem_fresh s s'"
  by (simp add: fresh_writes_def mem_find_def mem_used_def)

lemma mem_fresh_put:
  "om_ResourceVersion (meta obj) = nat_to_string (mem_next s) \<Longrightarrow> mem_fresh s (mem_put meta obj s)"
  by (auto simp: fresh_writes_def find_put mem_used_def next_simps simp del: split_paired_All)

lemma mem_fresh_drop: "mem_fresh s (mem_drop meta k s)"
  by (auto simp: fresh_writes_def find_drop mem_used_def next_simps simp del: split_paired_All)

lemma mem_fresh_request:
  assumes "\<And>s. mem_fresh s (snd (f s))"
  shows "fresh_writes meta (\<lambda>w k. mem_find meta k (gt w)) (\<lambda>w. mem_used (gt w)) w (snd (mem_request gt pt fail f w))"
proof -
  have "mem_fresh (gt w) (gt (snd (mem_request gt pt fail f w)))"
    using assms [of "gt w"] transpD [OF transp_fresh mem_fresh_same assms, of "(gt w)\<lparr>mem_faults := es\<rparr>" "gt w" for es]
    by (simp add: mem_request_def gt_pt mem_fresh_same split_beta split: list.split option.split)
  then show ?thesis by (simp add: fresh_writes_def)
qed

text \<open>An update of the stored version succeeds, unless a fault is scripted.\<close>

lemma update_succeeds:
  assumes "mem_find meta (ObjectKeyFromObject (meta obj)) (gt w) = Some old" "mem_faults (gt w) = []"
    and "om_ResourceVersion (meta obj) = om_ResourceVersion (meta old)" "om_DeletionTimestamp (meta obj) = None"
  obtains obj' w' where "api_Update (mem_api gt pt meta set_meta put_status idx) obj w = (Inr obj', w')"
    "mem_find meta (ObjectKeyFromObject (meta obj)) (gt w') = Some obj'" "content obj' = content obj"
  using assms by (simp add: mem_api_def mem_request_def Let_def store_simps find_put ObjectKeyFromObject_def)

lemma versioned:
  "versioned_api (mem_api gt pt meta set_meta put_status idx) meta (\<lambda>w k. mem_find meta k (gt w)) content
     (\<lambda>w. mem_used (gt w))"
proof (intro versioned_api.intro kube_api_axioms versioned_api_axioms.intro, goal_cases)
  case 1
  show ?case
    unfolding api_within_def mem_api_def Let_def
    by (intro conjI allI; simp; rule mem_fresh_request)
      (auto simp: mem_fresh_same mem_fresh_put mem_fresh_drop meta_set meta_status Let_def split: option.split)
next
  case (2 obj w obj' w')
  then show ?case
    by (auto simp: mem_api_def mem_request_def find_faults Let_def split: list.splits option.splits)
next
  case (3 obj w obj' w')
  then show ?case
    by (auto simp: mem_api_def mem_request_def find_faults Let_def split: list.splits option.splits if_splits)
next
  case (4 obj w obj' w')
  then show ?case
    by (auto simp: mem_api_def mem_request_def find_put find_drop store_simps Let_def ObjectKeyFromObject_def
        split: list.splits option.splits if_splits)
next
  case (5 obj w obj' w')
  then show ?case
    by (auto simp: mem_api_def mem_request_def store_simps Let_def split: list.splits option.splits)
next
  case (6 obj w obj' w')
  then show ?case
    by (auto simp: mem_api_def mem_request_def store_simps Let_def split: list.splits option.splits if_splits)
qed

end

interpretation config_map_versions: versioned_api mem_ConfigMap cm_Meta
  "\<lambda>w k. mem_find cm_Meta k (mc_ConfigMap w)" "\<lambda>cm. (cm_Data cm, om_OwnerReferences (cm_Meta cm))"
  "\<lambda>w. mem_used (mc_ConfigMap w)"
  by (rule ConfigMap_store.versioned)

end
