(* ===== verification/Shared_Map.thy ===== *)
theory Shared_Map
  imports Driver_Reconcile Client_Profile_Mapping Client_Profile_Replication Versioned_Api
begin

text \<open>
  All controllers together on the ConfigMap \<open>ceph-csi-config\<close>, which three of them write: the
  client profile controller its cluster information, the mapping controller the mappings, the driver
  controller its owner references. Every writer reads the map, changes it and sends it back in
  separate requests.

  The system has any number of reconcile iterations of each controller under way at once and other
  clients in between. Shown here: every request of it leaves the map alone or applies one
  whole mutation to the current map, so no update is lost, a record changes only on behalf of
  its own client profile, and the list of records stays well formed. The mutex the controllers
  hold around their updates is not needed for this; the server's resource versions are.
\<close>

section \<open>The jobs\<close>

datatype job =
    Profile_job object_key
  | Mapping_job object_key
  | Replication_job object_key
  | Driver_job object_key

primrec job_key :: "job \<Rightarrow> object_key" where
  "job_key (Profile_job req) = req"
| "job_key (Mapping_job req) = req"
| "job_key (Replication_job req) = req"
| "job_key (Driver_job req) = req"

text \<open>
  The programs that are run for a job. The concurrent reconcilers of a driver are programs of their
  own, for any driver loaded for the request.
\<close>

primrec job_programs :: "'w client \<Rightarrow> iteration \<Rightarrow> driver_env \<Rightarrow> job \<Rightarrow> ('w, error) m set" where
  "job_programs cl rng env (Profile_job req) = {Reconcile_profile cl rng (e_scheme env) req}"
| "job_programs cl rng env (Mapping_job req) = {Reconcile_mapping cl (e_scheme env) req}"
| "job_programs cl rng env (Replication_job req) = {Reconcile_replication cl req}"
| "job_programs cl rng env (Driver_job req) =
     {bind_m (LoadAndValidateDesiredState cl env (new_driverReconcile req)) (\<lambda>(err, _). Ret err)} \<union>
     {p. \<exists>r. (driver_namespace r, driver_name r) = req \<and> p \<in> set (driver_reconcilers cl env r)}"

text \<open>The mutations of the shared map that a job may apply.\<close>

definition profile_key :: "ClientProfileReconcile \<Rightarrow> object_key" where
  "profile_key r = ObjectKeyFromObject (cp_Meta (r_clientProfile r))"

primrec job_mutations :: "iteration \<Rightarrow> driver_env \<Rightarrow> job \<Rightarrow> (config_map \<Rightarrow> config_map result) set" where
  "job_mutations rng env (Profile_job req) = {mutateCephCsiClusterInfo rng (e_scheme env) r | r. profile_key r = req}"
| "job_mutations rng env (Mapping_job req) = {mutateCephCsiBlockPoolMapping (e_scheme env) req items | items. True}"
| "job_mutations rng env (Replication_job req) = {}"
| "job_mutations rng env (Driver_job req) = {mutateCsiConfigMap env r | r. (driver_namespace r, driver_name r) = req}"

definition shared_map :: "string \<Rightarrow> object_key" where
  "shared_map ns = (ns, vol_Name CsiConfigVolume)"

definition map_content :: "config_map \<Rightarrow> string_map \<times> owner_reference list" where
  "map_content cm = (cm_Data cm, om_OwnerReferences (cm_Meta cm))"

text \<open>How a job may change the shared maps.\<close>

definition applies_job :: "iteration \<Rightarrow> driver_env \<Rightarrow> job \<Rightarrow> string \<Rightarrow> config_map option \<Rightarrow> config_map option \<Rightarrow> bool" where
  "applies_job rng env j ns v v' \<longleftrightarrow> ns = fst (job_key j) \<and>
     (\<exists>mut \<in> job_mutations rng env j.
        mutated cm_Meta map_content mut (new_config_map ns (vol_Name CsiConfigVolume)) v v')"

definition job_change ::
    "('w \<Rightarrow> object_key \<Rightarrow> config_map option) \<Rightarrow> ('w \<Rightarrow> string set) \<Rightarrow> iteration \<Rightarrow> driver_env \<Rightarrow> job \<Rightarrow> 'w change" where
  "job_change view used rng env j w w' \<longleftrightarrow> fresh_writes cm_Meta view used w w' \<and>
     (\<forall>ns. view w' (shared_map ns) = view w (shared_map ns) \<or>
        applies_job rng env j ns (view w (shared_map ns)) (view w' (shared_map ns)))"

section \<open>What a job keeps\<close>

lemma yields_and_then:
  "yields (and_then p q) (e, s) \<Longrightarrow> yields p (e, s) \<or> (\<exists>s1. yields p (None, s1) \<and> yields (q s1) (e, s))"
  unfolding and_then_def by (drule yields_bindE) (auto split: option.splits, metis option.exhaust)

lemma yields_reporting:
  "yields (reporting what p) (e, r) \<Longrightarrow> \<exists>e' r'. yields p (e', r') \<and>
     (r = r' \<or> r = set_message (what @ '': '' @ error_text (the e')) (set_phase ClientProfilePhaseFailed r'))"
  unfolding reporting_def by (drule yields_bindE) (fastforce split: option.splits)

lemma profile_key_simps [simp]:
  "profile_key (set_phase ph r) = profile_key r" "profile_key (set_message msg r) = profile_key r"
  "profile_key (r\<lparr>r_cephConn := c\<rparr>) = profile_key r" "profile_key (r\<lparr>r_clientProfileReplication := p\<rparr>) = profile_key r"
  by (simp_all add: profile_key_def)

text \<open>What a record is composed from, but for the replication, and whether it is removed.\<close>

definition inputs_of :: "ClientProfileReconcile \<Rightarrow> object_key \<times> ClientProfileSpec \<times> CephConnectionSpec \<times> bool" where
  "inputs_of r = (profile_key r, cp_Spec (r_clientProfile r), cc_Spec (r_cephConn r), r_cleanUp r)"

lemma inputs_of_simps [simp]:
  "inputs_of (set_phase ph r) = inputs_of r" "inputs_of (set_message msg r) = inputs_of r"
  "inputs_of (r\<lparr>r_clientProfileReplication := p\<rparr>) = inputs_of r"
  "inputs_of (r\<lparr>r_cephConn := (r_cephConn r)\<lparr>cc_Meta := md\<rparr>\<rparr>) = inputs_of r"
  by (simp_all add: inputs_of_def profile_key_def set_message_def set_phase_def)

lemma inputs_of_meta:
  "inputs_of (r\<lparr>r_clientProfile := (r_clientProfile r)\<lparr>cp_Meta := (cp_Meta (r_clientProfile r))\<lparr>om_Finalizers := fs\<rparr>\<rparr>\<rparr>) = inputs_of r"
  by (simp add: inputs_of_def profile_key_def ObjectKeyFromObject_def)

locale map_clients =
    maps: versioned_api "cl_ConfigMap cl" cm_Meta view map_content used +
    profiles: kube_api "cl_ClientProfile cl" cp_Meta pview "\<lambda>p. (ObjectKeyFromObject (cp_Meta p), cp_Spec p)" +
    connections: kube_api "cl_CephConnection cl" cc_Meta cview cc_Spec
  for cl :: "'w client" and view used pview cview +
  assumes profile_get: "api_Get (cl_ClientProfile cl) k w = (g, w') \<Longrightarrow> cview w' = cview w"
    and others: "api_within (no_writes view used) (cl_ClientProfile cl)"
      "api_within (no_writes view used) (cl_CephConnection cl)" "api_within (no_writes view used) (cl_ClientProfileMapping cl)"
      "api_within (no_writes view used) (cl_ClientProfileReplication cl)" "api_within (no_writes view used) (cl_Driver cl)"
      "api_within (no_writes view used) (cl_OperatorConfig cl)" "api_within (no_writes view used) (cl_CSIDriver cl)"
      "api_within (no_writes view used) (cl_Deployment cl)" "api_within (no_writes view used) (cl_DaemonSet cl)"
      "api_within (no_writes view used) (cl_Service cl)" "api_within (no_writes view used) (cl_NetworkPolicy cl)"
      "api_within (no_writes view used) (cl_Node cl)"
begin

abbreviation quiet :: "'w change" where
  "quiet \<equiv> no_writes view used"

lemma quiet_job: "quiet w w' \<Longrightarrow> job_change view used rng env j w w'"
  by (simp add: job_change_def no_writes_fresh) (simp add: no_writes_def)

lemmas others_within [simp] = others [THEN api_withinD(1)] others [THEN api_withinD(2)] others [THEN api_withinD(3)]
  others [THEN api_withinD(4)] others [THEN api_withinD(5)] others [THEN api_withinD(6)]

lemma quiet_get_map [simp]: "quiet w (snd (api_Get (cl_ConfigMap cl) k w))"
  using api_withinD(1) [OF maps.writes, of w k] maps.get_frame [OF surjective_pairing, of k w]
  by (simp add: no_writes_def fresh_writes_def)

text \<open>What an iteration of the client profile controller works with stays the same once it is loaded.\<close>

lemma get_profile_key:
  "yields (call (api_Get (cl_ClientProfile cl) k)) (Inr p) \<Longrightarrow> ObjectKeyFromObject (cp_Meta p) = k"
  using profiles.get_found [of k _ p] by (auto simp: yields_call prod_eq_iff)

lemma update_keeps:
  "yields (call (api_Update (cl_ClientProfile cl) obj)) (Inr p) \<Longrightarrow>
     ObjectKeyFromObject (cp_Meta p) = ObjectKeyFromObject (cp_Meta obj) \<and> cp_Spec p = cp_Spec obj"
  "yields (call (api_Update (cl_CephConnection cl) conn)) (Inr c) \<Longrightarrow> cc_Spec c = cc_Spec conn"
  using profiles.update_ok [of obj _ p] connections.update_ok [of conn _ c] by (auto simp: yields_call prod_eq_iff)

lemma key_load_profile:
  "yields (load_profile cl r) (e, r') \<Longrightarrow> profile_key r' = profile_key r"
  by (auto simp: load_profile_def profile_key_def Let_def simp del: bind_call dest!: yields_bindE get_profile_key
      split: sum.splits if_splits)

lemma key_load_connection: "yields (load_connection cl r) (e, r') \<Longrightarrow> profile_key r' = profile_key r"
  by (auto simp: load_connection_def Let_def simp del: bind_call dest!: yields_bindE split: sum.splits)

lemma inputs_updates:
  "yields (update_profile cl r) (e, r') \<Longrightarrow> inputs_of r' = inputs_of r"
  "yields (update_connection cl r) (e, r') \<Longrightarrow> inputs_of r' = inputs_of r"
  by (auto simp: update_profile_def update_connection_def inputs_of_def profile_key_def simp del: bind_call
      dest!: yields_bindE update_keeps split: sum.splits)

lemma inputs_reads:
  "yields (load_replication cl r) (e, r') \<Longrightarrow> inputs_of r' = inputs_of r"
  "yields (check_references cl r) (e, r') \<Longrightarrow> inputs_of r' = inputs_of r"
  by (auto simp: load_replication_def check_references_def Let_def simp del: bind_call dest!: yields_bindE
      split: sum.splits if_splits)

lemma inputs_toggles:
  "yields (own_connection cl scheme r) (e, r') \<Longrightarrow> inputs_of r' = inputs_of r"
  "yields (reconcileCephConnection cl scheme r) (e, r') \<Longrightarrow> inputs_of r' = inputs_of r"
  "yields (toggle_replication cl scheme r) (e, r') \<Longrightarrow> inputs_of r' = inputs_of r"
  by (auto simp: own_connection_def reconcileCephConnection_def toggle_replication_def Let_def
      dest!: inputs_updates(2) split: sum.splits if_splits prod.splits)

lemma inputs_replication_phase:
  "yields (reconcileClientProfileReplication cl scheme r) (e, r') \<Longrightarrow> inputs_of r' = inputs_of r"
  unfolding reconcileClientProfileReplication_def
  by (auto dest!: yields_and_then inputs_reads inputs_toggles)

lemma key_loadAndValidate:
  "yields (loadAndValidate cl scheme r) (e, r') \<Longrightarrow> profile_key r' = profile_key r"
  unfolding loadAndValidate_def
  by (auto dest!: yields_and_then key_load_profile key_load_connection inputs_reads inputs_toggles simp: inputs_of_def)

lemma inputs_ensure_finalizer:
  "yields (ensure_finalizer cl r) (e, r') \<Longrightarrow> inputs_of r' = inputs_of r"
  by (auto simp: ensure_finalizer_def AddFinalizer_def Let_def inputs_of_meta dest!: inputs_updates(1) split: if_splits)

lemma inputs_finish_phases:
  "yields (finish_phases cl r) (e, r') \<Longrightarrow> inputs_of r' = inputs_of r"
  by (auto simp: finish_phases_def RemoveFinalizer_def inputs_of_meta dest!: yields_reporting inputs_updates(1) split: if_splits)

text \<open>What writes no ConfigMap.\<close>

lemma within_and_then: "within G p \<Longrightarrow> (\<And>s. within G (q s)) \<Longrightarrow> within G (and_then p q)"
  unfolding and_then_def by (rule within_bind) (auto split: option.splits)

lemma within_reporting: "within G p \<Longrightarrow> within G (reporting what p)"
  unfolding reporting_def by (rule within_bind) (auto split: option.splits)

lemma quiet_connection_steps:
  "within quiet (update_connection cl r)" "within quiet (check_references cl r)" "within quiet (update_profile cl r)"
  "within quiet (load_profile cl r)" "within quiet (load_connection cl r)" "within quiet (load_replication cl r)"
  by (auto simp: update_connection_def check_references_def update_profile_def load_profile_def load_connection_def
      load_replication_def list_replications_def Let_def simp del: bind_call intro!: within_bind split: sum.split)

lemma quiet_toggles:
  "within quiet (own_connection cl scheme r)" "within quiet (reconcileCephConnection cl scheme r)"
  "within quiet (toggle_replication cl scheme r)" "within quiet (ensure_finalizer cl r)"
  by (auto simp: own_connection_def reconcileCephConnection_def toggle_replication_def ensure_finalizer_def
      AddFinalizer_def Let_def quiet_connection_steps split: sum.split prod.split)

lemma quiet_profile_steps:
  "within quiet (loadAndValidate cl scheme r)" "within quiet (reconcileClientProfileReplication cl scheme r)"
  "within quiet (finish_phases cl r)"
  by (auto simp: loadAndValidate_def reconcileClientProfileReplication_def finish_phases_def quiet_connection_steps
      quiet_toggles intro!: within_and_then within_reporting)

section \<open>Each job keeps its guarantee\<close>

text \<open>The others' steps a job is prepared for: their writes have fresh versions.\<close>

definition prepared :: "'w change \<Rightarrow> ('w \<Rightarrow> bool) \<Rightarrow> iteration \<Rightarrow> driver_env \<Rightarrow> job \<Rightarrow> bool" where
  "prepared R I rng env j \<longleftrightarrow> relies R (job_change view used rng env j) I \<and>
     (\<forall>w w'. R w w' \<longrightarrow> maps.fresh w w') \<and> (\<forall>w. I w \<longrightarrow> consistent cm_Meta view used w)"

lemma preparedD:
  assumes "prepared R I rng env j"
  shows "relies R (job_change view used rng env j) I" "R w w' \<Longrightarrow> maps.fresh w w'" "I w \<Longrightarrow> consistent cm_Meta view used w"
proof -
  note c = assms [unfolded prepared_def]
  show "relies R (job_change view used rng env j) I" by (rule c [THEN conjunct1])
  show "R w w' \<Longrightarrow> maps.fresh w w'" by (rule c [THEN conjunct2, THEN conjunct1, rule_format])
  show "I w \<Longrightarrow> consistent cm_Meta view used w" by (rule c [THEN conjunct2, THEN conjunct2, rule_format])
qed

lemma prepared_fresh: "prepared maps.fresh (consistent cm_Meta view used) rng env j"
proof -
  have "relies maps.fresh (job_change view used rng env j) (consistent cm_Meta view used)"
    by (rule maps.relies_fresh [OF _ reflp_fresh transp_fresh]) (simp_all add: job_change_def)
  then show ?thesis by (simp add: prepared_def)
qed

text \<open>Facts that neither the others nor requests of other kinds spoil.\<close>

definition lasting :: "'w change \<Rightarrow> ('w \<Rightarrow> bool) \<Rightarrow> bool" where
  "lasting R T \<longleftrightarrow> (\<forall>w w'. T w \<longrightarrow> R w w' \<longrightarrow> T w') \<and> (\<forall>w w'. T w \<longrightarrow> quiet w w' \<longrightarrow> T w')"

lemma lastingI:
  "(\<And>w w'. T w \<Longrightarrow> R w w' \<Longrightarrow> T w') \<Longrightarrow> (\<And>w w'. T w \<Longrightarrow> quiet w w' \<Longrightarrow> T w') \<Longrightarrow> lasting R T"
  unfolding lasting_def by iprover

lemma lastingD: "lasting R T \<Longrightarrow> T w \<Longrightarrow> R w w' \<Longrightarrow> T w'" "lasting R T \<Longrightarrow> T w \<Longrightarrow> quiet w w' \<Longrightarrow> T w'"
  unfolding lasting_def by iprover+

lemma lasting_True: "lasting R (\<lambda>_. True)"
  by (rule lastingI) simp_all

lemma lasting_ex: "(\<And>r. lasting R (S r)) \<Longrightarrow> lasting R (\<lambda>w. \<exists>r. P r \<and> S r w)"
  by (rule lastingI) (blast dest: lastingD)+

lemma lasting_imp: "lasting R T \<Longrightarrow> lasting R (\<lambda>w. b \<longrightarrow> T w)"
  by (rule lastingI) (blast dest: lastingD)+

lemma abides_quiet:
  assumes "prepared R I rng env j" "lasting R T" "within quiet p" "\<And>a. yields p a \<Longrightarrow> Q a" "T w"
  shows "abides R (job_change view used rng env j) (\<lambda>w a. Q a \<and> T w) p w"
proof -
  have "relies R quiet T"
    unfolding relies_def
    by (intro conjI allI impI reliesD(1,2) [OF preparedD(1) [OF assms(1)]]) (fact lastingD [OF assms(2)])+
  from abides_confined [OF this assms(5) within_abides [OF assms(3)]] show ?thesis
    by (rule abides_mono) (use assms(4) quiet_job in auto)
qed

text \<open>Sequencing for the programs of the client profile controller, which carry a state in \<open>K\<close>.\<close>

abbreviation ends_with :: "('s \<Rightarrow> bool) \<Rightarrow> ('w \<Rightarrow> bool) \<Rightarrow> 'w \<Rightarrow> error \<times> 's \<Rightarrow> bool" where
  "ends_with K T \<equiv> \<lambda>w (err, s). err = None \<longrightarrow> K s \<and> T w"

lemma abides_and_then:
  assumes R: "prepared R I rng env j" and "I w"
    and "abides R (job_change view used rng env j) (ends_with K T) p w"
    and "\<And>s w'. I w' \<Longrightarrow> K s \<Longrightarrow> T w' \<Longrightarrow> abides R (job_change view used rng env j) (ends_with L U) (q s) w'"
  shows "abides R (job_change view used rng env j) (ends_with L U) (and_then p q) w"
  unfolding and_then_def
  by (rule abides_seq [OF preparedD(1) [OF R] assms(2,3)]) (use assms(4) in \<open>auto split: option.split\<close>)

lemma abides_reporting:
  assumes R: "prepared R I rng env j" and "I w" and T: "lasting R T"
    and "abides R (job_change view used rng env j) (ends_with K T) p w"
  shows "abides R (job_change view used rng env j) (ends_with K T) (reporting what p) w"
  unfolding reporting_def
  by (rule abides_seq [OF preparedD(1) [OF R] assms(2,4)]) (auto split: option.split intro: lastingD(1) [OF T])

lemma abides_quiet_step:
  assumes "prepared R I rng env j" "lasting R T" "within quiet p" "\<And>s. yields p (None, s) \<Longrightarrow> K s" "T w"
  shows "abides R (job_change view used rng env j) (ends_with K T) p w"
  by (rule abides_mono [OF abides_quiet [where Q = "\<lambda>(e, s). e = None \<longrightarrow> K s", OF assms(1-3) _ assms(5)]])
    (use assms(4) in auto)

text \<open>An update of the shared map is one of the job's mutations.\<close>

lemma updates_job:
  assumes "maps.updates (shared_map ns) (new_config_map ns (vol_Name CsiConfigVolume)) (job_mutations rng env j) w w'"
    and "ns = fst (job_key j)"
  shows "job_change view used rng env j w w'"
  unfolding job_change_def
proof (intro conjI allI)
  fix ns'
  show "view w' (shared_map ns') = view w (shared_map ns') \<or>
      applies_job rng env j ns' (view w (shared_map ns')) (view w' (shared_map ns'))"
    using assms by (cases "ns' = ns") (auto simp: maps.updates_def applies_job_def shared_map_def)
qed (use assms in \<open>simp add: maps.updates_def\<close>)

lemma abides_map_update:
  assumes mut: "\<And>o1 o2. mut o1 = Inr o2 \<Longrightarrow>
      ObjectKeyFromObject (cm_Meta o2) = ObjectKeyFromObject (cm_Meta o1) \<and>
      om_ResourceVersion (cm_Meta o2) = om_ResourceVersion (cm_Meta o1) \<and>
      om_DeletionTimestamp (cm_Meta o2) = om_DeletionTimestamp (cm_Meta o1)"
    and "mut \<in> job_mutations rng env j" "ns = fst (job_key j)"
    and R: "prepared R I rng env j" "I w"
    and T: "lasting R T"
      "\<And>w w'. I w \<Longrightarrow> mutated cm_Meta map_content mut (new_config_map ns (vol_Name CsiConfigVolume))
         (view w (shared_map ns)) (view w' (shared_map ns)) \<Longrightarrow> T w'"
      "\<And>w ex. I w \<Longrightarrow> view w (shared_map ns) = Some ex \<Longrightarrow> mut ex = Inr ex \<Longrightarrow> T w"
  shows "abides R (job_change view used rng env j) (\<lambda>w (res, err, cm). err = None \<longrightarrow> T w)
     (CreateOrUpdate cm_Meta (cl_ConfigMap cl) (new_config_map ns (vol_Name CsiConfigVolume)) (pure_mut mut)) w"
proof -
  let ?G = "maps.updates (shared_map ns) (new_config_map ns (vol_Name CsiConfigVolume)) (job_mutations rng env j)"
  note G = updates_job [OF _ assms(3)]
  note RI = reliesD [OF preparedD(1) [OF R(1)]]
  have rel: "relies R ?G I"
    unfolding relies_def by (intro conjI allI impI RI(1,2); (erule (1) RI(3) | (erule RI(4), erule G)))
  have "abides R ?G (\<lambda>w (res, err, cm). err = None \<longrightarrow> T w)
     (CreateOrUpdate cm_Meta (cl_ConfigMap cl) (new_config_map ns (vol_Name CsiConfigVolume)) (pure_mut mut)) w"
  proof (rule maps.abides_CreateOrUpdate [where I = I and S = T and R = R, OF mut])
    show "relies R ?G I" by (rule rel)
    show "\<And>w w'. R w w' \<Longrightarrow> maps.fresh w w'" by (rule preparedD(2) [OF R(1)])
    show "\<And>w. I w \<Longrightarrow> consistent cm_Meta view used w" by (rule preparedD(3) [OF R(1)])
    show "\<And>w w'. T w \<Longrightarrow> R w w' \<Longrightarrow> T w'" "\<And>w w'. T w \<Longrightarrow> quiet w w' \<Longrightarrow> T w'"
      by (fact lastingD [OF T(1)])+
    show "\<And>w ex. I w \<Longrightarrow> view w (shared_map ns) = Some ex \<Longrightarrow> mut ex = Inr ex \<Longrightarrow> T w" by (rule T(3))
    show "\<And>w w'. I w \<Longrightarrow> mutated cm_Meta map_content mut (new_config_map ns (vol_Name CsiConfigVolume))
         (view w (shared_map ns)) (view w' (shared_map ns)) \<Longrightarrow> T w'" by (rule T(2))
  qed (simp_all add: assms(2) R(2) shared_map_def)
  then show ?thesis by (rule abides_mono) (simp_all add: G)
qed

lemma abides_cluster_info:
  assumes "profile_key r = req" and R: "prepared R I rng env (Profile_job req)" "I w" and T: "lasting R T"
    and est: "\<And>w w'. I w \<Longrightarrow> mutated cm_Meta map_content (mutateCephCsiClusterInfo rng (e_scheme env) r)
         (new_config_map (fst req) (vol_Name CsiConfigVolume)) (view w (shared_map (fst req))) (view w' (shared_map (fst req))) \<Longrightarrow> T w'"
      "\<And>w ex. I w \<Longrightarrow> view w (shared_map (fst req)) = Some ex \<Longrightarrow> mutateCephCsiClusterInfo rng (e_scheme env) r ex = Inr ex \<Longrightarrow> T w"
  shows "abides R (job_change view used rng env (Profile_job req)) (ends_with (\<lambda>r'. r' = r) T)
    (reconcileCephCsiClusterInfo cl rng (e_scheme env) r) w"
proof -
  have ns: "om_Namespace (cp_Meta (r_clientProfile r)) = fst req"
    using assms(1) by (auto simp: profile_key_def ObjectKeyFromObject_def)
  have up: "abides R (job_change view used rng env (Profile_job req)) (\<lambda>w (res, err, cm). err = None \<longrightarrow> T w)
     (CreateOrUpdate cm_Meta (cl_ConfigMap cl) (new_config_map (fst req) (vol_Name CsiConfigVolume))
       (pure_mut (mutateCephCsiClusterInfo rng (e_scheme env) r))) w"
  proof (rule abides_map_update [OF _ _ _ R T])
    show "mutateCephCsiClusterInfo rng (e_scheme env) r \<in> job_mutations rng env (Profile_job req)" using assms(1) by auto
    show "ObjectKeyFromObject (cm_Meta o2) = ObjectKeyFromObject (cm_Meta o1) \<and>
      om_ResourceVersion (cm_Meta o2) = om_ResourceVersion (cm_Meta o1) \<and>
      om_DeletionTimestamp (cm_Meta o2) = om_DeletionTimestamp (cm_Meta o1)"
      if "mutateCephCsiClusterInfo rng (e_scheme env) r o1 = Inr o2" for o1 o2
      using that by (auto simp: mutateCephCsiClusterInfo_def dest: toggle_frame split: sum.splits prod.splits)
  qed (simp, fact est(1), fact est(2))
  show ?thesis
    unfolding reconcileCephCsiClusterInfo_def ns
    by (rule abides_seq [OF preparedD(1) [OF R(1)] R(2) up]) (use assms(1) in \<open>auto intro: lastingD(1) [OF T]\<close>)
qed

text \<open>
  The client profile controller. \<open>S r\<close> is what a successful update for the state \<open>r\<close> of the iteration
  establishes.
\<close>

definition establishes :: "('w \<Rightarrow> bool) \<Rightarrow> (ClientProfileReconcile \<Rightarrow> 'w \<Rightarrow> bool) \<Rightarrow> iteration \<Rightarrow> driver_env \<Rightarrow> object_key \<Rightarrow> bool" where
  "establishes I S rng env req \<longleftrightarrow> (\<forall>r w. profile_key r = req \<longrightarrow> I w \<longrightarrow>
     (\<forall>w'. mutated cm_Meta map_content (mutateCephCsiClusterInfo rng (e_scheme env) r)
         (new_config_map (fst req) (vol_Name CsiConfigVolume)) (view w (shared_map (fst req))) (view w' (shared_map (fst req))) \<longrightarrow>
       S r w') \<and>
     (\<forall>ex. view w (shared_map (fst req)) = Some ex \<longrightarrow> mutateCephCsiClusterInfo rng (e_scheme env) r ex = Inr ex \<longrightarrow> S r w))"

lemma abides_profile:
  fixes req
  defines "r0 \<equiv> \<lparr>r_clientProfile = zero_ClientProfile\<lparr>cp_Meta := named_meta (fst req) (snd req)\<rparr>,
    r_cephConn = zero_CephConnection, r_clientProfileReplication = zero_ClientProfileReplication, r_cleanUp = False\<rparr>"
  assumes R: "prepared R I rng env (Profile_job req)" and I: "I w"
    and load: "abides R (job_change view used rng env (Profile_job req)) (ends_with (\<lambda>r. inputs_of r \<in> X) (\<lambda>_. True))
      (loadAndValidate cl (e_scheme env) r0) w"
    and X: "fst ` X \<subseteq> {req}"
    and S: "\<And>r. lasting R (S r)" "establishes I S rng env req"
  shows "abides R (job_change view used rng env (Profile_job req))
    (\<lambda>w err. err = None \<longrightarrow> (\<exists>r. inputs_of r \<in> X \<and> S r w)) (Reconcile_profile cl rng (e_scheme env) req) w"
proof -
  let ?T = "\<lambda>w. \<exists>r. inputs_of r \<in> X \<and> S r w" and ?K = "\<lambda>r. inputs_of r \<in> X"
  have key: "profile_key r = req" if "?K r" for r using that X by (auto simp: inputs_of_def)
  have T: "lasting R ?T" by (rule lasting_ex [OF S(1)])
  note quiet = abides_quiet_step [OF R lasting_True] and andt = abides_and_then [OF R]
  have phases: "abides R (job_change view used rng env (Profile_job req)) (ends_with ?K ?T)
      (reconcilePhases_profile cl rng (e_scheme env) r) w" if "?K r" "I w" for r w
    unfolding reconcilePhases_profile_def
  proof (rule andt [OF that(2), where K = ?K and T = "\<lambda>_. True"], goal_cases)
    case 1
    show ?case by (rule quiet [OF quiet_toggles(4)]) (use that in \<open>auto dest!: inputs_ensure_finalizer\<close>)
  next
    case (2 r w)
    show ?case
    proof (rule andt [OF 2(1), where K = ?K and T = "\<lambda>_. True"], goal_cases)
      case 1
      show ?case
        by (rule abides_reporting [OF R 2(1) lasting_True quiet [OF quiet_toggles(2)]])
          (use 2 in \<open>auto dest!: inputs_toggles\<close>)
    next
      case (2 r w)
      show ?case
      proof (rule andt [OF 2(1), where K = ?K and T = "\<lambda>_. True"], goal_cases)
        case 1
        show ?case
          by (rule abides_reporting [OF R 2(1) lasting_True quiet [OF quiet_profile_steps(2)]])
            (use 2 in \<open>auto dest!: inputs_replication_phase\<close>)
      next
        case (2 r w)
        show ?case
        proof (rule andt [OF 2(1), where K = ?K and T = ?T], goal_cases)
          case 1
          have "abides R (job_change view used rng env (Profile_job req)) (ends_with (\<lambda>r'. r' = r) (S r))
              (reconcileCephCsiClusterInfo cl rng (e_scheme env) r) w"
            by (rule abides_cluster_info [OF key [OF 2(2)] R 2(1) S(1)])
              (use key [OF 2(2)] S(2) in \<open>auto simp: establishes_def\<close>)
          then have "abides R (job_change view used rng env (Profile_job req)) (ends_with ?K ?T)
              (reconcileCephCsiClusterInfo cl rng (e_scheme env) r) w"
            by (rule abides_mono) (use 2(2) in auto)
          then show ?case by (rule abides_reporting [OF R 2(1) T])
        next
          case (2 r w)
          show ?case
            by (rule abides_quiet_step [OF R T quiet_profile_steps(3)]) (use 2 in \<open>auto dest!: inputs_finish_phases\<close>)
        qed
      qed
    qed
  qed
  have finish: "abides R (job_change view used rng env (Profile_job req)) (\<lambda>w err. err = None \<longrightarrow> ?T w)
      (bind_m (call (api_StatusUpdate (cl_ClientProfile cl) (r_clientProfile r))) (\<lambda>s.
         Ret (case reconcileErr of
                Some err \<Rightarrow> Some err
              | None \<Rightarrow> (case s of Inl statusErr \<Rightarrow> Some statusErr | Inr _ \<Rightarrow> None)))) w"
    if "reconcileErr = None \<longrightarrow> ?T w" "I w" for r reconcileErr w
  proof -
    let ?U = "\<lambda>w. reconcileErr = None \<longrightarrow> ?T w"
    have U: "lasting R ?U" by (rule lasting_imp [OF T])
    have "within quiet (call (api_StatusUpdate (cl_ClientProfile cl) (r_clientProfile r)))" by simp
    from abides_quiet [where Q = "\<lambda>_. True", OF R U this _ that(1)]
    have "abides R (job_change view used rng env (Profile_job req)) (\<lambda>w _. ?U w)
        (call (api_StatusUpdate (cl_ClientProfile cl) (r_clientProfile r))) w" by simp
    from abides_seq [OF preparedD(1) [OF R] that(2) this] show ?thesis
      by (rule meta_mp) (auto split: option.split sum.split intro!: exI intro: lastingD(1) [OF S(1)])
  qed
  show ?thesis
    unfolding Reconcile_profile_def reconcile_profile_def r0_def [symmetric]
  proof (rule abides_seq [OF preparedD(1) [OF R] I load], goal_cases)
    case (1 a w)
    obtain e r where a: "a = (e, r)" by fastforce
    show ?case
    proof (cases e)
      case None
      with 1 a have key: "?K r" by simp
      show ?thesis
        unfolding a None prod.case option.case
      proof (rule abides_seq [OF preparedD(1) [OF R] 1(1) phases [OF key 1(1)]], goal_cases)
        case (1 b w)
        obtain e' r' where b: "b = (e', r')" by fastforce
        show ?case unfolding b prod.case by (rule finish) (use 1 b in simp_all)
      qed
    qed (simp add: a)
  qed
qed

abbreviation sound :: "iteration \<Rightarrow> driver_env \<Rightarrow> job \<Rightarrow> ('w, 'a) m \<Rightarrow> bool" where
  "sound rng env j p \<equiv> \<forall>w. consistent cm_Meta view used w \<longrightarrow>
     abides maps.fresh (job_change view used rng env j) (\<lambda>_ _. True) p w"

lemma sound_quiet: "within quiet p \<Longrightarrow> sound rng env j p"
proof (intro allI impI)
  fix w assume "within quiet p"
  from abides_quiet [where Q = "\<lambda>_. True", OF prepared_fresh lasting_True this]
  show "abides maps.fresh (job_change view used rng env j) (\<lambda>_ _. True) p w" by simp
qed

lemma sound_profile: "sound rng env (Profile_job req) (Reconcile_profile cl rng (e_scheme env) req)"
proof (intro allI impI)
  fix w assume c: "consistent cm_Meta view used w"
  have "abides maps.fresh (job_change view used rng env (Profile_job req))
      (\<lambda>w err. err = None \<longrightarrow> (\<exists>r. inputs_of r \<in> {x. fst x = req} \<and> True)) (Reconcile_profile cl rng (e_scheme env) req) w"
    by (rule abides_profile [where S = "\<lambda>_ _. True", OF prepared_fresh c abides_quiet_step [OF prepared_fresh lasting_True quiet_profile_steps(1)]])
      (auto dest!: key_loadAndValidate simp: inputs_of_def establishes_def lasting_True, simp add: profile_key_def)
  then show "abides maps.fresh (job_change view used rng env (Profile_job req)) (\<lambda>_ _. True) (Reconcile_profile cl rng (e_scheme env) req) w"
    by (rule abides_mono) simp_all
qed

lemma sound_bind: "sound rng env j p \<Longrightarrow> (\<And>a. sound rng env j (k a)) \<Longrightarrow> sound rng env j (bind_m p k)"
proof (intro allI impI)
  assume p: "sound rng env j p" and k: "\<And>a. sound rng env j (k a)"
  fix w assume c: "consistent cm_Meta view used w"
  show "abides maps.fresh (job_change view used rng env j) (\<lambda>_ _. True) (bind_m p k) w"
    by (rule abides_seq [OF preparedD(1) [OF prepared_fresh] c p [rule_format, OF c] k [rule_format]])
qed

lemma sound_update:
  assumes "\<And>o1 o2. mut o1 = Inr o2 \<Longrightarrow>
      ObjectKeyFromObject (cm_Meta o2) = ObjectKeyFromObject (cm_Meta o1) \<and>
      om_ResourceVersion (cm_Meta o2) = om_ResourceVersion (cm_Meta o1) \<and>
      om_DeletionTimestamp (cm_Meta o2) = om_DeletionTimestamp (cm_Meta o1)"
    and "mut \<in> job_mutations rng env j" "ns = fst (job_key j)"
  shows "sound rng env j (bind_m (CreateOrUpdate cm_Meta (cl_ConfigMap cl)
     (new_config_map ns (vol_Name CsiConfigVolume)) (pure_mut mut)) (\<lambda>a. Ret (k a)))"
  by (rule sound_bind) (use abides_mono [OF abides_map_update [OF assms prepared_fresh _ lasting_True]] in auto)

lemma sound_mapping: "sound rng env (Mapping_job req) (Reconcile_mapping cl (e_scheme env) req)"
proof -
  have "sound rng env (Mapping_job req) (reconcileCephCsiBlockPoolMapping cl (e_scheme env) req items)" for items
    unfolding reconcileCephCsiBlockPoolMapping_def split_beta
    by (rule sound_update)
      (auto simp: mutateCephCsiBlockPoolMapping_def map_sum_eq_Inr dest: toggle_frame split: sum.splits option.splits)
  then show ?thesis
    unfolding Reconcile_mapping_def reconcile_mapping_def
    by (intro sound_bind [OF sound_quiet]) (auto split: sum.split)
qed

lemma sound_replication: "sound rng env (Replication_job req) (Reconcile_replication cl req)"
proof -
  have phases: "within quiet (reconcilePhases_replication cl cpr)" for cpr
    by (auto simp: reconcilePhases_replication_def Let_def simp del: bind_call intro!: within_bind split: sum.split)
  have "within quiet (Reconcile_replication cl req)"
    by (auto simp: Reconcile_replication_def reconcile_replication_def simp del: bind_call
        intro!: within_bind phases split: sum.split)
  then show ?thesis by (rule sound_quiet)
qed

lemma quiet_load: "within quiet (LoadAndValidateDesiredState cl env r)"
proof -
  have set: "within quiet (load_image_set cl spec ns r1)" for spec ns r1
    by (auto simp: load_image_set_def simp del: bind_call intro!: within_bind split: option.split sum.split)
  have "within quiet (load_driver cl env opConfig r1)" for opConfig r1
    by (auto simp: load_driver_def apply_operator_defaults_def Let_def set simp del: bind_call
        intro!: within_bind split: option.split sum.split prod.split)
  then show ?thesis
    by (auto simp: LoadAndValidateDesiredState_def get_claim_def get_operator_config_def Let_def simp del: bind_call
        intro!: within_bind split: option.split sum.split)
qed

lemma quiet_reconcilers:
  "within quiet (reconcileK8sCsiDriver cl r)" "within quiet (reconcileControllerPluginDeployment cl env r)"
  "within quiet (reconcileControllerPluginNetworkPolicy cl env r)" "within quiet (reconcileNodePluginDaemonSet cl env r)"
  "within quiet (reconcileLivenessService cl env r)" "within quiet (reconcileNodePluginDaemonSetForCsiAddons cl env r)"
  "within quiet (reconcileNodePluginCsiAddonsNetworkPolicy cl env r)"
proof -
  have deploy: "within quiet (mutateControllerPluginDeployment cl env r deploy)" for deploy
    by (auto simp: mutateControllerPluginDeployment_def getControllerPluginReplicas_def simp del: bind_call
        intro!: within_bind split: sum.split option.split)
  have recreate: "within quiet (recreateCsiDriver cl cd)" for cd
    by (auto simp: recreateCsiDriver_def simp del: bind_call intro!: within_bind split: option.split)
  note defs = reconcileK8sCsiDriver_def reconcileControllerPluginDeployment_def reconcileControllerPluginNetworkPolicy_def
    reconcileNodePluginDaemonSet_def reconcileLivenessService_def reconcileNodePluginDaemonSetForCsiAddons_def
    reconcileNodePluginCsiAddonsNetworkPolicy_def
  note step = within_bind within_CreateOrUpdate [OF others(5)] within_CreateOrUpdate [OF others(7)]
    within_CreateOrUpdate [OF others(8)] within_CreateOrUpdate [OF others(9)] within_CreateOrUpdate [OF others(10)]
    within_CreateOrUpdate [OF others(11)]
  show "within quiet (reconcileK8sCsiDriver cl r)" "within quiet (reconcileControllerPluginDeployment cl env r)"
    "within quiet (reconcileControllerPluginNetworkPolicy cl env r)" "within quiet (reconcileNodePluginDaemonSet cl env r)"
    "within quiet (reconcileLivenessService cl env r)" "within quiet (reconcileNodePluginDaemonSetForCsiAddons cl env r)"
    "within quiet (reconcileNodePluginCsiAddonsNetworkPolicy cl env r)"
    by (auto simp: defs Let_def deploy recreate split_beta simp del: bind_call intro!: step split: option.split sum.split)
qed

lemma within_conj: "within G p \<Longrightarrow> within H p \<Longrightarrow> within (\<lambda>w w'. G w w' \<and> H w w') p"
  by (induction p) (auto simp: within_Act)

lemma sound_away:
  assumes "within maps.fresh p" "\<And>ns. frames (\<lambda>w. view w (shared_map ns)) p"
  shows "sound rng env j p"
proof (intro allI impI)
  fix w
  have "within (\<lambda>w w'. \<forall>ns. view w' (shared_map ns) = view w (shared_map ns)) p"
    using assms(2) by (induction p) (auto simp: within_Act frames_Act)
  note both = within_conj [OF assms(1) this]
  have "within (job_change view used rng env j) p"
    by (rule within_mono [OF both]) (simp add: job_change_def)
  then show "abides maps.fresh (job_change view used rng env j) (\<lambda>_ _. True) p w"
    by (rule abides_mono [OF within_abides]) simp_all
qed

lemma sound_log_rotation: "sound rng env j (reconcileLogRotateConfigMap cl env r)"
proof (rule sound_away)
  show "within maps.fresh (reconcileLogRotateConfigMap cl env r)"
    by (auto simp: reconcileLogRotateConfigMap_def Let_def split_beta api_withinD(6) [OF maps.writes] simp del: bind_call
        intro!: within_bind within_CreateOrUpdate [OF maps.writes] split: option.split)
  have "ObjectKeyFromObject (cm_Meta (new_config_map (driver_namespace r) (LogRotateConfigMapName (driver_name r)))) \<noteq> shared_map ns"
    for ns using config_map_names_differ [of "driver_name r"] by (simp add: shared_map_def)
  then show "frames (\<lambda>w. view w (shared_map ns)) (reconcileLogRotateConfigMap cl env r)" for ns
    by (auto simp: reconcileLogRotateConfigMap_def Let_def split_beta simp del: bind_call frames_call
        intro!: frames_bind maps.frames_other_key maps.frames_delete split: option.split)
qed

lemma sound_csi_config_map:
  assumes "(driver_namespace r, driver_name r) = req"
  shows "sound rng env (Driver_job req) (reconcileCsiConfigMap cl env r)"
  unfolding reconcileCsiConfigMap_def split_beta
  by (rule sound_update) (use assms in \<open>auto simp: mutateCsiConfigMap_def dest: toggle_frame split: sum.splits\<close>)

lemma sound_driver:
  assumes "p \<in> job_programs cl rng env (Driver_job req)"
  shows "sound rng env (Driver_job req) p"
proof -
  have "within quiet (bind_m (LoadAndValidateDesiredState cl env (new_driverReconcile req)) (\<lambda>(err, _). Ret err))"
    by (rule within_bind [OF quiet_load]) auto
  then have load: "sound rng env (Driver_job req)
      (bind_m (LoadAndValidateDesiredState cl env (new_driverReconcile req)) (\<lambda>(err, _). Ret err))"
    by (rule sound_quiet)
  have "sound rng env (Driver_job req) p"
    if "(driver_namespace r, driver_name r) = req" "p \<in> set (driver_reconcilers cl env r)" for r
    using that(2) sound_csi_config_map [OF that(1)] sound_log_rotation
      sound_quiet [OF quiet_reconcilers(1)] sound_quiet [OF quiet_reconcilers(2)]
      sound_quiet [OF quiet_reconcilers(3)] sound_quiet [OF quiet_reconcilers(4)]
      sound_quiet [OF quiet_reconcilers(5)] sound_quiet [OF quiet_reconcilers(6)]
      sound_quiet [OF quiet_reconcilers(7)]
    unfolding driver_reconcilers_def list.set by (elim insertE emptyE) simp_all
  with load assms show ?thesis by auto
qed

theorem all_sound:
  assumes "\<And>w w'. env w w' \<Longrightarrow> maps.fresh w w'"
  shows "well_behaved maps.fresh (job_change view used rng denv) (consistent cm_Meta view used) (job_programs cl rng denv) env"
  unfolding well_behaved_def
proof (intro conjI allI impI ballI)
  fix j p w assume "p \<in> job_programs cl rng denv j" "consistent cm_Meta view used w"
  then show "abides maps.fresh (job_change view used rng denv j) (\<lambda>_ _. True) p w"
    using sound_profile sound_mapping sound_replication sound_driver by (cases j) auto
qed (use preparedD(1) [OF prepared_fresh] assms in \<open>auto simp: job_change_def\<close>)

end

section \<open>The in-memory cluster\<close>

lemma mem_requests:
  assumes "\<And>s w. G w (pt s w)" "\<And>w. G w w"
  shows "api_within G (mem_api gt pt meta set_meta put_status idx)"
  unfolding api_within_def mem_api_def Let_def mem_request_def
  using assms by (auto split: list.splits option.splits prod.splits)

interpretation keyed_profiles: mem_store mc_ClientProfile "\<lambda>s. mc_ClientProfile_update (\<lambda>_. s)" cp_Meta "\<lambda>md. cp_Meta_update (\<lambda>_. md)"
  "\<lambda>src obj. obj\<lparr>cp_Status := cp_Status src\<rparr>" "\<lambda>_ _. []" "\<lambda>obj. (ObjectKeyFromObject (cp_Meta obj), cp_Spec obj)"
  by unfold_locales (simp_all add: ObjectKeyFromObject_def)

interpretation spec_connections: mem_store mc_CephConnection "\<lambda>s. mc_CephConnection_update (\<lambda>_. s)" cc_Meta "\<lambda>md. cc_Meta_update (\<lambda>_. md)"
  "\<lambda>_ obj. obj" "\<lambda>_ _. []" cc_Spec
  by unfold_locales simp_all

abbreviation mem_maps :: "cluster \<Rightarrow> object_key \<Rightarrow> config_map option" where
  "mem_maps w k \<equiv> mem_find cm_Meta k (mc_ConfigMap w)"

abbreviation mem_versions :: "cluster \<Rightarrow> string set" where
  "mem_versions w \<equiv> mem_used (mc_ConfigMap w)"

interpretation mem_clients: map_clients mem_client mem_maps mem_versions
  "\<lambda>w k. mem_find cp_Meta k (mc_ClientProfile w)" "\<lambda>w k. mem_find cc_Meta k (mc_CephConnection w)"
  unfolding map_clients_def map_clients_axioms_def mem_client_simps map_content_def [abs_def]
proof (intro conjI config_map_versions.versioned_api_axioms keyed_profiles.kube_api_axioms spec_connections.kube_api_axioms)
  show "\<forall>k w g w'. api_Get mem_ClientProfile k w = (g, w') \<longrightarrow>
      (\<lambda>k. mem_find cc_Meta k (mc_CephConnection w')) = (\<lambda>k. mem_find cc_Meta k (mc_CephConnection w))"
    by (auto simp: mem_api_def mem_request_def split: list.splits option.splits)
qed (rule mem_requests; simp add: no_writes_def)+

section \<open>What holds of the whole system\<close>

text \<open>A map as the controllers keep it: not being deleted, one record per profile.\<close>

definition map_ok :: "config_map option \<Rightarrow> bool" where
  "map_ok v \<longleftrightarrow> (\<forall>cm. v = Some cm \<longrightarrow> om_DeletionTimestamp (cm_Meta cm) = None \<and>
     (\<exists>rs. infos_of cm = Inr (map Some rs) \<and> distinct (map i_ClusterId rs)))"

definition maps_ok :: "('w \<Rightarrow> object_key \<Rightarrow> config_map option) \<Rightarrow> 'w \<Rightarrow> bool" where
  "maps_ok view w \<longleftrightarrow> (\<forall>ns. map_ok (view w (shared_map ns)))"

text \<open>What Ceph CSI reads of it: the record of a profile, the mappings.\<close>

definition record_of :: "config_map option \<Rightarrow> string \<Rightarrow> csiClusterInfoRecord option" where
  "record_of v name =
     (case v of None \<Rightarrow> None
      | Some cm \<Rightarrow> (case infos_of cm of Inl _ \<Rightarrow> None | Inr infos \<Rightarrow> lookup_info (List.map_filter id infos) name))"

definition mapping_of :: "config_map option \<Rightarrow> string option" where
  "mapping_of v = (case v of None \<Rightarrow> None | Some cm \<Rightarrow> fmlookup (cm_Data cm) CsiConfigMapMappingKey)"

lemma infos_of_content: "map_content cm = map_content cm' \<Longrightarrow> infos_of cm = infos_of cm'"
  by (simp add: map_content_def infos_of_def)

lemma map_filter_some [simp]: "List.map_filter id (map Some xs) = xs"
  by (induction xs) (simp_all add: map_filter_def)

lemma record_of_infos: "infos_of cm = Inr (map Some rs) \<Longrightarrow> record_of (Some cm) name = lookup_info rs name"
  by (simp add: record_of_def)

text \<open>A mutation starts from a well-formed map.\<close>

lemma start_infos:
  assumes "map_ok v"
  obtains rs where "infos_of (start_of v (new_config_map ns name)) = Inr (map Some rs)" "distinct (map i_ClusterId rs)"
    "om_DeletionTimestamp (cm_Meta (start_of v (new_config_map ns name))) = None" "\<And>n. record_of v n = lookup_info rs n"
    "mapping_of v = fmlookup (cm_Data (start_of v (new_config_map ns name))) CsiConfigMapMappingKey"
proof (cases v)
  case None
  show ?thesis
    by (rule that [of "[]"]) (simp_all add: None record_of_def mapping_of_def infos_of_def new_config_map_def lookup_info_def)
next
  case (Some cm)
  with assms obtain rs where "infos_of cm = Inr (map Some rs)" "distinct (map i_ClusterId rs)"
      "om_DeletionTimestamp (cm_Meta cm) = None"
    by (auto simp: map_ok_def)
  then show ?thesis by (intro that [of rs]) (simp_all add: Some record_of_infos mapping_of_def)
qed

text \<open>What the mutations of the jobs do to a well-formed map.\<close>

lemma mutation_effect:
  assumes mut: "mut \<in> job_mutations rng denv j" "mut cm = Inr sent"
    and rs: "infos_of cm = Inr (map Some rs)" "distinct (map i_ClusterId rs)"
  shows "\<exists>rs'. infos_of sent = Inr (map Some rs') \<and> distinct (map i_ClusterId rs') \<and>
    (\<forall>name. (\<forall>ns. j \<noteq> Profile_job (ns, name)) \<longrightarrow> lookup_info rs' name = lookup_info rs name) \<and>
    ((\<forall>req. j \<noteq> Mapping_job req) \<longrightarrow> fmlookup (cm_Data sent) CsiConfigMapMappingKey = fmlookup (cm_Data cm) CsiConfigMapMappingKey)"
proof -
  have keys: "CsiConfigMapConfigKey \<noteq> CsiConfigMapMappingKey"
    by (simp add: CsiConfigMapConfigKey_def CsiConfigMapMappingKey_def)
  show ?thesis
  proof (cases j)
    case (Profile_job req)
    with mut(1) obtain r where r: "mut = mutateCephCsiClusterInfo rng (e_scheme denv) r" "profile_key r = req" by auto
    with mut(2) mutate_cluster_info_eq [OF rs(1)] obtain md
      where sent: "sent = put_infos (map Some (new_infos rng r rs)) (cm\<lparr>cm_Meta := md\<rparr>)"
      by (auto split: sum.splits prod.splits)
    have "distinct (map i_ClusterId (new_infos rng r rs))"
      using infos.ok_op [OF rs(2)] by (simp add: new_infos_op)
    moreover have "lookup_info (new_infos rng r rs) name = lookup_info rs name" if "\<forall>ns. j \<noteq> Profile_job (ns, name)" for name
      using infos.lookup_op [OF rs(2), of "info_op rng r" name] that r(2) Profile_job
      by (cases req) (auto simp: new_infos_op profile_key_def ObjectKeyFromObject_def)
    ultimately show ?thesis
      using Profile_job by (intro exI [of _ "new_infos rng r rs"]) (simp add: sent put_infos_frame(3) [OF keys [symmetric]])
  next
    case (Mapping_job req)
    with mut rs keys show ?thesis
      by (auto simp: mutateCephCsiBlockPoolMapping_def infos_of_def split: sum.splits)
  next
    case (Driver_job req)
    with mut rs show ?thesis by (auto simp: mutateCsiConfigMap_def split: sum.splits)
  qed (use mut in simp)
qed

lemma applies_effect:
  assumes "applies_job rng denv j ns v v'" "map_ok v"
  shows "map_ok v'" and "j \<noteq> Profile_job (ns, name) \<Longrightarrow> record_of v' name = record_of v name"
    and "\<forall>m. j \<noteq> Mapping_job (ns, m) \<Longrightarrow> mapping_of v' = mapping_of v"
proof -
  let ?blank = "new_config_map ns (vol_Name CsiConfigVolume)"
  obtain rs where rs: "infos_of (start_of v ?blank) = Inr (map Some rs)" "distinct (map i_ClusterId rs)"
    "om_DeletionTimestamp (cm_Meta (start_of v ?blank)) = None" "\<And>n. record_of v n = lookup_info rs n"
    "mapping_of v = fmlookup (cm_Data (start_of v ?blank)) CsiConfigMapMappingKey"
    using start_infos [OF assms(2)] by metis
  from assms(1) obtain mut sent where mut: "mut \<in> job_mutations rng denv j" "mut (start_of v ?blank) = Inr sent"
    and ns: "ns = fst (job_key j)" and v': "case v' of
           Some stored \<Rightarrow> map_content stored = map_content sent \<and>
             (om_DeletionTimestamp (cm_Meta (start_of v ?blank)) = None \<longrightarrow> om_DeletionTimestamp (cm_Meta stored) = None)
         | None \<Rightarrow> om_DeletionTimestamp (cm_Meta (start_of v ?blank)) \<noteq> None"
    unfolding applies_job_def mutated_def by blast
  from v' rs(3) obtain stored where stored: "v' = Some stored" "map_content stored = map_content sent"
      "om_DeletionTimestamp (cm_Meta stored) = None" by (cases v') auto
  from mutation_effect [OF mut rs(1,2)] obtain rs' where rs': "infos_of sent = Inr (map Some rs')"
    "distinct (map i_ClusterId rs')"
    "\<And>name. \<forall>ns. j \<noteq> Profile_job (ns, name) \<Longrightarrow> lookup_info rs' name = lookup_info rs name"
    "\<forall>req. j \<noteq> Mapping_job req \<Longrightarrow> fmlookup (cm_Data sent) CsiConfigMapMappingKey = mapping_of v"
    unfolding rs(5) by blast
  have infos: "infos_of stored = Inr (map Some rs')" using infos_of_content [OF stored(2)] rs'(1) by simp
  with stored rs'(2) show "map_ok v'" by (simp add: map_ok_def)
  show "record_of v' name = record_of v name" if "j \<noteq> Profile_job (ns, name)"
    using that rs'(3) [of name] rs(4) record_of_infos [OF infos] stored(1) ns by (cases j) auto
  show "mapping_of v' = mapping_of v" if "\<forall>m. j \<noteq> Mapping_job (ns, m)"
    using that rs'(4) stored ns by (cases j) (force simp: mapping_of_def map_content_def)+
qed

lemma job_change_effect:
  assumes "job_change view used rng denv j w w'" "maps_ok view w"
  shows "maps_ok view w'" and "j \<noteq> Profile_job (ns, name) \<Longrightarrow>
      record_of (view w' (shared_map ns)) name = record_of (view w (shared_map ns)) name"
    and "\<forall>m. j \<noteq> Mapping_job (ns, m) \<Longrightarrow>
      mapping_of (view w' (shared_map ns)) = mapping_of (view w (shared_map ns))"
proof -
  have at: "view w' (shared_map ns) = view w (shared_map ns) \<or>
      applies_job rng denv j ns (view w (shared_map ns)) (view w' (shared_map ns))" for ns
    using assms(1) unfolding job_change_def by blast
  have ok: "map_ok (view w (shared_map ns))" for ns using assms(2) by (simp add: maps_ok_def)
  show "maps_ok view w'" unfolding maps_ok_def using at ok applies_effect(1) by metis
  show "j \<noteq> Profile_job (ns, name) \<Longrightarrow>
      record_of (view w' (shared_map ns)) name = record_of (view w (shared_map ns)) name"
    using at [of ns] applies_effect(2) [OF _ ok] by metis
  show "mapping_of (view w' (shared_map ns)) = mapping_of (view w (shared_map ns))"
    if "\<forall>m. j \<noteq> Mapping_job (ns, m)"
    using at [of ns] applies_effect(3) [OF _ ok that] by metis
qed

text \<open>
  A run for the witnesses: the map holds the record of the profile \<open>a\<close>, one mapping resource is
  reconciled.
\<close>

definition one_mapping :: ClientProfileMapping where
  "one_mapping = \<lparr>cpm_Meta = (named_meta ''ns'' ''m'')\<lparr>om_UID := ''u1''\<rparr>, cpm_Mappings =
     [\<lparr>ms_LocalClientProfile = ''a'', ms_RemoteClientProfile = ''b'', ms_BlockPoolIdMapping = [[''1'', ''2'']]\<rparr>]\<rparr>"

definition stored_map :: config_map where
  "stored_map = (new_config_map ''ns'' ''ceph-csi-config'')
     \<lparr>cm_Meta := (named_meta ''ns'' ''ceph-csi-config'')\<lparr>om_ResourceVersion := ''1''\<rparr>\<rparr>"

definition shared_cluster :: cluster where
  "shared_cluster = empty_cluster
     \<lparr>mc_ConfigMap := \<lparr>mem_objs = [put_infos [Some (compose_for sorted_list_of_fmap (example_reconcile ''a'' False))] stored_map],
        mem_next = 2, mem_faults = []\<rparr>,
      mc_ClientProfileMapping := \<lparr>mem_objs = [one_mapping], mem_next = 2, mem_faults = []\<rparr>\<rparr>"

definition mapping_started :: "(job, cluster, error) sys" where
  "mapping_started = \<lparr>under_way = [(Mapping_job (''ns'', ''m''), Reconcile_mapping mem_client (addKnownTypes []) (''ns'', ''m''))],
     state = shared_cluster\<rparr>"

lemma shared_cluster_start:
  "mem_maps shared_cluster (shared_map ns) =
     (if ns = ''ns'' then Some (put_infos [Some (compose_for sorted_list_of_fmap (example_reconcile ''a'' False))] stored_map) else None)"
  "mapping_of (mem_maps shared_cluster (shared_map ''ns'')) = None"
  "record_of (mem_maps shared_cluster (shared_map ''ns'')) ''a'' =
     Some (compose_for sorted_list_of_fmap (example_reconcile ''a'' False))"
  "maps_ok mem_maps shared_cluster" "consistent cm_Meta mem_maps mem_versions shared_cluster"
proof -
  show map: "mem_maps shared_cluster (shared_map ns) =
     (if ns = ''ns'' then Some (put_infos [Some (compose_for sorted_list_of_fmap (example_reconcile ''a'' False))] stored_map) else None)" for ns
    by (simp add: shared_cluster_def mem_find_def stored_map_def shared_map_def ObjectKeyFromObject_def named_meta_def)
  have infos: "infos_of (put_infos [Some (compose_for sorted_list_of_fmap (example_reconcile ''a'' False))] stored_map) =
      Inr (map Some [compose_for sorted_list_of_fmap (example_reconcile ''a'' False)])" by simp
  show "mapping_of (mem_maps shared_cluster (shared_map ''ns'')) = None"
    by (simp add: map mapping_of_def put_infos_def stored_map_def new_config_map_def CsiConfigMapConfigKey_def CsiConfigMapMappingKey_def)
  show "record_of (mem_maps shared_cluster (shared_map ''ns'')) ''a'' =
     Some (compose_for sorted_list_of_fmap (example_reconcile ''a'' False))"
    by (simp add: map record_of_infos [OF infos] lookup_info_def) (simp add: example_reconcile_def)
  show "maps_ok mem_maps shared_cluster"
    using infos by (auto simp: maps_ok_def map_ok_def map stored_map_def named_meta_def zero_meta_def
        intro!: exI [of _ "[_]"])
  have "nat_to_string 1 = ''1''" by (simp add: nat_to_string.simps digit_def)
  then have "''1'' \<in> mem_used (mc_ConfigMap shared_cluster)"
    by (auto simp: mem_used_def shared_cluster_def intro!: image_eqI [of _ _ 1])
  then show "consistent cm_Meta mem_maps mem_versions shared_cluster"
    by (auto simp: consistent_def mem_find_def shared_cluster_def [of] stored_map_def split: if_splits)
qed

lemma mapping_run:
  "\<exists>w'. run_m (Reconcile_mapping mem_client (addKnownTypes []) (''ns'', ''m'')) shared_cluster = (None, w') \<and>
     mapping_of (mem_maps w' (shared_map ''ns'')) \<noteq> None"
proof -
  have own: "mapping_owner (''ns'', ''m'') [one_mapping] = Some one_mapping"
    by (simp add: mapping_owner_def one_mapping_def named_meta_def)
  obtain l where l: "csi_mappings [one_mapping] = Inr l"
    by (simp add: csi_mappings_def one_mapping_def add_mapping_def index_for_def empty_state_def seen_def mapping_key_def)
  let ?ex = "put_infos [Some (compose_for sorted_list_of_fmap (example_reconcile ''a'' False))] stored_map"
  let ?mut = "mutateCephCsiBlockPoolMapping (addKnownTypes []) (''ns'', ''m'') [one_mapping]"
  have meta: "cm_Meta ?ex = (named_meta ''ns'' ''ceph-csi-config'')\<lparr>om_ResourceVersion := ''1''\<rparr>"
    by (simp add: stored_map_def)
  obtain md ch where t: "ToggleOwnerReference True (cm_Meta ?ex) T_ClientProfileMapping (cpm_Meta one_mapping) (addKnownTypes []) = Inr (md, ch)"
    unfolding meta
    by (auto simp: ToggleOwnerReference_def IsOwnedBy_def SetOwnerReference_eq validateOwner_def addKnownTypes_def
        one_mapping_def named_meta_def zero_meta_def)
  let ?sent = "?ex\<lparr>cm_Meta := md, cm_Data := fmupd CsiConfigMapMappingKey (marshal_mappings l) (cm_Data ?ex)\<rparr>"
  have mut: "?mut ?ex = Inr ?sent" using l own t by (simp add: mutateCephCsiBlockPoolMapping_def)
  have get: "api_Get mem_ConfigMap (shared_map ''ns'') shared_cluster = (Inr ?ex, shared_cluster)"
    using shared_cluster_start(1) [of "''ns''"]
    by (simp add: mem_api_def mem_request_def) (simp add: shared_cluster_def)
  have "fmlookup (cm_Data ?ex) CsiConfigMapMappingKey = None"
    using shared_cluster_start(2) shared_cluster_start(1) [of "''ns''"] by (simp add: mapping_of_def)
  moreover have "fmlookup (cm_Data ?sent) CsiConfigMapMappingKey \<noteq> None" by simp
  ultimately have changed: "?ex \<noteq> ?sent" by metis
  have frame: "ObjectKeyFromObject md = shared_map ''ns''" "om_ResourceVersion md = ''1''" "om_DeletionTimestamp md = None"
    using toggle_frame [OF t] unfolding meta by (simp_all add: ObjectKeyFromObject_def named_meta_def zero_meta_def shared_map_def)
  obtain obj' w' where w': "api_Update mem_ConfigMap ?sent shared_cluster = (Inr obj', w')"
      "mem_maps w' (shared_map ''ns'') = Some obj'" "cm_Data obj' = cm_Data ?sent"
  proof (rule ConfigMap_store.update_succeeds [of ?sent shared_cluster ?ex], goal_cases)
    case 1
    show ?case using shared_cluster_start(1) [of "''ns''"] frame by simp
  next
    case 2
    show ?case by (simp add: shared_cluster_def)
  next
    case (5 obj' w')
    show ?case by (rule 5(1) [OF 5(2)]) (use 5(3,4) frame(1) in auto)
  qed (use frame meta in simp_all)
  have "run_m (CreateOrUpdate cm_Meta mem_ConfigMap (new_config_map ''ns'' ''ceph-csi-config'') (pure_mut ?mut)) shared_cluster =
      ((OperationResultUpdated, None, obj'), w')"
    using mapping_mutation.updating [OF _ mut changed, of mem_ConfigMap "new_config_map ''ns'' ''ceph-csi-config''" shared_cluster shared_cluster]
      get frame(1) toggle_frame(1) [OF t] by (simp add: w'(1) shared_map_def)
  moreover have "api_List mem_ClientProfileMapping \<lparr>lo_Namespace = ''ns'', lo_MatchingField = None\<rparr> shared_cluster =
      (Inr [one_mapping], shared_cluster)"
    by (simp add: mem_api_def mem_request_def shared_cluster_def one_mapping_def named_meta_def)
  ultimately show ?thesis
    by (intro exI [of _ w']) (simp add: Reconcile_mapping_def reconcile_mapping_def reconcileCephCsiBlockPoolMapping_def
        w'(2,3) mapping_of_def)
qed

lemma mapping_progress:
  obtains js t where "sys_reachable (job_programs mem_client sorted_list_of_fmap example_env) (\<lambda>_ _. False) shared_cluster mapping_started"
    "sys_run (job_programs mem_client sorted_list_of_fmap example_env) (\<lambda>_ _. False) mapping_started js t"
    "set js \<subseteq> {Some (Mapping_job (''ns'', ''m''))}" "mapping_of (mem_maps (state t) (shared_map ''ns'')) \<noteq> None"
proof -
  let ?progs = "job_programs mem_client sorted_list_of_fmap example_env"
  from sys_step.start [of _ ?progs "Mapping_job (''ns'', ''m'')" "\<lambda>_ _. False" "\<lparr>under_way = [], state = shared_cluster\<rparr>"]
  have "sys_step ?progs (\<lambda>_ _. False) None \<lparr>under_way = [], state = shared_cluster\<rparr> mapping_started"
    by (simp add: mapping_started_def example_env_def)
  from sys_reachable.step [OF sys_reachable.initial this]
  have "sys_reachable ?progs (\<lambda>_ _. False) shared_cluster mapping_started" .
  moreover from sys_run_alone [of mapping_started _ _ ?progs "\<lambda>_ _. False"] mapping_run
  obtain js t where "set js \<subseteq> {Some (Mapping_job (''ns'', ''m''))}"
      "sys_run ?progs (\<lambda>_ _. False) mapping_started js t" "mapping_of (mem_maps (state t) (shared_map ''ns'')) \<noteq> None"
    by (fastforce simp: mapping_started_def)
  ultimately show ?thesis using that by blast
qed

lemma maps_stay_ok:
  assumes "well_behaved (fresh_writes cm_Meta view used) (job_change view used rng denv) (consistent cm_Meta view used)
      (job_programs cl rng denv) env"
    and "consistent cm_Meta view used w0" and "maps_ok view w0"
    and "sys_reachable (job_programs cl rng denv) env w0 s"
    and "\<And>w w'. maps_ok view w \<Longrightarrow> env w w' \<Longrightarrow> maps_ok view w'"
  shows "maps_ok view (state s)"
proof (rule system_invariant [where J = "maps_ok view", OF assms(1,2,4,3)])
  show "maps_ok view w'" if "maps_ok view w" "job_change view used rng denv j w w'" for j w w'
    by (rule job_change_effect(1) [OF that(2,1)])
qed (rule assms(5))

text \<open>
  C2. No update of the shared ConfigMap is lost. In every execution of all the controllers together, with
  any number of reconcile iterations under way and other clients writing in between, each request
  leaves the ConfigMap of a namespace as it is, or it applies one whole mutation (the cluster information of one profile,
  the rebuilt mappings, or a driver's owner reference) to what is stored at that moment, and it does so
  on behalf of a resource of that namespace.
\<close>

theorem shared_map_updates:
  assumes "map_clients cl view used pview cview"
    and "\<forall>w w'. env w w' \<longrightarrow> fresh_writes cm_Meta view used w w'"
    and "consistent cm_Meta view used w0"
    and "sys_reachable (job_programs cl rng denv) env w0 s"
    and "sys_step (job_programs cl rng denv) env (Some j) s t"
  shows "view (state t) (shared_map ns) = view (state s) (shared_map ns) \<or>
    applies_job rng denv j ns (view (state s) (shared_map ns)) (view (state t) (shared_map ns))"
  using system_guarantee(3) [OF map_clients.all_sound [OF assms(1)] assms(3-5) refl] assms(2)
  by (simp add: job_change_def)

theorem shared_map_updates_witness:
  "\<exists>s t. sys_reachable (job_programs mem_client sorted_list_of_fmap example_env) (\<lambda>_ _. False) shared_cluster s \<and>
     sys_step (job_programs mem_client sorted_list_of_fmap example_env) (\<lambda>_ _. False) (Some (Mapping_job (''ns'', ''m''))) s t \<and>
     applies_job sorted_list_of_fmap example_env (Mapping_job (''ns'', ''m'')) ''ns''
       (mem_maps (state s) (shared_map ''ns'')) (mem_maps (state t) (shared_map ''ns''))"
proof -
  let ?progs = "job_programs mem_client sorted_list_of_fmap example_env" and ?env = "\<lambda>_ _. False"
  obtain js t where p: "sys_reachable ?progs ?env shared_cluster mapping_started" "sys_run ?progs ?env mapping_started js t"
    "set js \<subseteq> {Some (Mapping_job (''ns'', ''m''))}" "mapping_of (mem_maps (state t) (shared_map ''ns'')) \<noteq> None"
    by (rule mapping_progress)
  let ?V = "\<lambda>w. mem_maps w (shared_map ''ns'')"
  have "?V (state mapping_started) \<noteq> ?V (state t)"
    using p(4) shared_cluster_start(2) by (auto simp: mapping_started_def)
  from sys_run_changes [where V = ?V, OF p(2) this] obtain j ks u v where
    r': "sys_run ?progs ?env mapping_started ks u" "sys_step ?progs ?env j u v" "j \<in> set js" "?V (state v) \<noteq> ?V (state u)"
    by auto
  from r'(3) p(3) have "j = Some (Mapping_job (''ns'', ''m''))" by auto
  note r = r'(1) r'(2) [unfolded this] r'(4)
  have reach: "sys_reachable ?progs ?env shared_cluster u" by (rule sys_run_reachable [OF r(1) p(1)])
  from shared_map_updates [OF mem_clients.map_clients_axioms _ shared_cluster_start(5) reach r(2), of "''ns''"] r reach
  show ?thesis by auto
qed

text \<open>
  C7. The shared ConfigMaps stay well formed. If no other client damages them, then in every reachable
  state of all the controllers together each of them holds a list without nil entries and with at
  most one record per client profile, and is not being deleted.
\<close>

theorem shared_map_invariant:
  assumes "map_clients cl view used pview cview"
    and "\<forall>w w'. env w w' \<longrightarrow> fresh_writes cm_Meta view used w w' \<and> (maps_ok view w \<longrightarrow> maps_ok view w')"
    and "consistent cm_Meta view used w0" and "maps_ok view w0"
    and "sys_reachable (job_programs cl rng denv) env w0 s"
  shows "maps_ok view (state s)"
  by (rule maps_stay_ok [OF map_clients.all_sound [OF assms(1)] assms(3-5)]) (use assms(2) in blast)+

theorem shared_map_invariant_witness:
  "\<exists>t. sys_reachable (job_programs mem_client sorted_list_of_fmap example_env) (\<lambda>_ _. False) shared_cluster t \<and>
     mapping_of (mem_maps (state t) (shared_map ''ns'')) \<noteq> None \<and> maps_ok mem_maps (state t)"
proof -
  let ?progs = "job_programs mem_client sorted_list_of_fmap example_env" and ?env = "\<lambda>_ _. False"
  obtain js t where p: "sys_reachable ?progs ?env shared_cluster mapping_started" "sys_run ?progs ?env mapping_started js t"
    "mapping_of (mem_maps (state t) (shared_map ''ns'')) \<noteq> None"
    by (rule mapping_progress)
  have reach: "sys_reachable ?progs ?env shared_cluster t" by (rule sys_run_reachable [OF p(2,1)])
  from shared_map_invariant [OF mem_clients.map_clients_axioms _ shared_cluster_start(5,4) reach] p(3) reach
  show ?thesis by auto
qed

text \<open>
  C6. Controllers do not disturb each other's part of the shared ConfigMap, however their requests are
  interleaved. Over any stretch of an execution of all the controllers together, the record of a client
  profile is unchanged unless the profile itself was reconciled, and the mappings of a namespace are
  unchanged unless a mapping resource of it was.
\<close>

theorem records_undisturbed:
  assumes "map_clients cl view used pview cview"
    and "\<forall>w w'. env w w' \<longrightarrow> fresh_writes cm_Meta view used w w' \<and> (\<forall>ns. view w' (shared_map ns) = view w (shared_map ns))"
    and "consistent cm_Meta view used w0" and "maps_ok view w0"
    and "sys_reachable (job_programs cl rng denv) env w0 s" and "sys_run (job_programs cl rng denv) env s js t"
  shows "(Some (Profile_job (ns, name)) \<notin> set js \<longrightarrow>
      record_of (view (state t) (shared_map ns)) name = record_of (view (state s) (shared_map ns)) name) \<and>
    ((\<forall>m. Some (Mapping_job (ns, m)) \<notin> set js) \<longrightarrow>
      mapping_of (view (state t) (shared_map ns)) = mapping_of (view (state s) (shared_map ns)))"
proof -
  have wb: "well_behaved (fresh_writes cm_Meta view used) (job_change view used rng denv) (consistent cm_Meta view used)
      (job_programs cl rng denv) env"
    by (rule map_clients.all_sound [OF assms(1)]) (use assms(2) in blast)
  have ok: "maps_ok view (state u)" if "sys_reachable (job_programs cl rng denv) env w0 u" for u
    by (rule maps_stay_ok [OF wb assms(3,4) that]) (use assms(2) in \<open>auto simp: maps_ok_def\<close>)
  note keeps = sys_run_keeps [OF wb assms(3,6,5), where P = "maps_ok view", OF _ _ ok]
  have "record_of (view (state t) (shared_map ns)) name = record_of (view (state s) (shared_map ns)) name"
    if "Some (Profile_job (ns, name)) \<notin> set js"
    by (rule keeps [where J = "{Profile_job (ns, name)}" and V = "\<lambda>w. record_of (view w (shared_map ns)) name"])
      (use job_change_effect(2) assms(2) that in auto)
  moreover have "mapping_of (view (state t) (shared_map ns)) = mapping_of (view (state s) (shared_map ns))"
    if "\<forall>m. Some (Mapping_job (ns, m)) \<notin> set js"
    by (rule keeps [where J = "{Mapping_job (ns, m) | m. True}" and V = "\<lambda>w. mapping_of (view w (shared_map ns))"])
      (use job_change_effect(3) assms(2) that in auto)
  ultimately show ?thesis by blast
qed

theorem records_undisturbed_witness:
  "\<exists>js t. sys_run (job_programs mem_client sorted_list_of_fmap example_env) (\<lambda>_ _. False) mapping_started js t \<and>
     mapping_of (mem_maps (state t) (shared_map ''ns'')) \<noteq> None \<and>
     record_of (mem_maps (state t) (shared_map ''ns'')) ''a'' =
       Some (compose_for sorted_list_of_fmap (example_reconcile ''a'' False))"
proof -
  let ?progs = "job_programs mem_client sorted_list_of_fmap example_env" and ?env = "\<lambda>_ _. False"
  obtain js t where p: "sys_reachable ?progs ?env shared_cluster mapping_started" "sys_run ?progs ?env mapping_started js t"
    "set js \<subseteq> {Some (Mapping_job (''ns'', ''m''))}" "mapping_of (mem_maps (state t) (shared_map ''ns'')) \<noteq> None"
    by (rule mapping_progress)
  have "Some (Profile_job (''ns'', ''a'')) \<notin> set js" using p(3) by auto
  with records_undisturbed [OF mem_clients.map_clients_axioms _ shared_cluster_start(5,4) p(1,2), of "''ns''" "''a''"]
  have "record_of (mem_maps (state t) (shared_map ''ns'')) ''a'' = record_of (mem_maps shared_cluster (shared_map ''ns'')) ''a''"
    by (simp add: mapping_started_def)
  with p(2,4) shared_cluster_start(3) show ?thesis by auto
qed

section \<open>A reconciliation among others\<close>

text \<open>
  Any number of steps of other jobs (for what concerns the shared maps, other clients are among them)
  that leave \<open>unedited\<close> worlds unedited.
\<close>

definition others_change ::
    "('w \<Rightarrow> object_key \<Rightarrow> config_map option) \<Rightarrow> ('w \<Rightarrow> string set) \<Rightarrow> iteration \<Rightarrow> driver_env \<Rightarrow> ('w \<Rightarrow> bool) \<Rightarrow> job \<Rightarrow> 'w change" where
  "others_change view used rng env unedited j =
     (\<lambda>w w'. (unedited w \<longrightarrow> unedited w') \<and> (\<exists>i. i \<noteq> j \<and> job_change view used rng env i w w'))\<^sup>*\<^sup>*"

text \<open>The spec of a profile and of its connection, and whether it is being deleted.\<close>

definition profile_inputs ::
    "('w \<Rightarrow> object_key \<Rightarrow> ClientProfile option) \<Rightarrow> ('w \<Rightarrow> object_key \<Rightarrow> CephConnection option) \<Rightarrow> object_key \<Rightarrow>
     ClientProfileSpec \<Rightarrow> CephConnectionSpec \<Rightarrow> bool \<Rightarrow> 'w \<Rightarrow> bool" where
  "profile_inputs pview cview req spec conn deleted w \<longleftrightarrow>
     (\<forall>p. pview w req = Some p \<longrightarrow> cp_Spec p = spec \<and> (om_DeletionTimestamp (cp_Meta p) \<noteq> None) = deleted) \<and>
     (\<forall>c. cview w (fst req, cps_CephConnectionRef spec) = Some c \<longrightarrow> cc_Spec c = conn)"

lemma others_fresh: "others_change view used rng env un j w w' \<Longrightarrow> fresh_writes cm_Meta view used w w'"
  unfolding others_change_def
proof (induction rule: rtranclp_induct)
  case base
  show ?case by (rule reflpD [OF reflp_fresh])
next
  case (step u v)
  then show ?case by (auto simp: job_change_def intro: transpD [OF transp_fresh])
qed

lemma others_unedited: "others_change view used rng env un j w w' \<Longrightarrow> un w \<Longrightarrow> un w'"
  unfolding others_change_def by (induction rule: rtranclp_induct) auto

definition recorded ::
    "('w \<Rightarrow> object_key \<Rightarrow> config_map option) \<Rightarrow> iteration \<Rightarrow> object_key \<Rightarrow> ClientProfileReconcile \<Rightarrow> 'w \<Rightarrow> bool" where
  "recorded view rng req r w \<longleftrightarrow>
     record_of (view w (shared_map (fst req))) (snd req) = (if r_cleanUp r then None else Some (compose_for rng r))"

lemma others_keep:
  "others_change view used rng env un (Profile_job req) w w' \<Longrightarrow> map_ok (view w (shared_map ns)) \<Longrightarrow>
     map_ok (view w' (shared_map ns)) \<and> (fst req = ns \<longrightarrow> recorded view rng req r w \<longrightarrow> recorded view rng req r w')"
  unfolding others_change_def
proof (induction rule: rtranclp_induct)
  case (step u v)
  then obtain i where i: "i \<noteq> Profile_job req" "job_change view used rng env i u v" by blast
  from step have u: "map_ok (view u (shared_map ns))" "fst req = ns \<longrightarrow> recorded view rng req r w \<longrightarrow> recorded view rng req r u"
    by simp_all
  from i(2) have "view v (shared_map ns) = view u (shared_map ns) \<or>
      applies_job rng env i ns (view u (shared_map ns)) (view v (shared_map ns))" by (simp add: job_change_def)
  then show ?case
  proof
    assume "applies_job rng env i ns (view u (shared_map ns)) (view v (shared_map ns))"
    note effect = applies_effect [OF this u(1)]
    show ?case using effect(1) effect(2) [of "snd req"] i(1) u(2) by (auto simp: recorded_def)
  qed (use u in \<open>auto simp: recorded_def\<close>)
qed simp

lemma cluster_info_recorded:
  assumes "mutateCephCsiClusterInfo rng scheme r cm = Inr sent" "profile_key r = req"
    and "infos_of cm = Inr (map Some rs)" "distinct (map i_ClusterId rs)" "infos_of cm' = infos_of sent"
  shows "record_of (Some cm') (snd req) = (if r_cleanUp r then None else Some (compose_for rng r))"
proof -
  from assms(1) mutate_cluster_info_eq [OF assms(3)] have "infos_of sent = Inr (map Some (new_infos rng r rs))"
    by (auto split: sum.splits prod.splits)
  with assms(5) have "record_of (Some cm') (snd req) = lookup_info (new_infos rng r rs) (snd req)"
    by (simp add: record_of_infos)
  moreover have "om_Name (cp_Meta (r_clientProfile r)) = snd req"
    using assms(2) by (auto simp: profile_key_def ObjectKeyFromObject_def)
  ultimately show ?thesis
    using infos.lookup_op [OF assms(4), of "info_op rng r" "snd req"] by (simp add: new_infos_op)
qed

context map_clients
begin

definition others_ok :: "'w \<Rightarrow> bool" where
  "others_ok w \<longleftrightarrow> consistent cm_Meta view used w \<and> maps_ok view w"

lemma prepared_others: "prepared (others_change view used rng env un (Profile_job req)) others_ok rng env (Profile_job req)"
proof -
  let ?R = "others_change view used rng env un (Profile_job req)"
  have "relies ?R (job_change view used rng env (Profile_job req)) others_ok"
    unfolding relies_def
  proof (intro conjI allI impI)
    show "reflp ?R" "transp ?R" by (auto simp: others_change_def intro!: reflpI transpI)
    show "others_ok w'" if "others_ok w" "?R w w'" for w w'
      using that others_keep [OF that(2)] consistent_stable [OF _ others_fresh [OF that(2)]]
      by (simp add: others_ok_def maps_ok_def)
    show "others_ok w'" if "others_ok w" "job_change view used rng env (Profile_job req) w w'" for w w'
      using that job_change_effect(1) [OF that(2)] consistent_stable by (auto simp: others_ok_def job_change_def)
  qed
  moreover have "?R w w' \<Longrightarrow> maps.fresh w w'" for w w' by (rule others_fresh)
  ultimately show ?thesis by (simp add: prepared_def others_ok_def)
qed

text \<open>What an update for \<open>r\<close> establishes at the profile's map.\<close>

definition settled_in :: "iteration \<Rightarrow> driver_env \<Rightarrow> object_key \<Rightarrow> ClientProfileReconcile \<Rightarrow> 'w \<Rightarrow> bool" where
  "settled_in rng env req r w \<longleftrightarrow> map_ok (view w (shared_map (fst req))) \<and> recorded view rng req r w"

text \<open>What loading finds if nobody edits the inputs.\<close>

lemma abides_load:
  assumes R: "prepared R I rng env (Profile_job req)" and I: "I w"
    and un: "\<And>w w'. profile_inputs pview cview req spec conn deleted w \<Longrightarrow> R w w' \<Longrightarrow> profile_inputs pview cview req spec conn deleted w'"
      "profile_inputs pview cview req spec conn deleted w" and r: "profile_key r = req"
  shows "abides R (job_change view used rng env (Profile_job req))
    (ends_with (\<lambda>r. inputs_of r \<in> {(req, spec, conn, deleted)}) (\<lambda>_. True)) (loadAndValidate cl scheme r) w"
proof -
  let ?U = "profile_inputs pview cview req spec conn deleted" and ?G = "job_change view used rng env (Profile_job req)"
  let ?K = "\<lambda>r. profile_key r = req \<and> cp_Spec (r_clientProfile r) = spec \<and> r_cleanUp r = deleted"
  note seq = abides_seq [OF preparedD(1) [OF R]] and step = abides_quiet_step [OF R lasting_True]
  have profile: "abides R ?G (ends_with ?K ?U) (load_profile cl r) w"
    unfolding load_profile_def
  proof (rule seq [OF I, where S = "\<lambda>w g. ?U w \<and> (\<forall>p. g = Inr p \<longrightarrow> ObjectKeyFromObject (cp_Meta p) = req \<and>
      cp_Spec p = spec \<and> (om_DeletionTimestamp (cp_Meta p) \<noteq> None) = deleted)"], goal_cases)
    case 1
    show ?case
      unfolding abides_call r [unfolded profile_key_def]
    proof (intro allI impI, goal_cases)
      case (1 w1)
      have u: "?U w1" using un(1) [OF un(2) 1] .
      obtain g w2 where g: "api_Get (cl_ClientProfile cl) req w1 = (g, w2)" by fastforce
      have "?U w2" using u profiles.get_frame [OF g] profile_get [OF g] by (simp add: profile_inputs_def)
      moreover have "ObjectKeyFromObject (cp_Meta p) = req \<and> cp_Spec p = spec \<and> (om_DeletionTimestamp (cp_Meta p) \<noteq> None) = deleted"
        if "g = Inr p" for p
        using profiles.get_found [OF g [unfolded that]] u by (auto simp: profile_inputs_def)
      moreover have "?G w1 w2" using quiet_job [of w1 w2] others_within(1) [of w1 req] g by simp
      ultimately show ?case using g un(1) by auto
    qed
  next
    case (2 g w)
    then show ?case
      using un(1) by (auto simp: profile_key_def Let_def split: sum.split)
  qed
  have connection: "abides R ?G (ends_with (\<lambda>r. inputs_of r = (req, spec, conn, deleted)) (\<lambda>_. True)) (load_connection cl r) w"
    if "?K r" "?U w" "I w" for r w
  proof -
    have k: "ObjectKeyFromObject (cc_Meta ((r_cephConn r)\<lparr>cc_Meta := (cc_Meta (r_cephConn r))
        \<lparr>om_Name := cps_CephConnectionRef (cp_Spec (r_clientProfile r)), om_Namespace := om_Namespace (cp_Meta (r_clientProfile r))\<rparr>\<rparr>)) =
        (fst req, cps_CephConnectionRef spec)"
      using that(1) by (auto simp: profile_key_def ObjectKeyFromObject_def)
    show ?thesis
      unfolding load_connection_def Let_def k
    proof (rule seq [OF that(3), where S = "\<lambda>w g. \<forall>c. g = Inr c \<longrightarrow> cc_Spec c = conn"], goal_cases)
      case 1
      show ?case
        unfolding abides_call
      proof (intro allI impI conjI)
        fix w1 assume "R w w1"
        then have u: "?U w1" using un(1) that(2) by blast
        show "?G w1 (snd (api_Get (cl_CephConnection cl) (fst req, cps_CephConnectionRef spec) w1))"
          by (simp add: quiet_job)
        fix w2 c assume "fst (api_Get (cl_CephConnection cl) (fst req, cps_CephConnectionRef spec) w1) = Inr c"
        then show "cc_Spec c = conn"
          using connections.get_found [of "(fst req, cps_CephConnectionRef spec)" w1 c] u
          by (auto simp: profile_inputs_def prod_eq_iff)
      qed
    next
      case (2 g w)
      with that(1) show ?case by (auto simp: inputs_of_def profile_key_def split: sum.split)
    qed
  qed
  show ?thesis
    unfolding loadAndValidate_def
  proof (rule abides_and_then [OF R I profile], goal_cases)
    case (1 r w)
    show ?case
    proof (rule abides_and_then [OF R 1(1) connection [OF 1(2,3,1)]], goal_cases)
      case (1 r w)
      show ?case
      proof (rule abides_and_then [OF R 1(1), where K = "\<lambda>r. inputs_of r = (req, spec, conn, deleted)" and T = "\<lambda>_. True"], goal_cases)
        case 1
        show ?case by (rule step [OF quiet_toggles(1)]) (use \<open>inputs_of r = (req, spec, conn, deleted)\<close> in \<open>auto dest!: inputs_toggles\<close>)
      next
        case (2 r w)
        then show ?case by (intro step [OF quiet_connection_steps(6)]) (auto dest!: inputs_reads)
      qed
    qed
  qed
qed

lemma recorded_profile:
  assumes "others_ok w" and un: "profile_inputs pview cview req spec conn deleted w"
  shows "abides (others_change view used rng env (profile_inputs pview cview req spec conn deleted) (Profile_job req))
    (job_change view used rng env (Profile_job req))
    (\<lambda>w err. err = None \<longrightarrow> (\<exists>r. inputs_of r \<in> {(req, spec, conn, deleted)} \<and> settled_in rng env req r w)) (Reconcile_profile cl rng (e_scheme env) req) w"
proof (rule abides_profile [OF prepared_others assms(1) abides_load [where conn = conn and deleted = deleted and spec = spec,
      OF prepared_others assms(1) _ un]])
  fix r
  let ?un = "profile_inputs pview cview req spec conn deleted"
  show "lasting (others_change view used rng env ?un (Profile_job req)) (settled_in rng env req r)"
  proof (rule lastingI)
    show "settled_in rng env req r w'" if "settled_in rng env req r w" "others_change view used rng env ?un (Profile_job req) w w'"
      for w w' using that(1) others_keep [OF that(2), of "fst req"] by (simp add: settled_in_def)
    show "settled_in rng env req r w'" if "settled_in rng env req r w" "quiet w w'" for w w'
      using that by (simp add: settled_in_def recorded_def no_writes_def)
  qed
next
  show "establishes others_ok (settled_in rng env req) rng env req"
    unfolding establishes_def
  proof (intro allI impI conjI)
    fix r w w' assume r: "profile_key r = req" and ok: "others_ok w"
      and m: "mutated cm_Meta map_content (mutateCephCsiClusterInfo rng (e_scheme env) r)
         (new_config_map (fst req) (vol_Name CsiConfigVolume)) (view w (shared_map (fst req))) (view w' (shared_map (fst req)))"
    have v: "map_ok (view w (shared_map (fst req)))" using ok by (simp add: others_ok_def maps_ok_def)
    have "applies_job rng env (Profile_job req) (fst req) (view w (shared_map (fst req))) (view w' (shared_map (fst req)))"
      using m r by (auto simp: applies_job_def)
    with v have v': "map_ok (view w' (shared_map (fst req)))" by (rule applies_effect(1) [rotated])
    from start_infos [OF v] obtain rs where
      rs: "infos_of (start_of (view w (shared_map (fst req))) (new_config_map (fst req) (vol_Name CsiConfigVolume))) = Inr (map Some rs)"
        "distinct (map i_ClusterId rs)"
        "om_DeletionTimestamp (cm_Meta (start_of (view w (shared_map (fst req))) (new_config_map (fst req) (vol_Name CsiConfigVolume)))) = None"
      by metis
    with m obtain sent stored where
      "mutateCephCsiClusterInfo rng (e_scheme env) r (start_of (view w (shared_map (fst req))) (new_config_map (fst req) (vol_Name CsiConfigVolume))) = Inr sent"
      "view w' (shared_map (fst req)) = Some stored" "map_content stored = map_content sent"
      unfolding mutated_def by (auto split: option.splits)
    with cluster_info_recorded [OF _ r rs(1,2) infos_of_content] v' show "settled_in rng env req r w'"
      by (simp add: settled_in_def recorded_def)
  next
    fix r w ex assume r: "profile_key r = req" and ok: "others_ok w"
      and ex: "view w (shared_map (fst req)) = Some ex" "mutateCephCsiClusterInfo rng (e_scheme env) r ex = Inr ex"
    have v: "map_ok (Some ex)" using ok ex(1) by (metis others_ok_def maps_ok_def)
    then obtain rs where "infos_of ex = Inr (map Some rs)" "distinct (map i_ClusterId rs)" by (auto simp: map_ok_def)
    with cluster_info_recorded [OF ex(2) r _ _ refl] v ex(1) show "settled_in rng env req r w"
      by (simp add: settled_in_def recorded_def)
  qed
qed (use others_unedited in \<open>auto simp: profile_key_def\<close>)

end

text \<open>
  C3. A client profile whose reconciliation returned without an error has its record in the shared
  ConfigMap, composed from its spec and the spec of its connection, or no record if it is being deleted. This holds
  whatever the other controllers, iterations for other profiles and other clients did to the
  ConfigMap meanwhile, as long as nobody edited the two specs.
\<close>

theorem reconciled_profile_recorded:
  assumes "map_clients cl view used pview cview"
    and "consistent cm_Meta view used w" and "maps_ok view w" and "profile_inputs pview cview req spec conn deleted w"
    and "interleaved (others_change view used rng denv (profile_inputs pview cview req spec conn deleted) (Profile_job req))
      (Reconcile_profile cl rng (e_scheme denv) req) w None w'"
  shows "\<exists>r. inputs_of r = (req, spec, conn, deleted) \<and>
    record_of (view w' (shared_map (fst req))) (snd req) = (if deleted then None else Some (compose_for rng r))"
proof -
  have "map_clients.others_ok view used w"
    using assms(2,3) by (simp add: map_clients.others_ok_def [OF assms(1)])
  from abides_interleaved [OF assms(5) map_clients.recorded_profile [OF assms(1) this assms(4)]]
  obtain r where "inputs_of r = (req, spec, conn, deleted)" "map_clients.settled_in view rng denv req r w'" by auto
  then show ?thesis
    unfolding map_clients.settled_in_def [OF assms(1)] recorded_def by (auto simp: inputs_of_def)
qed

definition first_profile_cluster :: cluster where
  "first_profile_cluster = empty_cluster
     \<lparr>mc_ClientProfile := empty_mem\<lparr>mem_objs := [zero_ClientProfile\<lparr>cp_Meta := (named_meta ''ns'' ''a'')\<lparr>om_UID := ''u1''\<rparr>,
        cp_Spec := (cp_Spec zero_ClientProfile)\<lparr>cps_CephConnectionRef := ''c''\<rparr>\<rparr>]\<rparr>,
      mc_CephConnection := empty_mem\<lparr>mem_objs := [zero_CephConnection\<lparr>cc_Meta := (named_meta ''ns'' ''c'')\<lparr>om_UID := ''u2''\<rparr>,
        cc_Spec := (cc_Spec zero_CephConnection)\<lparr>cc_Monitors := [''10.0.0.1:6789'']\<rparr>\<rparr>]\<rparr>\<rparr>"

theorem reconciled_profile_recorded_witness:
  "case run_m (Reconcile_profile mem_client sorted_list_of_fmap (addKnownTypes []) (''ns'', ''a'')) first_profile_cluster of
     (err, w') \<Rightarrow> err = None \<and>
       (\<exists>record. record_of (mem_maps w' (shared_map ''ns'')) ''a'' = Some record \<and> i_Monitors record = [''10.0.0.1:6789''])"
proof -
  let ?spec = "(cp_Spec zero_ClientProfile)\<lparr>cps_CephConnectionRef := ''c''\<rparr>"
    and ?conn = "(cc_Spec zero_CephConnection)\<lparr>cc_Monitors := [''10.0.0.1:6789'']\<rparr>"
  let ?un = "profile_inputs (\<lambda>w k. mem_find cp_Meta k (mc_ClientProfile w)) (\<lambda>w k. mem_find cc_Meta k (mc_CephConnection w))
    (''ns'', ''a'') ?spec ?conn False"
  have "fst (run_m (Reconcile_profile mem_client sorted_list_of_fmap (addKnownTypes []) (''ns'', ''a'')) first_profile_cluster) = None"
    by code_simp
  then obtain w' where run: "run_m (Reconcile_profile mem_client sorted_list_of_fmap (e_scheme example_env) (''ns'', ''a''))
      first_profile_cluster = (None, w')" by (metis driver_env.select_convs(4) example_env_def prod.collapse)
  have start: "mem_maps first_profile_cluster k = None" for k
    by (simp add: first_profile_cluster_def empty_cluster_def empty_mem_def mem_find_def)
  have un: "?un first_profile_cluster"
    by (simp add: profile_inputs_def first_profile_cluster_def empty_mem_def mem_find_def ObjectKeyFromObject_def named_meta_def zero_meta_def)
  have "reflp (others_change mem_maps mem_versions sorted_list_of_fmap example_env ?un (Profile_job (''ns'', ''a'')))"
    by (auto simp: others_change_def intro: reflpI)
  from reconciled_profile_recorded [OF mem_clients.map_clients_axioms _ _ un interleaved_alone [OF this run]]
  obtain r where "inputs_of r = ((''ns'', ''a''), ?spec, ?conn, False)"
    "record_of (mem_maps w' (shared_map ''ns'')) ''a'' = Some (compose_for sorted_list_of_fmap r)"
    by (auto simp: consistent_def maps_ok_def map_ok_def start)
  with run show ?thesis by (simp add: example_env_def inputs_of_def compose_for_def composeCsiClusterInfoRecord_def)
qed

end
