(* ===== verification/Spec2Isabelle.thy ===== *)
theory Spec2Isabelle
  imports Driver_Stable Watches Manager Deep_Copy Shared_Map
begin

text \<open>
  Verification of the Ceph CSI operator.

  \<^bold>\<open>The program.\<close> The operator is a Kubernetes controller manager (\<open>cmd/main.go\<close>) with four controllers
  under \<open>internal/controller\<close>. The driver controller turns a \<open>Driver\<close> resource into the objects that run a
  Ceph CSI driver: two ConfigMaps, a cluster-scoped CSIDriver, a deployment, two daemon sets, two
  network policies and a service. The client profile controller writes one record per \<open>ClientProfile\<close>
  into the JSON list that the ConfigMap \<open>ceph-csi-config\<close> holds for the running drivers, and blocks the
  deletion of a profile that is still in use. The mapping controller writes the block pool
  mappings of all \<open>ClientProfileMapping\<close> resources into another key of that ConfigMap. The replication
  controller decides which of several competing \<open>ClientProfileReplication\<close> resources of a profile is
  accepted; the client profile controller then reads the accepted one. The controllers share no memory:
  they interact through the objects on the API server and the events those cause.

  \<^bold>\<open>The shape of the model.\<close> Structs are records, in the order of the source's fields as far as the code
  reads or writes them; pointers that may be nil are options, Go maps are finite maps, a range over a map is an
  argument that picks an order (\<open>iteration\<close>). Errors are values: \<open>'a result\<close> for a pair of a value and
  an error, \<open>error\<close> (an option) for an error alone; a panic is an error of its own. A method that changes the fields
  of its receiver takes and returns the record. Code that talks to the API server is a program of
  type \<open>('w, 'a) m\<close>, which is either finished or makes one request and continues with the answer; \<open>'w\<close> is
  the world behind the server. \<open>run_m\<close> runs a program alone, \<open>Concurrency\<close> interleaves the requests of the
  goroutines of one reconciliation, and \<open>Rely_Guarantee\<close> those of all controllers and of other clients. Where the code is about sharing and
  copying of memory (the generated deep copies), the values are trees in a heap of structs, slices and maps (\<open>Go_Memory\<close>).

  \<^bold>\<open>Which theory models what.\<close>
  \<^item> \<open>Prelude\<close>: errors, programs, the small standard functions (\<open>cmp.Or\<close>, \<open>strings.Join\<close>, numbers as text).
  \<^item> \<open>Utils_Core\<close>, \<open>Concurrency\<close>: \<open>internal/utils/core.go\<close>; \<open>RunConcurrently\<close> and \<open>ChannelToSlice\<close> as a
    step relation on goroutines, wait group and channel.
  \<^item> \<open>Utils_Meta\<close>, \<open>Kube_Client\<close>: \<open>internal/utils/meta.go\<close>, the owner references, finalizers and
    \<open>CreateOrUpdate\<close> of the vendored \<open>controllerutil\<close>; the locale \<open>kube_api\<close> states what the code relies on
    of the server for one kind of object, and \<open>mem_store\<close> is an executable server that keeps it.
  \<^item> \<open>Json\<close>: the encoder and decoder of \<open>encoding/json\<close> as far as annotations and ConfigMaps use them.
  \<^item> \<open>Core_Types\<close>, \<open>Utils_Csi\<close>, \<open>Api_Types\<close>: the Kubernetes objects, the volumes, mounts and arguments of
    \<open>internal/utils/csi.go\<close>, the resources of \<open>api/v1\<close> and their validation rules.
  \<^item> \<open>Cluster_Info\<close>, \<open>Client_Profile\<close>: \<open>clientprofile_controller.go\<close>.
  \<^item> \<open>Client_Profile_Mapping\<close>, \<open>Client_Profile_Replication\<close>: the controllers of these names.
  \<^item> \<open>Driver_Spec\<close> (names, defaults of \<open>defaults.go\<close>, \<open>mergeDriverSpecs\<close>), \<open>Driver_Load\<close> (\<open>LoadAndValidateDesiredState\<close>),
    \<open>Driver_Pods\<close> (what the pods share), \<open>Driver_Deploy\<close> (the deployment), \<open>Driver_Node\<close> (the daemon sets),
    \<open>Driver_Misc\<close> (the other objects), \<open>Driver_Reconcile\<close>, \<open>Driver_Ready\<close> and \<open>Driver_Stable\<close> (the whole reconciliation):
    \<open>driver_controller.go\<close>.
  \<^item> \<open>Local_Views\<close>: reasoning about one of several concurrent programs through the part of the world only it writes.
  \<^item> \<open>Watches\<close>: \<open>predicates.go\<close>, the four \<open>SetupWithManager\<close> functions, the vendored predicates and event handlers.
  \<^item> \<open>Manager\<close>: \<open>cmd/main.go\<close>.
  \<^item> \<open>Go_Memory\<close>, \<open>Deep_Copy\<close>: \<open>api/v1/zz_generated.deepcopy.go\<close>. The first has the memory, the statements generated
    code is made of and a rule for each; the second has the types of the API and the functions, one by one.
  \<^item> \<open>Rely_Guarantee\<close>, \<open>Versioned_Api\<close>, \<open>Shared_Map\<close>: the system of all controllers: programs that run for the requests of
    their queues, any number at once; the server's optimistic concurrency control; and what the two give for the ConfigMap
    \<open>ceph-csi-config\<close>.
  \<^item> \<open>Mem_Cluster\<close>: an executable cluster, a \<open>mem_store\<close> per kind, the concrete input of the witnesses.

  \<^bold>\<open>What is shown.\<close>
  \<^item> Drivers. \<open>driver_ready\<close> is the abstract specification of a deployed driver. A reconciliation that returns no
    error has established it under every schedule of the nine reconcilers, and once it holds no reconciliation
    changes anything; a reconciliation writes no object but the nine of that driver, always ends, and on a
    server that answers succeeds the first time. Each pod it writes is
    acceptable (distinct names, mounts only of volumes the pod has), each selector selects the pods
    of its own object, an object controlled by something else is never overwritten, and a settled deployment is not written.
    A driver is not loaded when its CSIDriver is claimed by another, and the claim the operator
    writes is the one it later accepts. Merging of defaults is associative and idempotent.
  \<^item> Profiles. After any sequence of profile reconciliations the ConfigMap holds, for each profile, the record
    composed last, and the records of other profiles are untouched; a cleaned up profile has no record; a profile in
    use is not cleaned up; the reported phase is Ready exactly on success. The mappings
    computed are the grouping of all mappings by profile pair. The oldest replication wins, and what the replication controller decides the
    profile controller can load.
  \<^item> The shared ConfigMap. With all controllers at work at once, any number of iterations of each, and other clients
    in between, no update is lost: every request leaves the ConfigMap alone or applies one whole mutation to what is stored.
    So its list stays well formed, a record changes on behalf of its own profile only and the mappings on behalf of mapping
    resources only, and a profile whose reconciliation succeeded has the record of its spec there.
  \<^item> Deep copies. Each generated function returns a value of the declared type with the same contents that shares nothing
    with the original, and writes to nothing that existed before; this is what lets the controllers change what they read.
  \<^item> Watches and start-up. Deleting an object of a driver queues that driver; a change of the operator's defaults
    queues all; the manager watches its own namespace and the listed ones and starts only once all is registered.
  \<^item> Deviations: theorems that show where the code does not do what its comments or its API say, such as the log
    rotation by period that is accepted and never reconciled, or ConfigMap edits that wake nothing.

  \<^bold>\<open>Interfaces.\<close> \<open>kube_api\<close> (one kind of object) and \<open>driver_server\<close> (all kinds a driver needs, kept apart) are what is
  assumed of the API server, and the in-memory cluster is an interpretation of both. \<open>mutator\<close> and
  \<open>controlled_object\<close> are the contracts of the functions passed to \<open>CreateOrUpdate\<close> (the key is kept, applying the
  mutation twice changes nothing more, the owner is adopted), with an interpretation for each of the nine objects;
  \<open>codec\<close> is the contract of a pair of JSON encoder and decoder, \<open>keyed_store\<close> of the list of records under
  insertions and deletions by key, \<open>overriding\<close> of one level of the merge of driver specs. \<open>versioned_api\<close> extends
  \<open>kube_api\<close> by what resource versions promise, and \<open>map_clients\<close> collects what the writers of the shared ConfigMap assume of
  the server; the in-memory cluster satisfies both.

  \<^bold>\<open>Bounds and termination.\<close> No definition has fuel. The JSON parser recurses on the length of the
  remaining input. Concurrent executions are a step relation; that they end is a theorem, by a measure
  that every step decreases. Ports are 32-bit words, sizes in the API integers with the bounds of the
  validation rules.

  \<^bold>\<open>Not modelled.\<close> Logging; the work queue with its retries and priorities (that it
  hands out a key once at a time is not needed but where a theorem says so); the mutex around the updates of the shared
  ConfigMap, which the theorems do without; the deep copies of types of other modules, a parameter of \<open>Deep_Copy\<close>; REST mappings; the cache, whose reads may lag behind (each read of the model answers from the
  world at the time of the request, and the locales allow it to fail); certificates, signals and flag
  parsing; the contents of Kubernetes objects the operator passes through unread, which are opaque JSON;
  the manifests, charts and tests.
\<close>

end
